(* ===== verification/Go_Prelude.thy ===== *)
theory Go_Prelude
  imports Main "HOL-Library.Sublist" "HOL-Library.Finite_Map"
begin

text \<open>
  What the operator uses of the Go language and its standard library, shared by every
  component: byte strings with the functions of package \<open>strings\<close>, hexadecimal encoding,
  Go maps as finite maps, and error values with \<open>errors.Is\<close> and \<open>errors.Join\<close>.

  A Go string is a sequence of bytes; here it is a \<open>string\<close>, whose characters are the
  256 bytes. A Go map is an \<open>fmap\<close>: finite, unordered, and equal to another map exactly
  when \<open>reflect.DeepEqual\<close> says so (the operator never compares a nil map with an empty
  one).
\<close>

named_theorems go_simps \<open>evaluation rules of the Go library functions on concrete values\<close>

subsection \<open>Maps\<close>

type_synonym gomap = "(string, string) fmap"

text \<open>Reading a missing key yields the zero value, here the empty string: \<open>m[k]\<close>.\<close>

definition map_get :: "gomap \<Rightarrow> string \<Rightarrow> string" where
  "map_get m k = (case fmlookup m k of None \<Rightarrow> [] | Some v \<Rightarrow> v)"

text \<open>\<open>len(m)\<close>\<close>

definition map_len :: "('k, 'v) fmap \<Rightarrow> nat" where
  "map_len m = fcard (fmdom m)"

lemma map_get_upd [simp]: "map_get (fmupd k v m) k' = (if k' = k then v else map_get m k')"
  by (simp add: map_get_def)

lemma map_get_empty [simp]: "map_get fmempty k = []"
  by (simp add: map_get_def)

lemma map_get_drop [simp]: "map_get (fmdrop k m) k' = (if k' = k then [] else map_get m k')"
  by (simp add: map_get_def)

lemma map_get_nonempty_dom: "map_get m k \<noteq> [] \<Longrightarrow> k |\<in>| fmdom m"
  by (auto simp: map_get_def fmdomI split: option.splits)

lemma map_len_empty [simp]: "map_len fmempty = 0"
  by (simp add: map_len_def)

lemma map_len_upd [simp]:
  "map_len (fmupd k v m) = (if k |\<in>| fmdom m then map_len m else Suc (map_len m))"
  by (auto simp: map_len_def finsert_absorb fcard_finsert_if)

lemma map_len_drop:
  "k |\<in>| fmdom m \<Longrightarrow> Suc (map_len (fmdrop k m)) = map_len m"
proof -
  assume "k |\<in>| fmdom m"
  then have "fmdom m = finsert k (fmdom m |-| {|k|})" by auto
  then have "fcard (fmdom m) = Suc (fcard (fmdom m |-| {|k|}))"
    by (metis fcard_finsert_disjoint fminusD2 fsingletonI)
  then show ?thesis by (simp add: map_len_def)
qed

subsection \<open>Package strings\<close>

abbreviation HasPrefix :: "string \<Rightarrow> string \<Rightarrow> bool" where
  "HasPrefix s p \<equiv> prefix p s"

abbreviation HasSuffix :: "string \<Rightarrow> string \<Rightarrow> bool" where
  "HasSuffix s p \<equiv> suffix p s"

definition ContainsAny :: "string \<Rightarrow> string \<Rightarrow> bool" where
  "ContainsAny s chars = list_ex (\<lambda>c. c \<in> set chars) s"

definition Contains :: "string \<Rightarrow> string \<Rightarrow> bool" where
  "Contains s sub = sublist sub s"

text \<open>\<open>strings.Split\<close> and \<open>strings.Count\<close> for a separator of one byte.\<close>

fun split_on :: "char \<Rightarrow> string \<Rightarrow> string list" where
  "split_on c [] = [[]]"
| "split_on c (x # xs) =
     (if x = c then [] # split_on c xs
      else case split_on c xs of [] \<Rightarrow> [[x]] | p # ps \<Rightarrow> (x # p) # ps)"

lemma split_on_nonempty [simp]: "split_on c s \<noteq> []"
  by (induction s) (auto split: list.splits)

lemma length_split_on: "length (split_on c s) = Suc (count_list s c)"
  by (induction s) (auto split: list.splits)

lemma split_on_no_sep: "p \<in> set (split_on c s) \<Longrightarrow> c \<notin> set p"
proof (induction s arbitrary: p)
  case Nil
  then show ?case by simp
next
  case (Cons x xs)
  then show ?case
    by (cases "split_on c xs") (auto split: if_splits)
qed

fun join_with :: "char \<Rightarrow> string list \<Rightarrow> string" where
  "join_with c [] = []"
| "join_with c [p] = p"
| "join_with c (p # q # ps) = p @ c # join_with c (q # ps)"

lemma join_split_on: "join_with c (split_on c s) = s"
proof (induction s)
  case Nil
  then show ?case by simp
next
  case (Cons x xs)
  show ?case
  proof (cases "split_on c xs")
    case Nil
    then show ?thesis by simp
  next
    case (Cons p ps)
    with Cons.IH show ?thesis
      by (cases ps) auto
  qed
qed

lemma split_on_single: "c \<notin> set s \<Longrightarrow> split_on c s = [s]"
  by (induction s) auto

lemma split_on_append: "c \<notin> set p \<Longrightarrow> split_on c (p @ c # s) = p # split_on c s"
  by (induction p) auto

text \<open>
  \<open>strings.TrimSpace\<close> strips every leading and trailing rune for which
  \<open>unicode.IsSpace\<close> holds. The runes are given by their UTF-8 encodings.
\<close>

definition byte :: "nat \<Rightarrow> char" where
  "byte n = char_of n"

definition space_runes :: "string list" where
  "space_runes =
     map (\<lambda>n. [byte n]) [9, 10, 11, 12, 13, 32] @
     [[byte 194, byte 133], [byte 194, byte 160], [byte 225, byte 154, byte 128]] @
     map (\<lambda>n. [byte 226, byte 128, byte n])
       [128, 129, 130, 131, 132, 133, 134, 135, 136, 137, 138, 168, 169, 175] @
     [[byte 226, byte 129, byte 159], [byte 227, byte 128, byte 128]]"

function trim_with :: "string list \<Rightarrow> string \<Rightarrow> string" where
  "trim_with ps s =
     (case find (\<lambda>p. p \<noteq> [] \<and> prefix p s) ps of
        None \<Rightarrow> s
      | Some p \<Rightarrow> trim_with ps (drop (length p) s))"
  by pat_completeness auto
termination
  by (relation "measure (\<lambda>(ps, s). length s)")
     (auto simp: find_Some_iff dest!: prefix_length_le intro!: diff_less)

declare trim_with.simps [simp del]

definition TrimSpace :: "string \<Rightarrow> string" where
  "TrimSpace s = rev (trim_with (map rev space_runes) (rev (trim_with space_runes s)))"

lemma trim_with_stop: "\<forall>p \<in> set ps. p \<noteq> [] \<longrightarrow> \<not> prefix p s \<Longrightarrow> trim_with ps s = s"
  by (subst trim_with.simps) (auto split: option.splits simp: find_Some_iff)

lemma trim_with_stopped: "p \<in> set ps \<Longrightarrow> p \<noteq> [] \<Longrightarrow> \<not> prefix p (trim_with ps s)"
proof (induction ps s rule: trim_with.induct)
  case (1 ps s)
  show ?case
  proof (cases "find (\<lambda>p. p \<noteq> [] \<and> prefix p s) ps")
    case None
    with "1.prems" have "\<not> prefix p s" by (auto simp: find_None_iff)
    with None show ?thesis by (subst trim_with.simps) simp
  next
    case (Some q)
    with 1 show ?thesis by (subst trim_with.simps) simp
  qed
qed

lemma suffix_trim_with: "suffix (trim_with ps s) s"
proof (induction ps s rule: trim_with.induct)
  case (1 ps s)
  then show ?case
    by (subst trim_with.simps)
       (auto split: option.splits intro: suffix_order.trans suffix_drop)
qed

lemma TrimSpace_idem [simp]: "TrimSpace (TrimSpace s) = TrimSpace s"
proof -
  define l where "l = trim_with space_runes s"
  define t where "t = TrimSpace s"
  have rt: "rev t = trim_with (map rev space_runes) (rev l)"
    by (simp add: t_def TrimSpace_def l_def)
  have "prefix t l"
    using suffix_trim_with [of "map rev space_runes" "rev l"]
    by (simp add: rt [symmetric] suffix_to_prefix)
  then have "\<forall>p \<in> set space_runes. p \<noteq> [] \<longrightarrow> \<not> prefix p t"
    using trim_with_stopped [of _ space_runes s] unfolding l_def
    by (blast intro: prefix_order.trans)
  then have left: "trim_with space_runes t = t" by (rule trim_with_stop)
  have "\<forall>p \<in> set (map rev space_runes). p \<noteq> [] \<longrightarrow> \<not> prefix p (rev t)"
    using trim_with_stopped [of _ "map rev space_runes" "rev l"] by (simp add: rt)
  then have "trim_with (map rev space_runes) (rev t) = rev t" by (rule trim_with_stop)
  with left show ?thesis
    unfolding t_def [symmetric] by (simp add: TrimSpace_def)
qed

text \<open>Strings of visible ASCII characters have nothing to trim.\<close>

definition visible :: "char \<Rightarrow> bool" where
  "visible c = (let n = of_char c :: nat in 33 \<le> n \<and> n < 127)"

lemma space_runes_invisible:
  "\<forall>p \<in> set space_runes. p \<noteq> [] \<and> \<not> visible (hd p) \<and> \<not> visible (last p)"
  by (simp add: space_runes_def byte_def visible_def Let_def)

lemma TrimSpace_visible [go_simps]: "list_all visible s \<Longrightarrow> TrimSpace s = s"
proof -
  assume v: "list_all visible s"
  have "\<not> prefix p s" if "p \<in> set space_runes" for p
    using v space_runes_invisible that by (cases p) (auto simp: prefix_def)
  then have left: "trim_with space_runes s = s" by (intro trim_with_stop) blast
  have "\<not> prefix (rev p) (rev s)" if "p \<in> set space_runes" for p
  proof
    assume "prefix (rev p) (rev s)"
    then obtain u where "s = u @ p" by (auto simp: suffix_to_prefix [symmetric] suffix_def)
    with v space_runes_invisible that show False by (cases p rule: rev_cases) auto
  qed
  then have "trim_with (map rev space_runes) (rev s) = rev s" by (intro trim_with_stop) auto
  with left show ?thesis by (simp add: TrimSpace_def)
qed

lemma TrimSpace_Nil [simp]: "TrimSpace [] = []"
  by (rule TrimSpace_visible) simp

text \<open>
  \<open>strings.ToLower\<close>. Besides the ASCII letters only two runes have an ASCII lower-case form:
  U+212A (Kelvin sign) and U+0130 (capital I with a dot). Other non-ASCII bytes are kept, which
  is exact wherever the result is compared with an ASCII string, as it is throughout the
  operator.
\<close>

definition ascii_lower :: "char \<Rightarrow> char" where
  "ascii_lower c = (let n = of_char c :: nat in if 65 \<le> n \<and> n \<le> 90 then char_of (n + 32) else c)"

fun ToLower :: "string \<Rightarrow> string" where
  "ToLower [] = []"
| "ToLower (c # cs) =
     (if prefix [byte 226, byte 132, byte 170] (c # cs) then CHR ''k'' # ToLower (drop 2 cs)
      else if prefix [byte 196, byte 176] (c # cs) then CHR ''i'' # ToLower (drop 1 cs)
      else ascii_lower c # ToLower cs)"

text \<open>
  \<open>strings.EqualFold\<close> with an ASCII right-hand side: simple case folding also identifies
  U+212A with k and U+017F (long s) with s.
\<close>

fun fold_ascii :: "string \<Rightarrow> string" where
  "fold_ascii [] = []"
| "fold_ascii (c # cs) =
     (if prefix [byte 226, byte 132, byte 170] (c # cs) then CHR ''k'' # fold_ascii (drop 2 cs)
      else if prefix [byte 197, byte 191] (c # cs) then CHR ''s'' # fold_ascii (drop 1 cs)
      else ascii_lower c # fold_ascii cs)"

definition EqualFold :: "string \<Rightarrow> string \<Rightarrow> bool" where
  "EqualFold s t = (fold_ascii s = fold_ascii t)"

subsection \<open>Errors\<close>

text \<open>
  An error is an API server status, one of the package-level sentinels the code tests with
  \<open>errors.Is\<close>, a fresh \<open>errors.New\<close>, a wrapped error (\<open>fmt.Errorf\<close> with \<open>text: %w\<close> or
  \<open>%w: text\<close>) or the
  result of \<open>errors.Join\<close>. The nil error is \<open>None\<close>; a function that returns a value or an
  error returns \<open>Inr\<close> or \<open>Inl\<close>.
\<close>

datatype sentinel =
    ErrLegacyUnmapped | ErrIdentity | ErrUnmapped
  | ErrIngressNotOwned | ErrHostnameConflict | ErrDeploymentNotOwned | ErrAccessCutover

datatype api_error = NotFound | Conflict | ApiFailure string

datatype go_error =
    Api api_error
  | Sentinel sentinel
  | ErrNew string
  | Wrap string go_error
  | WrapBefore go_error string
  | Join "go_error list"

fun errors_Is :: "go_error \<Rightarrow> sentinel \<Rightarrow> bool" where
  "errors_Is (Api a) t = False"
| "errors_Is (Sentinel x) t = (x = t)"
| "errors_Is (ErrNew m) t = False"
| "errors_Is (Wrap m e) t = errors_Is e t"
| "errors_Is (WrapBefore e m) t = errors_Is e t"
| "errors_Is (Join es) t = list_ex (\<lambda>e. errors_Is e t) es"

text \<open>\<open>err.Error()\<close>; the text of an API status is a parameter.\<close>

definition sentinel_text :: "sentinel \<Rightarrow> string" where
  "sentinel_text x = (case x of
      ErrLegacyUnmapped \<Rightarrow> ''legacy instance has no reviewed hostname mapping''
    | ErrIdentity \<Rightarrow> ''instance identity does not match the hostname policy''
    | ErrUnmapped \<Rightarrow> ''instance has no operator-reviewed access mapping''
    | ErrIngressNotOwned \<Rightarrow> ''named Ingress is not controlled by this ChatUIInstance''
    | ErrHostnameConflict \<Rightarrow> ''another Ingress claims this hostname''
    | ErrDeploymentNotOwned \<Rightarrow> ''deployment is not owned by this ChatUIInstance''
    | ErrAccessCutover \<Rightarrow> ''waiting for prior Chat UI pods to stop before access migration'')"

fun error_text :: "(api_error \<Rightarrow> string) \<Rightarrow> go_error \<Rightarrow> string" where
  "error_text api (Api e) = api e"
| "error_text api (Sentinel x) = sentinel_text x"
| "error_text api (ErrNew m) = m"
| "error_text api (Wrap m e) = m @ '': '' @ error_text api e"
| "error_text api (WrapBefore e m) = error_text api e @ '': '' @ m"
| "error_text api (Join es) = join_with (CHR 0x0A) (map (error_text api) es)"

primrec set_option_list :: "'a option \<Rightarrow> 'a list" where
  "set_option_list None = []"
| "set_option_list (Some a) = [a]"

lemma in_set_option_list [simp]: "a \<in> set (set_option_list r) \<longleftrightarrow> r = Some a"
  by (cases r) auto

definition errors_Join :: "go_error option list \<Rightarrow> go_error option" where
  "errors_Join es =
     (case concat (map set_option_list es) of [] \<Rightarrow> None | x # xs \<Rightarrow> Some (Join (x # xs)))"

text \<open>The error of a result, as in \<open>_, err := f()\<close>.\<close>

definition err_of :: "go_error + 'a \<Rightarrow> go_error option" where
  "err_of r = (case r of Inl e \<Rightarrow> Some e | Inr _ \<Rightarrow> None)"

lemma err_of_simps [simp]: "err_of (Inl e) = Some e" "err_of (Inr a) = None"
  by (simp_all add: err_of_def)

lemma set_option_list_Nil [simp]: "set_option_list r = [] \<longleftrightarrow> r = None"
  by (cases r) auto

lemma errors_Join_None_iff: "errors_Join es = None \<longleftrightarrow> (\<forall>e \<in> set es. e = None)"
proof -
  have nil: "concat (map set_option_list es) = [] \<longleftrightarrow> (\<forall>e \<in> set es. e = None)"
    by (simp only: concat_eq_Nil_conv) auto
  show ?thesis
  proof (cases "concat (map set_option_list es)")
    case Nil
    then have "errors_Join es = None" by (simp only: errors_Join_def list.case)
    with Nil nil show ?thesis by blast
  next
    case (Cons x xs)
    then have "errors_Join es = Some (Join (x # xs))" by (simp only: errors_Join_def list.case)
    moreover have "concat (map set_option_list es) \<noteq> []" by (simp only: Cons) simp
    ultimately show ?thesis using nil by simp
  qed
qed

text \<open>A joined error is reported by \<open>errors.Is\<close> exactly when one of its parts is.\<close>

lemma errors_Is_Join:
  "errors_Join es = Some j \<Longrightarrow> errors_Is j t \<longleftrightarrow> (\<exists>e. Some e \<in> set es \<and> errors_Is e t)"
proof -
  assume j: "errors_Join es = Some j"
  define xs where "xs = concat (map set_option_list es)"
  have "j = Join xs"
    using j by (cases xs) (auto simp: errors_Join_def xs_def [symmetric])
  moreover have "set xs = {e. Some e \<in> set es}" by (auto simp: xs_def)
  ultimately show ?thesis by (auto simp: list_ex_iff)
qed

subsection \<open>JSON white space\<close>

text \<open>What may follow a JSON document before \<open>Decoder.Decode\<close> reports \<open>io.EOF\<close>.\<close>

definition json_blank :: "string \<Rightarrow> bool" where
  "json_blank s = list_all (\<lambda>c. c \<in> {byte 32, byte 9, byte 10, byte 13}) s"

subsection \<open>Hexadecimal encoding\<close>

definition hex_digits :: string where
  "hex_digits = ''0123456789abcdef''"

definition hex_byte :: "char \<Rightarrow> string" where
  "hex_byte c = (let n = of_char c :: nat in [hex_digits ! (n div 16), hex_digits ! (n mod 16)])"

definition hex_encode :: "string \<Rightarrow> string" where
  "hex_encode s = concat (map hex_byte s)"

lemma length_hex_encode [simp]: "length (hex_encode s) = 2 * length s"
  by (induction s) (simp_all add: hex_encode_def hex_byte_def Let_def)

lemma hex_byte_digits: "set (hex_byte c) \<subseteq> set hex_digits"
proof -
  have "of_char c div 16 < (16 :: nat)" "of_char c mod 16 < (16 :: nat)"
    using less_mult_imp_div_less [of "of_char c :: nat" 16 16] by simp_all
  moreover have "length hex_digits = 16" by (simp add: hex_digits_def)
  ultimately show ?thesis by (simp add: hex_byte_def Let_def)
qed

lemma hex_encode_digits: "set (hex_encode s) \<subseteq> set hex_digits"
  using hex_byte_digits by (fastforce simp: hex_encode_def)

lemma hex_byte_inj: "hex_byte c = hex_byte d \<Longrightarrow> c = d"
proof -
  assume eq: "hex_byte c = hex_byte d"
  have dist: "distinct hex_digits" and len: "length hex_digits = 16"
    by (simp_all add: hex_digits_def)
  have less: "of_char x div 16 < (16 :: nat)" for x :: char
    using less_mult_imp_div_less [of "of_char x :: nat" 16 16] by simp
  have "of_char c div 16 = (of_char d div 16 :: nat)" "of_char c mod 16 = (of_char d mod 16 :: nat)"
    using eq dist len less [of c] less [of d]
    by (auto simp: hex_byte_def Let_def nth_eq_iff_index_eq)
  then have "of_char c = (of_char d :: nat)" by (metis div_mult_mod_eq)
  then show "c = d" by simp
qed

lemma hex_encode_inj: "hex_encode s = hex_encode t \<Longrightarrow> s = t"
proof (induction s arbitrary: t)
  case Nil
  then have "length (hex_encode t) = 0" by (metis length_hex_encode list.size(3) mult_0_right)
  then show ?case by simp
next
  case (Cons c s)
  have "length (hex_encode t) = 2 * length (c # s)" by (metis Cons.prems length_hex_encode)
  then obtain d u where t: "t = d # u" by (cases t) auto
  have "hex_byte c @ hex_encode s = hex_byte d @ hex_encode u"
    using Cons.prems by (simp add: t hex_encode_def)
  moreover have "length (hex_byte c) = length (hex_byte d)" by (simp add: hex_byte_def Let_def)
  ultimately show ?case using t hex_byte_inj Cons.IH by auto
qed

end
