(* ===== verification/Go_Effects.thy ===== *)
theory Go_Effects
  imports Go_Prelude "HOL-Library.State_Monad"
begin

text \<open>
  Effectful Go code. A reconciler method runs against the outside world (the API server, the
  network, the entropy source), which is a type variable \<open>'w\<close>: each external operation is a
  function from a world to its reply and the next world, so other actors may have changed
  anything between two calls. A run also carries the mutable local object of the method
  (\<open>'i\<close>, the \<open>inst\<close> pointer every method shares) and a log of the external calls made so far,
  each with its request, its reply and the value of the local object at that time. The log
  does not influence the run; it is what the safety properties speak about.

  The second half of the theory is a weakest-precondition calculus for such methods and two
  compositional judgements over their logs.
\<close>

record ('w, 'i, 'c) run =
  world :: 'w
  local_inst :: 'i
  call_log :: "('i \<times> 'c) list"

type_synonym ('w, 'i, 'c, 'a) go = "(('w, 'i, 'c) run, 'a) state"

abbreviation ret :: "'a \<Rightarrow> ('s, 'a) state" where
  "ret \<equiv> State_Monad.return"

definition external :: "('w \<Rightarrow> 'r \<times> 'w) \<Rightarrow> ('r \<Rightarrow> 'c) \<Rightarrow> ('w, 'i, 'c, 'r) go" where
  "external f entry = State (\<lambda>s. case f (world s) of (r, w) \<Rightarrow>
     (r, s\<lparr>world := w, call_log := call_log s @ [(local_inst s, entry r)]\<rparr>))"

definition get_inst :: "('w, 'i, 'c, 'i) go" where
  "get_inst = State (\<lambda>s. (local_inst s, s))"

definition put_inst :: "'i \<Rightarrow> ('w, 'i, 'c, unit) go" where
  "put_inst i = State (\<lambda>s. ((), s\<lparr>local_inst := i\<rparr>))"

subsection \<open>Weakest preconditions\<close>

named_theorems wp_simps \<open>weakest preconditions of the primitive constructs\<close>

definition wp :: "('s, 'a) state \<Rightarrow> ('a \<Rightarrow> 's \<Rightarrow> bool) \<Rightarrow> 's \<Rightarrow> bool" where
  "wp m Q s = (case run_state m s of (a, t) \<Rightarrow> Q a t)"

lemma wp_run: "wp m Q s \<longleftrightarrow> Q (fst (run_state m s)) (snd (run_state m s))"
  by (simp add: wp_def split_beta)

lemma wp_return [wp_simps]: "wp (ret a) Q s = Q a s"
  by (simp add: wp_def)

lemma wp_bind [wp_simps]: "wp (State_Monad.bind m f) Q s = wp m (\<lambda>a. wp (f a) Q) s"
  by (simp add: wp_def split_beta)

lemma wp_external [wp_simps]:
  "wp (external f entry) Q s =
     (case f (world s) of (r, w) \<Rightarrow>
        Q r (s\<lparr>world := w, call_log := call_log s @ [(local_inst s, entry r)]\<rparr>))"
  by (simp add: wp_def external_def split_beta)

lemma wp_get_inst [wp_simps]: "wp get_inst Q s = Q (local_inst s) s"
  by (simp add: wp_def get_inst_def)

lemma wp_put_inst [wp_simps]: "wp (put_inst i) Q s = Q () (s\<lparr>local_inst := i\<rparr>)"
  by (simp add: wp_def put_inst_def)

lemma wp_if [wp_simps]: "wp (if b then m else n) Q s = (if b then wp m Q s else wp n Q s)"
  by simp

lemma wp_case_sum [wp_simps]:
  "wp (case r of Inl e \<Rightarrow> f e | Inr a \<Rightarrow> g a) Q s =
     (case r of Inl e \<Rightarrow> wp (f e) Q s | Inr a \<Rightarrow> wp (g a) Q s)"
  by (cases r) simp_all

lemma wp_case_option [wp_simps]:
  "wp (case r of None \<Rightarrow> m | Some a \<Rightarrow> g a) Q s =
     (case r of None \<Rightarrow> wp m Q s | Some a \<Rightarrow> wp (g a) Q s)"
  by (cases r) simp_all

lemma wp_case_prod [wp_simps]:
  "wp (case r of (a, b) \<Rightarrow> f a b) Q s = (case r of (a, b) \<Rightarrow> wp (f a b) Q s)"
  by (cases r) simp

lemma wp_case_api_error [wp_simps]:
  "wp (case e of NotFound \<Rightarrow> m | Conflict \<Rightarrow> n | ApiFailure x \<Rightarrow> k x) Q s =
     (case e of NotFound \<Rightarrow> wp m Q s | Conflict \<Rightarrow> wp n Q s | ApiFailure x \<Rightarrow> wp (k x) Q s)"
  by (cases e) simp_all

lemma wp_case_bool [wp_simps]:
  "wp (case b of True \<Rightarrow> m | False \<Rightarrow> n) Q s = (if b then wp m Q s else wp n Q s)"
  by (cases b) simp_all

lemma wp_case_list [wp_simps]:
  "wp (case xs of [] \<Rightarrow> m | y # ys \<Rightarrow> f y ys) Q s =
     (case xs of [] \<Rightarrow> wp m Q s | y # ys \<Rightarrow> wp (f y ys) Q s)"
  by (cases xs) simp_all

lemma wp_Let [wp_simps]: "wp (Let v f) Q s = wp (f v) Q s"
  by simp

text \<open>A specification proved once is used at each call.\<close>

lemma wp_use:
  "wp m P s \<Longrightarrow> (\<And>a t. P a t \<Longrightarrow> Q a t) \<Longrightarrow> wp m Q s"
  by (auto simp: wp_run)

lemma wp_conj: "wp m P s \<Longrightarrow> wp m Q s \<Longrightarrow> wp m (\<lambda>a t. P a t \<and> Q a t) s"
  by (simp add: wp_run)

subsection \<open>The log only grows\<close>

text \<open>\<open>emits P m\<close>: whatever the world replies, every call \<open>m\<close> makes satisfies \<open>P\<close>.\<close>

named_theorems emits_intros \<open>composition rules of emits\<close>

definition emits :: "('i \<times> 'c \<Rightarrow> bool) \<Rightarrow> ('w, 'i, 'c, 'a) go \<Rightarrow> bool" where
  "emits P m \<longleftrightarrow> (\<forall>s. \<exists>es. call_log (snd (run_state m s)) = call_log s @ es \<and> (\<forall>e \<in> set es. P e))"

lemma emits_wp:
  "emits P m \<longleftrightarrow> (\<forall>s. wp m (\<lambda>_ t. \<exists>es. call_log t = call_log s @ es \<and> (\<forall>e \<in> set es. P e)) s)"
  by (simp add: emits_def wp_run)

lemma emits_return [emits_intros]: "emits P (ret a)"
  by (simp add: emits_def)

lemma emits_bind [emits_intros]:
  "emits P m \<Longrightarrow> (\<And>a. emits P (f a)) \<Longrightarrow> emits P (State_Monad.bind m f)"
proof -
  assume m: "emits P m" and f: "\<And>a. emits P (f a)"
  have "\<exists>es. call_log (snd (run_state (State_Monad.bind m f) s)) = call_log s @ es \<and> (\<forall>e \<in> set es. P e)" for s
  proof -
    obtain a t where r: "run_state m s = (a, t)" by (cases "run_state m s")
    with m obtain es where es: "call_log t = call_log s @ es" "\<forall>e \<in> set es. P e"
      by (metis emits_def snd_conv)
    from f obtain fs where "call_log (snd (run_state (f a) t)) = call_log t @ fs" "\<forall>e \<in> set fs. P e"
      by (metis emits_def)
    with es r show ?thesis by (intro exI [of _ "es @ fs"]) auto
  qed
  then show ?thesis by (simp add: emits_def)
qed

lemma emits_external [emits_intros]: "(\<And>i r. P (i, entry r)) \<Longrightarrow> emits P (external f entry)"
  by (simp add: emits_def external_def split_beta)

lemma emits_get_inst [emits_intros]: "emits P get_inst"
  by (simp add: emits_def get_inst_def)

lemma emits_put_inst [emits_intros]: "emits P (put_inst i)"
  by (simp add: emits_def put_inst_def)

lemma emits_if [emits_intros]:
  "(b \<Longrightarrow> emits P m) \<Longrightarrow> (\<not> b \<Longrightarrow> emits P n) \<Longrightarrow> emits P (if b then m else n)"
  by simp

lemma emits_case_sum [emits_intros]:
  "(\<And>e. r = Inl e \<Longrightarrow> emits P (f e)) \<Longrightarrow> (\<And>a. r = Inr a \<Longrightarrow> emits P (g a)) \<Longrightarrow>
   emits P (case r of Inl e \<Rightarrow> f e | Inr a \<Rightarrow> g a)"
  by (cases r) simp_all

lemma emits_case_option [emits_intros]:
  "(r = None \<Longrightarrow> emits P m) \<Longrightarrow> (\<And>a. r = Some a \<Longrightarrow> emits P (g a)) \<Longrightarrow>
   emits P (case r of None \<Rightarrow> m | Some a \<Rightarrow> g a)"
  by (cases r) simp_all

lemma emits_case_prod [emits_intros]:
  "(\<And>a b. r = (a, b) \<Longrightarrow> emits P (f a b)) \<Longrightarrow> emits P (case r of (a, b) \<Rightarrow> f a b)"
  by (cases r) simp

lemma emits_case_list [emits_intros]:
  "(xs = [] \<Longrightarrow> emits P m) \<Longrightarrow> (\<And>y ys. xs = y # ys \<Longrightarrow> emits P (f y ys)) \<Longrightarrow>
   emits P (case xs of [] \<Rightarrow> m | y # ys \<Rightarrow> f y ys)"
  by (cases xs) simp_all

lemma emits_case_bool [emits_intros]:
  "(b \<Longrightarrow> emits P m) \<Longrightarrow> (\<not> b \<Longrightarrow> emits P n) \<Longrightarrow> emits P (case b of True \<Rightarrow> m | False \<Rightarrow> n)"
  by (cases b) simp_all

lemma emits_Let [emits_intros]: "emits P (f v) \<Longrightarrow> emits P (Let v f)"
  by simp

lemma emits_mono: "emits P m \<Longrightarrow> (\<And>e. P e \<Longrightarrow> Q e) \<Longrightarrow> emits Q m"
  by (fastforce simp: emits_def)

subsection \<open>Justified logs\<close>

text \<open>
  \<open>justified ok log\<close>: each entry is justified by what was called before it. \<open>ok past e\<close> says
  when the entry \<open>e\<close> may follow the log \<open>past\<close>.
\<close>

definition justified :: "('e list \<Rightarrow> 'e \<Rightarrow> bool) \<Rightarrow> 'e list \<Rightarrow> bool" where
  "justified ok log \<longleftrightarrow> (\<forall>past e future. log = past @ e # future \<longrightarrow> ok past e)"

lemma justified_Nil [simp]: "justified ok []"
  by (simp add: justified_def)

lemma justified_snoc [simp]: "justified ok (log @ [e]) \<longleftrightarrow> justified ok log \<and> ok log e"
proof
  assume j: "justified ok (log @ [e])"
  have "ok past x" if "log = past @ x # future" for past x future
    using j that by (simp add: justified_def)
  moreover have "ok log e" using j by (auto simp: justified_def)
  ultimately show "justified ok log \<and> ok log e" by (simp add: justified_def)
next
  assume j: "justified ok log \<and> ok log e"
  show "justified ok (log @ [e])"
    unfolding justified_def
  proof (intro allI impI)
    fix past x future
    assume "log @ [e] = past @ x # future"
    then show "ok past x"
      using j by (cases future rule: rev_cases) (auto simp: justified_def)
  qed
qed

lemma justifiedD: "justified ok log \<Longrightarrow> log = past @ e # future \<Longrightarrow> ok past e"
  by (simp add: justified_def)

lemma justified_always: "justified (\<lambda>_. ok) log \<longleftrightarrow> list_all ok log"
  unfolding justified_def list_all_iff by (metis in_set_conv_decomp split_list)

lemma justified_mono: "justified ok log \<Longrightarrow> (\<And>past e. ok past e \<Longrightarrow> ok' past e) \<Longrightarrow> justified ok' log"
  by (simp add: justified_def)

text \<open>\<open>keeps ok m\<close>: \<open>m\<close> extends a justified log to a justified one.\<close>

definition keeps :: "(('i \<times> 'c) list \<Rightarrow> 'i \<times> 'c \<Rightarrow> bool) \<Rightarrow> ('w, 'i, 'c, 'a) go \<Rightarrow> bool" where
  "keeps ok m \<longleftrightarrow>
     (\<forall>s. justified ok (call_log s) \<longrightarrow> wp m (\<lambda>_ t. justified ok (call_log t)) s)"

lemma keepsD: "keeps ok m \<Longrightarrow> justified ok (call_log s) \<Longrightarrow> wp m (\<lambda>_ t. justified ok (call_log t)) s"
  by (simp add: keeps_def)

lemma justified_append_free:
  "justified ok log \<Longrightarrow> (\<And>past e. e \<in> set es \<Longrightarrow> ok past e) \<Longrightarrow> justified ok (log @ es)"
proof (induction es rule: rev_induct)
  case Nil
  then show ?case by simp
next
  case (snoc e es)
  then have "justified ok ((log @ es) @ [e])"
    by (subst justified_snoc) simp
  then show ?case by simp
qed

text \<open>Calls that need no justification keep every log justified.\<close>

lemma emits_keeps: "emits P m \<Longrightarrow> (\<And>past e. P e \<Longrightarrow> ok past e) \<Longrightarrow> keeps ok m"
  unfolding keeps_def wp_run emits_def
  by (metis justified_append_free)

named_theorems keeps_intros \<open>composition rules of keeps\<close>

lemma keeps_bind [keeps_intros]:
  "keeps ok m \<Longrightarrow> (\<And>a. keeps ok (f a)) \<Longrightarrow> keeps ok (State_Monad.bind m f)"
  unfolding keeps_def wp_bind by (auto simp: wp_run)

lemma keeps_return [keeps_intros]: "keeps ok (ret a)"
  by (simp add: keeps_def wp_return)

lemma keeps_get_inst [keeps_intros]: "keeps ok get_inst"
  by (simp add: keeps_def wp_get_inst)

lemma keeps_put_inst [keeps_intros]: "keeps ok (put_inst i)"
  by (simp add: keeps_def wp_put_inst)

lemma keeps_if [keeps_intros]: "keeps ok m \<Longrightarrow> keeps ok n \<Longrightarrow> keeps ok (if b then m else n)"
  by simp

lemma keeps_case_sum [keeps_intros]:
  "(\<And>e. keeps ok (f e)) \<Longrightarrow> (\<And>a. keeps ok (g a)) \<Longrightarrow> keeps ok (case r of Inl e \<Rightarrow> f e | Inr a \<Rightarrow> g a)"
  by (cases r) simp_all

lemma keeps_case_option [keeps_intros]:
  "keeps ok m \<Longrightarrow> (\<And>a. keeps ok (g a)) \<Longrightarrow> keeps ok (case r of None \<Rightarrow> m | Some a \<Rightarrow> g a)"
  by (cases r) simp_all

lemma keeps_case_prod [keeps_intros]:
  "(\<And>a b. keeps ok (f a b)) \<Longrightarrow> keeps ok (case r of (a, b) \<Rightarrow> f a b)"
  by (cases r) simp

lemma keeps_case_bool [keeps_intros]:
  "keeps ok m \<Longrightarrow> keeps ok n \<Longrightarrow> keeps ok (case b of True \<Rightarrow> m | False \<Rightarrow> n)"
  by (cases b) simp_all

lemma keeps_Let [keeps_intros]: "keeps ok (f v) \<Longrightarrow> keeps ok (Let v f)"
  by simp

text \<open>The entries added to a log, checked from left to right.\<close>

primrec justified_from :: "('e list \<Rightarrow> 'e \<Rightarrow> bool) \<Rightarrow> 'e list \<Rightarrow> 'e list \<Rightarrow> bool" where
  "justified_from ok past [] = True"
| "justified_from ok past (e # es) = (ok past e \<and> justified_from ok (past @ [e]) es)"

lemma justified_append: "justified ok (log @ es) \<longleftrightarrow> justified ok log \<and> justified_from ok log es"
proof (induction es arbitrary: log)
  case Nil
  then show ?case by simp
next
  case (Cons e es)
  have "justified ok (log @ e # es) \<longleftrightarrow> justified ok ((log @ [e]) @ es)" by simp
  also have "\<dots> \<longleftrightarrow> justified ok (log @ [e]) \<and> justified_from ok (log @ [e]) es" by (rule Cons.IH)
  also have "\<dots> \<longleftrightarrow> justified ok log \<and> justified_from ok log (e # es)" by simp
  finally show ?case .
qed

lemma justified_append_Cons [simp]:
  "justified ok (log @ e # es) \<longleftrightarrow> justified ok log \<and> ok log e \<and> justified_from ok (log @ [e]) es"
  using justified_append [of ok log "e # es"] by simp

subsection \<open>Methods that leave the local object alone\<close>

named_theorems steady_intros \<open>composition rules of steady\<close>

definition steady :: "('w, 'i, 'c, 'a) go \<Rightarrow> bool" where
  "steady m \<longleftrightarrow> (\<forall>s. local_inst (snd (run_state m s)) = local_inst s)"

lemma steady_return [steady_intros]: "steady (ret a)"
  by (simp add: steady_def)

lemma steady_bind [steady_intros]:
  "steady m \<Longrightarrow> (\<And>a. steady (f a)) \<Longrightarrow> steady (State_Monad.bind m f)"
  by (simp add: steady_def split_beta)

lemma steady_external [steady_intros]: "steady (external f entry)"
  by (simp add: steady_def external_def split_beta)

lemma steady_get_inst [steady_intros]: "steady get_inst"
  by (simp add: steady_def get_inst_def)

lemma steady_if [steady_intros]:
  "steady m \<Longrightarrow> steady n \<Longrightarrow> steady (if b then m else n)"
  by simp

lemma steady_case_sum [steady_intros]:
  "(\<And>e. steady (f e)) \<Longrightarrow> (\<And>a. steady (g a)) \<Longrightarrow> steady (case r of Inl e \<Rightarrow> f e | Inr a \<Rightarrow> g a)"
  by (cases r) simp_all

lemma steady_case_option [steady_intros]:
  "steady m \<Longrightarrow> (\<And>a. steady (g a)) \<Longrightarrow> steady (case r of None \<Rightarrow> m | Some a \<Rightarrow> g a)"
  by (cases r) simp_all

lemma steady_case_prod [steady_intros]:
  "(\<And>a b. steady (f a b)) \<Longrightarrow> steady (case r of (a, b) \<Rightarrow> f a b)"
  by (cases r) simp

lemma steady_case_list [steady_intros]:
  "steady m \<Longrightarrow> (\<And>y ys. steady (f y ys)) \<Longrightarrow> steady (case xs of [] \<Rightarrow> m | y # ys \<Rightarrow> f y ys)"
  by (cases xs) simp_all

lemma steady_case_bool [steady_intros]:
  "steady m \<Longrightarrow> steady n \<Longrightarrow> steady (case b of True \<Rightarrow> m | False \<Rightarrow> n)"
  by (cases b) simp_all

lemma steady_Let [steady_intros]: "steady (f v) \<Longrightarrow> steady (Let v f)"
  by simp

subsection \<open>Using a frame at a call\<close>

lemma emits_grows: "emits P m \<Longrightarrow> wp m (\<lambda>_ t. set (call_log s) \<subseteq> set (call_log t)) s"
  unfolding emits_def wp_run by (metis set_append sup_ge1)

text \<open>
  After a call that \<open>keeps\<close> the log justified, the log is justified and contains what it
  contained; if the call is \<open>steady\<close>, the local object is also the same.
\<close>

lemma wp_keeps:
  assumes "keeps ok m" "emits P m" "justified ok (call_log s)"
    and "\<And>a t. justified ok (call_log t) \<Longrightarrow> set (call_log s) \<subseteq> set (call_log t) \<Longrightarrow> Q a t"
  shows "wp m Q s"
proof -
  have "wp m (\<lambda>_ t. justified ok (call_log t)) s" using assms(1,3) by (simp add: keeps_def)
  then have "wp m (\<lambda>_ t. justified ok (call_log t) \<and> set (call_log s) \<subseteq> set (call_log t)) s"
    using emits_grows [OF assms(2)] by (simp add: wp_run)
  then show ?thesis by (rule wp_use) (use assms(4) in blast)
qed

lemma wp_steady:
  assumes "keeps ok m" "emits P m" "steady m" "justified ok (call_log s)"
    and "\<And>a t. justified ok (call_log t) \<Longrightarrow> set (call_log s) \<subseteq> set (call_log t) \<Longrightarrow>
           local_inst t = local_inst s \<Longrightarrow> Q a t"
  shows "wp m Q s"
proof (rule wp_use)
  show "wp m (\<lambda>_ t. (justified ok (call_log t) \<and> set (call_log s) \<subseteq> set (call_log t)) \<and>
               local_inst t = local_inst s) s"
    using assms(3) wp_keeps [OF assms(1,2,4), of "\<lambda>_ t. justified ok (call_log t) \<and> set (call_log s) \<subseteq> set (call_log t)"]
    by (simp add: wp_run steady_def)
qed (use assms(5) in blast)

end
