(* ===== verification/K8s_Library.thy ===== *)
theory K8s_Library
  imports Go_Prelude "HOL-Library.List_Lexorder" "HOL-Library.Char_ord"
begin

text \<open>
  The third-party library code the operator calls, as parameters: nothing here defines what
  that code does. \<open>library\<close> collects the functions as one record; what a property relies on
  is a named hypothesis about them (\<open>rfc1123_library\<close>, \<open>digest_library\<close>, \dots), each the
  documented behaviour of the function. \<open>object_meta\<close> is the part of
  \<open>metav1.ObjectMeta\<close> that the operator reads or writes.
\<close>

subsection \<open>Object metadata\<close>

text \<open>An instant, counted from Go's zero time: \<open>t.IsZero()\<close> is \<open>t = 0\<close>.\<close>

type_synonym time = int

record owner_ref =
  owner_api_version :: string
  owner_kind :: string
  owner_name :: string
  owner_uid :: string

text \<open>\<open>meta_controller\<close> is what \<open>metav1.GetControllerOf\<close> returns for the object.\<close>

record object_meta =
  meta_name :: string
  meta_namespace :: string
  meta_uid :: string
  meta_resource_version :: string
  meta_generation :: int
  meta_created :: time
  meta_deleted :: "time option"
  meta_labels :: gomap
  meta_annotations :: gomap
  meta_finalizers :: "string list"
  meta_controller :: "owner_ref option"

record condition =
  cond_type :: string
  cond_status :: string
  cond_reason :: string
  cond_message :: string
  cond_observed :: int
  cond_transition :: time

text \<open>The fields of a parsed \<open>url.URL\<close> that the access policy and the gate inspect.\<close>

record url =
  url_scheme :: string
  url_host :: string
  url_hostname :: string
  url_has_user :: bool
  url_raw_query :: string
  url_fragment :: string
  url_raw_path :: string
  url_path :: string

subsection \<open>The library\<close>

text \<open>
  \<^item> \<open>dns_label\<close>, \<open>dns_subdomain\<close>: whether \<open>validation.IsDNS1123Label\<close> and
    \<open>IsDNS1123Subdomain\<close> return no complaint;
  \<^item> \<open>sha256_sum\<close>: \<open>sha256.Sum256\<close> as a byte string;
  \<^item> \<open>parse_rfc3339\<close>: \<open>time.Parse(time.RFC3339, \<dots>)\<close>; \<open>parse_url\<close>: \<open>url.Parse\<close>;
  \<^item> \<open>has_finalizer\<close>, \<open>add_finalizer\<close>, \<open>remove_finalizer\<close>: package \<open>controllerutil\<close>;
  \<^item> \<open>set_controller\<close>: \<open>ctrl.SetControllerReference\<close> for a ChatUIInstance with the given
    metadata as the owner;
  \<^item> \<open>set_condition\<close>, \<open>condition_true\<close>: package \<open>apimachinery/pkg/api/meta\<close>;
  \<^item> \<open>map_range\<close>: the order in which a \<open>range\<close> loop visits a map (Go leaves it open);
  \<^item> \<open>selector_error\<close>: the error of \<open>metav1.LabelSelectorAsSelector\<close> on the match labels and
    the rest of a selector; \<open>api_error_text\<close>: the text of an API status error.
\<close>

record library =
  dns_label :: "string \<Rightarrow> bool"
  dns_subdomain :: "string \<Rightarrow> bool"
  sha256_sum :: "string \<Rightarrow> string"
  parse_rfc3339 :: "string \<Rightarrow> time option"
  parse_url :: "string \<Rightarrow> url option"
  has_finalizer :: "object_meta \<Rightarrow> string \<Rightarrow> bool"
  add_finalizer :: "object_meta \<Rightarrow> string \<Rightarrow> object_meta"
  remove_finalizer :: "object_meta \<Rightarrow> string \<Rightarrow> object_meta"
  set_controller :: "object_meta \<Rightarrow> object_meta \<Rightarrow> string + object_meta"
  set_condition :: "condition \<Rightarrow> condition list \<Rightarrow> condition list"
  condition_true :: "condition list \<Rightarrow> string \<Rightarrow> bool"
  map_range :: "gomap \<Rightarrow> (string \<times> string) list"
  selector_error :: "gomap \<Rightarrow> string \<Rightarrow> string option"
  api_error_text :: "api_error \<Rightarrow> string"

subsection \<open>Documented behaviour used as hypotheses\<close>

text \<open>
  RFC 1123 names as Kubernetes documents them: a label has 1 to 63 characters, lower-case
  alphanumerics or a dash, and starts and ends with an alphanumeric; a subdomain has at most
  253 characters and consists of dot-separated parts of the shape of a label (of any length).
\<close>

definition lower_alnum :: "char \<Rightarrow> bool" where
  "lower_alnum c = (c \<in> set ''abcdefghijklmnopqrstuvwxyz0123456789'')"

definition label_shape :: "string \<Rightarrow> bool" where
  "label_shape s =
     (case s of [] \<Rightarrow> False
      | c # _ \<Rightarrow> lower_alnum c \<and> lower_alnum (last s) \<and>
          list_all (\<lambda>x. lower_alnum x \<or> x = CHR ''-'') s)"

definition rfc1123_label :: "string \<Rightarrow> bool" where
  "rfc1123_label s = (label_shape s \<and> length s \<le> 63)"

definition rfc1123_subdomain :: "string \<Rightarrow> bool" where
  "rfc1123_subdomain s = (length s \<le> 253 \<and> list_all label_shape (split_on (CHR ''.'') s))"

definition rfc1123_library :: "library \<Rightarrow> bool" where
  "rfc1123_library lib \<longleftrightarrow>
     (\<forall>s. dns_label lib s = rfc1123_label s) \<and> (\<forall>s. dns_subdomain lib s = rfc1123_subdomain s)"

definition digest_library :: "library \<Rightarrow> bool" where
  "digest_library lib \<longleftrightarrow> (\<forall>s. length (sha256_sum lib s) = 32)"

text \<open>\<open>range\<close> visits every entry of the map once.\<close>

definition range_library :: "library \<Rightarrow> bool" where
  "range_library lib \<longleftrightarrow>
     (\<forall>m. distinct (map fst (map_range lib m)) \<and>
          (\<forall>k v. (k, v) \<in> set (map_range lib m) \<longleftrightarrow> fmlookup m k = Some v))"

lemma rfc1123_libraryD:
  assumes "rfc1123_library lib"
  shows "dns_label lib s = rfc1123_label s" and "dns_subdomain lib s = rfc1123_subdomain s"
  using assms by (simp_all add: rfc1123_library_def)

lemma label_shape_chars: "label_shape s \<Longrightarrow> c \<in> set s \<Longrightarrow> lower_alnum c \<or> c = CHR ''-''"
  by (cases s) (auto simp: label_shape_def list_all_iff)

lemma label_no_slash: "label_shape s \<Longrightarrow> CHR ''/'' \<notin> set s"
  by (auto simp: lower_alnum_def dest: label_shape_chars)

lemma label_no_dot: "label_shape s \<Longrightarrow> CHR ''.'' \<notin> set s"
  by (auto simp: lower_alnum_def dest: label_shape_chars)

lemma rfc1123_label_no_slash: "rfc1123_label s \<Longrightarrow> CHR ''/'' \<notin> set s"
  by (auto simp: rfc1123_label_def dest: label_no_slash)

lemma in_set_split_on: "x \<in> set s \<Longrightarrow> x \<noteq> c \<Longrightarrow> \<exists>p \<in> set (split_on c s). x \<in> set p"
proof (induction s)
  case Nil
  then show ?case by simp
next
  case (Cons y s)
  then show ?case by (cases "split_on c s") auto
qed

lemma rfc1123_subdomain_no_slash: "rfc1123_subdomain s \<Longrightarrow> CHR ''/'' \<notin> set s"
proof
  assume s: "rfc1123_subdomain s" and slash: "CHR ''/'' \<in> set s"
  from slash obtain p where "p \<in> set (split_on (CHR ''.'') s)" "CHR ''/'' \<in> set p"
    using in_set_split_on [OF slash, of "CHR ''.''"] by auto
  with s show False by (auto simp: rfc1123_subdomain_def list_all_iff dest: label_no_slash)
qed

text \<open>A string is cut in only one way at the first slash.\<close>

lemma slash_cut:
  assumes "p @ CHR ''/'' # r = q @ CHR ''/'' # t" "CHR ''/'' \<notin> set p" "CHR ''/'' \<notin> set q"
  shows "p = q \<and> r = t"
  using assms
proof (induction p arbitrary: q)
  case Nil
  then show ?case by (cases q) auto
next
  case (Cons c p)
  then show ?case by (cases q) auto
qed

subsection \<open>A concrete library\<close>

text \<open>
  One way to fill the parameters in, with every hypothesis above true of it. The witnesses of
  the properties are evaluated on it; nothing else depends on it. The digest is not a hash:
  it only has the right length and differs on strings with different endings.
\<close>

definition sample_set_controller :: "object_meta \<Rightarrow> object_meta \<Rightarrow> string + object_meta" where
  "sample_set_controller owner obj =
     (case meta_controller obj of
        None \<Rightarrow> Inr (obj\<lparr>meta_controller := Some
          \<lparr>owner_api_version = ''ui.privatellms.msp/v1alpha1'', owner_kind = ''ChatUIInstance'',
           owner_name = meta_name owner, owner_uid = meta_uid owner\<rparr>\<rparr>)
      | Some _ \<Rightarrow> Inl ''already owned'')"

definition sample_url :: "string \<Rightarrow> string \<Rightarrow> url" where
  "sample_url scheme host =
     \<lparr>url_scheme = scheme, url_host = host, url_hostname = host, url_has_user = False,
      url_raw_query = [], url_fragment = [], url_raw_path = [], url_path = []\<rparr>"

definition sample_library :: library where
  "sample_library =
     \<lparr>dns_label = rfc1123_label,
      dns_subdomain = rfc1123_subdomain,
      sha256_sum = (\<lambda>s. take 32 (rev s @ replicate 32 (byte 0))),
      parse_rfc3339 = (\<lambda>s. if s = ''2026-10-27T09:00:00Z'' then Some 100 else None),
      parse_url = (\<lambda>s. if prefix ''https://'' s then Some (sample_url ''https'' (drop 8 s))
         else if prefix ''http://'' s then Some (sample_url ''http'' (drop 7 s)) else None),
      has_finalizer = (\<lambda>m f. f \<in> set (meta_finalizers m)),
      add_finalizer = (\<lambda>m f. m\<lparr>meta_finalizers := meta_finalizers m @ [f]\<rparr>),
      remove_finalizer = (\<lambda>m f. m\<lparr>meta_finalizers := filter (\<lambda>x. x \<noteq> f) (meta_finalizers m)\<rparr>),
      set_controller = sample_set_controller,
      set_condition = (\<lambda>c cs. c # filter (\<lambda>x. cond_type x \<noteq> cond_type c) cs),
      condition_true = (\<lambda>cs t. list_ex (\<lambda>c. cond_type c = t \<and> cond_status c = ''True'') cs),
      map_range = (\<lambda>m. map (\<lambda>k. (k, map_get m k)) (sorted_list_of_fset (fmdom m))),
      selector_error = (\<lambda>_ _. None), api_error_text = (\<lambda>_. ''api error'')\<rparr>"

lemma sample_rfc1123 [simp]: "rfc1123_library sample_library"
  by (simp add: rfc1123_library_def sample_library_def)

lemma sample_digest [simp]: "digest_library sample_library"
  by (simp add: digest_library_def sample_library_def min_def)

lemma sample_range [simp]: "range_library sample_library"
proof -
  have "distinct (map fst (map_range sample_library m))" for m
    by (simp add: sample_library_def comp_def sorted_list_of_fset.rep_eq)
  moreover have "(k, v) \<in> set (map_range sample_library m) \<longleftrightarrow> fmlookup m k = Some v" for m k v
    by (force simp: sample_library_def map_get_def image_iff fmlookup_dom_iff split: option.splits)
  ultimately show ?thesis by (simp add: range_library_def)
qed

subsection \<open>Range loops with an early error return\<close>

text \<open>
  \<open>for _, e := range es { \<dots> return err \<dots> }\<close>: the loop body either fails, which ends
  the loop, or passes an updated state on.
\<close>

primrec range_loop :: "('e \<Rightarrow> 's \<Rightarrow> go_error + 's) \<Rightarrow> 'e list \<Rightarrow> 's \<Rightarrow> go_error + 's" where
  "range_loop step [] s = Inr s"
| "range_loop step (e # es) s =
     (case step e s of Inl err \<Rightarrow> Inl err | Inr s' \<Rightarrow> range_loop step es s')"

text \<open>
  Both policy files are tables read by such a loop that refuses a repeated key. \<open>marked\<close>
  tells which keys the loop state has recorded.
\<close>

locale unique_key_loop =
  fixes step :: "'e \<Rightarrow> 's \<Rightarrow> go_error + 's"
    and key :: "'e \<Rightarrow> 'k option"
    and marked :: "'k \<Rightarrow> 's \<Rightarrow> bool"
  assumes refuses_marked: "step e s = Inr s' \<Longrightarrow> key e = Some k \<Longrightarrow> \<not> marked k s"
    and marks: "step e s = Inr s' \<Longrightarrow> marked k s' \<longleftrightarrow> marked k s \<or> key e = Some k"
begin

lemma loop_unmarked:
  "range_loop step es s = Inr s' \<Longrightarrow> e \<in> set es \<Longrightarrow> key e = Some k \<Longrightarrow> \<not> marked k s"
proof (induction es arbitrary: s)
  case Nil
  then show ?case by simp
next
  case (Cons x es)
  then obtain t where t: "step x s = Inr t" "range_loop step es t = Inr s'"
    by (auto split: sum.splits)
  show ?case
  proof (cases "e = x")
    case True
    with t Cons.prems show ?thesis using refuses_marked by blast
  next
    case False
    with Cons t have "\<not> marked k t" by auto
    with t show ?thesis using marks by blast
  qed
qed

lemma loop_distinct:
  "range_loop step es s = Inr s' \<Longrightarrow> distinct (List.map_filter key es)"
proof (induction es arbitrary: s)
  case Nil
  then show ?case by (simp add: List.map_filter_def)
next
  case (Cons x es)
  then obtain t where t: "step x s = Inr t" "range_loop step es t = Inr s'"
    by (auto split: sum.splits)
  with Cons have tail: "distinct (List.map_filter key es)" by blast
  have "k \<notin> set (List.map_filter key es)" if k: "key x = Some k" for k
  proof
    assume "k \<in> set (List.map_filter key es)"
    then obtain y where "y \<in> set es" "key y = Some k"
      by (auto simp: List.map_filter_def)
    with t have "\<not> marked k t" using loop_unmarked by blast
    with t k show False using marks by blast
  qed
  with tail show ?case by (cases "key x") (auto simp: List.map_filter_simps)
qed

text \<open>In an accepted table a key determines its row.\<close>

lemma loop_key_inj:
  assumes "range_loop step es s = Inr s'"
    and "e \<in> set es" "f \<in> set es" "key e = Some k" "key f = Some k"
  shows "e = f"
  using assms
proof (induction es arbitrary: s)
  case Nil
  then show ?case by simp
next
  case (Cons x es)
  then obtain t where t: "step x s = Inr t" "range_loop step es t = Inr s'"
    by (auto split: sum.splits)
  have "\<not> marked k t" if "y \<in> set es" "key y = Some k" for y
    using loop_unmarked [OF t(2)] that by blast
  moreover have "marked k t" if "key x = Some k" using marks [OF t(1)] that by blast
  ultimately show ?case using Cons t by auto
qed

end

end
