(* ===== verification/Kube_Objects.thy ===== *)
theory Kube_Objects
  imports Go_Effects K8s_Library
begin

text \<open>
  The Kubernetes objects the reconciler reads and writes, as records with the fields it uses;
  every other field of an object is kept in one opaque component (\<open>\<dots>_other\<close>), so that
  writing an object back preserves it. The second part is the reconciler's interface to the
  outside world: one operation and one log entry per API call. Integers of the API
  (\<open>int32\<close>, \<open>int64\<close>) are only compared, never computed with. A nil slice and an empty one
  are both the empty list.
\<close>

type_synonym key = "string \<times> string"

subsection \<open>Pods and Deployments\<close>

record secret_key_ref =
  skr_name :: string
  skr_key :: string
  skr_optional :: "bool option"

record env_source =
  es_secret_key_ref :: "secret_key_ref option"
  es_other :: string

record env_var =
  env_name :: string
  env_value :: string
  env_value_from :: "env_source option"

record env_from =
  ef_secret_ref :: "string option"
  ef_other :: string

record container_port =
  cp_name :: string
  cp_port :: int
  cp_protocol :: string

datatype int_or_string = FromInt int | FromString string

record http_get =
  hg_path :: string
  hg_port :: int_or_string
  hg_scheme :: string

record probe =
  pr_http_get :: "http_get option"
  pr_exec :: "string list option"
  pr_initial_delay :: int
  pr_period :: int
  pr_timeout :: int
  pr_success :: int
  pr_failure :: int

record security_context =
  sc_allow_escalation :: "bool option"
  sc_run_as_non_root :: "bool option"
  sc_run_as_user :: "int option"
  sc_run_as_group :: "int option"
  sc_read_only_root :: "bool option"
  sc_drop :: "string list"

record volume_mount =
  vm_name :: string
  vm_path :: string
  vm_read_only :: bool

record container =
  c_name :: string
  c_image :: string
  c_command :: "string list"
  c_args :: "string list"
  c_env :: "env_var list"
  c_env_from :: "env_from list"
  c_ports :: "container_port list"
  c_mounts :: "volume_mount list"
  c_resources :: string
  c_security :: "security_context option"
  c_readiness :: "probe option"
  c_liveness :: "probe option"
  c_startup :: "probe option"
  c_pull_policy :: string
  c_term_path :: string
  c_term_policy :: string
  c_other :: string

record secret_volume =
  sv_name :: string
  sv_items :: "(string \<times> string) list"
  sv_mode :: "int option"

text \<open>\<open>vol_projected\<close> lists the sources of a projected volume: the Secret each one names, if any.\<close>

record volume =
  vol_name :: string
  vol_secret :: "secret_volume option"
  vol_projected :: "string option list option"
  vol_empty_dir :: bool
  vol_other :: string

record pod_security =
  psc_fs_group :: "int option"
  psc_seccomp :: "string option"
  psc_other :: string

record ephemeral_container =
  ec_env :: "env_var list"
  ec_env_from :: "env_from list"
  ec_other :: string

record pod_spec =
  p_containers :: "container list"
  p_init_containers :: "container list"
  p_ephemeral :: "ephemeral_container list"
  p_volumes :: "volume list"
  p_pull_secrets :: "string list"
  p_security :: "pod_security option"
  p_automount :: "bool option"
  p_host_network :: bool
  p_host_pid :: bool
  p_host_ipc :: bool
  p_share_process_ns :: "bool option"
  p_other :: string

record pod_template =
  t_labels :: gomap
  t_annotations :: gomap
  t_spec :: pod_spec
  t_other :: string

record label_selector =
  ls_match_labels :: gomap
  ls_other :: string

record strategy =
  strat_type :: string
  strat_other :: string

record deployment =
  d_meta :: object_meta
  d_replicas :: "int option"
  d_selector :: "label_selector option"
  d_template :: pod_template
  d_strategy :: strategy
  d_observed_generation :: int
  d_status_replicas :: int
  d_updated_replicas :: int
  d_ready_replicas :: int
  d_available_replicas :: int
  d_other :: string

record pod =
  pod_meta :: object_meta
  pod_spec_of :: pod_spec

subsection \<open>Services, Ingresses, Secrets, Endpoints\<close>

record service_port =
  sp_name :: string
  sp_port :: int
  sp_target :: int_or_string
  sp_protocol :: string
  sp_other :: string

record service =
  svc_meta :: object_meta
  svc_type :: string
  svc_external_name :: string
  svc_selector :: gomap
  svc_ports :: "service_port list"
  svc_other :: string

record service_backend =
  sb_name :: string
  sb_port_name :: string
  sb_port_number :: int

record ingress_backend =
  ib_service :: "service_backend option"
  ib_other :: string

record ingress_path =
  ip_path :: string
  ip_path_type :: "string option"
  ip_backend :: ingress_backend

record ingress_rule =
  ir_host :: string
  ir_http :: "ingress_path list option"

record ingress_tls =
  tls_hosts :: "string list"
  tls_secret :: string

record ingress =
  ing_meta :: object_meta
  ing_class :: "string option"
  ing_default_backend :: "ingress_backend option"
  ing_rules :: "ingress_rule list"
  ing_tls :: "ingress_tls list"
  ing_other :: string

record secret =
  sec_meta :: object_meta
  sec_type :: string
  sec_immutable :: "bool option"
  sec_data :: gomap

record endpoint_subset =
  ess_addresses :: "string list"
  ess_ports :: "int list"

subsection \<open>ChatUIInstance\<close>

record inst_status =
  st_pins :: gomap
  st_phase :: string
  st_url :: string
  st_slug :: string
  st_slug_source :: string
  st_observed :: int
  st_conditions :: "condition list"

record credentials_ref =
  cr_name :: string

record inst_spec =
  spec_credentials :: credentials_ref
  spec_replicas :: int
  spec_image :: string

record chat_instance =
  i_meta :: object_meta
  i_spec :: inst_spec
  i_status :: inst_status

abbreviation i_uid :: "chat_instance \<Rightarrow> string" where "i_uid i \<equiv> meta_uid (i_meta i)"
abbreviation i_name :: "chat_instance \<Rightarrow> string" where "i_name i \<equiv> meta_name (i_meta i)"
abbreviation i_namespace :: "chat_instance \<Rightarrow> string" where "i_namespace i \<equiv> meta_namespace (i_meta i)"
abbreviation i_credentials :: "chat_instance \<Rightarrow> string" where "i_credentials i \<equiv> cr_name (spec_credentials (i_spec i))"
abbreviation i_replicas :: "chat_instance \<Rightarrow> int" where "i_replicas i \<equiv> spec_replicas (i_spec i)"
abbreviation i_image :: "chat_instance \<Rightarrow> string" where "i_image i \<equiv> spec_image (i_spec i)"
abbreviation i_pins :: "chat_instance \<Rightarrow> gomap" where "i_pins i \<equiv> st_pins (i_status i)"

text \<open>The name shared by the Deployment, Service and Ingress of an instance.\<close>

definition chatui_name :: "chat_instance \<Rightarrow> string" where
  "chatui_name i = i_name i @ ''-chatui''"

abbreviation chatui_key :: "chat_instance \<Rightarrow> key" where
  "chatui_key i \<equiv> (i_namespace i, chatui_name i)"

definition meta_key :: "object_meta \<Rightarrow> key" where
  "meta_key m = (meta_namespace m, meta_name m)"

definition SupportedImage :: string where
  "SupportedImage = ''ghcr.io/open-webui/open-webui@sha256:096c8f3d3132016210ca87b0b4dff01d2d66d9fe4fee088fae13fc30f9ac54f3''"

text \<open>\<open>GroupVersion.String()\<close>\<close>

definition GroupVersion :: string where
  "GroupVersion = ''ui.privatellms.msp/v1alpha1''"

subsection \<open>External calls\<close>

datatype reader = Cached | Live

text \<open>One constructor per kind of call: its request, then the reply.\<close>

datatype call =
    GetInstance reader key "api_error + chat_instance"
  | GetDeployment reader key "api_error + deployment"
  | GetService reader key "api_error + service"
  | GetIngress reader key "api_error + ingress"
  | GetSecret reader key "api_error + secret"
  | GetEndpoints reader key "api_error + endpoint_subset list"
  | ListInstances reader string "api_error + chat_instance list"
  | ListIngresses reader "api_error + ingress list"
  | ListDeployments reader string "api_error + deployment list"
  | ListPods reader string "label_selector option" "api_error + pod list"
  | CreateDeployment deployment "api_error + deployment"
  | CreateService service "api_error + service"
  | CreateIngress ingress "api_error + ingress"
  | CreateSecret secret "api_error + secret"
  | UpdateInstance chat_instance "api_error + chat_instance"
  | UpdateDeployment deployment "api_error + deployment"
  | UpdateService service "api_error + service"
  | UpdateIngress ingress "api_error + ingress"
  | DeleteIngress ingress string string "api_error + unit"
  | DeleteSecret secret string string "api_error + unit"
  | PatchStatus chat_instance chat_instance bool "api_error + chat_instance"
  | UpdateStatus chat_instance "api_error + chat_instance"
  | RandomBytes nat "string option"
  | HealthCheck string "go_error option"
  | DNSCheck string "go_error option"

text \<open>
  The operations themselves are parameters: they stand for the API server behind the
  controller-runtime client and the uncached reader, for \<open>crypto/rand\<close>, and for the health
  and DNS checks. A delete carries its UID and resource-version preconditions; a status patch
  the base it is computed against, the new object, and whether it uses the optimistic lock.
  \<open>k_custom_health\<close> and \<open>k_custom_dns\<close> are the optional checker functions of the reconciler.
\<close>

record 'w cluster =
  k_get_instance :: "reader \<Rightarrow> key \<Rightarrow> 'w \<Rightarrow> (api_error + chat_instance) \<times> 'w"
  k_get_deployment :: "reader \<Rightarrow> key \<Rightarrow> 'w \<Rightarrow> (api_error + deployment) \<times> 'w"
  k_get_service :: "reader \<Rightarrow> key \<Rightarrow> 'w \<Rightarrow> (api_error + service) \<times> 'w"
  k_get_ingress :: "reader \<Rightarrow> key \<Rightarrow> 'w \<Rightarrow> (api_error + ingress) \<times> 'w"
  k_get_secret :: "reader \<Rightarrow> key \<Rightarrow> 'w \<Rightarrow> (api_error + secret) \<times> 'w"
  k_get_endpoints :: "reader \<Rightarrow> key \<Rightarrow> 'w \<Rightarrow> (api_error + endpoint_subset list) \<times> 'w"
  k_list_instances :: "reader \<Rightarrow> string \<Rightarrow> 'w \<Rightarrow> (api_error + chat_instance list) \<times> 'w"
  k_list_ingresses :: "reader \<Rightarrow> 'w \<Rightarrow> (api_error + ingress list) \<times> 'w"
  k_list_deployments :: "reader \<Rightarrow> string \<Rightarrow> 'w \<Rightarrow> (api_error + deployment list) \<times> 'w"
  k_list_pods :: "reader \<Rightarrow> string \<Rightarrow> label_selector option \<Rightarrow> 'w \<Rightarrow> (api_error + pod list) \<times> 'w"
  k_create_deployment :: "deployment \<Rightarrow> 'w \<Rightarrow> (api_error + deployment) \<times> 'w"
  k_create_service :: "service \<Rightarrow> 'w \<Rightarrow> (api_error + service) \<times> 'w"
  k_create_ingress :: "ingress \<Rightarrow> 'w \<Rightarrow> (api_error + ingress) \<times> 'w"
  k_create_secret :: "secret \<Rightarrow> 'w \<Rightarrow> (api_error + secret) \<times> 'w"
  k_update_instance :: "chat_instance \<Rightarrow> 'w \<Rightarrow> (api_error + chat_instance) \<times> 'w"
  k_update_deployment :: "deployment \<Rightarrow> 'w \<Rightarrow> (api_error + deployment) \<times> 'w"
  k_update_service :: "service \<Rightarrow> 'w \<Rightarrow> (api_error + service) \<times> 'w"
  k_update_ingress :: "ingress \<Rightarrow> 'w \<Rightarrow> (api_error + ingress) \<times> 'w"
  k_delete_ingress :: "ingress \<Rightarrow> string \<Rightarrow> string \<Rightarrow> 'w \<Rightarrow> (api_error + unit) \<times> 'w"
  k_delete_secret :: "secret \<Rightarrow> string \<Rightarrow> string \<Rightarrow> 'w \<Rightarrow> (api_error + unit) \<times> 'w"
  k_patch_status :: "chat_instance \<Rightarrow> chat_instance \<Rightarrow> bool \<Rightarrow> 'w \<Rightarrow> (api_error + chat_instance) \<times> 'w"
  k_update_status :: "chat_instance \<Rightarrow> 'w \<Rightarrow> (api_error + chat_instance) \<times> 'w"
  k_random :: "nat \<Rightarrow> 'w \<Rightarrow> string option \<times> 'w"
  k_http_get :: "string \<Rightarrow> 'w \<Rightarrow> (go_error + int) \<times> 'w"
  k_lookup_host :: "string \<Rightarrow> 'w \<Rightarrow> (go_error + string list) \<times> 'w"
  k_custom_health :: "(string \<Rightarrow> 'w \<Rightarrow> go_error option \<times> 'w) option"
  k_custom_dns :: "(string \<Rightarrow> 'w \<Rightarrow> go_error option \<times> 'w) option"

type_synonym log_entry = "chat_instance \<times> call"
type_synonym ('w, 'a) op = "('w, chat_instance, call, 'a) go"
type_synonym 'w st = "('w, chat_instance, call) run"

end
