(* ===== verification/Go_Encoding.thy ===== *)
theory Go_Encoding
  imports Go_Prelude
begin

text \<open>
  Packages \<open>encoding/base64\<close> and \<open>encoding/json\<close> as far as the operator uses them: padded
  base64 in the standard and the URL alphabet, and the text \<open>json.Marshal\<close> produces.
\<close>

subsection \<open>Base64\<close>

definition std_alphabet :: string where
  "std_alphabet = ''ABCDEFGHIJKLMNOPQRSTUVWXYZabcdefghijklmnopqrstuvwxyz0123456789+/''"

definition url_alphabet :: string where
  "url_alphabet = ''ABCDEFGHIJKLMNOPQRSTUVWXYZabcdefghijklmnopqrstuvwxyz0123456789-_''"

abbreviation code_of :: "char \<Rightarrow> nat" where
  "code_of c \<equiv> of_char c"

text \<open>\<open>EncodeToString\<close>: three bytes become four characters, the last group is padded.\<close>

fun b64_encode :: "string \<Rightarrow> string \<Rightarrow> string" where
  "b64_encode al [] = []"
| "b64_encode al [a] =
     [al ! (code_of a div 4), al ! (code_of a mod 4 * 16), CHR ''='', CHR ''='']"
| "b64_encode al [a, b] =
     [al ! (code_of a div 4), al ! (code_of a mod 4 * 16 + code_of b div 16),
      al ! (code_of b mod 16 * 4), CHR ''='']"
| "b64_encode al (a # b # c # rest) =
     [al ! (code_of a div 4), al ! (code_of a mod 4 * 16 + code_of b div 16),
      al ! (code_of b mod 16 * 4 + code_of c div 64), al ! (code_of c mod 64)] @ b64_encode al rest"

fun index_of :: "char \<Rightarrow> string \<Rightarrow> nat option" where
  "index_of c [] = None"
| "index_of c (x # xs) = (if x = c then Some 0 else map_option Suc (index_of c xs))"

text \<open>
  \<open>DecodeString\<close>: carriage returns and line feeds are skipped; a padding character may only end
  the last group; trailing bits of a short group are not checked (the non-strict mode).
\<close>

fun b64_groups :: "string \<Rightarrow> string \<Rightarrow> string option" where
  "b64_groups al [] = Some []"
| "b64_groups al (a # b # c # d # rest) =
     (case (index_of a al, index_of b al) of
        (Some i, Some j) \<Rightarrow>
          if c = CHR ''='' then
            (if d = CHR ''='' \<and> rest = [] then Some [char_of (i * 4 + j div 16)] else None)
          else (case index_of c al of
             None \<Rightarrow> None
           | Some k \<Rightarrow>
               if d = CHR ''='' then
                 (if rest = [] then Some [char_of (i * 4 + j div 16), char_of (j mod 16 * 16 + k div 4)]
                  else None)
               else (case (index_of d al, b64_groups al rest) of
                  (Some l, Some out) \<Rightarrow>
                    Some (char_of (i * 4 + j div 16) # char_of (j mod 16 * 16 + k div 4) #
                          char_of (k mod 4 * 64 + l) # out)
                | _ \<Rightarrow> None))
      | _ \<Rightarrow> None)"
| "b64_groups al _ = None"

definition b64_decode :: "string \<Rightarrow> string \<Rightarrow> string option" where
  "b64_decode al s = b64_groups al (filter (\<lambda>c. c \<noteq> byte 13 \<and> c \<noteq> byte 10) s)"

definition StdEncode :: "string \<Rightarrow> string" where "StdEncode = b64_encode std_alphabet"
definition StdDecode :: "string \<Rightarrow> string option" where "StdDecode = b64_decode std_alphabet"
definition URLEncode :: "string \<Rightarrow> string" where "URLEncode = b64_encode url_alphabet"
definition URLDecode :: "string \<Rightarrow> string option" where "URLDecode = b64_decode url_alphabet"

text \<open>
  Decoding inverts encoding for every alphabet of 64 distinct characters without the padding
  character and line breaks; the two alphabets are such.
\<close>

lemma line_breaks: "byte 13 = CHR 0x0D" "byte 10 = CHR 0x0A"
  by code_simp+

lemma index_of_nth: "distinct al \<Longrightarrow> i < length al \<Longrightarrow> index_of (al ! i) al = Some i"
proof (induction al arbitrary: i)
  case Nil
  then show ?case by simp
next
  case (Cons x al)
  then show ?case by (cases i) auto
qed

locale base64_alphabet =
  fixes al :: string
  assumes distinct: "distinct al" and length: "length al = 64"
    and plain: "CHR ''='' \<notin> set al" "byte 13 \<notin> set al" "byte 10 \<notin> set al"
begin

lemma index [simp]: "i < 64 \<Longrightarrow> index_of (al ! i) al = Some i"
  using index_of_nth [OF distinct] by (simp add: length)

lemma not_pad [simp]: "i < 64 \<Longrightarrow> al ! i \<noteq> CHR ''=''"
  using plain(1) length by (metis nth_mem)

lemma sextets:
  "code_of a div 4 < 64" "code_of a mod 4 * 16 < 64" "code_of a mod 4 * 16 + code_of b div 16 < 64"
  "code_of b mod 16 * 4 < 64" "code_of b mod 16 * 4 + code_of c div 64 < 64" "code_of c mod 64 < 64"
proof -
  have byte: "code_of x < 256" for x :: char by simp
  from byte [of a] byte [of b] byte [of c] show
    "code_of a div 4 < 64" "code_of a mod 4 * 16 < 64" "code_of a mod 4 * 16 + code_of b div 16 < 64"
    "code_of b mod 16 * 4 < 64" "code_of b mod 16 * 4 + code_of c div 64 < 64" "code_of c mod 64 < 64"
    by linarith+
qed

lemma bytes_back:
  "code_of b div 16 div 16 = 0" "code_of b div 16 mod 16 = code_of b div 16"
  "code_of c div 64 div 4 = 0" "code_of c div 64 mod 4 = code_of c div 64"
proof -
  have small: "code_of b div 16 < 16" "code_of c div 64 < 4"
    using less_mult_imp_div_less [of "code_of b" 16 16] less_mult_imp_div_less [of "code_of c" 4 64]
    by simp_all
  then show "code_of b div 16 div 16 = 0" "code_of b div 16 mod 16 = code_of b div 16"
    "code_of c div 64 div 4 = 0" "code_of c div 64 mod 4 = code_of c div 64"
    by simp_all
qed

lemma groups_encode: "b64_groups al (b64_encode al s) = Some s"
proof (induction "length s" arbitrary: s rule: less_induct)
  case less
  consider "s = []" | a where "s = [a]" | a b where "s = [a, b]"
    | a b c rest where "s = a # b # c # rest"
    by (metis list.exhaust)
  then show ?case
    by cases (use less in \<open>simp_all add: sextets bytes_back\<close>)
qed

lemma encode_no_breaks: "set (b64_encode al s) \<subseteq> insert (CHR ''='') (set al)"
proof (induction "length s" arbitrary: s rule: less_induct)
  case less
  have mem: "al ! i \<in> set al" if "i < 64" for i using that length by simp
  consider "s = []" | a where "s = [a]" | a b where "s = [a, b]"
    | a b c rest where "s = a # b # c # rest"
    by (metis list.exhaust)
  then show ?case
    by cases (use less in \<open>simp_all add: sextets mem\<close>)
qed

lemma decode_encode [simp]: "b64_decode al (b64_encode al s) = Some s"
proof -
  have "\<forall>c \<in> set (b64_encode al s). c \<noteq> byte 13 \<and> c \<noteq> byte 10"
    using encode_no_breaks [of s] plain by (auto simp: line_breaks)
  then have "filter (\<lambda>c. c \<noteq> byte 13 \<and> c \<noteq> byte 10) (b64_encode al s) = b64_encode al s"
    by (simp add: filter_id_conv)
  then show ?thesis by (simp add: b64_decode_def groups_encode)
qed

end

interpretation std: base64_alphabet std_alphabet
  by unfold_locales (simp_all add: std_alphabet_def line_breaks)

interpretation url: base64_alphabet url_alphabet
  by unfold_locales (simp_all add: url_alphabet_def line_breaks)

lemma StdDecode_StdEncode [simp]: "StdDecode (StdEncode s) = Some s"
  by (simp add: StdDecode_def StdEncode_def)

lemma URLDecode_URLEncode [simp]: "URLDecode (URLEncode s) = Some s"
  by (simp add: URLDecode_def URLEncode_def)

text \<open>The encoded length depends only on the length: 32 bytes take 44 characters.\<close>

lemma length_b64_encode: "length (b64_encode al s) = 4 * ((length s + 2) div 3)"
  by (induction al s rule: b64_encode.induct) (simp_all, presburger)

subsection \<open>JSON\<close>

text \<open>
  A JSON document. Object members are in the order of the text: for \<open>json.Marshal\<close> the order of
  declaration of a struct, sorted for a map. A number is its literal.
\<close>

datatype json =
    JNull
  | JBool bool
  | JNumber string
  | JString string
  | JArray "json list"
  | JObject "(string \<times> json) list"

text \<open>
  String escapes of \<open>json.Marshal\<close>: quotes, backslashes, control characters and the HTML-relevant
  characters; U+2028 and U+2029; an invalid UTF-8 byte becomes the replacement character escape.
  \<open>utf8_width s\<close> is the length of the valid UTF-8 sequence at the head of \<open>s\<close>, 0 if there is none.
\<close>

definition between :: "nat \<Rightarrow> nat \<Rightarrow> char \<Rightarrow> bool" where
  "between lo hi c = (lo \<le> code_of c \<and> code_of c \<le> hi)"

definition continuation :: "char \<Rightarrow> bool" where
  "continuation = between 128 191"

definition utf8_width :: "string \<Rightarrow> nat" where
  "utf8_width s =
     (case s of
        [] \<Rightarrow> 0
      | a # t \<Rightarrow>
        if code_of a < 128 then 1
        else case t of
          [] \<Rightarrow> 0
        | b # u \<Rightarrow>
          if between 194 223 a then (if continuation b then 2 else 0)
          else case u of
            [] \<Rightarrow> 0
          | c # v \<Rightarrow>
            if between 224 239 a
            then (if continuation c \<and>
                     (if code_of a = 224 then between 160 191 b
                      else if code_of a = 237 then between 128 159 b
                      else continuation b) then 3 else 0)
            else case v of
              [] \<Rightarrow> 0
            | d # _ \<Rightarrow>
              if between 240 244 a \<and> continuation c \<and> continuation d \<and>
                 (if code_of a = 240 then between 144 191 b
                  else if code_of a = 244 then between 128 143 b
                  else continuation b)
              then 4 else 0)"

definition escape_ascii :: "char \<Rightarrow> string" where
  "escape_ascii c =
     (if c = CHR 0x22 then [byte 92, CHR 0x22]
      else if c = byte 92 then [byte 92, byte 92]
      else if c = byte 8 then [byte 92, CHR ''b'']
      else if c = byte 12 then [byte 92, CHR ''f'']
      else if c = byte 10 then [byte 92, CHR ''n'']
      else if c = byte 13 then [byte 92, CHR ''r'']
      else if c = byte 9 then [byte 92, CHR ''t'']
      else if code_of c < 32 \<or> c \<in> set ''<>&'' then byte 92 # ''u00'' @ hex_byte c
      else [c])"

function escape_string :: "string \<Rightarrow> string" where
  "escape_string s =
     (case s of
        [] \<Rightarrow> []
      | c # t \<Rightarrow>
        if code_of c < 128 then escape_ascii c @ escape_string t
        else if utf8_width s = 0 then byte 92 # ''ufffd'' @ escape_string t
        else if take 3 s = [byte 226, byte 128, byte 168] then byte 92 # ''u2028'' @ escape_string (drop 3 s)
        else if take 3 s = [byte 226, byte 128, byte 169] then byte 92 # ''u2029'' @ escape_string (drop 3 s)
        else take (utf8_width s) s @ escape_string (drop (utf8_width s) s))"
  by pat_completeness auto
termination
  by (relation "measure length") auto

declare escape_string.simps [simp del]

definition quoted :: "string \<Rightarrow> string" where
  "quoted s = CHR 0x22 # escape_string s @ [CHR 0x22]"

text \<open>\<open>json.Marshal\<close>.\<close>

fun marshal :: "json \<Rightarrow> string"
  and marshal_items :: "json list \<Rightarrow> string"
  and marshal_members :: "(string \<times> json) list \<Rightarrow> string" where
  "marshal JNull = ''null''"
| "marshal (JBool b) = (if b then ''true'' else ''false'')"
| "marshal (JNumber lit) = lit"
| "marshal (JString s) = quoted s"
| "marshal (JArray vs) = ''['' @ marshal_items vs @ '']''"
| "marshal (JObject kvs) = ''{'' @ marshal_members kvs @ ''}''"
| "marshal_items [] = []"
| "marshal_items [v] = marshal v"
| "marshal_items (v # w # vs) = marshal v @ '','' @ marshal_items (w # vs)"
| "marshal_members [] = []"
| "marshal_members [(k, v)] = quoted k @ '':'' @ marshal v"
| "marshal_members ((k, v) # m # ms) = quoted k @ '':'' @ marshal v @ '','' @ marshal_members (m # ms)"

text \<open>A \<open>[]byte\<close> is printed as its base64 text.\<close>

definition JBytes :: "string \<Rightarrow> json" where
  "JBytes b = JString (StdEncode b)"

end
