(* ===== verification/Json_Scan.thy ===== *)
theory Json_Scan
  imports Go_Encoding
begin

text \<open>
  Reading JSON text as package \<open>encoding/json\<close> does: strings with their escapes, numbers, tokens, and
  a scanner that keeps the open arrays and objects on an explicit stack of bounded depth. The
  scanner ends on every input; it gives the document it has read and the text after it.
\<close>

subsection \<open>Strings\<close>

definition hex_value :: "char \<Rightarrow> nat option" where
  "hex_value c =
     (let n = code_of c in
      if 48 \<le> n \<and> n \<le> 57 then Some (n - 48)
      else if 97 \<le> n \<and> n \<le> 102 then Some (n - 87)
      else if 65 \<le> n \<and> n \<le> 70 then Some (n - 55)
      else None)"

definition hex4 :: "string \<Rightarrow> nat option" where
  "hex4 s =
     (case s of
        a # b # c # d # _ \<Rightarrow>
          (case (hex_value a, hex_value b, hex_value c, hex_value d) of
             (Some i, Some j, Some k, Some l) \<Rightarrow> Some (((i * 16 + j) * 16 + k) * 16 + l)
           | _ \<Rightarrow> None)
      | _ \<Rightarrow> None)"

text \<open>\<open>utf8.EncodeRune\<close> for a code point that is not a surrogate, and U+FFFD.\<close>

definition encode_rune :: "nat \<Rightarrow> string" where
  "encode_rune n =
     (if n < 128 then [byte n]
      else if n < 2048 then [byte (192 + n div 64), byte (128 + n mod 64)]
      else if n < 65536 then [byte (224 + n div 4096), byte (128 + n div 64 mod 64), byte (128 + n mod 64)]
      else [byte (240 + n div 262144), byte (128 + n div 4096 mod 64), byte (128 + n div 64 mod 64), byte (128 + n mod 64)])"

definition replacement :: string where
  "replacement = [byte 239, byte 191, byte 189]"

text \<open>A low surrogate escape at the head of the text.\<close>

definition low_surrogate :: "string \<Rightarrow> nat option" where
  "low_surrogate s =
     (if take 2 s = [byte 92, CHR ''u'']
      then (case hex4 (drop 2 s) of None \<Rightarrow> None | Some m \<Rightarrow> if 56320 \<le> m \<and> m < 57344 then Some m else None)
      else None)"

text \<open>The text after \<open>\u\<close>: the bytes it stands for, and the rest. A lone surrogate is replaced.\<close>

definition take_unicode :: "string \<Rightarrow> (string \<times> string) option" where
  "take_unicode s =
     (case hex4 s of
        None \<Rightarrow> None
      | Some n \<Rightarrow>
          let rest = drop 4 s in
          if 55296 \<le> n \<and> n < 57344 then
            (case low_surrogate rest of
               Some m \<Rightarrow>
                 if n < 56320 then Some (encode_rune (65536 + (n - 55296) * 1024 + (m - 56320)), drop 6 rest)
                 else Some (replacement, rest)
             | None \<Rightarrow> Some (replacement, rest))
          else Some (encode_rune n, rest))"

definition simple_escape :: "char \<Rightarrow> char option" where
  "simple_escape e =
     map_of [(CHR 0x22, CHR 0x22), (byte 92, byte 92), (CHR ''/'', CHR ''/''), (CHR ''b'', byte 8), (CHR ''f'', byte 12),
       (CHR ''n'', byte 10), (CHR ''r'', byte 13), (CHR ''t'', byte 9)] e"

text \<open>The first character of a non-empty text: the bytes it stands for, and the text after it.\<close>

definition string_char :: "string \<Rightarrow> (string \<times> string) option" where
  "string_char s =
     (if hd s = byte 92 then
        (case tl s of
           [] \<Rightarrow> None
         | e # u \<Rightarrow>
             (case simple_escape e of
                Some d \<Rightarrow> Some ([d], u)
              | None \<Rightarrow> if e = CHR ''u'' then take_unicode u else None))
      else if code_of (hd s) < 32 then None
      else if utf8_width s = 0 then Some (replacement, tl s)
      else Some (take (utf8_width s) s, drop (utf8_width s) s))"

definition prepend :: "string \<Rightarrow> (string \<times> string) option \<Rightarrow> (string \<times> string) option" where
  "prepend d x = map_option (\<lambda>(t, rest). (d @ t, rest)) x"

lemma prepend_Some: "prepend d x = Some (t, rest) \<longleftrightarrow> (\<exists>t'. x = Some (t', rest) \<and> t = d @ t')"
  by (auto simp: prepend_def)

lemma take_unicode_shorter: "take_unicode s = Some (d, rest) \<Longrightarrow> length rest \<le> length s"
  by (auto simp: take_unicode_def Let_def split: option.splits if_splits)

lemma string_char_shorter:
  assumes "string_char s = Some (d, rest)" and "s \<noteq> []"
  shows "length rest < length s"
proof (cases "hd s = byte 92")
  case True
  then obtain e u where "tl s = e # u" "simple_escape e = None \<longrightarrow> take_unicode u = Some (d, rest)"
    "simple_escape e \<noteq> None \<longrightarrow> rest = u"
    using assms by (auto simp: string_char_def split: list.splits option.splits if_splits)
  then show ?thesis
    using assms(2) take_unicode_shorter [of u d rest] by (cases s; cases "simple_escape e") auto
next
  case False
  then show ?thesis
    using assms by (cases s) (auto simp: string_char_def split: if_splits)
qed

text \<open>The text after an opening quote: the string, and the text after the closing quote.\<close>

function string_body :: "string \<Rightarrow> (string \<times> string) option" where
  "string_body s =
     (case s of
        [] \<Rightarrow> None
      | c # t \<Rightarrow>
          if c = CHR 0x22 then Some ([], t)
          else (case string_char s of
                  None \<Rightarrow> None
                | Some (d, u) \<Rightarrow> prepend d (string_body u)))"
  by pat_completeness auto
termination
  by (relation "measure length") (auto dest: string_char_shorter)

declare string_body.simps [simp del]

lemma string_body_shorter: "string_body s = Some (t, rest) \<Longrightarrow> length rest < length s"
proof (induction s arbitrary: t rule: string_body.induct)
  case (1 s)
  show ?case
  proof (cases "s \<noteq> [] \<and> hd s \<noteq> CHR 0x22")
    case True
    then obtain d u where char: "string_char s = Some (d, u)" and body: "prepend d (string_body u) = Some (t, rest)"
      using 1(2) by (subst (asm) string_body.simps) (auto split: list.splits option.splits)
    from body obtain t' where "string_body u = Some (t', rest)" by (auto simp: prepend_Some)
    with True char have "length rest < length u"
      using 1(1) [of "hd s" "tl s"] by (metis list.collapse)
    with string_char_shorter [OF char] True show ?thesis by simp
  next
    case False
    then show ?thesis using 1(2) by (subst (asm) string_body.simps) (auto split: list.splits)
  qed
qed

subsection \<open>Numbers\<close>

definition is_digit :: "char \<Rightarrow> bool" where
  "is_digit = between 48 57"

definition take_digits :: "string \<Rightarrow> (string \<times> string) option" where
  "take_digits s =
     (if takeWhile is_digit s = [] then None else Some (takeWhile is_digit s, dropWhile is_digit s))"

definition sign_part :: "string \<Rightarrow> (string \<times> string) option" where
  "sign_part s = Some (if prefix ''-'' s then (take 1 s, drop 1 s) else ([], s))"

definition integer_part :: "string \<Rightarrow> (string \<times> string) option" where
  "integer_part s = (if prefix ''0'' s then Some (take 1 s, drop 1 s) else take_digits s)"

definition fraction_part :: "string \<Rightarrow> (string \<times> string) option" where
  "fraction_part s = (if prefix ''.'' s then prepend (take 1 s) (take_digits (drop 1 s)) else Some ([], s))"

definition exponent_part :: "string \<Rightarrow> (string \<times> string) option" where
  "exponent_part s =
     (if prefix ''e'' s \<or> prefix ''E'' s then
        (let t = drop 1 s; n = (if prefix ''+'' t \<or> prefix ''-'' t then 2 else 1)
         in prepend (take n s) (take_digits (drop n s)))
      else Some ([], s))"

definition and_part ::
  "(string \<times> string) option \<Rightarrow> (string \<Rightarrow> (string \<times> string) option) \<Rightarrow> (string \<times> string) option" where
  "and_part x part = (case x of None \<Rightarrow> None | Some (lit, rest) \<Rightarrow> prepend lit (part rest))"

definition number_literal :: "string \<Rightarrow> (string \<times> string) option" where
  "number_literal s =
     and_part (and_part (and_part (sign_part s) integer_part) fraction_part) exponent_part"

text \<open>Every part of a number is a prefix of the text it is read from; the integer part is not empty.\<close>

definition reads_prefix :: "(string \<times> string) option \<Rightarrow> string \<Rightarrow> bool" where
  "reads_prefix x s \<longleftrightarrow> (case x of None \<Rightarrow> True | Some (lit, rest) \<Rightarrow> lit @ rest = s)"

lemma reads_take_digits: "reads_prefix (take_digits s) s"
  by (simp add: reads_prefix_def take_digits_def)

lemma reads_parts:
  "reads_prefix (sign_part s) s" "reads_prefix (integer_part s) s"
  "reads_prefix (fraction_part s) s" "reads_prefix (exponent_part s) s"
proof -
  have pre: "reads_prefix (prepend (take n s) (take_digits (drop n s))) s" for n
    using reads_take_digits [of "drop n s"]
    by (cases "take_digits (drop n s)") (auto simp: reads_prefix_def prepend_def)
  show "reads_prefix (sign_part s) s" by (simp add: reads_prefix_def sign_part_def)
  show "reads_prefix (integer_part s) s"
    using reads_take_digits [of s] by (simp add: reads_prefix_def integer_part_def)
  show "reads_prefix (fraction_part s) s"
    using pre by (simp add: fraction_part_def reads_prefix_def [of "Some ([], s)"])
  show "reads_prefix (exponent_part s) s"
    using pre by (simp add: exponent_part_def Let_def reads_prefix_def [of "Some ([], s)"])
qed

lemma reads_and_part:
  "reads_prefix x s \<Longrightarrow> (\<And>t. reads_prefix (part t) t) \<Longrightarrow> reads_prefix (and_part x part) s"
  by (fastforce simp: reads_prefix_def and_part_def prepend_def split: option.splits prod.splits)

lemma number_literal_splits: "number_literal s = Some (lit, rest) \<Longrightarrow> lit @ rest = s"
proof -
  have "reads_prefix (number_literal s) s"
    unfolding number_literal_def by (intro reads_and_part reads_parts)
  then show "number_literal s = Some (lit, rest) \<Longrightarrow> lit @ rest = s" by (simp add: reads_prefix_def)
qed

lemma number_literal_nonempty: "number_literal s = Some (lit, rest) \<Longrightarrow> lit \<noteq> []"
proof -
  have int: "lit \<noteq> []" if "integer_part s = Some (lit, rest)" for s lit rest
    using that by (cases s) (auto simp: integer_part_def take_digits_def split: if_splits)
  assume "number_literal s = Some (lit, rest)"
  then show ?thesis
    by (auto simp: number_literal_def and_part_def prepend_Some split: option.splits dest: int)
qed

subsection \<open>Tokens\<close>

datatype token =
    OpenObject | CloseObject | OpenArray | CloseArray | Colon | Comma | Scalar json

definition blank :: "char \<Rightarrow> bool" where
  "blank c = (c \<in> {byte 32, byte 9, byte 10, byte 13})"

definition punctuation :: "char \<Rightarrow> token option" where
  "punctuation c =
     map_of [(CHR ''{'', OpenObject), (CHR ''}'', CloseObject), (CHR ''['', OpenArray), (CHR '']'', CloseArray),
       (CHR '':'', Colon), (CHR '','', Comma)] c"

definition scalar :: "string \<Rightarrow> (json \<times> string) option" where
  "scalar s =
     (if prefix [CHR 0x22] s then map_option (\<lambda>(t, rest). (JString t, rest)) (string_body (tl s))
      else if prefix ''true'' s then Some (JBool True, drop 4 s)
      else if prefix ''false'' s then Some (JBool False, drop 5 s)
      else if prefix ''null'' s then Some (JNull, drop 4 s)
      else map_option (\<lambda>(lit, rest). (JNumber lit, rest)) (number_literal s))"

definition next_token :: "string \<Rightarrow> (token \<times> string) option" where
  "next_token s =
     (case dropWhile blank s of
        [] \<Rightarrow> None
      | c # t \<Rightarrow>
          (case punctuation c of
             Some k \<Rightarrow> Some (k, t)
           | None \<Rightarrow> map_option (\<lambda>(v, rest). (Scalar v, rest)) (scalar (c # t))))"

lemma scalar_shorter:
  assumes v: "scalar s = Some (v, rest)"
  shows "length rest < length s"
proof -
  consider (string) t where "prefix [CHR 0x22] s" "string_body (tl s) = Some (t, rest)"
    | (word) w where "prefix w s" "w \<noteq> []" "rest = drop (length w) s"
    | (number) lit where "number_literal s = Some (lit, rest)"
  proof (cases "prefix [CHR 0x22] s")
    case True
    then show ?thesis using v string by (auto simp: scalar_def)
  next
    case False
    with v word [of "''true''"] word [of "''false''"] word [of "''null''"] number show ?thesis
      unfolding scalar_def by (auto simp: numeral_eq_Suc split: if_split_asm)
  qed
  then show ?thesis
  proof cases
    case string
    then show ?thesis using string_body_shorter [of "tl s" t rest] by (cases s) auto
  next
    case word
    then show ?thesis by (auto simp: prefix_def)
  next
    case number
    from number_literal_splits [OF number] number_literal_nonempty [OF number] show ?thesis by auto
  qed
qed

lemma next_token_shorter: "next_token s = Some (k, rest) \<Longrightarrow> length rest < length s"
proof -
  assume k: "next_token s = Some (k, rest)"
  then obtain c t where s: "dropWhile blank s = c # t" by (auto simp: next_token_def split: list.splits)
  have "length rest < length (c # t)"
    using k s by (auto simp: next_token_def split: option.splits dest: scalar_shorter)
  moreover have "length (dropWhile blank s) \<le> length s" by (rule length_dropWhile_le)
  ultimately show ?thesis using s by simp
qed

subsection \<open>The scanner\<close>

text \<open>
  What the scanner expects next, and the frames of the open arrays and objects with what they have
  collected: a member whose value is being read keeps its key.
\<close>

datatype scan_mode =
    WantValue
  | WantValueOrClose
  | WantKey
  | WantKeyOrClose
  | WantColon string
  | HaveValue json

datatype frame =
    InArray "json list"
  | InObject "(string \<times> json) list"
  | InMember "(string \<times> json) list" string

definition max_nesting_depth :: nat where "max_nesting_depth = 10000"

definition push_frame :: "frame \<Rightarrow> scan_mode \<Rightarrow> frame list \<Rightarrow> (scan_mode \<times> frame list) option" where
  "push_frame f m st = (if length st < max_nesting_depth then Some (m, f # st) else None)"

definition opens :: "token \<Rightarrow> frame list \<Rightarrow> (scan_mode \<times> frame list) option" where
  "opens k st =
     (case k of
        Scalar v \<Rightarrow> Some (HaveValue v, st)
      | OpenArray \<Rightarrow> push_frame (InArray []) WantValueOrClose st
      | OpenObject \<Rightarrow> push_frame (InObject []) WantKeyOrClose st
      | _ \<Rightarrow> None)"

definition takes_key :: "token \<Rightarrow> frame list \<Rightarrow> (scan_mode \<times> frame list) option" where
  "takes_key k st = (case k of Scalar (JString key) \<Rightarrow> Some (WantColon key, st) | _ \<Rightarrow> None)"

fun after_value :: "json \<Rightarrow> token \<Rightarrow> frame list \<Rightarrow> (scan_mode \<times> frame list) option" where
  "after_value v k (InArray vs # st) =
     (if k = Comma then Some (WantValue, InArray (vs @ [v]) # st)
      else if k = CloseArray then Some (HaveValue (JArray (vs @ [v])), st)
      else None)"
| "after_value v k (InMember ms key # st) =
     (if k = Comma then Some (WantKey, InObject (ms @ [(key, v)]) # st)
      else if k = CloseObject then Some (HaveValue (JObject (ms @ [(key, v)])), st)
      else None)"
| "after_value v k st = None"

definition transition :: "scan_mode \<Rightarrow> token \<Rightarrow> frame list \<Rightarrow> (scan_mode \<times> frame list) option" where
  "transition m k st =
     (case m of
        WantValue \<Rightarrow> opens k st
      | WantValueOrClose \<Rightarrow> if k = CloseArray then Some (HaveValue (JArray []), tl st) else opens k st
      | WantKey \<Rightarrow> takes_key k st
      | WantKeyOrClose \<Rightarrow> if k = CloseObject then Some (HaveValue (JObject []), tl st) else takes_key k st
      | WantColon key \<Rightarrow>
          (case st of
             InObject ms # st' \<Rightarrow> if k = Colon then Some (WantValue, InMember ms key # st') else None
           | _ \<Rightarrow> None)
      | HaveValue v \<Rightarrow> after_value v k st)"

fun finished :: "scan_mode \<Rightarrow> frame list \<Rightarrow> json option" where
  "finished (HaveValue v) [] = Some v"
| "finished _ _ = None"

function scan_from :: "scan_mode \<Rightarrow> frame list \<Rightarrow> string \<Rightarrow> (json \<times> string) option" where
  "scan_from m st s =
     (case finished m st of
        Some v \<Rightarrow> Some (v, s)
      | None \<Rightarrow>
          (case next_token s of
             None \<Rightarrow> None
           | Some (k, rest) \<Rightarrow>
               (case transition m k st of
                  None \<Rightarrow> None
                | Some (m', st') \<Rightarrow> scan_from m' st' rest)))"
  by pat_completeness auto
termination
  by (relation "measure (\<lambda>(m, st, s). length s)") (auto dest: next_token_shorter)

declare scan_from.simps [simp del]

text \<open>The next value of \<open>Decoder.Decode\<close>, and the whole text of \<open>json.Unmarshal\<close>.\<close>

definition read_value :: "string \<Rightarrow> (json \<times> string) option" where
  "read_value s = scan_from WantValue [] s"

definition read_document :: "string \<Rightarrow> json option" where
  "read_document s =
     (case read_value s of
        None \<Rightarrow> None
      | Some (v, rest) \<Rightarrow> if json_blank rest then Some v else None)"

end
