(* ===== verification/Json_Roundtrip.thy ===== *)
theory Json_Roundtrip
  imports Json_Scan
begin

text \<open>
  The scanner reads back what \<open>json.Marshal\<close> prints, for a document whose strings are valid UTF-8,
  with the text after it left over. Every string the scanner yields is valid UTF-8, so this
  holds for every document that is built from strings that were read before.
\<close>

subsection \<open>Valid UTF-8\<close>

function utf8_valid :: "string \<Rightarrow> bool" where
  "utf8_valid s =
     (if s = [] then True else if utf8_width s = 0 then False else utf8_valid (drop (utf8_width s) s))"
  by pat_completeness auto
termination
  by (relation "measure length") auto

declare utf8_valid.simps [simp del]

lemma utf8_valid_Nil [simp]: "utf8_valid []"
  by (simp add: utf8_valid.simps)

lemma utf8_valid_step: "utf8_valid s \<Longrightarrow> s \<noteq> [] \<Longrightarrow> utf8_width s \<noteq> 0 \<and> utf8_valid (drop (utf8_width s) s)"
  by (simp add: utf8_valid.simps [of s] split: if_splits)

lemma utf8_width_append: "utf8_width s \<noteq> 0 \<Longrightarrow> utf8_width (s @ t) = utf8_width s"
  by (cases s; cases "tl s"; cases "tl (tl s)"; cases "tl (tl (tl s))")
     (auto simp: utf8_width_def split: if_splits list.splits)

lemma utf8_width_le: "utf8_width s \<le> length s"
  by (simp add: utf8_width_def split: list.splits)

lemma utf8_width_take: "utf8_width s \<noteq> 0 \<Longrightarrow> utf8_width (take (utf8_width s) s @ t) = utf8_width s"
  by (cases s; cases "tl s"; cases "tl (tl s)"; cases "tl (tl (tl s))")
     (auto simp: utf8_width_def split: if_splits)

lemma utf8_valid_append: "utf8_valid s \<Longrightarrow> utf8_valid (s @ t) \<longleftrightarrow> utf8_valid t"
proof (induction s rule: utf8_valid.induct)
  case (1 s)
  show ?case
  proof (cases "s = []")
    case False
    then have w: "utf8_width s \<noteq> 0" and rest: "utf8_valid (drop (utf8_width s) s)"
      using 1(2) by (simp_all add: utf8_valid_step)
    have "drop (utf8_width s) (s @ t) = drop (utf8_width s) s @ t"
      using utf8_width_le by simp
    then show ?thesis
      using 1(1) False w rest by (subst utf8_valid.simps) (simp add: utf8_width_append)
  qed simp
qed

lemma utf8_valid_chunk: "utf8_width d = length d \<Longrightarrow> d \<noteq> [] \<Longrightarrow> utf8_valid d"
  by (simp add: utf8_valid.simps)

lemma utf8_valid_ascii: "list_all (\<lambda>c. code_of c < 128) s \<Longrightarrow> utf8_valid s"
  by (induction s) (simp_all add: utf8_valid.simps [of "_ # _"] utf8_width_def)

text \<open>Encoded code points are valid.\<close>

lemma code_of_byte: "n < 256 \<Longrightarrow> code_of (byte n) = n"
  by (simp add: byte_def)

lemma encode_rune_valid:
  assumes "n < 1114112" and "n < 55296 \<or> 57344 \<le> n"
  shows "utf8_valid (encode_rune n)"
proof (rule utf8_valid_chunk)
  note widths = encode_rune_def utf8_width_def between_def continuation_def code_of_byte
  have low: "x mod 64 \<le> 63" for x :: nat using mod_less_divisor [of 64 x] by linarith
  show "encode_rune n \<noteq> []" by (simp add: encode_rune_def)
  define a where "a = n div 64"
  consider "n < 128" | "128 \<le> n" "n < 2048" | "2048 \<le> n" "n < 65536" | "65536 \<le> n" by linarith
  then show "utf8_width (encode_rune n) = length (encode_rune n)"
  proof cases
    case 1
    then show ?thesis by (simp add: widths)
  next
    case 2
    then have "2 \<le> n div 64" "n div 64 < 32" by linarith+
    with 2 show ?thesis by (simp add: widths)
  next
    case 3
    define b where "b = a div 64"
    have "n div 4096 = b" by (simp add: div_mult2_eq [symmetric] a_def b_def)
    moreover have "32 \<le> a" "a < 1024" "a < 864 \<or> 896 \<le> a" using 3 assms(2) unfolding a_def by linarith+
    moreover have "64 * b + a mod 64 = a" "a mod 64 < 64" by (simp_all add: b_def)
    then have "b < 16" "b = 0 \<longrightarrow> 32 \<le> a mod 64" "b = 13 \<longrightarrow> a mod 64 \<le> 31"
      using \<open>32 \<le> a\<close> \<open>a < 1024\<close> \<open>a < 864 \<or> 896 \<le> a\<close> by linarith+
    ultimately show ?thesis using 3 by (simp add: widths low flip: a_def)
  next
    case 4
    define b where "b = a div 64"
    define c where "c = b div 64"
    have "n div 4096 = b" "n div 262144 = c" by (simp_all add: div_mult2_eq [symmetric] a_def b_def c_def)
    moreover have "16 \<le> b" "b < 272" using 4 assms(1) unfolding a_def b_def by linarith+
    moreover have "64 * c + b mod 64 = b" "b mod 64 < 64" by (simp_all add: c_def)
    then have "c < 5" "c = 0 \<longrightarrow> 16 \<le> b mod 64" "c = 0 \<longrightarrow> b \<le> 63" "c = 4 \<longrightarrow> b mod 64 \<le> 15"
      using \<open>16 \<le> b\<close> \<open>b < 272\<close> by linarith+
    ultimately show ?thesis using 4 by (simp add: widths low flip: a_def)
  qed
qed

subsection \<open>Strings\<close>

lemma hex_value_digit: "k < 16 \<Longrightarrow> hex_value (hex_digits ! k) = Some k"
proof -
  have "list_all (\<lambda>k. hex_value (hex_digits ! k) = Some k) [0, 1, 2, 3, 4, 5, 6, 7, 8, 9, 10, 11, 12, 13, 14, 15]"
    by (simp add: hex_digits_def hex_value_def)
  moreover assume "k < 16"
  ultimately show ?thesis by (auto simp: list_all_iff less_Suc_eq numeral_eq_Suc)
qed

lemma hex4_byte: "hex4 (''00'' @ hex_byte c @ t) = Some (code_of c)"
proof -
  have "code_of c < 256" by simp
  then have "code_of c div 16 < 16" by linarith
  moreover have "hex_value (CHR ''0'') = Some 0" by (simp add: hex_value_def)
  ultimately show ?thesis by (simp add: hex4_def hex_byte_def Let_def hex_value_digit)
qed

lemma byte_literals:
  "byte 92 = CHR 0x5C" "byte 8 = CHR 0x08" "byte 9 = CHR 0x09" "byte 10 = CHR 0x0A" "byte 12 = CHR 0x0C"
  "byte 13 = CHR 0x0D" "byte 32 = CHR 0x20"
  by code_simp+

text \<open>One ASCII character is escaped so that the scanner reads it back.\<close>

lemma read_escape_ascii:
  assumes c: "code_of c < 128"
  shows "string_char (escape_ascii c @ t) = Some ([c], t)" "escape_ascii c \<noteq> []" "hd (escape_ascii c) \<noteq> CHR 0x22"
proof -
  have byte: "byte (code_of c) = c" by (simp add: byte_def)
  have specials: "list_all (\<lambda>(c, e). escape_ascii c = [byte 92, e] \<and> simple_escape e = Some c)
    [(CHR 0x22, CHR 0x22), (byte 92, byte 92), (byte 8, CHR ''b''), (byte 12, CHR ''f''), (byte 10, CHR ''n''),
     (byte 13, CHR ''r''), (byte 9, CHR ''t'')]"
    by (simp add: escape_ascii_def simple_escape_def byte_literals)
  have control: "string_char (byte 92 # ''u00'' @ hex_byte c @ t) = Some ([c], t)"
    using hex4_byte [of c t] c byte
    by (simp add: string_char_def take_unicode_def simple_escape_def encode_rune_def hex_byte_def Let_def byte_literals)
  have short: "string_char (byte 92 # e # t) = Some ([d], t)" if "simple_escape e = Some d" for e d
    using that by (simp add: string_char_def)
  have plain: "string_char (c # t) = Some ([c], t)" if "c \<noteq> byte 92" "\<not> code_of c < 32"
    using that c by (simp add: string_char_def utf8_width_def)
  let ?special = "c \<in> set [CHR 0x22, byte 92, byte 8, byte 12, byte 10, byte 13, byte 9]"
  let ?hex = "code_of c < 32 \<or> c \<in> set ''<>&''"
  consider "?special" | "escape_ascii c = byte 92 # ''u00'' @ hex_byte c"
    | "escape_ascii c = [c]" "c \<noteq> CHR 0x22" "c \<noteq> byte 92" "\<not> code_of c < 32"
  proof (cases "?special")
    case other: False
    then have "escape_ascii c = (if ?hex then byte 92 # ''u00'' @ hex_byte c else [c])"
      unfolding escape_ascii_def by simp
    with other that(2,3) show ?thesis by (cases ?hex) auto
  qed (rule that(1))
  then have "string_char (escape_ascii c @ t) = Some ([c], t) \<and> escape_ascii c \<noteq> [] \<and> hd (escape_ascii c) \<noteq> CHR 0x22"
  proof cases
    case 1
    then obtain e where "escape_ascii c = [byte 92, e]" "simple_escape e = Some c"
      using specials by auto
    then show ?thesis
      using short by (simp_all add: byte_literals)
  next
    case 2
    then show ?thesis
      using control by (simp_all add: byte_literals)
  next
    case 3
    then show ?thesis
      using plain by simp_all
  qed
  then show "string_char (escape_ascii c @ t) = Some ([c], t)" "escape_ascii c \<noteq> []" "hd (escape_ascii c) \<noteq> CHR 0x22"
    by simp_all
qed

lemma string_body_char:
  assumes "s \<noteq> []" "hd s \<noteq> CHR 0x22" "string_char s = Some (d, t)"
  shows "string_body s = prepend d (string_body t)"
  using assms by (subst string_body.simps) (auto split: list.splits)

lemma read_multibyte:
  assumes "utf8_width s \<noteq> 0" "128 \<le> code_of (hd s)" "s \<noteq> []"
  shows "string_char (take (utf8_width s) s @ t) = Some (take (utf8_width s) s, t)"
    "take (utf8_width s) s \<noteq> []" "hd (take (utf8_width s) s @ t) \<noteq> CHR 0x22"
proof -
  let ?d = "take (utf8_width s) s"
  have "hd (?d @ t) = hd s" "?d @ t \<noteq> []" using assms by (cases s; simp add: take_Cons')+
  moreover have "hd s \<noteq> byte 92" "hd s \<noteq> CHR 0x22" using assms(2) by (auto simp: byte_literals)
  moreover have "length ?d = utf8_width s" using utf8_width_le [of s] by simp
  ultimately show "string_char (?d @ t) = Some (?d, t)" "?d \<noteq> []" "hd (?d @ t) \<noteq> CHR 0x22"
    using assms by (simp_all add: string_char_def utf8_width_take)
qed

lemma read_separator:
  "string_char (byte 92 # ''u2028'' @ t) = Some ([byte 226, byte 128, byte 168], t)"
  "string_char (byte 92 # ''u2029'' @ t) = Some ([byte 226, byte 128, byte 169], t)"
proof -
  have "hex4 (''2028'' @ t) = Some 8232" "hex4 (''2029'' @ t) = Some 8233"
    by (simp_all add: hex4_def hex_value_def)
  then show "string_char (byte 92 # ''u2028'' @ t) = Some ([byte 226, byte 128, byte 168], t)"
    "string_char (byte 92 # ''u2029'' @ t) = Some ([byte 226, byte 128, byte 169], t)"
    by (simp_all add: string_char_def take_unicode_def simple_escape_def encode_rune_def byte_literals)
qed

lemma width_separator:
  "take 3 s = [byte 226, byte 128, byte 168] \<Longrightarrow> utf8_width s = 3"
  "take 3 s = [byte 226, byte 128, byte 169] \<Longrightarrow> utf8_width s = 3"
  by (cases s; cases "tl s"; cases "tl (tl s)";
      simp add: utf8_width_def between_def continuation_def code_of_byte numeral_eq_Suc)+

lemma read_escaped: "utf8_valid s \<Longrightarrow> string_body (escape_string s @ CHR 0x22 # t) = Some (s, t)"
proof (induction s rule: utf8_valid.induct)
  case (1 s)
  show ?case
  proof (cases s)
    case Nil
    then show ?thesis by (simp add: escape_string.simps string_body.simps [of "CHR 0x22 # t"])
  next
    case (Cons c u)
    let ?w = "utf8_width s"
    have w: "?w \<noteq> 0" and "utf8_valid (drop ?w s)"
      using utf8_valid_step [OF 1(2)] Cons by simp_all
    then have rest: "string_body (escape_string (drop ?w s) @ CHR 0x22 # t) = Some (drop ?w s, t)"
      using 1(1) Cons by simp
    have char: ?thesis if "escape_string s = d @ escape_string (drop ?w s)" "d \<noteq> []" "hd d \<noteq> CHR 0x22"
      "\<And>x. string_char (d @ x) = Some (take ?w s, x)" for d
      using that rest by (subst string_body_char) (auto simp: prepend_def)
    consider (ascii) "code_of c < 128"
      | (sep) n where "128 \<le> code_of c" "n \<in> {168, 169}" "take 3 s = [byte 226, byte 128, byte n]"
      | (multi) "128 \<le> code_of c" "take 3 s \<noteq> [byte 226, byte 128, byte 168]" "take 3 s \<noteq> [byte 226, byte 128, byte 169]"
      by fastforce
    then show ?thesis
    proof cases
      case ascii
      then have "?w = 1" by (simp add: Cons utf8_width_def)
      with ascii show ?thesis
        by (intro char [of "escape_ascii c"]) (simp_all add: Cons escape_string.simps [of "c # u"] read_escape_ascii)
    next
      case sep
      then have "?w = 3" using width_separator by auto
      moreover have "escape_string s = byte 92 # (if n = 168 then ''u2028'' else ''u2029'') @ escape_string (drop 3 s)"
        using sep w Cons by (subst escape_string.simps) (auto simp: byte_def)
      ultimately show ?thesis
        using sep read_separator by (intro char [of "byte 92 # (if n = 168 then ''u2028'' else ''u2029'')"]) (auto simp: byte_literals)
    next
      case multi
      have "escape_string s = take ?w s @ escape_string (drop ?w s)"
        using multi w Cons by (subst escape_string.simps) auto
      then show ?thesis
        using read_multibyte [of s] multi w Cons by (intro char [of "take ?w s"]) auto
    qed
  qed
qed

lemma read_quoted: "utf8_valid s \<Longrightarrow> scalar (quoted s @ t) = Some (JString s, t)"
  by (simp add: scalar_def quoted_def read_escaped)

subsection \<open>Documents\<close>

text \<open>
  Documents whose strings are valid and whose numbers are number literals, nested at most \<open>n\<close> deep.
  A number ends where a character follows that cannot continue it.
\<close>

definition delimits :: "string \<Rightarrow> bool" where
  "delimits t = (t = [] \<or> hd t \<in> set '',]}'')"

lemma delimits_punctuation [simp]:
  "delimits (CHR '','' # t)" "delimits (CHR '']'' # t)" "delimits (CHR ''}'' # t)" "delimits []"
  by (simp_all add: delimits_def)

text \<open>A part of a number reads the same if a delimiter follows.\<close>

definition stops_at_delimiter :: "(string \<Rightarrow> (string \<times> string) option) \<Rightarrow> bool" where
  "stops_at_delimiter part \<longleftrightarrow>
     (\<forall>s a b t. part s = Some (a, b) \<longrightarrow> delimits t \<longrightarrow> part (s @ t) = Some (a, b @ t))"

lemma take_digits_stops: "take_digits s = Some (a, b) \<Longrightarrow> delimits t \<Longrightarrow> take_digits (s @ t) = Some (a, b @ t)"
proof -
  assume s: "take_digits s = Some (a, b)" and t: "delimits t"
  have "takeWhile is_digit t = []" "dropWhile is_digit t = t"
    using t by (cases t; auto simp: delimits_def is_digit_def between_def)+
  then have "takeWhile is_digit (s @ t) = takeWhile is_digit s" "dropWhile is_digit (s @ t) = dropWhile is_digit s @ t"
    by (induction s) auto
  with s show ?thesis by (auto simp: take_digits_def split: if_splits)
qed

lemma prefix_delimited: "delimits t \<Longrightarrow> c \<notin> set '',]}'' \<Longrightarrow> prefix [c] (s @ t) \<longleftrightarrow> prefix [c] s"
  by (cases s; cases t) (auto simp: delimits_def)

lemma prepend_digits_stops:
  "prepend d (take_digits s) = Some (a, b) \<Longrightarrow> delimits t \<Longrightarrow> prepend d (take_digits (s @ t)) = Some (a, b @ t)"
  by (auto simp: prepend_Some dest: take_digits_stops)

lemma parts_stop:
  "stops_at_delimiter sign_part" "stops_at_delimiter integer_part"
  "stops_at_delimiter fraction_part" "stops_at_delimiter exponent_part"
proof -
  have len: "Suc 0 \<le> length s" if "prefix [c] s" for c and s :: string using that by (cases s) auto
  show "stops_at_delimiter sign_part"
    by (auto simp: stops_at_delimiter_def sign_part_def prefix_delimited dest: len)
  show "stops_at_delimiter integer_part"
    by (auto simp: stops_at_delimiter_def integer_part_def prefix_delimited take_digits_stops dest: len)
  show "stops_at_delimiter fraction_part"
    by (auto simp: stops_at_delimiter_def fraction_part_def prefix_delimited prepend_digits_stops
        split: if_splits dest: len)
  have exp: "exponent_part (s @ t) = Some (a, b @ t)"
    if part: "exponent_part s = Some (a, b)" and t: "delimits t" for s a b t
  proof (cases "prefix ''e'' s \<or> prefix ''E'' s")
    case True
    then obtain c u where s: "s = c # u" by (cases s) auto
    have sign: "prefix ''+'' (u @ t) \<longleftrightarrow> prefix ''+'' u" "prefix ''-'' (u @ t) \<longleftrightarrow> prefix ''-'' u"
      using t by (simp_all add: prefix_delimited)
    define n :: nat where "n = (if prefix ''+'' u \<or> prefix ''-'' u then 2 else 1)"
    have n: "n \<le> length s" by (cases u) (simp_all add: n_def s)
    have "prepend (take n s) (take_digits (drop n s)) = Some (a, b)"
      using part True by (simp add: exponent_part_def s n_def Let_def)
    then have "prepend (take n s) (take_digits (drop n s @ t)) = Some (a, b @ t)"
      using t by (rule prepend_digits_stops)
    moreover have "exponent_part (s @ t) = prepend (take n (s @ t)) (take_digits (drop n (s @ t)))"
      using True by (simp add: exponent_part_def s n_def sign Let_def)
    ultimately show ?thesis using n by simp
  next
    case False
    with part t show ?thesis by (simp add: exponent_part_def prefix_delimited)
  qed
  show "stops_at_delimiter exponent_part" using exp by (simp add: stops_at_delimiter_def)
qed

lemma number_stops:
  assumes "number_literal s = Some (a, b)" "delimits t"
  shows "number_literal (s @ t) = Some (a, b @ t)"
proof -
  let ?ext = "\<lambda>x x'. \<forall>a b. x = Some (a, b) \<longrightarrow> x' = Some (a, b @ t)"
  have join: "?ext (and_part x part) (and_part x' part)" if "?ext x x'" "stops_at_delimiter part" for x x' part
    using that assms(2) by (cases x) (fastforce simp: and_part_def prepend_Some stops_at_delimiter_def)+
  have "?ext (sign_part s) (sign_part (s @ t))"
    using parts_stop(1) assms(2) by (simp add: stops_at_delimiter_def)
  from join [OF join [OF join [OF this parts_stop(2)] parts_stop(3)] parts_stop(4)] show ?thesis
    using assms(1) by (simp add: number_literal_def)
qed

lemma number_head:
  assumes "number_literal s = Some (a, b)"
  shows "s \<noteq> [] \<and> (hd s = CHR ''-'' \<or> is_digit (hd s))"
proof (cases "prefix ''-'' s")
  case False
  then obtain c d where "integer_part s = Some (c, d)"
    using assms by (auto simp: number_literal_def and_part_def sign_part_def prepend_Some split: option.splits)
  then show ?thesis
    by (cases s) (auto simp: integer_part_def take_digits_def is_digit_def between_def split: if_splits)
qed (cases s; simp)

definition number_text :: "string \<Rightarrow> bool" where
  "number_text lit = (number_literal lit = Some (lit, []))"

lemma next_number:
  assumes lit: "number_text lit" and t: "delimits t"
  shows "next_token (lit @ t) = Some (Scalar (JNumber lit), t)"
proof -
  have num: "number_literal (lit @ t) = Some (lit, t)"
    using number_stops [of lit lit "[]" t] lit t by (simp add: number_text_def)
  from lit have head: "lit \<noteq> []" "hd lit = CHR ''-'' \<or> is_digit (hd lit)"
    using number_head unfolding number_text_def by blast+
  then obtain c u where s: "lit @ t = c # u" and c: "c = CHR ''-'' \<or> is_digit c" by (cases lit) auto
  have "\<not> blank c" "punctuation c = None" "c \<noteq> CHR 0x22" "c \<noteq> CHR ''t''" "c \<noteq> CHR ''f''" "c \<noteq> CHR ''n''"
    using c by (auto simp: blank_def punctuation_def byte_literals is_digit_def between_def)
  then show ?thesis using num s by (simp add: next_token_def scalar_def)
qed

fun printable :: "nat \<Rightarrow> json \<Rightarrow> bool" where
  "printable n JNull = True"
| "printable n (JBool b) = True"
| "printable n (JNumber lit) = number_text lit"
| "printable n (JString s) = utf8_valid s"
| "printable n (JArray vs) = (0 < n \<and> list_all (printable (n - 1)) vs)"
| "printable n (JObject ms) = (0 < n \<and> list_all (\<lambda>(k, v). utf8_valid k \<and> printable (n - 1) v) ms)"

lemma scan_step:
  "next_token s = Some (k, rest) \<Longrightarrow> transition m k st = Some (m', st') \<Longrightarrow> finished m st = None \<Longrightarrow>
   scan_from m st s = scan_from m' st' rest"
  by (subst scan_from.simps) simp

lemma next_punctuation [simp]:
  "next_token (CHR ''{'' # t) = Some (OpenObject, t)" "next_token (CHR ''}'' # t) = Some (CloseObject, t)"
  "next_token (CHR ''['' # t) = Some (OpenArray, t)" "next_token (CHR '']'' # t) = Some (CloseArray, t)"
  "next_token (CHR '':'' # t) = Some (Colon, t)" "next_token (CHR '','' # t) = Some (Comma, t)"
  by (simp_all add: next_token_def blank_def punctuation_def byte_literals)

lemma next_scalar:
  assumes "scalar s = Some (v, t)" "s \<noteq> []" "hd s \<in> set [CHR 0x22, CHR ''t'', CHR ''f'', CHR ''n'']"
  shows "next_token s = Some (Scalar v, t)"
proof -
  have "\<not> blank (hd s)" "punctuation (hd s) = None"
    using assms(3) by (auto simp: blank_def punctuation_def byte_literals)
  with assms show ?thesis by (cases s) (simp_all add: next_token_def)
qed

lemma next_quoted: "utf8_valid s \<Longrightarrow> next_token (quoted s @ t) = Some (Scalar (JString s), t)"
  by (rule next_scalar) (simp_all add: read_quoted, simp_all add: quoted_def)

lemma next_words [simp]:
  "next_token (''true'' @ t) = Some (Scalar (JBool True), t)" "next_token (''false'' @ t) = Some (Scalar (JBool False), t)"
  "next_token (''null'' @ t) = Some (Scalar JNull, t)"
  by (rule next_scalar; simp add: scalar_def)+

definition wants_value :: "scan_mode \<Rightarrow> bool" where
  "wants_value m = (m = WantValue \<or> m = WantValueOrClose)"

definition wants_key :: "scan_mode \<Rightarrow> bool" where
  "wants_key m = (m = WantKey \<or> m = WantKeyOrClose)"

lemma scan_opens:
  "wants_value m \<Longrightarrow> next_token s = Some (k, rest) \<Longrightarrow> k \<noteq> CloseArray \<Longrightarrow> opens k st = Some (m', st') \<Longrightarrow>
   scan_from m st s = scan_from m' st' rest"
  by (rule scan_step [of s k]) (auto simp: wants_value_def transition_def)

lemma scan_key:
  assumes "wants_key m" "utf8_valid k"
  shows "scan_from m (InObject ms # st) (quoted k @ CHR '':'' # t) = scan_from WantValue (InMember ms k # st) t"
proof -
  have "scan_from m (InObject ms # st) (quoted k @ CHR '':'' # t) = scan_from (WantColon k) (InObject ms # st) (CHR '':'' # t)"
    using assms by (intro scan_step [OF next_quoted]) (auto simp: wants_key_def transition_def takes_key_def)
  also have "\<dots> = scan_from WantValue (InMember ms k # st) t"
    by (rule scan_step [OF next_punctuation(5)]) (simp_all add: transition_def)
  finally show ?thesis .
qed

lemma scan_after:
  "next_token s = Some (k, rest) \<Longrightarrow> after_value v k st = Some (m', st') \<Longrightarrow>
   scan_from (HaveValue v) st s = scan_from m' st' rest"
  by (cases st) (auto intro!: scan_step simp: transition_def)

text \<open>In any state that waits for a value, reading a printed document leaves the scanner with that value.\<close>

lemma scan_marshal:
  "printable (max_nesting_depth - length st) j \<Longrightarrow> wants_value m \<Longrightarrow> delimits t \<Longrightarrow>
     scan_from m st (marshal j @ t) = scan_from (HaveValue j) st t"
  "vs \<noteq> [] \<Longrightarrow> list_all (printable (max_nesting_depth - Suc (length st))) vs \<Longrightarrow> wants_value m \<Longrightarrow>
     scan_from m (InArray us # st) (marshal_items vs @ CHR '']'' # t) = scan_from (HaveValue (JArray (us @ vs))) st t"
  "ms \<noteq> [] \<Longrightarrow> list_all (\<lambda>(k, v). utf8_valid k \<and> printable (max_nesting_depth - Suc (length st)) v) ms \<Longrightarrow> wants_key m \<Longrightarrow>
     scan_from m (InObject ns # st) (marshal_members ms @ CHR ''}'' # t) = scan_from (HaveValue (JObject (ns @ ms))) st t"
proof (induction j and vs and ms arbitrary: st m t and st m t us and st m t ns rule: marshal_marshal_items_marshal_members.induct)
  case 1
  then show ?case using scan_opens [OF _ next_words(3)] by (simp add: opens_def)
next
  case (2 b)
  then show ?case
    using scan_opens [OF _ next_words(1)] scan_opens [OF _ next_words(2)] by (cases b) (simp_all add: opens_def)
next
  case (3 lit)
  then show ?case using scan_opens [OF _ next_number] by (simp add: opens_def)
next
  case (4 s)
  then show ?case using scan_opens [OF _ next_quoted] by (simp add: opens_def)
next
  case (5 vs)
  have open_array: "scan_from m st (CHR ''['' # s) = scan_from WantValueOrClose (InArray [] # st) s" for s
    using 5(2,3) by (intro scan_opens [OF _ next_punctuation(3)]) (auto simp: opens_def push_frame_def)
  show ?case
  proof (cases "vs = []")
    case True
    have "scan_from WantValueOrClose (InArray [] # st) (CHR '']'' # t) = scan_from (HaveValue (JArray [])) st t"
      by (rule scan_step [OF next_punctuation(4)]) (simp_all add: transition_def)
    with True open_array show ?thesis by simp
  next
    case False
    with 5 open_array show ?thesis by (simp add: wants_value_def)
  qed
next
  case (6 ms)
  have open_object: "scan_from m st (CHR ''{'' # s) = scan_from WantKeyOrClose (InObject [] # st) s" for s
    using 6(2,3) by (intro scan_opens [OF _ next_punctuation(1)]) (auto simp: opens_def push_frame_def)
  show ?case
  proof (cases "ms = []")
    case True
    have "scan_from WantKeyOrClose (InObject [] # st) (CHR ''}'' # t) = scan_from (HaveValue (JObject [])) st t"
      by (rule scan_step [OF next_punctuation(2)]) (simp_all add: transition_def)
    with True open_object show ?thesis by simp
  next
    case False
    with 6 open_object show ?thesis by (simp add: wants_key_def)
  qed
next
  case 7
  then show ?case by simp
next
  case (8 v)
  have "scan_from (HaveValue v) (InArray us # st) (CHR '']'' # t) = scan_from (HaveValue (JArray (us @ [v]))) st t"
    by (rule scan_after [OF next_punctuation(4)]) simp
  with 8 show ?case by simp
next
  case (9 v w vs)
  have "scan_from (HaveValue v) (InArray us # st) (CHR '','' # s) = scan_from WantValue (InArray (us @ [v]) # st) s" for s
    by (rule scan_after [OF next_punctuation(6)]) simp
  with 9 show ?case by (simp add: wants_value_def)
next
  case 10
  then show ?case by simp
next
  case (11 k v)
  have "scan_from (HaveValue v) (InMember ns k # st) (CHR ''}'' # t) = scan_from (HaveValue (JObject (ns @ [(k, v)]))) st t"
    by (rule scan_after [OF next_punctuation(2)]) simp
  with 11 show ?case by (simp add: scan_key wants_value_def)
next
  case (12 k v m' ms)
  have "scan_from (HaveValue v) (InMember ns k # st) (CHR '','' # s) = scan_from WantKey (InObject (ns @ [(k, v)]) # st) s" for s
    by (rule scan_after [OF next_punctuation(6)]) simp
  with 12 show ?case by (simp add: scan_key wants_value_def wants_key_def)
qed

theorem read_marshal: "printable max_nesting_depth j \<Longrightarrow> delimits t \<Longrightarrow> read_value (marshal j @ t) = Some (j, t)"
  using scan_marshal(1) [of "[]" j WantValue t]
  by (simp add: read_value_def wants_value_def scan_from.simps [of "HaveValue j"])

subsection \<open>The length of the text\<close>

lemma length_escape_ascii: "length (escape_ascii c) \<le> 6"
  by (simp add: escape_ascii_def hex_byte_def Let_def)

lemma length_escape_string: "length (escape_string s) \<le> 6 * length s"
proof (induction s rule: length_induct)
  case (1 s)
  have step: "length (escape_string t) \<le> 6 * length t" if "length t < length s" for t
    using 1 that by blast
  show ?case
  proof (cases s)
    case (Cons c t)
    have "length (escape_string (drop n s)) \<le> 6 * length (drop n s)" if "0 < n" for n
      using that Cons by (intro step) simp
    from this [of 3] this [of "utf8_width s"] show ?thesis
      using step [of t] length_escape_ascii [of c] Cons
      by (subst escape_string.simps) (auto simp: Let_def)
  qed (simp add: escape_string.simps)
qed

lemma length_quoted: "length (quoted s) \<le> 6 * length s + 2"
  using length_escape_string [of s] by (simp add: quoted_def)

fun print_bound :: "json \<Rightarrow> nat" where
  "print_bound JNull = 4"
| "print_bound (JBool b) = 5"
| "print_bound (JNumber lit) = length lit"
| "print_bound (JString s) = 6 * length s + 2"
| "print_bound (JArray vs) = 2 + sum_list (map (\<lambda>v. print_bound v + 1) vs)"
| "print_bound (JObject ms) = 2 + sum_list (map (\<lambda>(k, v). 6 * length k + print_bound v + 4) ms)"

lemma length_marshal:
  "length (marshal j) \<le> print_bound j"
  "length (marshal_items vs) \<le> sum_list (map (\<lambda>v. print_bound v + 1) vs)"
  "length (marshal_members ms) \<le> sum_list (map (\<lambda>(k, v). 6 * length k + print_bound v + 4) ms)"
proof (induction j and vs and ms rule: marshal_marshal_items_marshal_members.induct)
  case (4 s)
  then show ?case using length_quoted [of s] by simp
next
  case (11 k v)
  then show ?case using length_quoted [of k] by simp
next
  case (12 k v m ms)
  then show ?case using length_quoted [of k] by simp
qed auto

subsection \<open>What is read is valid\<close>

lemma hex_value_bound: "hex_value c = Some k \<Longrightarrow> k < 16"
  by (auto simp: hex_value_def Let_def split: if_splits)

lemma hex4_bound: "hex4 s = Some n \<Longrightarrow> n < 65536"
  by (auto simp: hex4_def split: list.splits option.splits dest!: hex_value_bound)

lemma replacement_valid: "utf8_valid replacement"
  by (rule utf8_valid_chunk) (simp_all add: replacement_def utf8_width_def between_def continuation_def code_of_byte)

lemma take_unicode_valid: "take_unicode s = Some (d, t) \<Longrightarrow> utf8_valid d"
proof -
  have pair: "65536 + (n - 55296) * 1024 + (k - 56320) < 1114112" if "n < 56320" "k < 57344" for n k :: nat
  proof -
    have "n - 55296 \<le> 1023" "k - 56320 \<le> 1023" using that by linarith+
    then show ?thesis by linarith
  qed
  have high: "65536 + (n - 55296) * 1024 + (k - 56320) < 55296 \<or> 57344 \<le> 65536 + (n - 55296) * 1024 + (k - 56320)"
    for n k :: nat by linarith
  assume "take_unicode s = Some (d, t)"
  then show ?thesis
    by (auto simp only: take_unicode_def low_surrogate_def Let_def prod.inject option.inject
        split: option.splits if_splits dest!: hex4_bound intro!: encode_rune_valid replacement_valid pair high; simp)
qed

lemma string_char_valid:
  assumes d: "string_char s = Some (d, t)" and "s \<noteq> []"
  shows "utf8_valid d"
proof (cases "hd s = byte 92")
  case True
  have "utf8_valid [e']" if "simple_escape e = Some e'" for e e'
    using that by (auto simp: simple_escape_def byte_literals split: if_splits intro!: utf8_valid_ascii)
  with True d take_unicode_valid show ?thesis
    by (auto simp: string_char_def split: list.splits option.splits if_splits)
next
  case False
  have "utf8_valid (take (utf8_width s) s)" if "utf8_width s \<noteq> 0"
    using that utf8_width_take [OF that, of "[]"] utf8_width_le [of s] assms(2) by (intro utf8_valid_chunk) auto
  with False d replacement_valid show ?thesis
    by (auto simp: string_char_def split: if_splits)
qed

lemma string_body_valid: "string_body s = Some (t, rest) \<Longrightarrow> utf8_valid t"
proof (induction s arbitrary: t rule: string_body.induct)
  case (1 s)
  show ?case
  proof (cases "s \<noteq> [] \<and> hd s \<noteq> CHR 0x22")
    case True
    then obtain d u where char: "string_char s = Some (d, u)" and "prepend d (string_body u) = Some (t, rest)"
      using 1(2) by (subst (asm) string_body.simps) (auto split: list.splits option.splits)
    then obtain t' where t': "string_body u = Some (t', rest)" "t = d @ t'" by (auto simp: prepend_Some)
    with True char have "utf8_valid t'"
      using 1(1) [of "hd s" "tl s"] by (metis list.collapse)
    with t' string_char_valid [OF char] True show ?thesis by (simp add: utf8_valid_append)
  next
    case False
    then show ?thesis using 1(2) by (subst (asm) string_body.simps) (auto split: list.splits)
  qed
qed

fun valid_json :: "json \<Rightarrow> bool" where
  "valid_json (JString s) = utf8_valid s"
| "valid_json (JArray vs) = list_all valid_json vs"
| "valid_json (JObject ms) = list_all (\<lambda>(k, v). utf8_valid k \<and> valid_json v) ms"
| "valid_json _ = True"

fun valid_frame :: "frame \<Rightarrow> bool" where
  "valid_frame (InArray vs) = list_all valid_json vs"
| "valid_frame (InObject ms) = list_all (\<lambda>(k, v). utf8_valid k \<and> valid_json v) ms"
| "valid_frame (InMember ms k) = (utf8_valid k \<and> list_all (\<lambda>(k, v). utf8_valid k \<and> valid_json v) ms)"

fun valid_mode :: "scan_mode \<Rightarrow> bool" where
  "valid_mode (HaveValue v) = valid_json v"
| "valid_mode (WantColon k) = utf8_valid k"
| "valid_mode _ = True"

lemma scalar_valid: "scalar s = Some (v, rest) \<Longrightarrow> valid_json v"
  unfolding scalar_def by (auto split: if_split_asm dest: string_body_valid)

lemma punctuation_no_scalar: "punctuation c \<noteq> Some (Scalar v)"
  by (simp add: punctuation_def)

lemma next_token_valid: "next_token s = Some (Scalar v, rest) \<Longrightarrow> valid_json v"
  unfolding next_token_def by (auto simp: punctuation_no_scalar split: list.splits option.splits dest: scalar_valid)

lemma transition_valid:
  assumes "transition m k st = Some (m', st')" "valid_mode m" "list_all valid_frame st"
    "\<And>v. k = Scalar v \<Longrightarrow> valid_json v"
  shows "valid_mode m' \<and> list_all valid_frame st'"
proof -
  have opens: "valid_mode m' \<and> list_all valid_frame st'" if "opens k st = Some (m', st')"
    using that assms(3,4) by (auto simp: opens_def push_frame_def split: token.splits if_splits)
  have key: "valid_mode m' \<and> list_all valid_frame st'" if "takes_key k st = Some (m', st')"
    using that assms(3) assms(4) by (fastforce simp: takes_key_def split: token.splits json.splits)
  have after: "valid_mode m' \<and> list_all valid_frame st'" if "after_value v k st = Some (m', st')" "valid_json v" for v
    using that assms(3) by (cases "(v, k, st)" rule: after_value.cases) (auto split: if_splits)
  have tl: "list_all valid_frame (tl st)" using assms(3) by (cases st) auto
  show ?thesis
  proof (cases m)
    case (WantColon x)
    then show ?thesis using assms by (auto simp: transition_def split: list.splits frame.splits if_splits)
  qed (use assms opens key after tl in \<open>auto simp: transition_def split: if_splits\<close>)
qed

lemma scan_valid:
  "scan_from m st s = Some (j, rest) \<Longrightarrow> valid_mode m \<Longrightarrow> list_all valid_frame st \<Longrightarrow> valid_json j"
proof (induction m st s rule: scan_from.induct)
  case (1 m st s)
  show ?case
  proof (cases "finished m st")
    case None
    then obtain k u m' st' where tok: "next_token s = Some (k, u)" and step: "transition m k st = Some (m', st')"
      and "scan_from m' st' u = Some (j, rest)"
      using 1(2) by (subst (asm) scan_from.simps) (auto split: option.splits)
    moreover have "valid_mode m' \<and> list_all valid_frame st'"
      using transition_valid [OF step 1(3,4)] next_token_valid tok by blast
    ultimately show ?thesis using 1(1) None by blast
  next
    case (Some v)
    then have "m = HaveValue v" by (cases m; cases st) auto
    with Some 1(2,3) show ?thesis by (simp add: scan_from.simps)
  qed
qed

theorem read_value_valid: "read_value s = Some (j, rest) \<Longrightarrow> valid_json j"
  using scan_valid [of WantValue "[]"] by (simp add: read_value_def)

end
