(* ===== verification/Json_Target.thy ===== *)
theory Json_Target
  imports Json_Roundtrip "HOL-Library.Word"
begin

text \<open>
  How package \<open>encoding/json\<close> stores a document in a Go value. A target takes a document and the
  value that is there and gives the new value, or \<open>None\<close> where the package reports an error (which
  it does after it has gone through the whole document). \<open>null\<close> leaves strings and structs as they
  are, a later member of the same name overwrites an earlier one.
\<close>

type_synonym 'a target = "json \<Rightarrow> 'a \<Rightarrow> 'a option"

subsection \<open>Strings\<close>

definition text_target :: "string target" where
  "text_target j old = (case j of JString t \<Rightarrow> Some t | JNull \<Rightarrow> Some old | _ \<Rightarrow> None)"

definition text_member :: "((string \<Rightarrow> string) \<Rightarrow> 'a \<Rightarrow> 'a) \<Rightarrow> 'a target" where
  "text_member update j v = (case j of JString t \<Rightarrow> Some (update (\<lambda>_. t) v) | JNull \<Rightarrow> Some v | _ \<Rightarrow> None)"

text \<open>A \<open>*string\<close> and a \<open>map[string]string\<close>, whose elements start empty.\<close>

definition pointer_member :: "((string option \<Rightarrow> string option) \<Rightarrow> 'a \<Rightarrow> 'a) \<Rightarrow> 'a target" where
  "pointer_member update j v =
     (case j of JString t \<Rightarrow> Some (update (\<lambda>_. Some t) v) | JNull \<Rightarrow> Some (update (\<lambda>_. None) v) | _ \<Rightarrow> None)"

fun decode_map :: "(string \<times> json) list \<Rightarrow> gomap \<Rightarrow> gomap option" where
  "decode_map [] m = Some m"
| "decode_map ((k, j) # ms) m =
     (case text_target j [] of None \<Rightarrow> None | Some t \<Rightarrow> decode_map ms (fmupd k t m))"

definition map_member :: "('a \<Rightarrow> gomap) \<Rightarrow> ((gomap \<Rightarrow> gomap) \<Rightarrow> 'a \<Rightarrow> 'a) \<Rightarrow> 'a target" where
  "map_member get update j v =
     (case j of
        JObject ms \<Rightarrow> map_option (\<lambda>m. update (\<lambda>_. m) v) (decode_map ms (get v))
      | JNull \<Rightarrow> Some (update (\<lambda>_. fmempty) v)
      | _ \<Rightarrow> None)"

subsection \<open>Structs\<close>

text \<open>
  Names that \<open>bytes.EqualFold\<close> does not tell apart have the same folded name, if one of them is
  ASCII: letters are folded, and so are the Kelvin sign and the long s.
\<close>

definition fold_letter :: "char \<Rightarrow> char" where
  "fold_letter c = (if between 97 122 c then byte (code_of c - 32) else c)"

function fold_name :: "string \<Rightarrow> string" where
  "fold_name s =
     (if s = [] then []
      else if take 3 s = [byte 226, byte 132, byte 170] then CHR ''K'' # fold_name (drop 3 s)
      else if take 2 s = [byte 197, byte 191] then CHR ''S'' # fold_name (drop 2 s)
      else fold_letter (hd s) # fold_name (tl s))"
  by pat_completeness auto
termination
  by (relation "measure length") auto

declare fold_name.simps [simp del]

lemma fold_name_ascii: "list_all (\<lambda>c. code_of c < 128) s \<Longrightarrow> fold_name s = map fold_letter s"
proof (induction s)
  case (Cons c s)
  then have "c \<noteq> byte 226" "c \<noteq> byte 197" by (auto simp: code_of_byte)
  with Cons show ?case by (subst fold_name.simps) simp
qed (simp add: fold_name.simps)

text \<open>The field of a member: the one with this name, else the first one with this folded name.\<close>

definition find_member :: "(string \<times> 'b) list \<Rightarrow> string \<Rightarrow> 'b option" where
  "find_member fields key =
     (case map_of fields key of
        Some f \<Rightarrow> Some f
      | None \<Rightarrow> map_option snd (find (\<lambda>(name, _). fold_name name = fold_name key) fields))"

lemma find_member_exact [simp]: "find_member ((name, f) # fields) name = Some f"
  by (simp add: find_member_def)

lemma find_member_later [simp]:
  "map_of fields key = Some g \<Longrightarrow> name \<noteq> key \<Longrightarrow> find_member ((name, f) # fields) key = Some g"
  by (simp add: find_member_def)

text \<open>\<open>strict\<close> is \<open>DisallowUnknownFields\<close>.\<close>

fun decode_members :: "bool \<Rightarrow> (string \<times> 'a target) list \<Rightarrow> (string \<times> json) list \<Rightarrow> 'a \<Rightarrow> 'a option" where
  "decode_members strict fields [] v = Some v"
| "decode_members strict fields ((k, j) # ms) v =
     (case find_member fields k of
        None \<Rightarrow> if strict then None else decode_members strict fields ms v
      | Some f \<Rightarrow> (case f j v of None \<Rightarrow> None | Some v' \<Rightarrow> decode_members strict fields ms v'))"

definition struct_target :: "bool \<Rightarrow> (string \<times> 'a target) list \<Rightarrow> 'a target" where
  "struct_target strict fields j v =
     (case j of
        JObject ms \<Rightarrow> decode_members strict fields ms v
      | JNull \<Rightarrow> Some v
      | _ \<Rightarrow> None)"

definition struct_member :: "('a \<Rightarrow> 'b) \<Rightarrow> (('b \<Rightarrow> 'b) \<Rightarrow> 'a \<Rightarrow> 'a) \<Rightarrow> 'b target \<Rightarrow> 'a target" where
  "struct_member get update t j v = map_option (\<lambda>x. update (\<lambda>_. x) v) (t j (get v))"

subsection \<open>Slices\<close>

text \<open>
  An element is decoded into the memory that is there: that of the elements before, also of those
  beyond the length of the slice, and zero memory after them. The memory beyond the length is kept
  beside the struct while it is decoded; an empty array and \<open>null\<close> start anew.
\<close>

fun decode_items :: "'e target \<Rightarrow> 'e \<Rightarrow> json list \<Rightarrow> 'e list \<Rightarrow> 'e list option" where
  "decode_items t zero [] memory = Some []"
| "decode_items t zero (j # js) memory =
     (case t j (case memory of [] \<Rightarrow> zero | x # _ \<Rightarrow> x) of
        None \<Rightarrow> None
      | Some x \<Rightarrow> map_option (Cons x) (decode_items t zero js (tl memory)))"

definition slice_member ::
  "('a \<Rightarrow> 'e list) \<Rightarrow> (('e list \<Rightarrow> 'e list) \<Rightarrow> 'a \<Rightarrow> 'a) \<Rightarrow> 'e target \<Rightarrow> 'e \<Rightarrow> ('a \<times> 'e list) target" where
  "slice_member get update t zero j vm =
     (let memory = get (fst vm) @ snd vm in
      case j of
        JArray js \<Rightarrow>
          map_option (\<lambda>xs. (update (\<lambda>_. xs) (fst vm), if js = [] then [] else drop (length js) memory))
            (decode_items t zero js memory)
      | JNull \<Rightarrow> Some (update (\<lambda>_. []) (fst vm), [])
      | _ \<Rightarrow> None)"

definition beside :: "'a target \<Rightarrow> ('a \<times> 'm) target" where
  "beside t j vm = map_option (\<lambda>v. (v, snd vm)) (t j (fst vm))"

definition strings_of :: "json \<Rightarrow> string list option" where
  "strings_of j =
     (case j of JArray js \<Rightarrow> decode_items text_target [] js [] | JNull \<Rightarrow> Some [] | _ \<Rightarrow> None)"

text \<open>Into fresh memory, the elements of an array are decoded one by one.\<close>

lemma decode_items_fresh:
  "decode_items t zero js [] = Some xs \<longleftrightarrow> list_all2 (\<lambda>j x. t j zero = Some x) js xs"
  by (induction js arbitrary: xs) (auto simp: list_all2_Cons1 split: option.splits)

subsection \<open>Integers and raw values\<close>

text \<open>\<open>strconv.ParseInt\<close> on a number literal: a fraction or an exponent is an error, and so is overflow.\<close>

definition decimal :: "string \<Rightarrow> int" where
  "decimal ds = foldl (\<lambda>n c. n * 10 + (of_char c - 48)) 0 ds"

definition ParseInt64 :: "string \<Rightarrow> 64 word option" where
  "ParseInt64 lit =
     (let negative = HasPrefix lit ''-'';
          ds = (if negative then tl lit else lit);
          n = (if negative then - decimal ds else decimal ds)
      in if ds = [] \<or> \<not> list_all is_digit ds \<or> n < - (2 ^ 63) \<or> 2 ^ 63 \<le> n then None
         else Some (word_of_int n))"

definition int64_member :: "((64 word \<Rightarrow> 64 word) \<Rightarrow> 'a \<Rightarrow> 'a) \<Rightarrow> 'a target" where
  "int64_member update j v =
     (case j of
        JNumber lit \<Rightarrow> map_option (\<lambda>n. update (\<lambda>_. n) v) (ParseInt64 lit)
      | JNull \<Rightarrow> Some v
      | _ \<Rightarrow> None)"

text \<open>A \<open>json.RawMessage\<close> keeps the member, here as the document it is.\<close>

definition raw_member :: "((json option \<Rightarrow> json option) \<Rightarrow> 'a \<Rightarrow> 'a) \<Rightarrow> 'a target" where
  "raw_member update j v = Some (update (\<lambda>_. Some j) v)"

subsection \<open>What a target keeps\<close>

text \<open>
  A property of a Go value that every target of its fields keeps, on documents with valid strings,
  holds of the decoded value.
\<close>

definition target_keeps :: "('a \<Rightarrow> bool) \<Rightarrow> 'a target \<Rightarrow> bool" where
  "target_keeps P t \<longleftrightarrow> (\<forall>j v v'. valid_json j \<longrightarrow> P v \<longrightarrow> t j v = Some v' \<longrightarrow> P v')"

named_theorems target_intros \<open>how targets keep a property\<close>

lemma target_keepsD: "target_keeps P t \<Longrightarrow> t j v = Some v' \<Longrightarrow> valid_json j \<Longrightarrow> P v \<Longrightarrow> P v'"
  by (auto simp: target_keeps_def)

lemma target_keeps_text [target_intros]:
  "(\<And>s v. utf8_valid s \<Longrightarrow> P v \<Longrightarrow> P (update (\<lambda>_. s) v)) \<Longrightarrow> target_keeps P (text_member update)"
  by (auto simp: target_keeps_def text_member_def split: json.splits)

lemma decode_members_keeps:
  "list_all (\<lambda>(name, t). target_keeps P t) fields \<Longrightarrow> list_all (\<lambda>(k, j). valid_json j) ms \<Longrightarrow> P v \<Longrightarrow>
   decode_members strict fields ms v = Some v' \<Longrightarrow> P v'"
proof (induction ms arbitrary: v)
  case (Cons m ms)
  obtain k j where m: "m = (k, j)" by (cases m)
  show ?case
  proof (cases "find_member fields k")
    case (Some t)
    have "\<exists>name. (name, t) \<in> set fields"
    proof (cases "map_of fields k")
      case None
      with Some obtain i where "i < length fields" "snd (fields ! i) = t"
        by (auto simp: find_member_def find_Some_iff)
      then show ?thesis by (metis nth_mem prod.collapse)
    qed (use Some in \<open>auto simp: find_member_def dest: map_of_SomeD\<close>)
    then have "target_keeps P t" using Cons.prems(1) by (auto simp: list_all_iff)
    with Cons Some m show ?thesis by (auto split: option.splits dest: target_keepsD)
  qed (use Cons m in \<open>auto split: if_splits\<close>)
qed simp

lemma target_keeps_struct [target_intros]:
  assumes fields: "list_all (\<lambda>(name, t). target_keeps P t) fields"
  shows "target_keeps P (struct_target strict fields)"
  unfolding target_keeps_def
proof (intro allI impI)
  fix j v v' assume j: "valid_json j" and v: "P v" and t: "struct_target strict fields j v = Some v'"
  show "P v'"
  proof (cases j)
    case (JObject ms)
    then have "list_all (\<lambda>(k, j). valid_json j) ms" using j by (auto simp: list_all_iff)
    with decode_members_keeps [OF fields this v] t JObject show ?thesis by (simp add: struct_target_def)
  qed (use t v in \<open>simp_all add: struct_target_def\<close>)
qed

lemma target_keeps_nested [target_intros]:
  assumes "target_keeps Q t" "\<And>v. P v \<Longrightarrow> Q (get v)" "\<And>x v. Q x \<Longrightarrow> P v \<Longrightarrow> P (update (\<lambda>_. x) v)"
  shows "target_keeps P (struct_member get update t)"
  unfolding target_keeps_def struct_member_def using assms(2,3) target_keepsD [OF assms(1)] by blast

lemma target_keeps_beside [target_intros]:
  "target_keeps P t \<Longrightarrow> target_keeps (\<lambda>(v, memory). P v \<and> list_all Q memory) (beside t)"
  by (auto simp: target_keeps_def beside_def)

lemma decode_items_keeps:
  "target_keeps Q t \<Longrightarrow> Q zero \<Longrightarrow> list_all valid_json js \<Longrightarrow> list_all Q memory \<Longrightarrow>
   decode_items t zero js memory = Some xs \<Longrightarrow> list_all Q xs"
proof (induction js arbitrary: memory xs)
  case (Cons j js)
  have "Q (case memory of [] \<Rightarrow> zero | x # _ \<Rightarrow> x)" "list_all Q (tl memory)"
    using Cons.prems by (cases memory; simp)+
  with Cons show ?case by (auto split: option.splits dest: target_keepsD)
qed simp

lemma target_keeps_slice [target_intros]:
  assumes "target_keeps Q t" "Q zero" "\<And>v. P v \<Longrightarrow> list_all Q (get v)"
    "\<And>xs v. list_all Q xs \<Longrightarrow> P v \<Longrightarrow> P (update (\<lambda>_. xs) v)"
  shows "target_keeps (\<lambda>(v, memory). P v \<and> list_all Q memory) (slice_member get update t zero)"
proof -
  have drop: "list_all Q (drop n xs)" if "list_all Q xs" for n and xs :: "'a list"
    using that by (auto simp: list_all_iff dest: in_set_dropD)
  show ?thesis
    unfolding target_keeps_def
  proof (intro allI impI)
    fix j vm vm'
    assume j: "valid_json j" and vm: "case vm of (v, memory) \<Rightarrow> P v \<and> list_all Q memory"
      and t: "slice_member get update t zero j vm = Some vm'"
    have memory: "list_all Q (get (fst vm) @ snd vm)" using vm assms(3) by (auto split: prod.splits)
    show "case vm' of (v, memory) \<Rightarrow> P v \<and> list_all Q memory"
    proof (cases j)
      case (JArray js)
      then obtain xs where xs: "decode_items t zero js (get (fst vm) @ snd vm) = Some xs"
        and vm': "vm' = (update (\<lambda>_. xs) (fst vm), if js = [] then [] else drop (length js) (get (fst vm) @ snd vm))"
        using t by (auto simp: slice_member_def Let_def)
      have "list_all Q xs"
        using decode_items_keeps [OF assms(1,2) _ memory xs] j JArray by simp
      with assms(4) vm show ?thesis using drop [OF memory] by (auto simp: vm' split: prod.splits)
    qed (use t vm assms(4) [of "[]"] in \<open>auto simp: slice_member_def Let_def split: prod.splits\<close>)
  qed
qed

end
