(* ===== verification/Hostname_Policy.thy ===== *)
theory Hostname_Policy
  imports K8s_Library Json_Target Json_Roundtrip
begin

text \<open>
  \<open>internal/hostnamepolicy/policy.go\<close>: the operator's hostname table. \<open>Host\<close> forms and
  checks a name, \<open>Parse\<close> reads the table and refuses ambiguous ones, \<open>ValidatePublicHost\<close>
  checks every possible name at startup, \<open>Select\<close> picks the name of an instance.
\<close>

subsection \<open>Data\<close>

record entry =
  e_uid :: string
  e_namespace :: string
  e_name :: string
  e_mode :: string
  e_slug :: string

record configuration =
  cfg_cutover :: string
  cfg_entries :: "entry list"

record policy =
  pol_cutover :: time
  pol_entries :: "(string, entry) fmap"

record selection =
  sel_slug :: string
  sel_source :: string

definition Legacy :: string where "Legacy = ''Legacy''"
definition Derived :: string where "Derived = ''Derived''"
definition legacyMode :: string where "legacyMode = ''legacy''"
definition deriveMode :: string where "deriveMode = ''derive''"

text \<open>The regular expression \<open>^ui-[a-f0-9]{32}$\<close>.\<close>

definition reserved :: "string \<Rightarrow> bool" where
  "reserved s = (length s = 35 \<and> take 3 s = ''ui-'' \<and> list_all (\<lambda>c. c \<in> set hex_digits) (drop 3 s))"

subsection \<open>Host and ValidatePublicHost\<close>

definition err_host :: go_error where
  "err_host = ErrNew ''PUBLIC_HOST and selected slug must form a valid DNS hostname''"

definition Host :: "library \<Rightarrow> string \<Rightarrow> string \<Rightarrow> go_error + string" where
  "Host lib base slug =
     (let host = slug @ ''.'' @ TrimSpace base in
      if \<not> dns_label lib slug \<or> \<not> dns_subdomain lib host then Inl err_host
      else if \<not> list_all (dns_label lib) (split_on (CHR ''.'') host) then Inl err_host
      else Inr host)"

definition probe_slug :: string where
  "probe_slug = ''ui-'' @ replicate 32 (CHR ''a'')"

text \<open>
  The loop over \<open>p.entries\<close> returns the first failure, and every failure is the same error,
  so the order in which the map is visited does not matter.
\<close>

definition ValidatePublicHost :: "library \<Rightarrow> policy \<Rightarrow> string \<Rightarrow> go_error option" where
  "ValidatePublicHost lib p base =
     (case Host lib base probe_slug of
        Inl e \<Rightarrow> Some e
      | Inr _ \<Rightarrow>
          if fBall (fmran (pol_entries p))
               (\<lambda>item. e_mode item = legacyMode \<longrightarrow> \<not> isl (Host lib base (e_slug item)))
          then None else Some err_host)"

subsection \<open>Parse\<close>

definition validateEntry :: "library \<Rightarrow> entry \<Rightarrow> go_error option" where
  "validateEntry lib item =
     (if e_uid item = [] \<or> TrimSpace (e_uid item) \<noteq> e_uid item \<or>
         \<not> dns_label lib (e_namespace item) \<or> \<not> dns_subdomain lib (e_name item)
      then Some (ErrNew ''hostname policy entry requires UID, namespace and name'')
      else if e_mode item = legacyMode then
        (if \<not> dns_label lib (e_slug item) \<or> reserved (e_slug item)
         then Some (ErrNew ''legacy slug must be a DNS label outside the reserved ui-<32 hex> format'')
         else None)
      else if e_mode item = deriveMode then
        (if e_slug item \<noteq> [] then Some (ErrNew ''derive entries must not supply a slug'') else None)
      else Some (ErrNew ''hostname policy entry mode must be legacy or derive''))"

text \<open>The variables of the parse loop: the entries so far, the slugs and the identities seen.\<close>

record parse_state =
  ps_entries :: "(string, entry) fmap"
  ps_slugs :: "string set"
  ps_identities :: "string set"

definition identity_of :: "entry \<Rightarrow> string" where
  "identity_of item = e_namespace item @ ''/'' @ e_name item"

definition parse_step :: "library \<Rightarrow> entry \<Rightarrow> parse_state \<Rightarrow> go_error + parse_state" where
  "parse_step lib item s =
     (case validateEntry lib item of
        Some err \<Rightarrow> Inl err
      | None \<Rightarrow>
          if e_uid item |\<in>| fmdom (ps_entries s) \<or> identity_of item \<in> ps_identities s
          then Inl (ErrNew ''hostname policy contains duplicate instance identity'')
          else if e_mode item = legacyMode \<and> e_slug item \<in> ps_slugs s
          then Inl (ErrNew ''hostname policy contains duplicate legacy slug'')
          else Inr \<lparr>ps_entries = fmupd (e_uid item) item (ps_entries s),
                    ps_slugs = (if e_mode item = legacyMode then insert (e_slug item) (ps_slugs s)
                                else ps_slugs s),
                    ps_identities = insert (identity_of item) (ps_identities s)\<rparr>)"

text \<open>The part of \<open>Parse\<close> after the JSON document is decoded.\<close>

definition build_policy :: "library \<Rightarrow> configuration \<Rightarrow> go_error + policy" where
  "build_policy lib config =
     (case parse_rfc3339 lib (cfg_cutover config) of
        None \<Rightarrow> Inl (ErrNew ''hostname policy requires a fixed RFC3339 cutover timestamp'')
      | Some cutover \<Rightarrow>
          if cutover = 0 then Inl (ErrNew ''hostname policy requires a fixed RFC3339 cutover timestamp'')
          else case range_loop (parse_step lib) (cfg_entries config)
                      \<lparr>ps_entries = fmempty, ps_slugs = {}, ps_identities = {}\<rparr> of
                 Inl err \<Rightarrow> Inl err
               | Inr s \<Rightarrow> Inr \<lparr>pol_cutover = cutover, pol_entries = ps_entries s\<rparr>)"

text \<open>
  The whole of \<open>Parse\<close>. \<open>input\<close> is what the reader delivers (None when reading fails). The
  struct tags give the member names; a second \<open>Decode\<close> returns \<open>io.EOF\<close> when only JSON white
  space is left.
\<close>

definition zero_entry :: entry where
  "zero_entry = \<lparr>e_uid = [], e_namespace = [], e_name = [], e_mode = [], e_slug = []\<rparr>"

definition entry_target :: "entry target" where
  "entry_target = struct_target True
     [(''uid'', text_member e_uid_update), (''namespace'', text_member e_namespace_update),
      (''name'', text_member e_name_update), (''mode'', text_member e_mode_update),
      (''slug'', text_member e_slug_update)]"

definition decode_configuration :: "json \<Rightarrow> configuration option" where
  "decode_configuration j = map_option fst
     (struct_target True
       [(''cutover'', beside (text_member cfg_cutover_update)),
        (''entries'', slice_member cfg_entries cfg_entries_update entry_target zero_entry)]
       j (\<lparr>cfg_cutover = [], cfg_entries = []\<rparr>, []))"

definition max_policy_bytes :: nat where
  "max_policy_bytes = 1048576"

definition Parse :: "library \<Rightarrow> string option \<Rightarrow> go_error + policy" where
  "Parse lib input =
     (case input of
        None \<Rightarrow> Inl (Wrap ''read hostname policy'' (ErrNew ''read error''))
      | Some content \<Rightarrow>
          let data = take (max_policy_bytes + 1) content in
          if length data > max_policy_bytes then Inl (ErrNew ''hostname policy exceeds 1 MiB'')
          else case read_value data of
                 None \<Rightarrow> Inl (Wrap ''decode hostname policy'' (ErrNew ''decode error''))
               | Some (j, rest) \<Rightarrow>
                   (case decode_configuration j of
                      None \<Rightarrow> Inl (Wrap ''decode hostname policy'' (ErrNew ''decode error''))
                    | Some config \<Rightarrow>
                        if \<not> json_blank rest
                        then Inl (ErrNew ''hostname policy must contain exactly one JSON document'')
                        else build_policy lib config))"

subsection \<open>Select\<close>

definition derived_slug :: "library \<Rightarrow> string \<Rightarrow> string" where
  "derived_slug lib uid =
     ''ui-'' @ hex_encode (take 16 (sha256_sum lib (''ui.privatellms.msp/slug/v1:'' @ uid)))"

definition Select :: "library \<Rightarrow> policy option \<Rightarrow> object_meta \<Rightarrow> go_error + selection" where
  "Select lib pol obj =
     (case pol of
        None \<Rightarrow> Inl (Sentinel ErrIdentity)
      | Some p \<Rightarrow>
          if meta_uid obj = [] \<or> meta_created obj = 0 then Inl (Sentinel ErrIdentity)
          else
            let derived = Inr \<lparr>sel_slug = derived_slug lib (meta_uid obj), sel_source = Derived\<rparr> in
            case fmlookup (pol_entries p) (meta_uid obj) of
              Some item \<Rightarrow>
                if e_namespace item \<noteq> meta_namespace obj \<or> e_name item \<noteq> meta_name obj
                then Inl (Sentinel ErrIdentity)
                else if e_mode item = legacyMode
                then Inr \<lparr>sel_slug = e_slug item, sel_source = Legacy\<rparr>
                else derived
            | None \<Rightarrow>
                if \<not> pol_cutover p < meta_created obj then Inl (Sentinel ErrLegacyUnmapped)
                else derived)"

subsection \<open>Well-formed tables\<close>

definition wf_policy :: "library \<Rightarrow> policy \<Rightarrow> bool" where
  "wf_policy lib p \<longleftrightarrow>
     pol_cutover p \<noteq> 0 \<and>
     (\<forall>u e. fmlookup (pol_entries p) u = Some e \<longrightarrow> e_uid e = u \<and> validateEntry lib e = None) \<and>
     (\<forall>u v e f. fmlookup (pol_entries p) u = Some e \<longrightarrow> fmlookup (pol_entries p) v = Some f \<longrightarrow>
        identity_of e = identity_of f \<longrightarrow> u = v) \<and>
     (\<forall>u v e f. fmlookup (pol_entries p) u = Some e \<longrightarrow> fmlookup (pol_entries p) v = Some f \<longrightarrow>
        e_mode e = legacyMode \<longrightarrow> e_mode f = legacyMode \<longrightarrow> e_slug e = e_slug f \<longrightarrow> u = v)"

lemma parse_step_Inr:
  "parse_step lib item s = Inr t \<longleftrightarrow>
     validateEntry lib item = None \<and> e_uid item |\<notin>| fmdom (ps_entries s) \<and>
     identity_of item \<notin> ps_identities s \<and>
     \<not> (e_mode item = legacyMode \<and> e_slug item \<in> ps_slugs s) \<and>
     t = \<lparr>ps_entries = fmupd (e_uid item) item (ps_entries s),
          ps_slugs = (if e_mode item = legacyMode then insert (e_slug item) (ps_slugs s) else ps_slugs s),
          ps_identities = insert (identity_of item) (ps_identities s)\<rparr>"
  by (auto simp: parse_step_def split: option.splits)

interpretation by_uid: unique_key_loop "parse_step lib" "\<lambda>e. Some (e_uid e)"
  "\<lambda>u s. u |\<in>| fmdom (ps_entries s)" for lib
  by unfold_locales (auto simp: parse_step_Inr)

interpretation by_identity: unique_key_loop "parse_step lib" "\<lambda>e. Some (identity_of e)"
  "\<lambda>i s. i \<in> ps_identities s" for lib
  by unfold_locales (auto simp: parse_step_Inr)

interpretation by_slug: unique_key_loop "parse_step lib"
  "\<lambda>e. if e_mode e = legacyMode then Some (e_slug e) else None"
  "\<lambda>g s. g \<in> ps_slugs s" for lib
  by unfold_locales (auto simp: parse_step_Inr split: if_splits)

lemma parse_loop_entries:
  "range_loop (parse_step lib) es s = Inr t \<Longrightarrow>
   fmlookup (ps_entries t) u = Some e \<longleftrightarrow>
     fmlookup (ps_entries s) u = Some e \<or> (e \<in> set es \<and> e_uid e = u)"
proof (induction es arbitrary: s)
  case Nil
  then show ?case by simp
next
  case (Cons x es)
  then obtain r where r: "parse_step lib x s = Inr r" "range_loop (parse_step lib) es r = Inr t"
    by (auto split: sum.splits)
  then have x: "e_uid x |\<notin>| fmdom (ps_entries s)" "ps_entries r = fmupd (e_uid x) x (ps_entries s)"
    by (simp_all add: parse_step_Inr)
  have "fmlookup (ps_entries s) (e_uid x) = None" using x(1) by (simp add: fmdom_notI fmdom_notD)
  with Cons.IH [OF r(2)] x(2) show ?case
    by (auto split: if_splits)
qed

lemma parse_loop_valid:
  "range_loop (parse_step lib) es s = Inr t \<Longrightarrow> e \<in> set es \<Longrightarrow> validateEntry lib e = None"
  by (induction es arbitrary: s) (auto split: sum.splits simp: parse_step_Inr)

lemma build_policy_wf: "build_policy lib config = Inr p \<Longrightarrow> wf_policy lib p"
proof -
  assume built: "build_policy lib config = Inr p"
  define s0 where "s0 = \<lparr>ps_entries = fmempty, ps_slugs = {}, ps_identities = {}\<rparr>"
  obtain c t where c: "c \<noteq> 0" and loop: "range_loop (parse_step lib) (cfg_entries config) s0 = Inr t"
    and p: "p = \<lparr>pol_cutover = c, pol_entries = ps_entries t\<rparr>"
    using built by (auto simp: build_policy_def s0_def split: option.splits if_splits sum.splits)
  have entries: "fmlookup (pol_entries p) u = Some e \<longleftrightarrow> e \<in> set (cfg_entries config) \<and> e_uid e = u"
    for u e using parse_loop_entries [OF loop] by (simp add: p s0_def)
  have identities: "e = f" if "e \<in> set (cfg_entries config)" "f \<in> set (cfg_entries config)"
    "identity_of e = identity_of f" for e f
    using by_identity.loop_key_inj [OF loop that(1,2)] that(3) by simp
  have slugs: "e = f" if "e \<in> set (cfg_entries config)" "f \<in> set (cfg_entries config)"
    "e_mode e = legacyMode" "e_mode f = legacyMode" "e_slug e = e_slug f" for e f
    using by_slug.loop_key_inj [OF loop that(1,2)] that(3-5) by simp
  show ?thesis
    unfolding wf_policy_def entries
    using c parse_loop_valid [OF loop] identities slugs by (auto simp: p) blast
qed

lemma Parse_wf: "Parse lib input = Inr p \<Longrightarrow> wf_policy lib p"
  by (auto simp: Parse_def Let_def build_policy_wf split: option.splits if_splits prod.splits)

subsection \<open>Reserved and legacy names\<close>

lemma length_derived_slug: "digest_library lib \<Longrightarrow> length (derived_slug lib uid) = 35"
  by (simp add: derived_slug_def digest_library_def)

lemma derived_slug_reserved: "digest_library lib \<Longrightarrow> reserved (derived_slug lib uid)"
proof -
  assume "digest_library lib"
  then have "length (derived_slug lib uid) = 35" by (rule length_derived_slug)
  moreover have "\<forall>c \<in> set (hex_encode s). c \<in> set hex_digits" for s
    using hex_encode_digits by blast
  ultimately show ?thesis
    by (simp add: reserved_def derived_slug_def list_all_iff numeral_3_eq_3)
qed

lemma legacy_not_derive [simp]: "legacyMode \<noteq> deriveMode" "deriveMode \<noteq> legacyMode"
  by (simp_all add: legacyMode_def deriveMode_def)

lemma validateEntry_None:
  "validateEntry lib e = None \<longleftrightarrow>
     e_uid e \<noteq> [] \<and> TrimSpace (e_uid e) = e_uid e \<and> dns_label lib (e_namespace e) \<and>
     dns_subdomain lib (e_name e) \<and>
     (e_mode e = legacyMode \<and> dns_label lib (e_slug e) \<and> \<not> reserved (e_slug e) \<or>
      e_mode e = deriveMode \<and> e_slug e = [])"
  by (auto simp: validateEntry_def)

lemma wf_policyD:
  assumes "wf_policy lib p" "fmlookup (pol_entries p) u = Some e"
  shows "e_uid e = u" and "validateEntry lib e = None"
  using assms by (simp_all add: wf_policy_def)

lemma wf_legacy_not_reserved:
  assumes "wf_policy lib p" "fmlookup (pol_entries p) u = Some e" "e_mode e = legacyMode"
  shows "\<not> reserved (e_slug e)"
  using wf_policyD(2) [OF assms(1,2)] assms(3) by (simp add: validateEntry_None)

lemma wf_legacy_slug_inj:
  assumes "wf_policy lib p"
    and "fmlookup (pol_entries p) u = Some e" "fmlookup (pol_entries p) v = Some f"
    and "e_mode e = legacyMode" "e_mode f = legacyMode" "e_slug e = e_slug f"
  shows "u = v"
  using assms unfolding wf_policy_def by blast

lemma wf_identity_inj:
  assumes "wf_policy lib p"
    and e: "fmlookup (pol_entries p) u = Some e" and f: "fmlookup (pol_entries p) v = Some f"
    and "e_namespace e = e_namespace f" "e_name e = e_name f"
  shows "u = v"
proof -
  have "identity_of e = identity_of f" using assms(4,5) by (simp add: identity_of_def)
  with e f assms(1) show ?thesis unfolding wf_policy_def by blast
qed

lemma hex_digit_alnum: "c \<in> set hex_digits \<Longrightarrow> lower_alnum c"
  by (auto simp: hex_digits_def lower_alnum_def)

lemma reserved_label: "reserved s \<Longrightarrow> rfc1123_label s"
proof -
  assume r: "reserved s"
  define t where "t = drop 3 s"
  have s: "s = ''ui-'' @ t" and len: "length t = 32" and hex: "\<forall>c \<in> set t. c \<in> set hex_digits"
    using r append_take_drop_id [of 3 s] by (simp_all add: reserved_def t_def list_all_iff)
  have letters: "lower_alnum (CHR ''u'')" "lower_alnum (CHR ''i'')" by (simp_all add: lower_alnum_def)
  have "last t \<in> set t" using len by (intro last_in_set) auto
  then have last: "lower_alnum (last s)" using hex hex_digit_alnum len by (auto simp: s)
  have "list_all (\<lambda>x. lower_alnum x \<or> x = CHR ''-'') s"
    using letters hex hex_digit_alnum by (simp add: s list_all_iff)
  with last letters have "label_shape s" by (simp add: label_shape_def s)
  with len show ?thesis by (simp add: rfc1123_label_def s)
qed

subsection \<open>Facts about Host and Select\<close>

lemma Host_Inr:
  "Host lib base slug = Inr h \<longleftrightarrow>
     h = slug @ ''.'' @ TrimSpace base \<and> dns_label lib slug \<and> dns_subdomain lib h \<and>
     list_all (dns_label lib) (split_on (CHR ''.'') h)"
  by (auto simp: Host_def Let_def)

lemma Host_isl: "isl (Host lib base slug) \<longleftrightarrow> (\<nexists>h. Host lib base slug = Inr h)"
  by (cases "Host lib base slug") auto

text \<open>A name with a slug of the shape of a label is checked label by label.\<close>

lemma Host_rfc1123:
  assumes lib: "rfc1123_library lib" and slug: "rfc1123_label slug"
  shows "(\<exists>h. Host lib base slug = Inr h) \<longleftrightarrow>
     length slug + 1 + length (TrimSpace base) \<le> 253 \<and>
     list_all rfc1123_label (split_on (CHR ''.'') (TrimSpace base))"
proof -
  have "CHR ''.'' \<notin> set slug" using slug by (auto simp: rfc1123_label_def dest: label_no_dot)
  then have split: "split_on (CHR ''.'') (slug @ CHR ''.'' # b) = slug # split_on (CHR ''.'') b" for b
    by (rule split_on_append)
  show ?thesis
    using slug by (auto simp: Host_Inr rfc1123_libraryD [OF lib] rfc1123_subdomain_def split
        rfc1123_label_def list_all_iff)
qed

lemma Select_Inr:
  "Select lib pol obj = Inr sel \<longleftrightarrow>
     (\<exists>p. pol = Some p \<and> meta_uid obj \<noteq> [] \<and> meta_created obj \<noteq> 0 \<and>
       ((\<exists>e. fmlookup (pol_entries p) (meta_uid obj) = Some e \<and>
            e_namespace e = meta_namespace obj \<and> e_name e = meta_name obj \<and>
            sel = (if e_mode e = legacyMode then \<lparr>sel_slug = e_slug e, sel_source = Legacy\<rparr>
                   else \<lparr>sel_slug = derived_slug lib (meta_uid obj), sel_source = Derived\<rparr>)) \<or>
        (fmlookup (pol_entries p) (meta_uid obj) = None \<and> pol_cutover p < meta_created obj \<and>
         sel = \<lparr>sel_slug = derived_slug lib (meta_uid obj), sel_source = Derived\<rparr>)))"
  by (auto simp: Select_def Let_def split: option.splits if_splits)

text \<open>Every selected slug is a reviewed one of this very entry, or derived from the UID.\<close>

lemma Select_slug_cases:
  assumes "Select lib (Some p) obj = Inr sel"
  obtains (legacy) e where "fmlookup (pol_entries p) (meta_uid obj) = Some e"
      "e_mode e = legacyMode" "sel_slug sel = e_slug e"
    | (derived) "sel_slug sel = derived_slug lib (meta_uid obj)"
  using assms by (auto simp: Select_Inr split: if_splits)

subsection \<open>A sample table\<close>

definition sample_entries :: "entry list" where
  "sample_entries =
     [\<lparr>e_uid = ''uid-1'', e_namespace = ''tenant'', e_name = ''chat'', e_mode = ''legacy'', e_slug = ''old-name''\<rparr>,
      \<lparr>e_uid = ''uid-2'', e_namespace = ''tenant'', e_name = ''new'', e_mode = ''derive'', e_slug = []\<rparr>]"

definition sample_policy :: policy where
  "sample_policy =
     \<lparr>pol_cutover = 100,
      pol_entries = fmupd ''uid-2'' (sample_entries ! 1) (fmupd ''uid-1'' (sample_entries ! 0) fmempty)\<rparr>"

definition sample_object :: "string \<Rightarrow> string \<Rightarrow> object_meta" where
  "sample_object uid name =
     \<lparr>meta_name = name, meta_namespace = ''tenant'', meta_uid = uid, meta_resource_version = ''1'',
      meta_generation = 1, meta_created = 200, meta_deleted = None, meta_labels = fmempty,
      meta_annotations = fmempty, meta_finalizers = [], meta_controller = None\<rparr>"

definition sample_entry_json :: "entry \<Rightarrow> json" where
  "sample_entry_json e = JObject
     [(''uid'', JString (e_uid e)), (''namespace'', JString (e_namespace e)), (''name'', JString (e_name e)),
      (''mode'', JString (e_mode e)), (''slug'', JString (e_slug e))]"

definition sample_hostname_file :: string where
  "sample_hostname_file = marshal (JObject
     [(''cutover'', JString ''2026-10-27T09:00:00Z''), (''entries'', JArray (map sample_entry_json sample_entries))])"

lemma sample_hostname_read:
  "\<exists>j. read_value sample_hostname_file = Some (j, []) \<and>
     decode_configuration j = Some \<lparr>cfg_cutover = ''2026-10-27T09:00:00Z'', cfg_entries = sample_entries\<rparr> \<and>
     length sample_hostname_file \<le> max_policy_bytes"
proof -
  let ?j = "JObject
     [(''cutover'', JString ''2026-10-27T09:00:00Z''), (''entries'', JArray (map sample_entry_json sample_entries))]"
  have "printable max_nesting_depth ?j"
    by (simp add: max_nesting_depth_def sample_entries_def sample_entry_json_def utf8_valid_ascii)
  then have "read_value sample_hostname_file = Some (?j, [])"
    using read_marshal [of ?j "[]"] by (simp add: sample_hostname_file_def)
  moreover have "decode_configuration ?j = Some \<lparr>cfg_cutover = ''2026-10-27T09:00:00Z'', cfg_entries = sample_entries\<rparr>"
    by (simp add: decode_configuration_def struct_target_def beside_def slice_member_def text_member_def
        sample_entries_def sample_entry_json_def entry_target_def zero_entry_def)
  moreover have "length sample_hostname_file \<le> max_policy_bytes"
    using length_marshal(1) [of ?j]
    by (simp add: sample_hostname_file_def max_policy_bytes_def sample_entries_def sample_entry_json_def)
  ultimately show ?thesis by blast
qed

lemma sample_Parse: "Parse sample_library (Some sample_hostname_file) = Inr sample_policy"
proof -
  have "build_policy sample_library \<lparr>cfg_cutover = ''2026-10-27T09:00:00Z'', cfg_entries = sample_entries\<rparr> = Inr sample_policy"
    by (simp add: build_policy_def sample_entries_def sample_policy_def parse_step_def
        validateEntry_def identity_of_def legacyMode_def deriveMode_def reserved_def
        sample_library_def rfc1123_label_def rfc1123_subdomain_def label_shape_def
        lower_alnum_def TrimSpace_visible visible_def)
  then show ?thesis using sample_hostname_read by (auto simp: Parse_def json_blank_def)
qed

lemma sample_Select:
  "Select sample_library (Some sample_policy) (sample_object ''uid-1'' ''chat'') =
     Inr \<lparr>sel_slug = ''old-name'', sel_source = Legacy\<rparr>"
  "Select sample_library (Some sample_policy) (sample_object ''uid-3'' ''other'') =
     Inr \<lparr>sel_slug = derived_slug sample_library ''uid-3'', sel_source = Derived\<rparr>"
  by (simp_all add: Select_def sample_policy_def sample_entries_def sample_object_def legacyMode_def)

lemma sample_derived_slug: "derived_slug sample_library ''uid-3'' = ''ui-332d6469753a31762f67756c732f7073''"
  by (simp add: derived_slug_def sample_library_def hex_encode_def hex_byte_def hex_digits_def)

lemma sample_Host:
  "Host sample_library ''chat.example.test'' ''old-name'' = Inr ''old-name.chat.example.test''"
  "Host sample_library ''chat.example.test'' ''ui-332d6469753a31762f67756c732f7073'' =
     Inr ''ui-332d6469753a31762f67756c732f7073.chat.example.test''"
  "Host sample_library ''chat.example.test'' probe_slug = Inr (probe_slug @ ''.chat.example.test'')"
  by (simp_all add: Host_def TrimSpace_visible visible_def sample_library_def rfc1123_label_def
      rfc1123_subdomain_def label_shape_def lower_alnum_def probe_slug_def eval_nat_numeral)

subsection \<open>Properties\<close>

lemma distinct_names:
  assumes parsed: "Parse lib input = Inr p" and lib: "digest_library lib"
    and sel: "Select lib (Some p) obj1 = Inr sel1" "Select lib (Some p) obj2 = Inr sel2"
    and uids: "meta_uid obj1 \<noteq> meta_uid obj2"
    and no_collision:
      "take 16 (sha256_sum lib (''ui.privatellms.msp/slug/v1:'' @ meta_uid obj1)) \<noteq>
       take 16 (sha256_sum lib (''ui.privatellms.msp/slug/v1:'' @ meta_uid obj2))"
    and hosts: "Host lib base (sel_slug sel1) = Inr h1" "Host lib base (sel_slug sel2) = Inr h2"
  shows "h1 \<noteq> h2"
proof -
  have wf: "wf_policy lib p" using parsed by (rule Parse_wf)
  have derived: "derived_slug lib (meta_uid obj1) \<noteq> derived_slug lib (meta_uid obj2)"
    using no_collision hex_encode_inj by (auto simp: derived_slug_def)
  have "sel_slug sel1 \<noteq> sel_slug sel2"
    using sel(1)
  proof (cases rule: Select_slug_cases)
    case l1: (legacy e)
    from sel(2) show ?thesis
      by (cases rule: Select_slug_cases)
         (use l1 uids wf_legacy_slug_inj [OF wf] wf_legacy_not_reserved [OF wf] derived_slug_reserved [OF lib]
          in metis)+
  next
    case d1: derived
    from sel(2) show ?thesis
      by (cases rule: Select_slug_cases)
         (use d1 derived wf_legacy_not_reserved [OF wf] derived_slug_reserved [OF lib] in metis)+
  qed
  with hosts show ?thesis by (auto simp: Host_Inr)
qed

text \<open>
  C13. Two different instances never get the same hostname. For a policy file that \<open>Parse\<close>
  accepted, if \<open>Select\<close> and \<open>Host\<close> name two objects with different UIDs, the names differ:
  reviewed slugs are unique in the table, none has the reserved derived form, and derived slugs
  differ unless the two 128-bit digest prefixes collide.
\<close>

theorem hostnames_distinct:
  assumes parsed: "Parse lib input = Inr p" and lib: "digest_library lib"
    and sel: "Select lib (Some p) obj1 = Inr sel1" "Select lib (Some p) obj2 = Inr sel2"
    and uids: "meta_uid obj1 \<noteq> meta_uid obj2"
    and no_collision:
      "take 16 (sha256_sum lib (''ui.privatellms.msp/slug/v1:'' @ meta_uid obj1)) \<noteq>
       take 16 (sha256_sum lib (''ui.privatellms.msp/slug/v1:'' @ meta_uid obj2))"
    and hosts: "Host lib base (sel_slug sel1) = Inr h1" "Host lib base (sel_slug sel2) = Inr h2"
  shows "h1 \<noteq> h2"
  using assms by (rule distinct_names)

lemma validated_names:
  assumes parsed: "Parse lib input = Inr p"
    and lib: "rfc1123_library lib" "digest_library lib"
    and valid: "ValidatePublicHost lib p base = None"
    and sel: "Select lib (Some p) obj = Inr sel"
  shows "\<exists>h. Host lib base (sel_slug sel) = Inr h \<and> length h \<le> 253 \<and>
           list_all rfc1123_label (split_on (CHR ''.'') h)"
proof -
  have wf: "wf_policy lib p" using parsed by (rule Parse_wf)
  have probe: "rfc1123_label probe_slug"
    by (rule reserved_label) (simp add: reserved_def probe_slug_def hex_digits_def numeral_3_eq_3 list_all_iff)
  have derived_label: "rfc1123_label (derived_slug lib u)" for u
    using derived_slug_reserved [OF lib(2)] by (rule reserved_label)
  have "\<exists>h. Host lib base (sel_slug sel) = Inr h"
    using sel
  proof (cases rule: Select_slug_cases)
    case (legacy e)
    then have "e |\<in>| fmran (pol_entries p)" by (metis fmranI)
    with legacy valid have "\<not> isl (Host lib base (e_slug e))"
      by (auto simp: ValidatePublicHost_def split: sum.splits if_splits)
    with legacy show ?thesis by (simp add: Host_isl)
  next
    case derived
    have "\<exists>h. Host lib base probe_slug = Inr h"
      using valid by (auto simp: ValidatePublicHost_def split: sum.splits)
    then show ?thesis
      using Host_rfc1123 [OF lib(1) probe, of base] Host_rfc1123 [OF lib(1) derived_label, of base]
        length_derived_slug [OF lib(2)] by (simp add: derived probe_slug_def)
  qed
  then show ?thesis
    by (auto simp: Host_Inr rfc1123_libraryD [OF lib(1)] rfc1123_subdomain_def list_all_iff)
qed

text \<open>
  C14. Startup validation covers every name the operator can later choose. If \<open>Parse\<close> accepted the
  file and \<open>ValidatePublicHost\<close> found no fault, then for every object for which \<open>Select\<close>
  succeeds \<open>Host\<close> succeeds too, and gives a DNS name of at most 253 characters whose labels
  have at most 63.
\<close>

theorem startup_validates_every_name:
  assumes "Parse lib input = Inr p" "rfc1123_library lib" "digest_library lib"
    and "ValidatePublicHost lib p base = None" "Select lib (Some p) obj = Inr sel"
  shows "\<exists>h. Host lib base (sel_slug sel) = Inr h \<and> length h \<le> 253 \<and>
           list_all rfc1123_label (split_on (CHR ''.'') h)"
  using assms by (rule validated_names)


theorem hostnames_distinct_witness:
  "\<exists>h1 h2. Host sample_library ''chat.example.test'' ''old-name'' = Inr h1 \<and>
     Host sample_library ''chat.example.test'' (derived_slug sample_library ''uid-3'') = Inr h2 \<and> h1 \<noteq> h2"
proof -
  let ?sel1 = "\<lparr>sel_slug = ''old-name'', sel_source = Legacy\<rparr>"
  let ?sel2 = "\<lparr>sel_slug = derived_slug sample_library ''uid-3'', sel_source = Derived\<rparr>"
  have ids: "meta_uid (sample_object u n) = u" for u n by (simp add: sample_object_def)
  have "''old-name.chat.example.test'' \<noteq> ''ui-332d6469753a31762f67756c732f7073.chat.example.test''"
    using hostnames_distinct [OF sample_Parse sample_digest sample_Select, of "''chat.example.test''"
        "''old-name.chat.example.test''" "''ui-332d6469753a31762f67756c732f7073.chat.example.test''"]
    by (simp add: ids sample_Host sample_derived_slug sample_library_def)
  then show ?thesis by (simp add: sample_Host sample_derived_slug)
qed

lemma sample_ValidatePublicHost:
  "ValidatePublicHost sample_library sample_policy ''chat.example.test'' = None"
proof -
  have "fmran sample_policy' |\<subseteq>| {|sample_entries ! 0, sample_entries ! 1|}"
    if "sample_policy' = pol_entries sample_policy" for sample_policy'
    by (auto simp: that sample_policy_def fmlookup_ran_iff split: if_splits)
  moreover have "\<not> isl (Host sample_library ''chat.example.test'' (e_slug (sample_entries ! 0)))"
    using sample_Host(1) by (simp add: sample_entries_def)
  moreover have "e_mode (sample_entries ! 1) \<noteq> legacyMode" by (simp add: sample_entries_def legacyMode_def)
  ultimately show ?thesis
    using sample_Host(3) by (auto simp: ValidatePublicHost_def)
qed

theorem startup_validates_every_name_witness:
  "\<exists>h. Host sample_library ''chat.example.test'' (derived_slug sample_library ''uid-3'') = Inr h \<and>
     length h \<le> 253 \<and> list_all rfc1123_label (split_on (CHR ''.'') h)"
  using startup_validates_every_name [OF sample_Parse sample_rfc1123 sample_digest
      sample_ValidatePublicHost sample_Select(2)]
  by simp


end
