(* ===== verification/Access_Policy.thy ===== *)
theory Access_Policy
  imports K8s_Library Json_Target Json_Roundtrip
begin

text \<open>
  \<open>internal/accesspolicy/policy.go\<close>: the operator-reviewed table that binds an instance to
  the KCP object its users must be able to read. \<open>HTTPSURL\<close> and \<open>Source.Validate\<close> check single
  values, \<open>Parse\<close> reads the table, \<open>Select\<close> finds the row of an instance and \<open>Source.Path\<close>
  is the URL path of the permission check.
\<close>

subsection \<open>Data\<close>

record source =
  src_cluster :: string
  src_namespace :: string
  src_name :: string
  src_uid :: string

record access_entry =
  ae_uid :: string
  ae_namespace :: string
  ae_name :: string
  ae_source :: source
  ae_issuer :: string
  ae_client_id :: string
  ae_client_secret_name :: string

record access_policy =
  ap_kcp_server :: string
  ap_kcp_ca :: string
  ap_credentials_namespace :: string
  ap_proxy_image :: string
  ap_entries :: "access_entry list"

definition OAuthImage :: string where
  "OAuthImage = ''quay.io/oauth2-proxy/oauth2-proxy@sha256:8498b0d0ef0a7b29686414000a08aee467f02d0299c9ed1e006a8f33fc017916''"

subsection \<open>Checks of single values\<close>

definition blank_chars :: string where
  "blank_chars = [byte 13, byte 10, byte 9, byte 32]"

lemma visible_not_blank [go_simps]: "list_all visible s \<Longrightarrow> ContainsAny s blank_chars = False"
  by (auto simp: ContainsAny_def blank_chars_def byte_def visible_def list_all_iff list_ex_iff)

definition HTTPSURL :: "library \<Rightarrow> string \<Rightarrow> bool \<Rightarrow> go_error option" where
  "HTTPSURL lib raw originOnly =
     (let bad = ErrNew ''access endpoints must be explicit HTTPS URLs without credentials or query'' in
      case parse_url lib raw of
        None \<Rightarrow> Some bad
      | Some u \<Rightarrow>
          if url_scheme u \<noteq> ''https'' \<or> url_hostname u = [] \<or> url_has_user u \<or>
             url_raw_query u \<noteq> [] \<or> url_fragment u \<noteq> [] \<or> url_raw_path u \<noteq> [] \<or>
             ContainsAny raw blank_chars
          then Some bad
          else if originOnly \<and> url_path u \<noteq> []
          then Some (ErrNew ''KCP server must be an HTTPS origin without a path'')
          else None)"

definition source_Validate :: "library \<Rightarrow> source \<Rightarrow> go_error option" where
  "source_Validate lib s =
     (if \<not> dns_label lib (src_cluster s) \<or> \<not> dns_label lib (src_namespace s) \<or>
         \<not> dns_subdomain lib (src_name s) \<or> src_uid s = [] \<or> TrimSpace (src_uid s) \<noteq> src_uid s
      then Some (ErrNew ''access mapping requires exact source cluster, namespace, name and UID'')
      else None)"

text \<open>The regular expression \<open>^[a-z0-9][a-z0-9./:_-]*@sha256:[a-f0-9]{64}$\<close>.\<close>

definition digest_pinned :: "string \<Rightarrow> bool" where
  "digest_pinned s =
     (let name = take (length s - 72) s; pin = drop (length s - 72) s in
      72 < length s \<and> lower_alnum (hd name) \<and>
      list_all (\<lambda>c. lower_alnum c \<or> c \<in> set ''./:_-'') name \<and>
      take 8 pin = ''@sha256:'' \<and> list_all (\<lambda>c. c \<in> set hex_digits) (drop 8 pin))"

subsection \<open>Parse\<close>

text \<open>
  \<open>Decode\<close> strictly reads one bounded JSON document; \<open>target\<close> is the decoding into the Go type of
  the \<open>target\<close> argument, given by its struct tags.
\<close>

definition Decode :: "(json \<Rightarrow> 'a option) \<Rightarrow> string option \<Rightarrow> go_error + 'a" where
  "Decode target input =
     (case input of
        None \<Rightarrow> Inl (ErrNew ''access configuration cannot be read or exceeds 1 MiB'')
      | Some content \<Rightarrow>
          let data = take (1048576 + 1) content in
          if length data > 1048576
          then Inl (ErrNew ''access configuration cannot be read or exceeds 1 MiB'')
          else case read_value data of
                 None \<Rightarrow> Inl (ErrNew ''invalid access configuration JSON'')
               | Some (j, rest) \<Rightarrow>
                   (case target j of
                      None \<Rightarrow> Inl (ErrNew ''invalid access configuration JSON'')
                    | Some v \<Rightarrow>
                        if \<not> json_blank rest
                        then Inl (ErrNew ''access configuration requires one JSON document'')
                        else Inr v))"

definition zero_source :: source where
  "zero_source = \<lparr>src_cluster = [], src_namespace = [], src_name = [], src_uid = []\<rparr>"

definition source_target :: "source target" where
  "source_target = struct_target True
     [(''cluster'', text_member src_cluster_update), (''namespace'', text_member src_namespace_update),
      (''name'', text_member src_name_update), (''uid'', text_member src_uid_update)]"

definition zero_access_entry :: access_entry where
  "zero_access_entry =
     \<lparr>ae_uid = [], ae_namespace = [], ae_name = [], ae_source = zero_source, ae_issuer = [],
      ae_client_id = [], ae_client_secret_name = []\<rparr>"

definition access_entry_target :: "access_entry target" where
  "access_entry_target = struct_target True
     [(''uid'', text_member ae_uid_update), (''namespace'', text_member ae_namespace_update),
      (''name'', text_member ae_name_update), (''source'', struct_member ae_source ae_source_update source_target),
      (''issuer'', text_member ae_issuer_update), (''clientID'', text_member ae_client_id_update),
      (''clientSecretName'', text_member ae_client_secret_name_update)]"

definition decode_access_policy :: "json \<Rightarrow> access_policy option" where
  "decode_access_policy j = map_option fst
     (struct_target True
       [(''kcpServer'', beside (text_member ap_kcp_server_update)),
        (''kcpCA'', beside (text_member ap_kcp_ca_update)),
        (''credentialsNamespace'', beside (text_member ap_credentials_namespace_update)),
        (''proxyImage'', beside (text_member ap_proxy_image_update)),
        (''entries'', slice_member ap_entries ap_entries_update access_entry_target zero_access_entry)]
       j (\<lparr>ap_kcp_server = [], ap_kcp_ca = [], ap_credentials_namespace = [], ap_proxy_image = [], ap_entries = []\<rparr>, []))"

record access_state =
  as_uids :: "string set"
  as_local :: "string set"
  as_sources :: "string set"

definition local_key :: "access_entry \<Rightarrow> string" where
  "local_key e = ae_namespace e @ ''/'' @ ae_name e"

definition source_key :: "source \<Rightarrow> string" where
  "source_key s = src_cluster s @ ''/'' @ src_namespace s @ ''/'' @ src_name s"

definition access_step :: "library \<Rightarrow> access_entry \<Rightarrow> access_state \<Rightarrow> go_error + access_state" where
  "access_step lib e s =
     (if ae_uid e = [] \<or> \<not> dns_label lib (ae_namespace e) \<or> \<not> dns_subdomain lib (ae_name e) \<or>
         ae_client_id e = [] \<or> ContainsAny (ae_client_id e) blank_chars \<or>
         \<not> dns_subdomain lib (ae_client_secret_name e)
      then Inl (ErrNew ''invalid access mapping identity or client reference'')
      else case source_Validate lib (ae_source e) of
        Some err \<Rightarrow> Inl err
      | None \<Rightarrow>
        (case HTTPSURL lib (ae_issuer e) False of
          Some err \<Rightarrow> Inl err
        | None \<Rightarrow>
          if ae_uid e \<in> as_uids s \<or> local_key e \<in> as_local s \<or> source_key (ae_source e) \<in> as_sources s
          then Inl (ErrNew ''duplicate access mapping'')
          else Inr \<lparr>as_uids = insert (ae_uid e) (as_uids s), as_local = insert (local_key e) (as_local s),
                    as_sources = insert (source_key (ae_source e)) (as_sources s)\<rparr>))"

definition access_Parse :: "library \<Rightarrow> string option \<Rightarrow> go_error + access_policy" where
  "access_Parse lib input =
     (case Decode decode_access_policy input of
        Inl err \<Rightarrow> Inl err
      | Inr p \<Rightarrow>
          (case HTTPSURL lib (ap_kcp_server p) True of
             Some err \<Rightarrow> Inl err
           | None \<Rightarrow>
               if \<not> dns_label lib (ap_credentials_namespace p) \<or> \<not> digest_pinned (ap_proxy_image p)
               then Inl (ErrNew ''access policy requires a credential namespace and digest-pinned proxy image'')
               else case range_loop (access_step lib) (ap_entries p)
                           \<lparr>as_uids = {}, as_local = {}, as_sources = {}\<rparr> of
                      Inl err \<Rightarrow> Inl err
                    | Inr _ \<Rightarrow> Inr p))"

subsection \<open>Select and Path\<close>

definition row_matches :: "access_entry \<Rightarrow> object_meta \<Rightarrow> bool" where
  "row_matches e obj =
     (ae_uid e = meta_uid obj \<and> ae_namespace e = meta_namespace obj \<and> ae_name e = meta_name obj)"

definition access_Select :: "access_policy option \<Rightarrow> object_meta \<Rightarrow> go_error + access_entry" where
  "access_Select pol obj =
     (case pol of
        None \<Rightarrow> Inl (Sentinel ErrUnmapped)
      | Some p \<Rightarrow>
          if meta_uid obj = [] then Inl (Sentinel ErrUnmapped)
          else case find (\<lambda>e. row_matches e obj) (ap_entries p) of
                 Some e \<Rightarrow> Inr e
               | None \<Rightarrow> Inl (Sentinel ErrUnmapped))"

definition source_Path :: "source \<Rightarrow> string" where
  "source_Path s =
     ''/clusters/'' @ src_cluster s @ ''/apis/ui.privatellms.msp/v1alpha1/namespaces/'' @
     src_namespace s @ ''/chatuiinstances/'' @ src_name s"

subsection \<open>Accepted tables\<close>

lemma access_step_Inr:
  "access_step lib e s = Inr t \<longleftrightarrow>
     ae_uid e \<noteq> [] \<and> dns_label lib (ae_namespace e) \<and> dns_subdomain lib (ae_name e) \<and>
     ae_client_id e \<noteq> [] \<and> \<not> ContainsAny (ae_client_id e) blank_chars \<and>
     dns_subdomain lib (ae_client_secret_name e) \<and>
     source_Validate lib (ae_source e) = None \<and> HTTPSURL lib (ae_issuer e) False = None \<and>
     ae_uid e \<notin> as_uids s \<and> local_key e \<notin> as_local s \<and> source_key (ae_source e) \<notin> as_sources s \<and>
     t = \<lparr>as_uids = insert (ae_uid e) (as_uids s), as_local = insert (local_key e) (as_local s),
          as_sources = insert (source_key (ae_source e)) (as_sources s)\<rparr>"
  by (auto simp: access_step_def split: option.splits)

interpretation by_access_uid: unique_key_loop "access_step lib" "\<lambda>e. Some (ae_uid e)"
  "\<lambda>u s. u \<in> as_uids s" for lib
  by unfold_locales (auto simp: access_step_Inr)

interpretation by_local: unique_key_loop "access_step lib" "\<lambda>e. Some (local_key e)"
  "\<lambda>k s. k \<in> as_local s" for lib
  by unfold_locales (auto simp: access_step_Inr)

interpretation by_source: unique_key_loop "access_step lib" "\<lambda>e. Some (source_key (ae_source e))"
  "\<lambda>k s. k \<in> as_sources s" for lib
  by unfold_locales (auto simp: access_step_Inr)

lemma access_loop_valid:
  "range_loop (access_step lib) es s = Inr t \<Longrightarrow> e \<in> set es \<Longrightarrow>
   source_Validate lib (ae_source e) = None \<and> HTTPSURL lib (ae_issuer e) False = None \<and>
   ae_uid e \<noteq> [] \<and> ae_client_id e \<noteq> [] \<and> dns_label lib (ae_namespace e) \<and> dns_subdomain lib (ae_name e)"
  by (induction es arbitrary: s) (auto split: sum.splits simp: access_step_Inr)

lemma access_Parse_Inr:
  assumes "access_Parse lib input = Inr p"
  shows "HTTPSURL lib (ap_kcp_server p) True = None"
    and "dns_label lib (ap_credentials_namespace p)" "digest_pinned (ap_proxy_image p)"
    and "\<exists>t. range_loop (access_step lib) (ap_entries p)
               \<lparr>as_uids = {}, as_local = {}, as_sources = {}\<rparr> = Inr t"
  using assms by (auto simp: access_Parse_def split: sum.splits option.splits if_splits)

lemma access_Select_Inr:
  "access_Select pol obj = Inr e \<Longrightarrow>
   \<exists>p. pol = Some p \<and> meta_uid obj \<noteq> [] \<and> e \<in> set (ap_entries p) \<and>
       ae_uid e = meta_uid obj \<and> ae_namespace e = meta_namespace obj \<and> ae_name e = meta_name obj"
  by (auto simp: access_Select_def find_Some_iff row_matches_def split: option.splits if_splits)

text \<open>\<open>Source.Path\<close> is injective on validated sources: no component contains a slash.\<close>

lemma source_Path_inj:
  assumes lib: "rfc1123_library lib"
    and valid: "source_Validate lib s = None" "source_Validate lib t = None"
    and eq: "source_Path s = source_Path t"
  shows "src_cluster s = src_cluster t \<and> src_namespace s = src_namespace t \<and> src_name s = src_name t"
proof -
  have slash: "CHR ''/'' \<notin> set (src_cluster s)" "CHR ''/'' \<notin> set (src_cluster t)"
    "CHR ''/'' \<notin> set (src_namespace s)" "CHR ''/'' \<notin> set (src_namespace t)"
    using valid rfc1123_label_no_slash
    by (auto simp: source_Validate_def rfc1123_libraryD [OF lib] split: if_splits)
  have "src_cluster s = src_cluster t \<and>
    ''apis/ui.privatellms.msp/v1alpha1/namespaces/'' @ src_namespace s @ ''/chatuiinstances/'' @ src_name s =
    ''apis/ui.privatellms.msp/v1alpha1/namespaces/'' @ src_namespace t @ ''/chatuiinstances/'' @ src_name t"
    by (rule slash_cut) (use eq slash in \<open>simp_all add: source_Path_def\<close>)
  then have c: "src_cluster s = src_cluster t"
    and rest: "src_namespace s @ CHR ''/'' # ''chatuiinstances/'' @ src_name s =
               src_namespace t @ CHR ''/'' # ''chatuiinstances/'' @ src_name t" by simp_all
  have "src_namespace s = src_namespace t \<and>
    ''chatuiinstances/'' @ src_name s = ''chatuiinstances/'' @ src_name t"
    using rest slash(3,4) by (rule slash_cut)
  with c show ?thesis by simp
qed

subsection \<open>The strings of a table\<close>

text \<open>The JSON decoder only yields valid UTF-8, so the strings of an accepted table are.\<close>

definition source_text :: "source \<Rightarrow> bool" where
  "source_text s \<longleftrightarrow>
     utf8_valid (src_cluster s) \<and> utf8_valid (src_namespace s) \<and> utf8_valid (src_name s) \<and> utf8_valid (src_uid s)"

definition row_text :: "access_entry \<Rightarrow> bool" where
  "row_text e \<longleftrightarrow>
     utf8_valid (ae_uid e) \<and> utf8_valid (ae_namespace e) \<and> utf8_valid (ae_name e) \<and> source_text (ae_source e) \<and>
     utf8_valid (ae_issuer e) \<and> utf8_valid (ae_client_id e) \<and> utf8_valid (ae_client_secret_name e)"

definition table_text :: "access_policy \<Rightarrow> bool" where
  "table_text p \<longleftrightarrow>
     utf8_valid (ap_kcp_server p) \<and> utf8_valid (ap_kcp_ca p) \<and> utf8_valid (ap_credentials_namespace p) \<and>
     utf8_valid (ap_proxy_image p) \<and> list_all row_text (ap_entries p)"

lemma source_target_keeps: "target_keeps source_text source_target"
  unfolding source_target_def
  by (intro target_intros) (simp; intro conjI target_intros; simp add: source_text_def)

lemma row_target_keeps: "target_keeps row_text access_entry_target"
  unfolding access_entry_target_def
  by (intro target_intros) (simp; intro conjI target_intros; simp add: row_text_def source_target_keeps)

lemma decode_access_policy_text:
  assumes "decode_access_policy j = Some p" "valid_json j"
  shows "table_text p"
proof -
  let ?P = "\<lambda>(v, memory). table_text v \<and> list_all row_text memory"
  have zero: "row_text zero_access_entry"
    by (simp add: row_text_def zero_access_entry_def source_text_def zero_source_def)
  have keeps: "target_keeps ?P (struct_target True
       [(''kcpServer'', beside (text_member ap_kcp_server_update)),
        (''kcpCA'', beside (text_member ap_kcp_ca_update)),
        (''credentialsNamespace'', beside (text_member ap_credentials_namespace_update)),
        (''proxyImage'', beside (text_member ap_proxy_image_update)),
        (''entries'', slice_member ap_entries ap_entries_update access_entry_target zero_access_entry)])"
    by (intro target_intros) (simp; intro conjI target_intros; simp add: table_text_def row_target_keeps zero)
  obtain memory where "struct_target True
       [(''kcpServer'', beside (text_member ap_kcp_server_update)),
        (''kcpCA'', beside (text_member ap_kcp_ca_update)),
        (''credentialsNamespace'', beside (text_member ap_credentials_namespace_update)),
        (''proxyImage'', beside (text_member ap_proxy_image_update)),
        (''entries'', slice_member ap_entries ap_entries_update access_entry_target zero_access_entry)]
      j (\<lparr>ap_kcp_server = [], ap_kcp_ca = [], ap_credentials_namespace = [], ap_proxy_image = [], ap_entries = []\<rparr>, [])
    = Some (p, memory)"
    using assms(1) unfolding decode_access_policy_def by (auto simp del: find_member_exact)
  from target_keepsD [OF keeps this assms(2)] show ?thesis by (simp add: table_text_def)
qed

lemma access_Parse_text: "access_Parse lib input = Inr p \<Longrightarrow> table_text p"
  by (auto simp: access_Parse_def Decode_def Let_def dest!: decode_access_policy_text read_value_valid
      split: option.splits if_splits sum.splits prod.splits)

subsection \<open>A sample table\<close>

definition sample_access_entry :: access_entry where
  "sample_access_entry =
     \<lparr>ae_uid = ''uid-1'', ae_namespace = ''tenant'', ae_name = ''chat'',
      ae_source = \<lparr>src_cluster = ''account'', src_namespace = ''default'', src_name = ''chat'',
                   src_uid = ''source-uid''\<rparr>,
      ae_issuer = ''https://issuer.example.test/realms/org'', ae_client_id = ''chat-ui'',
      ae_client_secret_name = ''oidc-client''\<rparr>"

definition sample_second_entry :: access_entry where
  "sample_second_entry = sample_access_entry
     \<lparr>ae_uid := ''uid-2'', ae_name := ''team'',
      ae_source := \<lparr>src_cluster = ''account'', src_namespace = ''default'', src_name = ''team'',
                   src_uid = ''source-uid-2''\<rparr>\<rparr>"

definition sample_proxy_image :: string where
  "sample_proxy_image = ''example.test/proxy@sha256:'' @ replicate 64 (CHR ''a'')"

lemma sample_digest_pinned: "digest_pinned sample_proxy_image"
  by (simp add: sample_proxy_image_def digest_pinned_def lower_alnum_def hex_digits_def eval_nat_numeral)

definition sample_access_policy :: access_policy where
  "sample_access_policy =
     \<lparr>ap_kcp_server = ''https://kcp.example.test'', ap_kcp_ca = [],
      ap_credentials_namespace = ''operator'',
      ap_proxy_image = sample_proxy_image,
      ap_entries = [sample_access_entry, sample_second_entry]\<rparr>"

text \<open>The file such a table is read from.\<close>

definition sample_source_json :: "source \<Rightarrow> json" where
  "sample_source_json s = JObject
     [(''cluster'', JString (src_cluster s)), (''namespace'', JString (src_namespace s)),
      (''name'', JString (src_name s)), (''uid'', JString (src_uid s))]"

definition sample_row_json :: "access_entry \<Rightarrow> json" where
  "sample_row_json e = JObject
     [(''uid'', JString (ae_uid e)), (''namespace'', JString (ae_namespace e)), (''name'', JString (ae_name e)),
      (''source'', sample_source_json (ae_source e)), (''issuer'', JString (ae_issuer e)),
      (''clientID'', JString (ae_client_id e)), (''clientSecretName'', JString (ae_client_secret_name e))]"

definition sample_access_json :: json where
  "sample_access_json = JObject
     [(''kcpServer'', JString ''https://kcp.example.test''), (''credentialsNamespace'', JString ''operator''),
      (''proxyImage'', JString sample_proxy_image),
      (''entries'', JArray (map sample_row_json [sample_access_entry, sample_second_entry]))]"

definition sample_access_file :: string where
  "sample_access_file = marshal sample_access_json"

lemma sample_access_decode: "decode_access_policy sample_access_json = Some sample_access_policy"
  by (simp add: sample_access_json_def decode_access_policy_def struct_target_def beside_def slice_member_def
      text_member_def struct_member_def sample_row_json_def sample_source_json_def access_entry_target_def
      source_target_def zero_access_entry_def zero_source_def sample_access_policy_def
      sample_access_entry_def sample_second_entry_def)

lemma sample_access_Decode: "Decode decode_access_policy (Some sample_access_file) = Inr sample_access_policy"
proof -
  have image: "utf8_valid sample_proxy_image" "length sample_proxy_image = 90"
    by (simp_all add: sample_proxy_image_def utf8_valid_ascii eval_nat_numeral)
  have "printable max_nesting_depth sample_access_json"
    by (simp add: max_nesting_depth_def sample_access_json_def sample_row_json_def sample_source_json_def
        sample_access_entry_def sample_second_entry_def image utf8_valid_ascii)
  then have "read_value sample_access_file = Some (sample_access_json, [])"
    using read_marshal [of sample_access_json "[]"] by (simp add: sample_access_file_def)
  moreover have "length sample_access_file \<le> 1048576"
    using length_marshal(1) [of sample_access_json]
    by (simp add: sample_access_file_def sample_access_json_def sample_row_json_def sample_source_json_def
        sample_access_entry_def sample_second_entry_def image)
  ultimately show ?thesis by (simp add: Decode_def sample_access_decode json_blank_def)
qed

lemma sample_access_Parse: "access_Parse sample_library (Some sample_access_file) = Inr sample_access_policy"
  by (simp add: access_Parse_def sample_access_Decode)
     (simp add: sample_access_policy_def sample_access_entry_def sample_second_entry_def
      local_key_def source_key_def sample_url_def access_step_def HTTPSURL_def source_Validate_def sample_digest_pinned
      sample_library_def rfc1123_label_def rfc1123_subdomain_def label_shape_def lower_alnum_def
      visible_not_blank TrimSpace_visible visible_def)

subsection \<open>Properties\<close>

text \<open>
  C16. An accepted access table is unambiguous in every direction: two rows with the same instance
  UID, or the same namespace and name, or the same KCP permission-check path are the same row. So
  no two instances are ever authorized against the same KCP object.
\<close>

theorem access_table_unambiguous:
  assumes parsed: "access_Parse lib input = Inr p" and lib: "rfc1123_library lib"
  shows "inj_on ae_uid (set (ap_entries p)) \<and> inj_on (\<lambda>e. (ae_namespace e, ae_name e)) (set (ap_entries p)) \<and>
    inj_on (\<lambda>e. source_Path (ae_source e)) (set (ap_entries p))"
proof -
  obtain t where loop: "range_loop (access_step lib) (ap_entries p)
      \<lparr>as_uids = {}, as_local = {}, as_sources = {}\<rparr> = Inr t"
    using access_Parse_Inr [OF parsed] by blast
  have "e = f" if rows: "e \<in> set (ap_entries p)" "f \<in> set (ap_entries p)"
    and same: "ae_uid e = ae_uid f \<or> (ae_namespace e, ae_name e) = (ae_namespace f, ae_name f) \<or>
      source_Path (ae_source e) = source_Path (ae_source f)" for e f
  proof -
    have "ae_uid e = ae_uid f \<or> local_key e = local_key f \<or>
        source_key (ae_source e) = source_key (ae_source f)"
      using same source_Path_inj [OF lib, of "ae_source e" "ae_source f"]
        access_loop_valid [OF loop rows(1)] access_loop_valid [OF loop rows(2)]
      by (auto simp: local_key_def source_key_def)
    then show ?thesis
      using by_access_uid.loop_key_inj [OF loop rows] by_local.loop_key_inj [OF loop rows]
        by_source.loop_key_inj [OF loop rows] by blast
  qed
  then show ?thesis by (simp add: inj_on_def)
qed

theorem access_table_unambiguous_witness:
  "inj_on ae_uid {sample_access_entry, sample_second_entry} \<and>
   inj_on (\<lambda>e. (ae_namespace e, ae_name e)) {sample_access_entry, sample_second_entry} \<and>
   inj_on (\<lambda>e. source_Path (ae_source e)) {sample_access_entry, sample_second_entry} \<and>
   sample_access_entry \<noteq> sample_second_entry"
  using access_table_unambiguous [OF sample_access_Parse sample_rfc1123]
  by (simp add: sample_access_policy_def sample_access_entry_def sample_second_entry_def)

text \<open>
  C17. \<open>Select\<close> finds the row of an instance whatever the order of the table: in an accepted table
  it returns a row exactly when that row carries the instance's UID, namespace and name; without
  such a row, or without a UID, the instance is unmapped.
\<close>

theorem access_Select_exact:
  assumes parsed: "access_Parse lib input = Inr p"
  shows "(access_Select (Some p) obj = Inr e \<longleftrightarrow>
      e \<in> set (ap_entries p) \<and> ae_uid e = meta_uid obj \<and> ae_namespace e = meta_namespace obj \<and>
      ae_name e = meta_name obj) \<and>
    (access_Select (Some p) obj = Inl (Sentinel ErrUnmapped) \<longleftrightarrow>
      (\<forall>e \<in> set (ap_entries p). (ae_uid e, ae_namespace e, ae_name e) \<noteq>
         (meta_uid obj, meta_namespace obj, meta_name obj)))"
proof -
  obtain t where loop: "range_loop (access_step lib) (ap_entries p)
      \<lparr>as_uids = {}, as_local = {}, as_sources = {}\<rparr> = Inr t"
    using access_Parse_Inr [OF parsed] by blast
  have uid: "ae_uid e \<noteq> []" if "e \<in> set (ap_entries p)" for e
    using access_loop_valid [OF loop that] by simp
  have inj: "e = f" if "e \<in> set (ap_entries p)" "f \<in> set (ap_entries p)" "ae_uid e = ae_uid f" for e f
    using by_access_uid.loop_key_inj [OF loop that(1,2)] that(3) by simp
  show ?thesis
  proof (cases "find (\<lambda>e. row_matches e obj) (ap_entries p)")
    case None
    then have "access_Select (Some p) obj = Inl (Sentinel ErrUnmapped)"
      by (simp add: access_Select_def)
    moreover have "\<forall>e \<in> set (ap_entries p). \<not> row_matches e obj"
      using None by (simp add: find_None_iff)
    ultimately show ?thesis by (auto simp: row_matches_def)
  next
    case (Some f)
    then have f: "f \<in> set (ap_entries p)" "row_matches f obj" by (auto simp: find_Some_iff)
    then have "meta_uid obj \<noteq> []" using uid by (auto simp: row_matches_def)
    with Some have "access_Select (Some p) obj = Inr f" by (simp add: access_Select_def)
    with f inj show ?thesis by (auto simp: row_matches_def)
  qed
qed

theorem access_Select_exact_witness:
  "access_Select (Some sample_access_policy)
     \<lparr>meta_name = ''chat'', meta_namespace = ''tenant'', meta_uid = ''uid-1'', meta_resource_version = ''1'',
      meta_generation = 1, meta_created = 200, meta_deleted = None, meta_labels = fmempty,
      meta_annotations = fmempty, meta_finalizers = [], meta_controller = None\<rparr> = Inr sample_access_entry"
  using access_Select_exact [OF sample_access_Parse]
  by (simp add: sample_access_policy_def sample_access_entry_def row_matches_def)

end
