(* ===== verification/Reconciler_Base.thy ===== *)
theory Reconciler_Base
  imports Kube_Objects Hostname_Policy Access_Policy
begin

text \<open>
  The receiver of every reconciler method (\<open>ChatUIInstanceReconciler\<close>), the methods' access
  to the API, and who owns an object: \<open>ownedByInstance\<close> (access_resources.go) and \<open>ownsIngress\<close>
  (hostname_policy.go).
\<close>

subsection \<open>The receiver\<close>

text \<open>
  \<open>r_lib\<close> and \<open>r_cluster\<close> are the library and the outside world; \<open>r_guard_source\<close> is the
  embedded file of package \<open>webuiguard\<close>. \<open>r_has_route_reader\<close>: whether \<open>RouteReader\<close> is set.
\<close>

record 'w reconciler =
  r_lib :: library
  r_cluster :: "'w cluster"
  r_hostname_policy :: "policy option"
  r_access_policy :: "access_policy option"
  r_has_route_reader :: bool
  r_public_host :: string
  r_public_scheme :: string
  r_extra_annotations :: gomap
  r_tls_secret_name :: string
  r_guard_source :: string

definition trueValue :: string where "trueValue = ''true''"
definition phaseProvisioning :: string where "phaseProvisioning = ''Provisioning''"
definition phaseError :: string where "phaseError = ''Error''"
definition finalizerName :: string where "finalizerName = ''ui.privatellms.msp/chatuiinstance-finalizer''"
definition provisioningRequeueAfter :: int where "provisioningRequeueAfter = 5"
definition hostnameRecheckAfter :: int where "hostnameRecheckAfter = 30"

text \<open>\<open>ctrl.Result\<close>, with the delay in seconds.\<close>

record result =
  res_requeue :: bool
  res_after :: int

definition no_result :: result where
  "no_result = \<lparr>res_requeue = False, res_after = 0\<rparr>"

definition requeue_after :: "int \<Rightarrow> result" where
  "requeue_after n = \<lparr>res_requeue = False, res_after = n\<rparr>"

definition routeReader :: "'w reconciler \<Rightarrow> reader" where
  "routeReader r = (if r_has_route_reader r then Live else Cached)"

subsection \<open>API calls of the methods\<close>

definition getInst :: "'w reconciler \<Rightarrow> reader \<Rightarrow> key \<Rightarrow> ('w, api_error + chat_instance) op" where
  "getInst r rd k = external (k_get_instance (r_cluster r) rd k) (GetInstance rd k)"

definition getDeployment :: "'w reconciler \<Rightarrow> reader \<Rightarrow> key \<Rightarrow> ('w, api_error + deployment) op" where
  "getDeployment r rd k = external (k_get_deployment (r_cluster r) rd k) (GetDeployment rd k)"

definition getService :: "'w reconciler \<Rightarrow> reader \<Rightarrow> key \<Rightarrow> ('w, api_error + service) op" where
  "getService r rd k = external (k_get_service (r_cluster r) rd k) (GetService rd k)"

definition getIngress :: "'w reconciler \<Rightarrow> reader \<Rightarrow> key \<Rightarrow> ('w, api_error + ingress) op" where
  "getIngress r rd k = external (k_get_ingress (r_cluster r) rd k) (GetIngress rd k)"

definition getSecret :: "'w reconciler \<Rightarrow> reader \<Rightarrow> key \<Rightarrow> ('w, api_error + secret) op" where
  "getSecret r rd k = external (k_get_secret (r_cluster r) rd k) (GetSecret rd k)"

definition getEndpoints :: "'w reconciler \<Rightarrow> reader \<Rightarrow> key \<Rightarrow> ('w, api_error + endpoint_subset list) op" where
  "getEndpoints r rd k = external (k_get_endpoints (r_cluster r) rd k) (GetEndpoints rd k)"

definition listInstances :: "'w reconciler \<Rightarrow> reader \<Rightarrow> string \<Rightarrow> ('w, api_error + chat_instance list) op" where
  "listInstances r rd ns = external (k_list_instances (r_cluster r) rd ns) (ListInstances rd ns)"

definition listIngresses :: "'w reconciler \<Rightarrow> reader \<Rightarrow> ('w, api_error + ingress list) op" where
  "listIngresses r rd = external (k_list_ingresses (r_cluster r) rd) (ListIngresses rd)"

definition listDeployments :: "'w reconciler \<Rightarrow> reader \<Rightarrow> string \<Rightarrow> ('w, api_error + deployment list) op" where
  "listDeployments r rd ns = external (k_list_deployments (r_cluster r) rd ns) (ListDeployments rd ns)"

definition listPods ::
  "'w reconciler \<Rightarrow> reader \<Rightarrow> string \<Rightarrow> label_selector option \<Rightarrow> ('w, api_error + pod list) op" where
  "listPods r rd ns sel = external (k_list_pods (r_cluster r) rd ns sel) (ListPods rd ns sel)"

definition createDeployment :: "'w reconciler \<Rightarrow> deployment \<Rightarrow> ('w, api_error + deployment) op" where
  "createDeployment r d = external (k_create_deployment (r_cluster r) d) (CreateDeployment d)"

definition createService :: "'w reconciler \<Rightarrow> service \<Rightarrow> ('w, api_error + service) op" where
  "createService r s = external (k_create_service (r_cluster r) s) (CreateService s)"

definition createIngress :: "'w reconciler \<Rightarrow> ingress \<Rightarrow> ('w, api_error + ingress) op" where
  "createIngress r g = external (k_create_ingress (r_cluster r) g) (CreateIngress g)"

definition createSecret :: "'w reconciler \<Rightarrow> secret \<Rightarrow> ('w, api_error + secret) op" where
  "createSecret r s = external (k_create_secret (r_cluster r) s) (CreateSecret s)"

definition updateInstance :: "'w reconciler \<Rightarrow> chat_instance \<Rightarrow> ('w, api_error + chat_instance) op" where
  "updateInstance r i = external (k_update_instance (r_cluster r) i) (UpdateInstance i)"

definition updateDeployment :: "'w reconciler \<Rightarrow> deployment \<Rightarrow> ('w, api_error + deployment) op" where
  "updateDeployment r d = external (k_update_deployment (r_cluster r) d) (UpdateDeployment d)"

definition updateService :: "'w reconciler \<Rightarrow> service \<Rightarrow> ('w, api_error + service) op" where
  "updateService r s = external (k_update_service (r_cluster r) s) (UpdateService s)"

definition updateIngress :: "'w reconciler \<Rightarrow> ingress \<Rightarrow> ('w, api_error + ingress) op" where
  "updateIngress r g = external (k_update_ingress (r_cluster r) g) (UpdateIngress g)"

definition deleteIngress :: "'w reconciler \<Rightarrow> ingress \<Rightarrow> string \<Rightarrow> string \<Rightarrow> ('w, api_error + unit) op" where
  "deleteIngress r g uid rv = external (k_delete_ingress (r_cluster r) g uid rv) (DeleteIngress g uid rv)"

definition deleteSecret :: "'w reconciler \<Rightarrow> secret \<Rightarrow> string \<Rightarrow> string \<Rightarrow> ('w, api_error + unit) op" where
  "deleteSecret r s uid rv = external (k_delete_secret (r_cluster r) s uid rv) (DeleteSecret s uid rv)"

definition patchStatus ::
  "'w reconciler \<Rightarrow> chat_instance \<Rightarrow> chat_instance \<Rightarrow> bool \<Rightarrow> ('w, api_error + chat_instance) op" where
  "patchStatus r base new lock =
     external (k_patch_status (r_cluster r) base new lock) (PatchStatus base new lock)"

definition updateStatus :: "'w reconciler \<Rightarrow> chat_instance \<Rightarrow> ('w, api_error + chat_instance) op" where
  "updateStatus r i = external (k_update_status (r_cluster r) i) (UpdateStatus i)"

definition randomBytes :: "'w reconciler \<Rightarrow> nat \<Rightarrow> ('w, string option) op" where
  "randomBytes r n = external (k_random (r_cluster r) n) (RandomBytes n)"

lemmas api_defs = getInst_def getDeployment_def getService_def getIngress_def getSecret_def
  getEndpoints_def listInstances_def listIngresses_def listDeployments_def listPods_def
  createDeployment_def createService_def createIngress_def createSecret_def updateInstance_def
  updateDeployment_def updateService_def updateIngress_def deleteIngress_def deleteSecret_def
  patchStatus_def updateStatus_def randomBytes_def

text \<open>The error of a write whose reply is not used.\<close>

definition write_error :: "api_error + 'a \<Rightarrow> go_error option" where
  "write_error res = (case res of Inl e \<Rightarrow> Some (Api e) | Inr _ \<Rightarrow> None)"

lemma write_error_simps [simp]:
  "write_error (Inl e) = Some (Api e)" "write_error (Inr a) = None"
  by (simp_all add: write_error_def)

subsection \<open>Ownership\<close>

definition ownedByInstance :: "object_meta \<Rightarrow> chat_instance \<Rightarrow> bool" where
  "ownedByInstance object inst =
     (i_uid inst \<noteq> [] \<and> meta_namespace object = i_namespace inst \<and>
      (case meta_controller object of
         None \<Rightarrow> False
       | Some owner \<Rightarrow>
           owner_uid owner = i_uid inst \<and> owner_name owner = i_name inst \<and>
           owner_api_version owner = GroupVersion \<and> owner_kind owner = ''ChatUIInstance''))"

definition ownsIngress :: "chat_instance \<Rightarrow> ingress \<Rightarrow> bool" where
  "ownsIngress inst ing =
     (case meta_controller (ing_meta ing) of
        None \<Rightarrow> False
      | Some owner \<Rightarrow>
          i_uid inst \<noteq> [] \<and> meta_namespace (ing_meta ing) = i_namespace inst \<and>
          owner_uid owner = i_uid inst \<and> owner_name owner = i_name inst \<and>
          owner_kind owner = ''ChatUIInstance'' \<and> owner_api_version owner = GroupVersion)"

text \<open>The two ownership tests are the same test.\<close>

lemma ownsIngress_ownedByInstance: "ownsIngress inst ing = ownedByInstance (ing_meta ing) inst"
  by (auto simp: ownsIngress_def ownedByInstance_def split: option.splits)

text \<open>One object cannot be owned by two instances.\<close>

lemma owner_unique:
  "ownedByInstance object i \<Longrightarrow> ownedByInstance object j \<Longrightarrow>
   i_uid i = i_uid j \<and> i_namespace i = i_namespace j \<and> i_name i = i_name j"
  by (auto simp: ownedByInstance_def split: option.splits)

end
