(* ===== verification/Fail_Closed.thy ===== *)
theory Fail_Closed
  imports Reconciler_Base
begin

text \<open>
  The reconciler's ways to withdraw service: \<open>image_policy.go\<close> (the image boundary and the
  scale-down of a workload), \<open>withdrawAccess\<close>, \<open>denyAccess\<close> and \<open>rejectReplicas\<close> of
  \<open>access_resources.go\<close>.
\<close>

subsection \<open>image_policy.go\<close>

definition resolveImage :: "string \<Rightarrow> go_error + string" where
  "resolveImage requested =
     (if requested = [] \<or> requested = SupportedImage then Inr SupportedImage
      else Inl (ErrNew (''spec.image must be omitted or equal the supported image '' @ SupportedImage)))"

definition ready_condition :: "chat_instance \<Rightarrow> string \<Rightarrow> string \<Rightarrow> string \<Rightarrow> condition" where
  "ready_condition inst status reason message =
     \<lparr>cond_type = ''Ready'', cond_status = status, cond_reason = reason, cond_message = message,
      cond_observed = meta_generation (i_meta inst), cond_transition = 0\<rparr>"

definition denied_status ::
  "library \<Rightarrow> chat_instance \<Rightarrow> string \<Rightarrow> string \<Rightarrow> string \<Rightarrow> chat_instance" where
  "denied_status lib inst phase reason message =
     inst\<lparr>i_status := (i_status inst)
       \<lparr>st_url := [], st_phase := phase, st_observed := meta_generation (i_meta inst),
        st_conditions := set_condition lib (ready_condition inst ''False'' reason message)
                           (st_conditions (i_status inst))\<rparr>\<rparr>"

definition updateImagePolicyStatus ::
  "'w reconciler \<Rightarrow> string \<Rightarrow> string \<Rightarrow> string \<Rightarrow> ('w, go_error option) op" where
  "updateImagePolicyStatus r phase reason message = do {
     before \<leftarrow> get_inst;
     let inst = denied_status (r_lib r) before phase reason message;
     put_inst inst;
     reply \<leftarrow> patchStatus r before inst False;
     case reply of
       Inl e \<Rightarrow> ret (Some (Api e))
     | Inr persisted \<Rightarrow> do { put_inst persisted; ret None }
   }"

definition stopUnapprovedDeployment :: "'w reconciler \<Rightarrow> bool \<Rightarrow> ('w, go_error + bool) op" where
  "stopUnapprovedDeployment r force = do {
     inst \<leftarrow> get_inst;
     found \<leftarrow> getDeployment r (routeReader r) (chatui_key inst);
     case found of
       Inl e \<Rightarrow> ret (if e = NotFound then Inr False else Inl (Api e))
     | Inr deployment \<Rightarrow>
         if \<not> ownedByInstance (d_meta deployment) inst
         then ret (Inl (WrapBefore (Sentinel ErrDeploymentNotOwned) (i_namespace inst @ ''/'' @ chatui_name inst)))
         else
           let unapproved = (force \<or> list_ex (\<lambda>c. c_name c = ''open-webui'' \<and> c_image c \<noteq> SupportedImage)
                                       (p_containers (t_spec (d_template deployment))))
           in if \<not> unapproved then ret (Inr False)
           else if d_replicas deployment \<noteq> Some 0
           then do {
             reply \<leftarrow> updateDeployment r (deployment\<lparr>d_replicas := Some 0\<rparr>);
             case write_error reply of None \<Rightarrow> ret (Inr True) | Some e \<Rightarrow> ret (Inl e)
           }
           else ret (Inr (d_observed_generation deployment < meta_generation (d_meta deployment) \<or>
                          d_status_replicas deployment \<noteq> 0))
   }"

subsection \<open>withdrawAccess\<close>

definition withdrawAccess :: "'w reconciler \<Rightarrow> ('w, go_error option) op" where
  "withdrawAccess r = do {
     inst \<leftarrow> get_inst;
     found \<leftarrow> getIngress r (routeReader r) (chatui_key inst);
     case found of
       Inl e \<Rightarrow> ret (if e = NotFound then None else Some (Api e))
     | Inr ing \<Rightarrow>
         if \<not> ownsIngress inst ing then ret (Some (Sentinel ErrIngressNotOwned))
         else do {
           reply \<leftarrow> deleteIngress r ing (meta_uid (ing_meta ing)) (meta_resource_version (ing_meta ing));
           case reply of
             Inl e \<Rightarrow> ret (if e = NotFound then None else Some (Api e))
           | Inr _ \<Rightarrow> ret None
         }
   }"

subsection \<open>The denying handlers\<close>

definition rejectImage :: "'w reconciler \<Rightarrow> string \<Rightarrow> ('w, go_error option) op" where
  "rejectImage r message = do {
     withdrawErr \<leftarrow> withdrawAccess r;
     stopped \<leftarrow> stopUnapprovedDeployment r True;
     statusErr \<leftarrow> updateImagePolicyStatus r phaseError ''ImageNotAllowed'' message;
     ret (errors_Join [withdrawErr, err_of stopped, statusErr])
   }"

definition denyAccess :: "'w reconciler \<Rightarrow> go_error \<Rightarrow> ('w, result \<times> go_error option) op" where
  "denyAccess r cause = do {
     withdrawErr \<leftarrow> withdrawAccess r;
     stopped \<leftarrow> stopUnapprovedDeployment r True;
     statusErr \<leftarrow> updateImagePolicyStatus r phaseError ''AccessNotConfigured''
       ''Instance access configuration is unavailable; operator review is required'';
     ret (requeue_after hostnameRecheckAfter,
          errors_Join [Some cause, withdrawErr, err_of stopped, statusErr])
   }"

definition rejectReplicas :: "'w reconciler \<Rightarrow> ('w, result \<times> go_error option) op" where
  "rejectReplicas r = do {
     withdrawErr \<leftarrow> withdrawAccess r;
     stopped \<leftarrow> stopUnapprovedDeployment r True;
     statusErr \<leftarrow> updateImagePolicyStatus r phaseError ''UnsupportedReplicas''
       ''Only one Chat UI replica is supported. Set spec.replicas to 1.'';
     ret (requeue_after hostnameRecheckAfter, errors_Join [withdrawErr, err_of stopped, statusErr])
   }"

end
