(* ===== verification/Hostname_Route.thy ===== *)
theory Hostname_Route
  imports Fail_Closed
begin

text \<open>
  \<open>hostname_policy.go\<close> of package controller and the slug selection of the reconciler: which
  Ingress rules claim a host, the check before a route is used, the recorded selection and its
  read-back, and the status of a hostname failure.
\<close>

subsection \<open>claimsHost\<close>

definition claimsHost :: "string \<Rightarrow> string \<Rightarrow> bool" where
  "claimsHost rule0 host0 =
     (let rule = ToLower rule0; host = ToLower host0 in
      if rule = host then True
      else if HasPrefix rule ''*.'' then
        (let sfx = drop 2 rule in
         HasSuffix host (''.'' @ sfx) \<and>
         count_list host (CHR ''.'') = count_list sfx (CHR ''.'') + 1)
      else False)"

subsection \<open>checkHostname\<close>

definition checkHostname :: "'w reconciler \<Rightarrow> string \<Rightarrow> ('w, go_error option) op" where
  "checkHostname r host = do {
     inst \<leftarrow> get_inst;
     found \<leftarrow> getIngress r (routeReader r) (chatui_key inst);
     case (case found of
             Inr existing \<Rightarrow>
               if \<not> ownsIngress inst existing then Some (Sentinel ErrIngressNotOwned) else None
           | Inl e \<Rightarrow> if e \<noteq> NotFound then Some (Api e) else None) of
       Some e \<Rightarrow> ret (Some e)
     | None \<Rightarrow> do {
         listed \<leftarrow> listIngresses r (routeReader r);
         case listed of
           Inl e \<Rightarrow> ret (Some (Api e))
         | Inr items \<Rightarrow>
             ret (if list_ex (\<lambda>ing.
                       \<not> (meta_key (ing_meta ing) = chatui_key inst \<and> ownsIngress inst ing) \<and>
                       list_ex (\<lambda>rule. claimsHost (ir_host rule) host) (ing_rules ing)) items
                  then Some (Sentinel ErrHostnameConflict) else None)
       }
   }"

subsection \<open>ensureSlug and selectedInstanceHost\<close>

definition ensureSlug :: "'w reconciler \<Rightarrow> ('w, go_error + string) op" where
  "ensureSlug r = do {
     inst \<leftarrow> get_inst;
     case Select (r_lib r) (r_hostname_policy r) (i_meta inst) of
       Inl e \<Rightarrow> ret (Inl e)
     | Inr selection \<Rightarrow>
         if st_slug (i_status inst) \<noteq> sel_slug selection \<or>
            st_slug_source (i_status inst) \<noteq> sel_source selection
         then do {
           let pending = inst\<lparr>i_status := (i_status inst)
             \<lparr>st_slug := sel_slug selection, st_slug_source := sel_source selection,
              st_url := [], st_phase := phaseProvisioning,
              st_observed := meta_generation (i_meta inst),
              st_conditions := set_condition (r_lib r)
                (ready_condition inst ''False'' ''HostnamePending'' ''Validating the operator-selected hostname'')
                (st_conditions (i_status inst))\<rparr>\<rparr>;
           put_inst pending;
           reply \<leftarrow> patchStatus r inst pending False;
           case reply of
             Inl e \<Rightarrow> ret (Inl (Api e))
           | Inr patched \<Rightarrow> do {
               put_inst patched;
               fetched \<leftarrow> getInst r (routeReader r) (meta_key (i_meta patched));
               case fetched of
                 Inl e \<Rightarrow> ret (Inl (Api e))
               | Inr persisted \<Rightarrow>
                   if st_slug (i_status persisted) \<noteq> sel_slug selection \<or>
                      st_slug_source (i_status persisted) \<noteq> sel_source selection
                   then ret (Inl (ErrNew ''ChatUIInstance schema must persist status.slug and status.slugSource before reconciliation''))
                   else ret (Inr (sel_slug selection))
             }
         }
         else ret (Inr (sel_slug selection))
   }"

definition instanceHost :: "'w reconciler \<Rightarrow> string \<Rightarrow> go_error + string" where
  "instanceHost r slug = Host (r_lib r) (r_public_host r) slug"

definition selectedInstanceHost :: "'w reconciler \<Rightarrow> ('w, go_error + string) op" where
  "selectedInstanceHost r = do {
     ensured \<leftarrow> ensureSlug r;
     case ensured of
       Inl e \<Rightarrow> ret (Inl e)
     | Inr slug \<Rightarrow>
         (case instanceHost r slug of
            Inl e \<Rightarrow> ret (Inl e)
          | Inr host \<Rightarrow> do {
              checked \<leftarrow> checkHostname r host;
              case checked of Some e \<Rightarrow> ret (Inl e) | None \<Rightarrow> ret (Inr host)
            })
   }"

subsection \<open>hostnameFailure and stopForHostnameFailure\<close>

text \<open>The reason and message of a classified failure.\<close>

definition hostname_reason :: "go_error \<Rightarrow> (string \<times> string) option" where
  "hostname_reason cause =
     (if errors_Is cause ErrLegacyUnmapped
      then Some (''LegacyHostnameUnmapped'', ''An operator-reviewed hostname mapping is required for this existing instance'')
      else if errors_Is cause ErrIdentity
      then Some (''HostnameIdentityError'', ''Instance identity does not match the operator hostname policy'')
      else if errors_Is cause ErrIngressNotOwned
      then Some (''HostnameOwnershipError'', ''The named Ingress is not controlled by this ChatUIInstance'')
      else if errors_Is cause ErrHostnameConflict
      then Some (''HostnameConflict'', ''Another Ingress claims the selected hostname; operator review is required'')
      else None)"

definition hostnameFailure :: "'w reconciler \<Rightarrow> go_error \<Rightarrow> ('w, result \<times> go_error option) op" where
  "hostnameFailure r cause = do {
     before \<leftarrow> get_inst;
     case hostname_reason cause of
       None \<Rightarrow>
         if st_url (i_status before) = [] \<and>
            \<not> condition_true (r_lib r) (st_conditions (i_status before)) ''Ready''
         then ret (no_result, Some cause)
         else do {
           statusErr \<leftarrow> updateImagePolicyStatus r phaseError ''HostnameCheckFailed''
             ''Hostname ownership could not be verified'';
           ret (no_result, errors_Join [Some cause, statusErr])
         }
     | Some (reason, message) \<Rightarrow> do {
         let forget = (errors_Is cause ErrLegacyUnmapped \<or> errors_Is cause ErrIdentity);
         let cleared = before\<lparr>i_status := (i_status before)
           \<lparr>st_slug := (if forget then [] else st_slug (i_status before)),
            st_slug_source := (if forget then [] else st_slug_source (i_status before))\<rparr>\<rparr>;
         let inst = denied_status (r_lib r) cleared phaseError reason message;
         put_inst inst;
         if i_status before \<noteq> i_status inst
         then do {
           reply \<leftarrow> patchStatus r before inst False;
           case reply of
             Inl e \<Rightarrow> ret (requeue_after hostnameRecheckAfter, Some (Api e))
           | Inr persisted \<Rightarrow> do { put_inst persisted; ret (requeue_after hostnameRecheckAfter, None) }
         }
         else ret (requeue_after hostnameRecheckAfter, None)
       }
   }"

definition stopForHostnameFailure :: "'w reconciler \<Rightarrow> go_error \<Rightarrow> ('w, result \<times> go_error option) op" where
  "stopForHostnameFailure r cause = do {
     withdrawn \<leftarrow> withdrawAccess r;
     let withdrawalErr = (case withdrawn of
         None \<Rightarrow> None
       | Some e \<Rightarrow> if errors_Is e ErrIngressNotOwned then None else Some e);
     stopped \<leftarrow> stopUnapprovedDeployment r True;
     outcome \<leftarrow> hostnameFailure r cause;
     case outcome of (result, statusErr) \<Rightarrow>
       ret (result, errors_Join [withdrawalErr, err_of stopped, statusErr])
   }"

subsection \<open>What a host claim is\<close>

text \<open>
  A rule claims a host if it is that host, ignoring case, or if it is a wildcard \<open>*.suffix\<close>
  and the host is \<open>suffix\<close> with exactly one more label in front.
\<close>

lemma count_list_zero_iff: "count_list xs x = 0 \<longleftrightarrow> x \<notin> set xs"
  by (simp add: count_list_0_iff)

lemma wildcard_iff:
  "HasSuffix host (CHR ''.'' # sfx) \<and> count_list host (CHR ''.'') = count_list sfx (CHR ''.'') + 1 \<longleftrightarrow>
   (\<exists>label. host = label @ CHR ''.'' # sfx \<and> CHR ''.'' \<notin> set label)"
  by (auto simp: suffix_def count_list_append count_list_zero_iff)

end
