(* ===== verification/Access_Secrets.thy ===== *)
theory Access_Secrets
  imports Fail_Closed Go_Encoding "HOL-Library.Product_Lexorder"
begin

text \<open>
  The immutable Secrets of an instance: the session keys and the access bundles of
  \<open>access_resources.go\<close>, their UID pins in the status, and the bounded history of
  \<open>access_secret_history.go\<close>.
\<close>

subsection \<open>Names\<close>

definition uidHash :: "library \<Rightarrow> string \<Rightarrow> string" where
  "uidHash lib v = hex_encode (take 16 (sha256_sum lib v))"

definition sessionSecretName :: "library \<Rightarrow> chat_instance \<Rightarrow> string" where
  "sessionSecretName lib inst = ''chatui-session-'' @ uidHash lib (i_uid inst)"

definition maxAccessBundles :: nat where
  "maxAccessBundles = 3"

record access_bundle =
  ab_name :: string
  ab_session_name :: string
  ab_revision :: string
  ab_public_url :: string

subsection \<open>Pins\<close>

definition persistAccessSecretPins :: "'w reconciler \<Rightarrow> gomap \<Rightarrow> ('w, go_error option) op" where
  "persistAccessSecretPins r pins = do {
     inst \<leftarrow> get_inst;
     let updated = inst\<lparr>i_status := (i_status inst)\<lparr>st_pins := pins\<rparr>\<rparr>;
     reply \<leftarrow> patchStatus r inst updated True;
     case reply of
       Inl e \<Rightarrow> ret (Some (Api e))
     | Inr _ \<Rightarrow> do {
         fetched \<leftarrow> getInst r (routeReader r) (meta_key (i_meta inst));
         case fetched of
           Inl e \<Rightarrow> ret (Some (Api e))
         | Inr persisted \<Rightarrow>
             if i_pins persisted \<noteq> pins
             then ret (Some (ErrNew ''ChatUIInstance schema must persist access Secret UID pins''))
             else do { put_inst persisted; ret None }
       }
   }"

definition pinAccessSecret :: "'w reconciler \<Rightarrow> secret \<Rightarrow> ('w, go_error option) op" where
  "pinAccessSecret r secret =
     (if meta_uid (sec_meta secret) = []
      then ret (Some (ErrNew ''API server did not assign an access Secret UID''))
      else do {
        inst \<leftarrow> get_inst;
        let pins = fmupd (meta_name (sec_meta secret)) (meta_uid (sec_meta secret)) (i_pins inst);
        if map_len pins > maxAccessBundles + 1
        then ret (Some (ErrNew ''access Secret history is full''))
        else persistAccessSecretPins r pins
      })"

subsection \<open>Session keys\<close>

text \<open>
  The checks on a Secret that is found under the expected name: owned, immutable, not being
  deleted, and the very object whose UID is pinned in the status.
\<close>

definition trusted_secret :: "chat_instance \<Rightarrow> secret \<Rightarrow> bool" where
  "trusted_secret inst s =
     (ownedByInstance (sec_meta s) inst \<and> sec_immutable s = Some True \<and>
      meta_deleted (sec_meta s) = None \<and> meta_uid (sec_meta s) \<noteq> [] \<and>
      map_get (i_pins inst) (meta_name (sec_meta s)) = meta_uid (sec_meta s))"

definition session_key_names :: "string list" where
  "session_key_names = [''cookie-secret'', ''webui-secret'']"

definition valid_session_key :: "string \<Rightarrow> bool" where
  "valid_session_key encoded = (case StdDecode encoded of None \<Rightarrow> False | Some key \<Rightarrow> length key = 32)"

text \<open>The loop that fills a new Secret with random keys.\<close>

primrec fill_session_keys :: "'w reconciler \<Rightarrow> string list \<Rightarrow> gomap \<Rightarrow> ('w, go_error + gomap) op" where
  "fill_session_keys r [] data = ret (Inr data)"
| "fill_session_keys r (name # names) data = do {
     drawn \<leftarrow> randomBytes r 32;
     case drawn of
       None \<Rightarrow> ret (Inl (ErrNew ''session entropy unavailable''))
     | Some key \<Rightarrow> fill_session_keys r names (fmupd name (StdEncode key) data)
   }"

definition new_meta :: "string \<Rightarrow> string \<Rightarrow> object_meta" where
  "new_meta ns name =
     \<lparr>meta_name = name, meta_namespace = ns, meta_uid = [], meta_resource_version = [],
      meta_generation = 0, meta_created = 0, meta_deleted = None, meta_labels = fmempty,
      meta_annotations = fmempty, meta_finalizers = [], meta_controller = None\<rparr>"

text \<open>Create an immutable, owned Secret and pin the UID the API server gave it.\<close>

definition create_pinned_secret :: "'w reconciler \<Rightarrow> string \<Rightarrow> gomap \<Rightarrow> ('w, go_error + secret) op" where
  "create_pinned_secret r name data = do {
     inst \<leftarrow> get_inst;
     case set_controller (r_lib r) (i_meta inst) (new_meta (i_namespace inst) name) of
       Inl e \<Rightarrow> ret (Inl (ErrNew e))
     | Inr m \<Rightarrow> do {
         reply \<leftarrow> createSecret r \<lparr>sec_meta = m, sec_type = ''Opaque'', sec_immutable = Some True, sec_data = data\<rparr>;
         case reply of
           Inl e \<Rightarrow> ret (Inl (Api e))
         | Inr created \<Rightarrow> do {
             pinned \<leftarrow> pinAccessSecret r created;
             case pinned of Some e \<Rightarrow> ret (Inl e) | None \<Rightarrow> ret (Inr created)
           }
       }
   }"

definition sessionSecret :: "'w reconciler \<Rightarrow> ('w, go_error + secret) op" where
  "sessionSecret r = do {
     inst \<leftarrow> get_inst;
     let name = sessionSecretName (r_lib r) inst;
     found \<leftarrow> getSecret r (routeReader r) (i_namespace inst, name);
     case found of
       Inr secret \<Rightarrow>
         if \<not> trusted_secret inst secret
         then ret (Inl (ErrNew ''session Secret ownership or immutability mismatch''))
         else if \<not> list_all (\<lambda>n. valid_session_key (map_get (sec_data secret) n)) session_key_names
         then ret (Inl (ErrNew ''invalid session key material''))
         else ret (Inr secret)
     | Inl e \<Rightarrow>
         if e \<noteq> NotFound then ret (Inl (Api e))
         else if map_get (i_pins inst) name \<noteq> []
         then ret (Inl (ErrNew ''pinned session Secret is missing; operator recovery required''))
         else do {
           filled \<leftarrow> fill_session_keys r session_key_names fmempty;
           case filled of
             Inl e \<Rightarrow> ret (Inl e)
           | Inr data \<Rightarrow> create_pinned_secret r name data
         }
   }"

subsection \<open>References to Secrets\<close>

definition env_references :: "env_var list \<Rightarrow> env_from list \<Rightarrow> string list" where
  "env_references env from =
     concat (map (\<lambda>v. case env_value_from v of
         None \<Rightarrow> []
       | Some src \<Rightarrow> (case es_secret_key_ref src of None \<Rightarrow> [] | Some k \<Rightarrow> [skr_name k])) env) @
     concat (map (\<lambda>f. set_option_list (ef_secret_ref f)) from)"

definition collectSecretReferences :: "pod_spec \<Rightarrow> string set" where
  "collectSecretReferences spec =
     set (concat (map (\<lambda>v.
            (case vol_secret v of None \<Rightarrow> [] | Some sv \<Rightarrow> [sv_name sv]) @
            (case vol_projected v of None \<Rightarrow> [] | Some sources \<Rightarrow> concat (map set_option_list sources)))
          (p_volumes spec))) \<union>
     set (p_pull_secrets spec) \<union>
     set (concat (map (\<lambda>c. env_references (c_env c) (c_env_from c))
          (p_init_containers spec @ p_containers spec))) \<union>
     set (concat (map (\<lambda>c. env_references (ec_env c) (ec_env_from c)) (p_ephemeral spec)))"

definition referenced_secrets :: "deployment list \<Rightarrow> pod list \<Rightarrow> string set" where
  "referenced_secrets ds ps =
     \<Union> (set (map (\<lambda>d. collectSecretReferences (t_spec (d_template d))) ds)) \<union>
     \<Union> (set (map (\<lambda>p. collectSecretReferences (pod_spec_of p)) ps))"

subsection \<open>The bounded history\<close>

text \<open>
  The loop over the pins. The session Secret is skipped; every other pin must have the name of
  an access bundle and a UID, and its Secret must be gone, or owned, immutable and the pinned
  object. The Secrets no workload references are the candidates.
\<close>

primrec collect_candidates ::
  "'w reconciler \<Rightarrow> chat_instance \<Rightarrow> string set \<Rightarrow> (string \<times> string) list \<Rightarrow> secret list
   \<Rightarrow> ('w, go_error + secret list) op" where
  "collect_candidates r inst referenced [] candidates = ret (Inr candidates)"
| "collect_candidates r inst referenced (pin # pins) candidates =
     (case pin of (name, uid) \<Rightarrow>
        if name = sessionSecretName (r_lib r) inst
        then collect_candidates r inst referenced pins candidates
        else if \<not> HasPrefix name ''chatui-access-'' \<or> uid = []
        then ret (Inl (ErrNew ''invalid access Secret history''))
        else do {
          found \<leftarrow> getSecret r (routeReader r) (i_namespace inst, name);
          let add = (\<lambda>s. if name \<notin> referenced then candidates @ [s] else candidates);
          case found of
            Inl e \<Rightarrow>
              if e = NotFound
              then collect_candidates r inst referenced pins
                     (add \<lparr>sec_meta = new_meta (i_namespace inst) name, sec_type = [],
                           sec_immutable = None, sec_data = fmempty\<rparr>)
              else ret (Inl (Api e))
          | Inr secret \<Rightarrow>
              if \<not> ownedByInstance (sec_meta secret) inst \<or> sec_immutable secret \<noteq> Some True \<or>
                 meta_uid (sec_meta secret) \<noteq> uid
              then ret (Inl (ErrNew ''access Secret history ownership or identity mismatch''))
              else collect_candidates r inst referenced pins (add secret)
        })"

text \<open>\<open>sort.Slice\<close> by creation time, then by name.\<close>

definition candidate_key :: "secret \<Rightarrow> time \<times> string" where
  "candidate_key s = (meta_created (sec_meta s), meta_name (sec_meta s))"

text \<open>After a delete, the Secret must be gone before its pin is dropped.\<close>

definition confirm_gone :: "'w reconciler \<Rightarrow> secret \<Rightarrow> ('w, go_error option) op" where
  "confirm_gone r retired = do {
     remaining \<leftarrow> getSecret r (routeReader r) (meta_key (sec_meta retired));
     case remaining of
       Inr _ \<Rightarrow> ret (Some (ErrNew ''waiting for retired access Secret deletion''))
     | Inl e \<Rightarrow> ret (if e = NotFound then None else Some (Api e))
   }"

definition retire_bundle :: "'w reconciler \<Rightarrow> secret \<Rightarrow> ('w, go_error option) op" where
  "retire_bundle r retired = do {
     inst \<leftarrow> get_inst;
     gone \<leftarrow> (if meta_uid (sec_meta retired) = [] then ret None
       else do {
         deleted \<leftarrow> deleteSecret r retired (meta_uid (sec_meta retired))
                      (meta_resource_version (sec_meta retired));
         case deleted of
           Inl e \<Rightarrow> if e \<noteq> NotFound then ret (Some (Api e)) else confirm_gone r retired
         | Inr _ \<Rightarrow> confirm_gone r retired
       });
     case gone of
       Some e \<Rightarrow> ret (Some e)
     | None \<Rightarrow> persistAccessSecretPins r (fmdrop (meta_name (sec_meta retired)) (i_pins inst))
   }"

definition makeAccessSecretRoom :: "'w reconciler \<Rightarrow> ('w, go_error option) op" where
  "makeAccessSecretRoom r = do {
     inst \<leftarrow> get_inst;
     if map_len (i_pins inst) \<le> maxAccessBundles then ret None
     else do {
       deployments \<leftarrow> listDeployments r (routeReader r) (i_namespace inst);
       case deployments of
         Inl e \<Rightarrow> ret (Some (Api e))
       | Inr ds \<Rightarrow> do {
       pods \<leftarrow> listPods r (routeReader r) (i_namespace inst) None;
       case pods of
         Inl e \<Rightarrow> ret (Some (Api e))
       | Inr ps \<Rightarrow> do {
       collected \<leftarrow> collect_candidates r inst (referenced_secrets ds ps)
                      (map_range (r_lib r) (i_pins inst)) [];
       case collected of
         Inl e \<Rightarrow> ret (Some e)
       | Inr candidates \<Rightarrow>
           (case sort_key candidate_key candidates of
              [] \<Rightarrow> ret (Some (ErrNew ''access Secret history is still in use; cannot retire a bundle''))
            | retired # _ \<Rightarrow> retire_bundle r retired)
       }}
     }
   }"

end
