(* ===== verification/Gate_Config.thy ===== *)
theory Gate_Config
  imports Access_Policy
begin

text \<open>
  The configuration of the access gate (\<open>internal/accessgate/gate.go\<close>, \<open>Config\<close>), which the
  reconciler writes into an access bundle and the gate validates when it starts, and the
  constants both sides share.
\<close>

definition TokenHeader :: string where "TokenHeader = ''X-Chatui-OIDC-Token''"
definition EmailHeader :: string where "EmailHeader = ''X-Chatui-Email''"
definition RoleHeader :: string where "RoleHeader = ''X-Chatui-Role''"
definition CookieName :: string where "CookieName = ''__Host-chatui-session''"

record gate_config =
  gc_kcp_server :: string
  gc_kcp_ca :: string
  gc_public_url :: string
  gc_issuer :: string
  gc_client_id :: string
  gc_source :: source

definition config_Validate :: "library \<Rightarrow> gate_config \<Rightarrow> go_error option" where
  "config_Validate lib c =
     (case HTTPSURL lib (gc_kcp_server c) True of
        Some e \<Rightarrow> Some e
      | None \<Rightarrow>
     (case HTTPSURL lib (gc_public_url c) True of
        Some e \<Rightarrow> Some e
      | None \<Rightarrow>
     (case HTTPSURL lib (gc_issuer c) False of
        Some e \<Rightarrow> Some e
      | None \<Rightarrow>
          if gc_client_id c = [] then Some (ErrNew ''OIDC client ID is required'')
          else source_Validate lib (gc_source c))))"

text \<open>Its JSON form, with the member names of the struct tags.\<close>

definition source_json :: "source \<Rightarrow> json" where
  "source_json s = JObject
     [(''cluster'', JString (src_cluster s)), (''namespace'', JString (src_namespace s)),
      (''name'', JString (src_name s)), (''uid'', JString (src_uid s))]"

definition config_json :: "gate_config \<Rightarrow> json" where
  "config_json c = JObject
     ([(''kcpServer'', JString (gc_kcp_server c))] @
      (if gc_kcp_ca c = [] then [] else [(''kcpCA'', JString (gc_kcp_ca c))]) @
      [(''publicURL'', JString (gc_public_url c)), (''issuer'', JString (gc_issuer c)),
       (''clientID'', JString (gc_client_id c)), (''source'', source_json (gc_source c))])"

text \<open>The gate reads it with \<open>accesspolicy.Decode\<close> into a \<open>Config\<close>.\<close>

definition decode_gate_config :: "json \<Rightarrow> gate_config option" where
  "decode_gate_config j = struct_target True
     [(''kcpServer'', text_member gc_kcp_server_update), (''kcpCA'', text_member gc_kcp_ca_update),
      (''publicURL'', text_member gc_public_url_update), (''issuer'', text_member gc_issuer_update),
      (''clientID'', text_member gc_client_id_update),
      (''source'', struct_member gc_source gc_source_update source_target)]
     j \<lparr>gc_kcp_server = [], gc_kcp_ca = [], gc_public_url = [], gc_issuer = [], gc_client_id = [],
        gc_source = zero_source\<rparr>"

lemma decode_config_json: "decode_gate_config (config_json c) = Some c"
  by (simp add: decode_gate_config_def config_json_def source_json_def struct_target_def struct_member_def
      text_member_def source_target_def zero_source_def)

definition config_text :: "gate_config \<Rightarrow> bool" where
  "config_text c \<longleftrightarrow>
     utf8_valid (gc_kcp_server c) \<and> utf8_valid (gc_kcp_ca c) \<and> utf8_valid (gc_public_url c) \<and>
     utf8_valid (gc_issuer c) \<and> utf8_valid (gc_client_id c) \<and> source_text (gc_source c)"

lemma config_json_printable: "config_text c \<Longrightarrow> printable max_nesting_depth (config_json c)"
  by (simp add: config_text_def source_text_def config_json_def source_json_def max_nesting_depth_def utf8_valid_ascii)

lemma config_file_read:
  assumes "config_text c" "length (marshal (config_json c)) \<le> 1048576"
  shows "Decode decode_gate_config (Some (marshal (config_json c))) = Inr c"
  using assms read_marshal [OF config_json_printable, of c "[]"]
  by (simp add: Decode_def decode_config_json json_blank_def)

end
