(* ===== verification/Access_Bundle.thy ===== *)
theory Access_Bundle
  imports Access_Secrets Gate_Config
begin

text \<open>
  \<open>prepareAccess\<close> of \<open>access_resources.go\<close>: the access bundle of an instance, an immutable
  Secret named after its content, with the gate configuration, the OAuth2 Proxy configuration,
  the client secret, the cookie key and the guard.
\<close>

definition oauthConfiguration :: "access_entry \<Rightarrow> json" where
  "oauthConfiguration e = JObject
     [(''injectRequestHeaders'', JArray [JObject
        [(''name'', JString TokenHeader), (''preserveRequestValue'', JBool False),
         (''values'', JArray [JObject [(''claimSource'', JObject [(''claim'', JString ''id_token'')])]])]]),
      (''injectResponseHeaders'', JArray []),
      (''providers'', JArray [JObject
        [(''clientID'', JString (ae_client_id e)),
         (''clientSecretFile'', JString ''/etc/chat-ui-access/client-secret''),
         (''code_challenge_method'', JString ''S256''),
         (''id'', JString ''chatui''),
         (''oidcConfig'', JObject
            [(''emailClaim'', JString ''sub''), (''insecureSkipNonce'', JBool False),
             (''issuerURL'', JString (ae_issuer e)), (''userIDClaim'', JString ''sub'')]),
         (''provider'', JString ''oidc''),
         (''scope'', JString ''openid email''),
         (''skipClaimsFromProfileURL'', JBool True)]]),
      (''server'', JObject [(''bindAddress'', JString ''0.0.0.0:8080'')]),
      (''upstreamConfig'', JObject [(''upstreams'', JArray [JObject
        [(''id'', JString ''instance-access''), (''passHostHeader'', JBool True), (''path'', JString ''/''),
         (''proxyWebSockets'', JBool True), (''timeout'', JString ''0s''),
         (''uri'', JString ''http://127.0.0.1:8082/'')]])])]"

definition oauthArguments :: "string \<Rightarrow> string list" where
  "oauthArguments publicURL =
     [''--alpha-config=/etc/chat-ui-access/oauth.json'',
      ''--redirect-url='' @ publicURL @ ''/oauth2/callback'',
      ''--cookie-name='' @ CookieName,
      ''--cookie-secret-file=/etc/chat-ui-access/cookie-secret'',
      ''--cookie-secure=true'', ''--cookie-httponly=true'',
      ''--cookie-samesite=lax'', ''--cookie-expire=1h'', ''--cookie-refresh=1m'',
      ''--cookie-csrf-per-request=true'',
      ''--cookie-csrf-per-request-limit=5'', ''--email-domain=*'', ''--skip-provider-button=true'',
      ''--skip-jwt-bearer-tokens=false'', ''--reverse-proxy=false'', ''--request-logging=false'',
      ''--auth-logging=false'']"

definition oauthCookieSecret :: "string \<Rightarrow> go_error + string" where
  "oauthCookieSecret encoded =
     (case StdDecode encoded of
        None \<Rightarrow> Inl (ErrNew ''invalid session cookie key material'')
      | Some key \<Rightarrow>
          if length key \<noteq> 32 then Inl (ErrNew ''invalid session cookie key material'')
          else Inr (URLEncode key))"

definition gate_config_for :: "access_policy \<Rightarrow> access_entry \<Rightarrow> string \<Rightarrow> gate_config" where
  "gate_config_for p e publicURL =
     \<lparr>gc_kcp_server = ap_kcp_server p, gc_kcp_ca = ap_kcp_ca p, gc_public_url = publicURL,
      gc_issuer = ae_issuer e, gc_client_id = ae_client_id e, gc_source = ae_source e\<rparr>"

definition bundle_data ::
  "'w reconciler \<Rightarrow> access_policy \<Rightarrow> access_entry \<Rightarrow> string \<Rightarrow> string \<Rightarrow> string \<Rightarrow> gomap" where
  "bundle_data r p e publicURL clientSecret cookieSecret = fmap_of_list
     [(''gate.json'', marshal (config_json (gate_config_for p e publicURL))),
      (''oauth.json'', marshal (oauthConfiguration e)),
      (''client-secret'', clientSecret), (''cookie-secret'', cookieSecret),
      (''chatui_guard.py'', r_guard_source r)]"

text \<open>\<open>json.Marshal\<close> of the data map: byte slices in base64, keys sorted.\<close>

definition serialized_data :: "gomap \<Rightarrow> string" where
  "serialized_data data = marshal (JObject
     (map (\<lambda>k. (k, JBytes (map_get data k))) (sorted_list_of_fset (fmdom data))))"

definition bundle_revision :: "'w reconciler \<Rightarrow> access_policy \<Rightarrow> chat_instance \<Rightarrow> gomap \<Rightarrow> string" where
  "bundle_revision r p inst data =
     uidHash (r_lib r) (i_uid inst @ serialized_data data @ ap_proxy_image p)"

definition reserved_credentials :: "string \<Rightarrow> bool" where
  "reserved_credentials name =
     (HasPrefix name ''chatui-session-'' \<or> HasPrefix name ''chatui-access-'')"

text \<open>The second half of \<open>prepareAccess\<close>: find or create the bundle with the given content.\<close>

definition ensure_bundle ::
  "'w reconciler \<Rightarrow> string \<Rightarrow> gomap \<Rightarrow> ('w, go_error option) op" where
  "ensure_bundle r name data = do {
     inst \<leftarrow> get_inst;
     found \<leftarrow> getSecret r (routeReader r) (i_namespace inst, name);
     case found of
       Inr existing \<Rightarrow>
         ret (if \<not> trusted_secret inst existing \<or> sec_data existing \<noteq> data
              then Some (ErrNew ''access Secret ownership or content mismatch'') else None)
     | Inl e \<Rightarrow>
         if e \<noteq> NotFound then ret (Some (Api e))
         else if map_get (i_pins inst) name \<noteq> []
         then ret (Some (ErrNew ''pinned access Secret is missing; operator recovery required''))
         else do {
           room \<leftarrow> makeAccessSecretRoom r;
           case room of
             Some e \<Rightarrow> ret (Some e)
           | None \<Rightarrow> do {
               created \<leftarrow> create_pinned_secret r name data;
               ret (err_of created)
             }
         }
   }"

text \<open>From the session key on: the content of the bundle, its name, and the bundle itself.\<close>

definition prepare_bundle ::
  "'w reconciler \<Rightarrow> access_policy \<Rightarrow> access_entry \<Rightarrow> string \<Rightarrow> string \<Rightarrow> ('w, go_error + access_bundle) op" where
  "prepare_bundle r p e host clientSecret = do {
     sessioned \<leftarrow> sessionSecret r;
     case sessioned of
       Inl err \<Rightarrow> ret (Inl err)
     | Inr session \<Rightarrow>
       (case oauthCookieSecret (map_get (sec_data session) ''cookie-secret'') of
          Inl err \<Rightarrow> ret (Inl err)
        | Inr cookieSecret \<Rightarrow> do {
            inst \<leftarrow> get_inst;
            let publicURL = ''https://'' @ host;
            let data = bundle_data r p e publicURL clientSecret cookieSecret;
            let revision = bundle_revision r p inst data;
            let name = ''chatui-access-'' @ revision;
            ensured \<leftarrow> ensure_bundle r name data;
            case ensured of
              Some err \<Rightarrow> ret (Inl err)
            | None \<Rightarrow> ret (Inr
                \<lparr>ab_name = name, ab_session_name = meta_name (sec_meta session),
                 ab_revision = revision, ab_public_url = publicURL\<rparr>)
          })
   }"

definition prepareAccess :: "'w reconciler \<Rightarrow> string \<Rightarrow> ('w, go_error + access_bundle) op" where
  "prepareAccess r host = do {
     inst \<leftarrow> get_inst;
     case access_Select (r_access_policy r) (i_meta inst) of
       Inl e \<Rightarrow> ret (Inl e)
     | Inr e \<Rightarrow>
     (case r_access_policy r of
        None \<Rightarrow> ret (Inl (Sentinel ErrUnmapped))
      | Some p \<Rightarrow>
         if r_public_scheme r \<noteq> ''https'' \<or> ap_credentials_namespace p = i_namespace inst
         then ret (Inl (ErrNew ''HTTPS and isolated operator credential namespace are required''))
         else if reserved_credentials (i_credentials inst)
         then ret (Inl (ErrNew ''backend credentials reference a reserved access Secret name''))
         else do {
           found \<leftarrow> getSecret r (routeReader r) (ap_credentials_namespace p, ae_client_secret_name e);
           case found of
             Inl _ \<Rightarrow> ret (Inl (ErrNew ''OIDC client credential unavailable''))
           | Inr credential \<Rightarrow>
               if length (map_get (sec_data credential) ''client_secret'') < 16
               then ret (Inl (ErrNew ''OIDC client credential is missing or too short''))
               else prepare_bundle r p e host (map_get (sec_data credential) ''client_secret'')
         })
   }"

end
