(* ===== verification/Workload.thy ===== *)
theory Workload
  imports Access_Bundle
begin

text \<open>
  The Deployment of an instance: \<open>buildDeployment\<close>, \<open>reconcileDeployment\<close> and the probe helpers of
  \<open>chatuiinstance_controller.go\<close>, \<open>applyAccessDeployment\<close>, \<open>managedAccessTemplate\<close> and
  \<open>waitForAccessCutover\<close> of \<open>access_resources.go\<close>.
\<close>

subsection \<open>Probes\<close>

definition no_probe :: probe where
  "no_probe = \<lparr>pr_http_get = None, pr_exec = None, pr_initial_delay = 0, pr_period = 0,
     pr_timeout = 0, pr_success = 0, pr_failure = 0\<rparr>"

definition chatUIHTTPProbe :: "int \<Rightarrow> int \<Rightarrow> probe" where
  "chatUIHTTPProbe periodSeconds failureThreshold = no_probe
     \<lparr>pr_http_get := Some \<lparr>hg_path = ''/'', hg_port = FromInt 8080, hg_scheme = []\<rparr>,
      pr_period := periodSeconds, pr_timeout := 2, pr_failure := failureThreshold\<rparr>"

definition probesEqual :: "probe option \<Rightarrow> probe option \<Rightarrow> bool" where
  "probesEqual actual desired =
     (case (actual, desired) of
        (Some a, Some d) \<Rightarrow>
          (case (pr_http_get a, pr_http_get d) of
             (Some g, Some h) \<Rightarrow>
               hg_path g = hg_path h \<and> hg_port g = hg_port h \<and>
               pr_initial_delay a = pr_initial_delay d \<and> pr_period a = pr_period d \<and>
               pr_timeout a = pr_timeout d \<and> pr_failure a = pr_failure d
           | (None, None) \<Rightarrow> True
           | _ \<Rightarrow> False)
      | (None, None) \<Rightarrow> True
      | _ \<Rightarrow> False)"

text \<open>\<open>ensureChatUIContainerProbes\<close> returns whether it changed the container, and the container.\<close>

definition ensureChatUIContainerProbes :: "container \<Rightarrow> bool \<times> container" where
  "ensureChatUIContainerProbes c0 =
     (let readiness = Some (chatUIHTTPProbe 5 6);
          r = \<not> probesEqual (c_readiness c0) readiness;
          c1 = (if r then c0\<lparr>c_readiness := readiness\<rparr> else c0);
          startup = Some (chatUIHTTPProbe 10 60);
          s = \<not> probesEqual (c_startup c1) startup;
          c2 = (if s then c1\<lparr>c_startup := startup\<rparr> else c1);
          liveness = Some ((chatUIHTTPProbe 10 6)\<lparr>pr_initial_delay := 20\<rparr>);
          l = \<not> probesEqual (c_liveness c2) liveness;
          c3 = (if l then c2\<lparr>c_liveness := liveness\<rparr> else c2)
      in (r \<or> s \<or> l, c3))"

subsection \<open>buildDeployment\<close>

definition plain_env :: "string \<Rightarrow> string \<Rightarrow> env_var" where
  "plain_env name v = \<lparr>env_name = name, env_value = v, env_value_from = None\<rparr>"

definition secret_env :: "string \<Rightarrow> string \<Rightarrow> string \<Rightarrow> bool option \<Rightarrow> env_var" where
  "secret_env name secret k opt =
     \<lparr>env_name = name, env_value = [], env_value_from = Some
       \<lparr>es_secret_key_ref = Some \<lparr>skr_name = secret, skr_key = k, skr_optional = opt\<rparr>, es_other = []\<rparr>\<rparr>"

definition base_env :: "library \<Rightarrow> chat_instance \<Rightarrow> env_var list" where
  "base_env lib inst =
     [plain_env ''WEBUI_AUTH'' trueValue,
      secret_env ''WEBUI_SECRET_KEY'' (sessionSecretName lib inst) ''webui-secret'' None,
      plain_env ''ENABLE_OPENAI_API'' trueValue,
      plain_env ''ENABLE_OLLAMA_API'' ''false'',
      plain_env ''ENABLE_DIRECT_CONNECTIONS'' ''false'',
      plain_env ''BYPASS_MODEL_ACCESS_CONTROL'' trueValue,
      plain_env ''ENABLE_LOGIN_FORM'' ''false'',
      plain_env ''ENABLE_SIGNUP'' ''false'',
      plain_env ''ENABLE_OAUTH_SIGNUP'' ''false'',
      plain_env ''ENABLE_SIGNUP_PASSWORD_CONFIRMATION'' ''false'',
      plain_env ''ENABLE_ADMIN_EXPORT'' ''false'',
      plain_env ''ENABLE_ADMIN_CHAT_ACCESS'' ''false'',
      plain_env ''SHOW_ADMIN_DETAILS'' ''false'',
      plain_env ''ENABLE_CHANNELS'' ''false'',
      plain_env ''ENABLE_NOTES'' ''false'',
      plain_env ''ENABLE_COMMUNITY_SHARING'' ''false'',
      plain_env ''ENABLE_MESSAGE_RATING'' ''false'',
      plain_env ''ENABLE_USER_WEBHOOKS'' ''false'',
      plain_env ''ENABLE_EVALUATION_ARENA_MODELS'' ''false'',
      plain_env ''ENABLE_API_KEYS'' ''false'',
      plain_env ''ENABLE_API_KEYS_ENDPOINT_RESTRICTIONS'' ''false'',
      plain_env ''ENABLE_VERSION_UPDATE_CHECK'' ''false'',
      plain_env ''ENABLE_WEB_SEARCH'' ''false'',
      plain_env ''ENABLE_RAG_HYBRID_SEARCH'' ''false'',
      plain_env ''ENABLE_RAG_HYBRID_SEARCH_ENRICHED_TEXTS'' ''false'',
      plain_env ''ENABLE_RAG_LOCAL_WEB_FETCH'' ''false'',
      plain_env ''ENABLE_GOOGLE_DRIVE_INTEGRATION'' ''false'',
      plain_env ''ENABLE_ONEDRIVE_INTEGRATION'' ''false'',
      plain_env ''ENABLE_ONEDRIVE_PERSONAL'' ''false'',
      plain_env ''ENABLE_ONEDRIVE_BUSINESS'' ''false'',
      plain_env ''ENABLE_CODE_EXECUTION'' ''false'',
      plain_env ''ENABLE_CODE_INTERPRETER'' ''false'',
      plain_env ''ENABLE_IMAGE_GENERATION'' ''false'',
      plain_env ''ENABLE_IMAGE_PROMPT_GENERATION'' ''false'',
      plain_env ''ENABLE_IMAGE_EDIT'' ''false'',
      plain_env ''USER_PERMISSIONS_WORKSPACE_MODELS_ACCESS'' ''false'',
      plain_env ''USER_PERMISSIONS_WORKSPACE_KNOWLEDGE_ACCESS'' ''false'',
      plain_env ''USER_PERMISSIONS_WORKSPACE_PROMPTS_ACCESS'' ''false'',
      plain_env ''USER_PERMISSIONS_WORKSPACE_TOOLS_ACCESS'' ''false'',
      plain_env ''USER_PERMISSIONS_WORKSPACE_MODELS_IMPORT'' ''false'',
      plain_env ''USER_PERMISSIONS_WORKSPACE_MODELS_EXPORT'' ''false'',
      plain_env ''USER_PERMISSIONS_WORKSPACE_PROMPTS_IMPORT'' ''false'',
      plain_env ''USER_PERMISSIONS_WORKSPACE_PROMPTS_EXPORT'' ''false'',
      plain_env ''USER_PERMISSIONS_WORKSPACE_TOOLS_IMPORT'' ''false'',
      plain_env ''USER_PERMISSIONS_WORKSPACE_TOOLS_EXPORT'' ''false'',
      plain_env ''USER_PERMISSIONS_WORKSPACE_MODELS_ALLOW_SHARING'' ''false'',
      plain_env ''USER_PERMISSIONS_WORKSPACE_MODELS_ALLOW_PUBLIC_SHARING'' ''false'',
      plain_env ''USER_PERMISSIONS_WORKSPACE_KNOWLEDGE_ALLOW_SHARING'' ''false'',
      plain_env ''USER_PERMISSIONS_WORKSPACE_KNOWLEDGE_ALLOW_PUBLIC_SHARING'' ''false'',
      plain_env ''USER_PERMISSIONS_WORKSPACE_PROMPTS_ALLOW_SHARING'' ''false'',
      plain_env ''USER_PERMISSIONS_WORKSPACE_PROMPTS_ALLOW_PUBLIC_SHARING'' ''false'',
      plain_env ''USER_PERMISSIONS_WORKSPACE_TOOLS_ALLOW_SHARING'' ''false'',
      plain_env ''USER_PERMISSIONS_WORKSPACE_TOOLS_ALLOW_PUBLIC_SHARING'' ''false'',
      plain_env ''USER_PERMISSIONS_NOTES_ALLOW_SHARING'' ''false'',
      plain_env ''USER_PERMISSIONS_NOTES_ALLOW_PUBLIC_SHARING'' ''false'',
      plain_env ''USER_PERMISSIONS_CHAT_CONTROLS'' ''false'',
      plain_env ''USER_PERMISSIONS_CHAT_VALVES'' ''false'',
      plain_env ''USER_PERMISSIONS_CHAT_SYSTEM_PROMPT'' ''false'',
      plain_env ''USER_PERMISSIONS_CHAT_PARAMS'' ''false'',
      plain_env ''USER_PERMISSIONS_CHAT_FILE_UPLOAD'' ''false'',
      plain_env ''USER_PERMISSIONS_CHAT_SHARE'' ''false'',
      plain_env ''USER_PERMISSIONS_CHAT_EXPORT'' ''false'',
      plain_env ''USER_PERMISSIONS_CHAT_STT'' ''false'',
      plain_env ''USER_PERMISSIONS_CHAT_TTS'' ''false'',
      plain_env ''USER_PERMISSIONS_CHAT_CALL'' ''false'',
      plain_env ''USER_PERMISSIONS_CHAT_MULTIPLE_MODELS'' ''false'',
      plain_env ''USER_PERMISSIONS_CHAT_TEMPORARY'' ''false'',
      plain_env ''USER_PERMISSIONS_CHAT_RATE_RESPONSE'' ''false'',
      plain_env ''USER_PERMISSIONS_FEATURES_DIRECT_TOOL_SERVERS'' ''false'',
      plain_env ''USER_PERMISSIONS_FEATURES_WEB_SEARCH'' ''false'',
      plain_env ''USER_PERMISSIONS_FEATURES_IMAGE_GENERATION'' ''false'',
      plain_env ''USER_PERMISSIONS_FEATURES_CODE_INTERPRETER'' ''false'',
      plain_env ''USER_PERMISSIONS_FEATURES_NOTES'' ''false'',
      plain_env ''USER_PERMISSIONS_FEATURES_API_KEYS'' ''false'',
      secret_env ''OPENAI_API_KEY'' (i_credentials inst) ''OPENAI_API_KEY'' (Some False),
      secret_env ''OPENAI_API_BASE_URL'' (i_credentials inst) ''OPENAI_API_URL'' (Some False)]"

definition uiLabels :: "string \<Rightarrow> gomap" where
  "uiLabels instanceName = fmap_of_list
     [(''app.kubernetes.io/name'', ''open-webui''), (''ui.privatellms.msp/instance'', instanceName)]"

definition instanceUIDLabel :: string where "instanceUIDLabel = ''ui.privatellms.msp/instance-uid''"
definition secretChecksumAnnotation :: string where "secretChecksumAnnotation = ''ui.privatellms.msp/secret-checksum''"
definition accessRevisionAnnotation :: string where "accessRevisionAnnotation = ''ui.privatellms.msp/access-revision''"

definition no_container :: container where
  "no_container =
     \<lparr>c_name = [], c_image = [], c_command = [], c_args = [], c_env = [], c_env_from = [],
      c_ports = [], c_mounts = [], c_resources = [], c_security = None, c_readiness = None,
      c_liveness = None, c_startup = None, c_pull_policy = [], c_term_path = [],
      c_term_policy = [], c_other = []\<rparr>"

definition webui_container :: "library \<Rightarrow> chat_instance \<Rightarrow> string \<Rightarrow> container" where
  "webui_container lib inst img = no_container
     \<lparr>c_name := ''open-webui'', c_image := img, c_env := base_env lib inst,
      c_ports := [\<lparr>cp_name = [], cp_port = 8080, cp_protocol = ''TCP''\<rparr>],
      c_readiness := Some (chatUIHTTPProbe 5 6),
      c_startup := Some (chatUIHTTPProbe 10 60),
      c_liveness := Some ((chatUIHTTPProbe 10 6)\<lparr>pr_initial_delay := 20\<rparr>)\<rparr>"

definition no_pod_spec :: pod_spec where
  "no_pod_spec =
     \<lparr>p_containers = [], p_init_containers = [], p_ephemeral = [], p_volumes = [],
      p_pull_secrets = [], p_security = None, p_automount = None, p_host_network = False,
      p_host_pid = False, p_host_ipc = False, p_share_process_ns = None, p_other = []\<rparr>"

definition buildDeployment ::
  "library \<Rightarrow> chat_instance \<Rightarrow> gomap \<Rightarrow> int \<Rightarrow> string \<Rightarrow> string \<Rightarrow> deployment" where
  "buildDeployment lib inst labels replicas img secretChecksum =
     \<lparr>d_meta = (new_meta (i_namespace inst) (chatui_name inst))\<lparr>meta_labels := labels\<rparr>,
      d_replicas = Some replicas,
      d_selector = Some \<lparr>ls_match_labels = labels, ls_other = []\<rparr>,
      d_template =
        \<lparr>t_labels = labels,
         t_annotations = fmupd secretChecksumAnnotation secretChecksum fmempty,
         t_spec = no_pod_spec\<lparr>p_containers := [webui_container lib inst img]\<rparr>,
         t_other = []\<rparr>,
      d_strategy = \<lparr>strat_type = [], strat_other = []\<rparr>,
      d_observed_generation = 0, d_status_replicas = 0, d_updated_replicas = 0,
      d_ready_replicas = 0, d_available_replicas = 0, d_other = []\<rparr>"

subsection \<open>managedAccessTemplate\<close>

definition managed_probe :: "probe \<Rightarrow> probe" where
  "managed_probe p = p\<lparr>pr_success := 1,
     pr_http_get := map_option (\<lambda>g. g\<lparr>hg_scheme := ''HTTP''\<rparr>) (pr_http_get p)\<rparr>"

text \<open>The resource sizing of the container of the same name; the last one wins.\<close>

definition admitted_resources :: "container list \<Rightarrow> container \<Rightarrow> string" where
  "admitted_resources existing c =
     foldl (\<lambda>res old. if c_name old = c_name c then c_resources old else res) (c_resources c) existing"

definition managed_container :: "container list \<Rightarrow> container \<Rightarrow> container" where
  "managed_container existing c = c
     \<lparr>c_pull_policy := ''IfNotPresent'', c_term_path := ''/dev/termination-log'', c_term_policy := ''File'',
      c_ports := map (\<lambda>p. p\<lparr>cp_protocol := ''TCP''\<rparr>) (c_ports c),
      c_resources := admitted_resources existing c,
      c_readiness := map_option managed_probe (c_readiness c),
      c_liveness := map_option managed_probe (c_liveness c),
      c_startup := map_option managed_probe (c_startup c)\<rparr>"

definition managed_volume :: "volume \<Rightarrow> volume" where
  "managed_volume v = v\<lparr>vol_secret := map_option (\<lambda>s. s\<lparr>sv_mode := Some 420\<rparr>) (vol_secret v)\<rparr>"

definition managedAccessTemplate :: "pod_template \<Rightarrow> pod_template \<Rightarrow> pod_template" where
  "managedAccessTemplate existing desired = existing
     \<lparr>t_annotations := fmadd (t_annotations existing) (t_annotations desired),
      t_labels := fmadd (t_labels existing) (t_labels desired),
      t_spec := (t_spec existing)
        \<lparr>p_containers := map (managed_container (p_containers (t_spec existing)))
                           (p_containers (t_spec desired)),
         p_init_containers := [],
         p_volumes := map managed_volume (p_volumes (t_spec desired)),
         p_security := p_security (t_spec desired),
         p_automount := Some False,
         p_host_network := False, p_host_pid := False, p_host_ipc := False,
         p_share_process_ns := None\<rparr>\<rparr>"

subsection \<open>applyAccessDeployment\<close>

definition no_security :: security_context where
  "no_security = \<lparr>sc_allow_escalation = None, sc_run_as_non_root = None, sc_run_as_user = None,
     sc_run_as_group = None, sc_read_only_root = None, sc_drop = []\<rparr>"

definition accessSecurityContext :: security_context where
  "accessSecurityContext = no_security
     \<lparr>sc_allow_escalation := Some False, sc_run_as_non_root := Some True, sc_run_as_user := Some 65532,
      sc_read_only_root := Some True, sc_drop := [''ALL'']\<rparr>"

definition access_env :: "access_bundle \<Rightarrow> env_var list" where
  "access_env b =
     [plain_env ''HOST'' ''127.0.0.1'', plain_env ''PORT'' ''8081'',
      plain_env ''HOME'' ''/tmp'', plain_env ''HF_HOME'' ''/tmp/huggingface'',
      plain_env ''WEBUI_AUTH_TRUSTED_EMAIL_HEADER'' EmailHeader,
      plain_env ''WEBUI_AUTH_TRUSTED_ROLE_HEADER'' RoleHeader,
      plain_env ''CORS_ALLOW_ORIGIN'' (ab_public_url b),
      plain_env ''DEFAULT_USER_ROLE'' ''user'', plain_env ''WEBUI_AUTH_COOKIE_SECURE'' ''true'',
      plain_env ''ENABLE_INITIAL_ADMIN_SIGNUP'' ''false'', plain_env ''JWT_EXPIRES_IN'' ''1h'',
      plain_env ''WEBUI_AUTH_SIGNOUT_REDIRECT_URL'' ''/oauth2/sign_out'']"

definition webui_probe :: probe where
  "webui_probe = no_probe
     \<lparr>pr_exec := Some [''python'', ''-c'',
        ''import urllib.request; urllib.request.urlopen('' @ [CHR 0x27] @ ''http://127.0.0.1:8081/health'' @ [CHR 0x27] @ '', timeout=2)''],
      pr_period := 10, pr_timeout := 3, pr_failure := 6\<rparr>"

definition guarded_webui :: "access_bundle \<Rightarrow> container \<Rightarrow> container" where
  "guarded_webui b app = app
     \<lparr>c_ports := [],
      c_security := Some (no_security
        \<lparr>sc_run_as_non_root := Some True, sc_run_as_user := Some 1000, sc_run_as_group := Some 1000,
         sc_allow_escalation := Some False, sc_drop := [''ALL'']\<rparr>),
      c_command := [''python'', ''-m'', ''uvicorn'', ''chatui_guard:app'', ''--app-dir=/etc/chat-ui-guard'',
        ''--host=127.0.0.1'', ''--port=8081'', ''--workers=1'', ''--forwarded-allow-ips=127.0.0.1''],
      c_args := [],
      c_mounts := [\<lparr>vm_name = ''webui-data'', vm_path = ''/app/backend/data'', vm_read_only = False\<rparr>,
        \<lparr>vm_name = ''webui-tmp'', vm_path = ''/tmp'', vm_read_only = False\<rparr>,
        \<lparr>vm_name = ''webui-guard'', vm_path = ''/etc/chat-ui-guard'', vm_read_only = True\<rparr>],
      c_env := c_env app @ access_env b,
      c_readiness := Some webui_probe,
      c_liveness := Some webui_probe,
      c_startup := Some (webui_probe\<lparr>pr_failure := 60\<rparr>)\<rparr>"

definition at_endpoint :: "string \<Rightarrow> int \<Rightarrow> probe \<Rightarrow> probe" where
  "at_endpoint path port p =
     p\<lparr>pr_http_get := map_option (\<lambda>g. g\<lparr>hg_path := path, hg_port := FromInt port\<rparr>) (pr_http_get p)\<rparr>"

definition gate_container :: "string \<Rightarrow> container" where
  "gate_container proxyImage = no_container
     \<lparr>c_name := ''instance-access'', c_image := proxyImage, c_command := [''/access-proxy''],
      c_args := [''--config=/etc/chat-ui-access/gate.json''],
      c_security := Some accessSecurityContext,
      c_ports := [\<lparr>cp_name = ''access-health'', cp_port = 8083, cp_protocol = []\<rparr>],
      c_mounts := [\<lparr>vm_name = ''gate-config'', vm_path = ''/etc/chat-ui-access'', vm_read_only = True\<rparr>],
      c_readiness := Some (at_endpoint ''/readyz'' 8083 (chatUIHTTPProbe 5 6)),
      c_liveness := Some (at_endpoint ''/readyz'' 8083 (chatUIHTTPProbe 10 6)),
      c_startup := Some ((at_endpoint ''/readyz'' 8083 (chatUIHTTPProbe 10 6))
        \<lparr>pr_period := pr_period webui_probe, pr_failure := 60\<rparr>)\<rparr>"

definition oauth_container :: "access_bundle \<Rightarrow> container" where
  "oauth_container b = no_container
     \<lparr>c_name := ''oauth2-proxy'', c_image := OAuthImage, c_args := oauthArguments (ab_public_url b),
      c_security := Some accessSecurityContext,
      c_ports := [\<lparr>cp_name = ''http'', cp_port = 8080, cp_protocol = []\<rparr>],
      c_mounts := [\<lparr>vm_name = ''oauth-config'', vm_path = ''/etc/chat-ui-access'', vm_read_only = True\<rparr>],
      c_readiness := Some (at_endpoint ''/ping'' 8080 (chatUIHTTPProbe 5 6)),
      c_liveness := Some (at_endpoint ''/ping'' 8080 (chatUIHTTPProbe 10 6))\<rparr>"

definition secret_volume_of :: "string \<Rightarrow> string \<Rightarrow> string list \<Rightarrow> volume" where
  "secret_volume_of name secret files =
     \<lparr>vol_name = name,
      vol_secret = Some \<lparr>sv_name = secret, sv_items = map (\<lambda>f. (f, f)) files, sv_mode = None\<rparr>,
      vol_projected = None, vol_empty_dir = False, vol_other = []\<rparr>"

definition empty_dir_volume :: "string \<Rightarrow> volume" where
  "empty_dir_volume name =
     \<lparr>vol_name = name, vol_secret = None, vol_projected = None, vol_empty_dir = True, vol_other = []\<rparr>"

definition access_volumes :: "access_bundle \<Rightarrow> volume list" where
  "access_volumes b =
     [secret_volume_of ''webui-guard'' (ab_name b) [''chatui_guard.py''],
      secret_volume_of ''gate-config'' (ab_name b) [''gate.json''],
      secret_volume_of ''oauth-config'' (ab_name b) [''oauth.json'', ''client-secret'', ''cookie-secret''],
      empty_dir_volume ''webui-data'', empty_dir_volume ''webui-tmp'']"

text \<open>The changes to the pod template, then the normal form of the API defaults.\<close>

definition guard_template :: "pod_template \<Rightarrow> chat_instance \<Rightarrow> access_bundle \<Rightarrow> string \<Rightarrow> pod_template" where
  "guard_template pod inst b proxyImage = pod
     \<lparr>t_annotations := fmupd accessRevisionAnnotation (ab_revision b) (t_annotations pod),
      t_labels := fmupd instanceUIDLabel (i_uid inst) (t_labels pod),
      t_spec := (t_spec pod)
        \<lparr>p_automount := Some False,
         p_security := Some \<lparr>psc_fs_group = Some 1000, psc_seccomp = Some ''RuntimeDefault'', psc_other = []\<rparr>,
         p_containers := (case p_containers (t_spec pod) of
             [] \<Rightarrow> []
           | app # others \<Rightarrow> guarded_webui b app # others @ [gate_container proxyImage, oauth_container b]),
         p_volumes := access_volumes b\<rparr>\<rparr>"

definition applyAccessDeployment ::
  "deployment \<Rightarrow> chat_instance \<Rightarrow> access_bundle \<Rightarrow> string \<Rightarrow> deployment" where
  "applyAccessDeployment deploy inst b proxyImage =
     (let guarded = guard_template (d_template deploy) inst b proxyImage
      in deploy\<lparr>d_strategy := \<lparr>strat_type = ''Recreate'', strat_other = []\<rparr>,
                d_template := managedAccessTemplate guarded guarded\<rparr>)"

subsection \<open>waitForAccessCutover and reconcileDeployment\<close>

definition waitForAccessCutover :: "'w reconciler \<Rightarrow> deployment \<Rightarrow> ('w, go_error + bool) op" where
  "waitForAccessCutover r existing = do {
     withdrawn \<leftarrow> withdrawAccess r;
     case withdrawn of
       Some e \<Rightarrow> ret (Inl e)
     | None \<Rightarrow>
         if d_replicas existing \<noteq> Some 0
         then do {
           reply \<leftarrow> updateDeployment r (existing\<lparr>d_replicas := Some 0\<rparr>);
           case write_error reply of Some e \<Rightarrow> ret (Inl e) | None \<Rightarrow> ret (Inr True)
         }
         else (case d_selector existing of
             None \<Rightarrow> ret (Inl (ErrNew ''cannot establish prior Deployment pod ownership''))
           | Some sel \<Rightarrow>
               if map_len (ls_match_labels sel) = 0
               then ret (Inl (ErrNew ''cannot establish prior Deployment pod ownership''))
               else (case selector_error (r_lib r) (ls_match_labels sel) (ls_other sel) of
                   Some e \<Rightarrow> ret (Inl (ErrNew e))
                 | None \<Rightarrow> do {
                     inst \<leftarrow> get_inst;
                     listed \<leftarrow> listPods r (routeReader r) (i_namespace inst) (Some sel);
                     case listed of
                       Inl e \<Rightarrow> ret (Inl (Api e))
                     | Inr pods \<Rightarrow>
                         ret (Inr (d_observed_generation existing < meta_generation (d_meta existing) \<or>
                                   d_status_replicas existing \<noteq> 0 \<or> pods \<noteq> []))
                   }))
   }"

definition proxy_image :: "'w reconciler \<Rightarrow> string" where
  "proxy_image r = (case r_access_policy r of None \<Rightarrow> [] | Some p \<Rightarrow> ap_proxy_image p)"

definition desiredDeployment ::
  "'w reconciler \<Rightarrow> chat_instance \<Rightarrow> gomap \<Rightarrow> int \<Rightarrow> string \<Rightarrow> string \<Rightarrow> access_bundle \<Rightarrow> deployment" where
  "desiredDeployment r inst labels replicas img secretChecksum access =
     applyAccessDeployment (buildDeployment (r_lib r) inst labels replicas img secretChecksum)
       inst access (proxy_image r)"

definition reconcileDeployment ::
  "'w reconciler \<Rightarrow> gomap \<Rightarrow> int \<Rightarrow> string \<Rightarrow> string \<Rightarrow> access_bundle \<Rightarrow> ('w, go_error option) op" where
  "reconcileDeployment r labels replicas img secretChecksum access = do {
     inst \<leftarrow> get_inst;
     let desired = desiredDeployment r inst labels replicas img secretChecksum access;
     found \<leftarrow> getDeployment r (routeReader r) (chatui_key inst);
     case found of
       Inl e \<Rightarrow>
         if e \<noteq> NotFound then ret (Some (Api e))
         else (case set_controller (r_lib r) (i_meta inst) (d_meta desired) of
             Inl err \<Rightarrow> ret (Some (ErrNew err))
           | Inr m \<Rightarrow> do {
               reply \<leftarrow> createDeployment r (desired\<lparr>d_meta := m\<rparr>);
               ret (write_error reply)
             })
     | Inr existing \<Rightarrow>
         if \<not> ownedByInstance (d_meta existing) inst then ret (Some (Sentinel ErrDeploymentNotOwned))
         else
           let template = managedAccessTemplate (d_template existing) (d_template desired) in
           if d_template existing \<noteq> template \<or> strat_type (d_strategy existing) \<noteq> ''Recreate''
           then do {
             waited \<leftarrow> waitForAccessCutover r existing;
             case waited of
               Inl e \<Rightarrow> ret (Some e)
             | Inr True \<Rightarrow> ret (Some (Sentinel ErrAccessCutover))
             | Inr False \<Rightarrow> do {
                 reply \<leftarrow> updateDeployment r (existing
                   \<lparr>d_template := template, d_strategy := d_strategy desired, d_replicas := Some replicas\<rparr>);
                 ret (write_error reply)
               }
           }
           else if d_replicas existing = Some replicas then ret None
           else do {
             reply \<leftarrow> updateDeployment r (existing\<lparr>d_replicas := Some replicas\<rparr>);
             ret (write_error reply)
           }
   }"

end
