(* ===== verification/Routing.thy ===== *)
theory Routing
  imports Hostname_Route Workload
begin

text \<open>
  The Service and the Ingress of an instance (\<open>chatuiinstance_controller.go\<close>): creation, and the
  convergence of an existing object to the managed fields. Each \<open>ensure\<dots>\<close> function changes a
  local Ingress and returns whether it did; the pair of both is its value here.
\<close>

subsection \<open>reconcileService\<close>

definition service_labels :: "gomap \<Rightarrow> chat_instance \<Rightarrow> gomap" where
  "service_labels labels inst = fmupd instanceUIDLabel (i_uid inst) labels"

definition service_ports :: "service_port list" where
  "service_ports =
     [\<lparr>sp_name = ''http'', sp_port = 8080, sp_target = FromInt 8080, sp_protocol = ''TCP'', sp_other = []\<rparr>]"

definition new_service :: "gomap \<Rightarrow> chat_instance \<Rightarrow> string \<Rightarrow> service" where
  "new_service labels inst svcName =
     \<lparr>svc_meta = (new_meta (i_namespace inst) svcName)\<lparr>meta_labels := labels\<rparr>,
      svc_type = [], svc_external_name = [], svc_selector = labels, svc_ports = service_ports,
      svc_other = []\<rparr>"

definition managed_service :: "gomap \<Rightarrow> service \<Rightarrow> service" where
  "managed_service labels svc = svc
     \<lparr>svc_type := ''ClusterIP'', svc_external_name := [], svc_selector := labels,
      svc_ports := service_ports\<rparr>"

definition reconcileService :: "'w reconciler \<Rightarrow> gomap \<Rightarrow> string \<Rightarrow> ('w, go_error option) op" where
  "reconcileService r labels0 svcName = do {
     inst \<leftarrow> get_inst;
     let labels = service_labels labels0 inst;
     found \<leftarrow> getService r (routeReader r) (i_namespace inst, svcName);
     case found of
       Inl e \<Rightarrow>
         if e \<noteq> NotFound then ret (Some (Api e))
         else
           let fresh = new_service labels inst svcName in
           (case set_controller (r_lib r) (i_meta inst) (svc_meta fresh) of
             Inl err \<Rightarrow> ret (Some (ErrNew err))
           | Inr m \<Rightarrow> do {
               reply \<leftarrow> createService r (fresh\<lparr>svc_meta := m\<rparr>);
               ret (write_error reply)
             })
     | Inr svc \<Rightarrow>
         if \<not> ownedByInstance (svc_meta svc) inst
         then ret (Some (ErrNew ''backend Service is not owned by this instance''))
         else if svc_type svc \<noteq> ''ClusterIP'' \<or> svc_external_name svc \<noteq> [] \<or>
                 svc_selector svc \<noteq> labels \<or> svc_ports svc \<noteq> service_ports
         then do {
           reply \<leftarrow> updateService r (managed_service labels svc);
           ret (write_error reply)
         }
         else ret None
   }"

subsection \<open>The ensure functions of the Ingress\<close>

definition entrypointsKey :: string where "entrypointsKey = ''traefik.ingress.kubernetes.io/router.entrypoints''"
definition routerTLSKey :: string where "routerTLSKey = ''traefik.ingress.kubernetes.io/router.tls''"
definition dnsNamesKey :: string where "dnsNamesKey = ''dns.gardener.cloud/dnsnames''"

abbreviation ing_annotations :: "ingress \<Rightarrow> gomap" where
  "ing_annotations ing \<equiv> meta_annotations (ing_meta ing)"

definition set_annotations :: "gomap \<Rightarrow> ingress \<Rightarrow> ingress" where
  "set_annotations anns ing = ing\<lparr>ing_meta := (ing_meta ing)\<lparr>meta_annotations := anns\<rparr>\<rparr>"

definition desiredIngressEntryPoints :: "bool \<Rightarrow> string" where
  "desiredIngressEntryPoints isHTTPS = (if isHTTPS then ''websecure,web'' else ''web'')"

definition ensureIngressAnnotations :: "string \<Rightarrow> bool \<Rightarrow> ingress \<Rightarrow> bool \<times> ingress" where
  "ensureIngressAnnotations desiredEntry isHTTPS ing =
     (let a0 = ing_annotations ing;
          entry = (map_get a0 entrypointsKey \<noteq> desiredEntry);
          a1 = (if entry then fmupd entrypointsKey desiredEntry a0 else a0);
          (tls, a2) =
            (if isHTTPS
             then (if map_get a1 routerTLSKey \<noteq> trueValue
                   then (True, fmupd routerTLSKey trueValue a1) else (False, a1))
             else if routerTLSKey |\<in>| fmdom a1 then (True, fmdrop routerTLSKey a1) else (False, a1))
      in (entry \<or> tls, set_annotations a2 ing))"

text \<open>One iteration of the loop over the configured annotations, then the loop.\<close>

definition apply_extra_step :: "bool \<Rightarrow> bool \<times> gomap \<Rightarrow> string \<times> string \<Rightarrow> bool \<times> gomap" where
  "apply_extra_step override st kv =
     (case st of (updated, anns) \<Rightarrow> case kv of (k, v) \<Rightarrow>
        if k |\<notin>| fmdom anns \<or> override then (True, fmupd k v anns)
        else if map_get anns k \<noteq> v then (True, fmupd k v anns)
        else (updated, anns))"

definition applyExtraIngressAnnotations :: "'w reconciler \<Rightarrow> bool \<Rightarrow> ingress \<Rightarrow> bool \<times> ingress" where
  "applyExtraIngressAnnotations r override ing =
     (if map_len (r_extra_annotations r) = 0 then (False, ing)
      else (case foldl (apply_extra_step override) (False, ing_annotations ing)
                   (map_range (r_lib r) (r_extra_annotations r)) of
              (updated, anns) \<Rightarrow> (updated, set_annotations anns ing)))"

definition ensureIngressDNSAnnotation :: "string \<Rightarrow> ingress \<Rightarrow> bool \<times> ingress" where
  "ensureIngressDNSAnnotation host ing =
     (if host = [] then (False, ing)
      else if map_get (ing_annotations ing) dnsNamesKey = host then (False, ing)
      else (True, set_annotations (fmupd dnsNamesKey host (ing_annotations ing)) ing))"

definition ensureIngressClass :: "ingress \<Rightarrow> bool \<times> ingress" where
  "ensureIngressClass ing =
     (if ing_class ing \<noteq> Some ''traefik'' then (True, ing\<lparr>ing_class := Some ''traefik''\<rparr>)
      else (False, ing))"

definition managed_rules :: "string \<Rightarrow> string \<Rightarrow> string \<Rightarrow> ingress_rule list" where
  "managed_rules host pathPrefix svcName =
     [\<lparr>ir_host = host, ir_http = Some
        [\<lparr>ip_path = pathPrefix, ip_path_type = Some ''Prefix'',
          ip_backend = \<lparr>ib_service = Some \<lparr>sb_name = svcName, sb_port_name = [], sb_port_number = 8080\<rparr>,
                        ib_other = []\<rparr>\<rparr>]\<rparr>]"

definition ensureIngressHTTPRule :: "string \<Rightarrow> string \<Rightarrow> string \<Rightarrow> ingress \<Rightarrow> bool \<times> ingress" where
  "ensureIngressHTTPRule host pathPrefix svcName ing =
     (let rules = managed_rules host pathPrefix svcName in
      if ing_rules ing = rules \<and> ing_default_backend ing = None then (False, ing)
      else (True, ing\<lparr>ing_rules := rules, ing_default_backend := None\<rparr>))"

definition ensureIngressTLS :: "'w reconciler \<Rightarrow> string \<Rightarrow> bool \<Rightarrow> ingress \<Rightarrow> bool \<times> ingress" where
  "ensureIngressTLS r host isHTTPS ing =
     (let desiredTLS = TrimSpace (r_tls_secret_name r) in
      if \<not> isHTTPS \<or> desiredTLS = [] then (False, ing)
      else if (case ing_tls ing of [] \<Rightarrow> True
               | first # _ \<Rightarrow> tls_secret first \<noteq> desiredTLS \<or>
                   (case tls_hosts first of [] \<Rightarrow> True | h # _ \<Rightarrow> h \<noteq> host))
      then (True, ing\<lparr>ing_tls := [\<lparr>tls_hosts = [host], tls_secret = desiredTLS\<rparr>]\<rparr>)
      else (False, ing))"

subsection \<open>buildDesiredIngress and reconcileIngress\<close>

definition isHTTPS :: "'w reconciler \<Rightarrow> bool" where
  "isHTTPS r = EqualFold (r_public_scheme r) ''https''"

definition buildDesiredIngress ::
  "'w reconciler \<Rightarrow> chat_instance \<Rightarrow> gomap \<Rightarrow> string \<Rightarrow> string \<Rightarrow> string \<Rightarrow> ingress" where
  "buildDesiredIngress r inst labels svcName host pathPrefix =
     (let desiredTLS = TrimSpace (r_tls_secret_name r);
          ing =
            \<lparr>ing_meta = (new_meta (i_namespace inst) svcName)
               \<lparr>meta_labels := labels,
                meta_annotations := fmupd entrypointsKey (desiredIngressEntryPoints (isHTTPS r)) fmempty\<rparr>,
             ing_class = Some ''traefik'',
             ing_default_backend = None,
             ing_rules = managed_rules host pathPrefix svcName,
             ing_tls = (if \<not> isHTTPS r then [] else if desiredTLS = [] then []
                        else [\<lparr>tls_hosts = [host], tls_secret = desiredTLS\<rparr>]),
             ing_other = []\<rparr>
      in snd (ensureIngressDNSAnnotation host (snd (applyExtraIngressAnnotations r False ing))))"

text \<open>The ensure calls of \<open>reconcileIngress\<close>, in their order: whether any reported a change.\<close>

definition and_then :: "bool \<times> ingress \<Rightarrow> (ingress \<Rightarrow> bool \<times> ingress) \<Rightarrow> bool \<times> ingress" where
  "and_then st f = (case st of (updated, ing) \<Rightarrow> case f ing of (u, ing') \<Rightarrow> (updated \<or> u, ing'))"

definition converge_ingress ::
  "'w reconciler \<Rightarrow> string \<Rightarrow> string \<Rightarrow> string \<Rightarrow> ingress \<Rightarrow> bool \<times> ingress" where
  "converge_ingress r svcName host pathPrefix ing =
     (let desiredEntry = desiredIngressEntryPoints (isHTTPS r);
          s1 = ensureIngressAnnotations desiredEntry (isHTTPS r) ing;
          s2 = and_then s1 (applyExtraIngressAnnotations r True);
          s3 = and_then s2 (ensureIngressDNSAnnotation host);
          s4 = and_then s3 ensureIngressClass;
          s5 = and_then s4 (ensureIngressHTTPRule host pathPrefix svcName)
      in and_then s5 (ensureIngressTLS r host (isHTTPS r)))"

text \<open>After the hostname check: create the Ingress, or converge the one that exists.\<close>

definition upsert_ingress ::
  "'w reconciler \<Rightarrow> gomap \<Rightarrow> string \<Rightarrow> string \<Rightarrow> string \<Rightarrow> ('w, go_error option) op" where
  "upsert_ingress r labels svcName host pathPrefix = do {
     inst \<leftarrow> get_inst;
     found \<leftarrow> getIngress r (routeReader r) (i_namespace inst, svcName);
     case found of
       Inl e \<Rightarrow>
         if e \<noteq> NotFound then ret (Some (Api e))
         else
           let fresh = buildDesiredIngress r inst labels svcName host pathPrefix in
           (case set_controller (r_lib r) (i_meta inst) (ing_meta fresh) of
             Inl err \<Rightarrow> ret (Some (ErrNew err))
           | Inr m \<Rightarrow> do {
               reply \<leftarrow> createIngress r (fresh\<lparr>ing_meta := m\<rparr>);
               ret (write_error reply)
             })
     | Inr ing \<Rightarrow>
         if \<not> ownsIngress inst ing then ret (Some (Sentinel ErrIngressNotOwned))
         else (case converge_ingress r svcName host pathPrefix ing of
             (updated, ing') \<Rightarrow>
               if \<not> updated then ret None
               else do { reply \<leftarrow> updateIngress r ing'; ret (write_error reply) })
   }"

definition reconcileIngress ::
  "'w reconciler \<Rightarrow> gomap \<Rightarrow> string \<Rightarrow> string \<Rightarrow> string \<Rightarrow> ('w, go_error option) op" where
  "reconcileIngress r labels svcName host pathPrefix = do {
     checked \<leftarrow> checkHostname r host;
     case checked of
       Some e \<Rightarrow> ret (Some e)
     | None \<Rightarrow> upsert_ingress r labels svcName host pathPrefix
   }"

end
