(* ===== verification/Readiness.thy ===== *)
theory Readiness
  imports Fail_Closed
begin

text \<open>
  When an instance may be published as ready (\<open>chatuiinstance_controller.go\<close>):
  \<open>evaluateInstanceReadiness\<close> with its endpoint, health and DNS checks, the two status writers
  of the happy path, the checksum of the credentials, and the requests a changed Secret causes.
\<close>

text \<open>\<open>%q\<close> of a name, which has no character to escape, and \<open>%d\<close> of a port or replica count.\<close>

definition quote_name :: "string \<Rightarrow> string" where
  "quote_name s = [CHR 0x22] @ s @ [CHR 0x22]"

fun show_nat :: "nat \<Rightarrow> string" where
  "show_nat n = (if n < 10 then [char_of (48 + n)] else show_nat (n div 10) @ [char_of (48 + n mod 10)])"

definition show_int :: "int \<Rightarrow> string" where
  "show_int i = (if i < 0 then ''-'' @ show_nat (nat (- i)) else show_nat (nat i))"

declare show_nat.simps [simp del]

subsection \<open>serviceHasReadyEndpoints\<close>

definition has_ready_port :: "int \<Rightarrow> endpoint_subset list \<Rightarrow> bool" where
  "has_ready_port expectedPort subsets =
     list_ex (\<lambda>sub. ess_addresses sub \<noteq> [] \<and> list_ex (\<lambda>p. p = expectedPort) (ess_ports sub)) subsets"

definition serviceHasReadyEndpoints ::
  "'w reconciler \<Rightarrow> string \<Rightarrow> string \<Rightarrow> int \<Rightarrow> ('w, go_error + (bool \<times> string)) op" where
  "serviceHasReadyEndpoints r ns serviceName expectedPort = do {
     found \<leftarrow> getEndpoints r Cached (ns, serviceName);
     case found of
       Inl e \<Rightarrow>
         if e = NotFound
         then ret (Inr (False, ''Endpoints for Service '' @ quote_name serviceName @ '' not found''))
         else ret (Inl (Api e))
     | Inr subsets \<Rightarrow>
         if has_ready_port expectedPort subsets then ret (Inr (True, []))
         else ret (Inr (False, ''Service '' @ quote_name serviceName @
                '' has no ready endpoints on port '' @ show_int expectedPort))
   }"

subsection \<open>Health and DNS checks\<close>

definition serviceProbeURL :: "string \<Rightarrow> string \<Rightarrow> int \<Rightarrow> string \<Rightarrow> string" where
  "serviceProbeURL ns serviceName port path =
     ''http://'' @ serviceName @ ''.'' @ ns @ ''.svc.cluster.local:'' @ show_int port @ path"

definition defaultServiceHealthChecker :: "'w cluster \<Rightarrow> string \<Rightarrow> 'w \<Rightarrow> go_error option \<times> 'w" where
  "defaultServiceHealthChecker cl targetURL w =
     (case k_http_get cl targetURL w of
        (Inl e, w') \<Rightarrow> (Some e, w')
      | (Inr code, w') \<Rightarrow>
          (if code \<noteq> 200 then Some (ErrNew (''unexpected status code '' @ show_int code)) else None, w'))"

definition runServiceHealthCheck :: "'w reconciler \<Rightarrow> string \<Rightarrow> ('w, go_error option) op" where
  "runServiceHealthCheck r targetURL =
     external (case k_custom_health (r_cluster r) of
         None \<Rightarrow> defaultServiceHealthChecker (r_cluster r) targetURL
       | Some checker \<Rightarrow> checker targetURL) (HealthCheck targetURL)"

definition defaultDNSChecker :: "'w cluster \<Rightarrow> string \<Rightarrow> 'w \<Rightarrow> go_error option \<times> 'w" where
  "defaultDNSChecker cl host w =
     (case k_lookup_host cl host w of
        (Inl e, w') \<Rightarrow> (Some e, w')
      | (Inr ips, w') \<Rightarrow> (if ips = [] then Some (ErrNew ''no addresses found'') else None, w'))"

definition runDNSCheck :: "'w reconciler \<Rightarrow> string \<Rightarrow> ('w, go_error option) op" where
  "runDNSCheck r host =
     external (case k_custom_dns (r_cluster r) of
         None \<Rightarrow> defaultDNSChecker (r_cluster r) host
       | Some checker \<Rightarrow> checker host) (DNSCheck host)"

subsection \<open>evaluateInstanceReadiness\<close>

text \<open>The checks on the Deployment: the reason and message of the first that fails.\<close>

definition desired_replicas :: "deployment \<Rightarrow> int" where
  "desired_replicas d = (case d_replicas d of Some n \<Rightarrow> if n > 0 then n else 1 | None \<Rightarrow> 1)"

definition replica_message :: "string \<Rightarrow> string \<Rightarrow> int \<Rightarrow> int \<Rightarrow> string" where
  "replica_message name kind actual desired =
     ''Deployment '' @ quote_name name @ kind @ show_int actual @ ''/'' @ show_int desired"

definition deployment_pending :: "string \<Rightarrow> deployment \<Rightarrow> (string \<times> string) option" where
  "deployment_pending name d =
     (if d_observed_generation d < meta_generation (d_meta d)
      then Some (''DeploymentProgressing'', ''Deployment '' @ quote_name name @ '' has not observed latest generation'')
      else if d_updated_replicas d < desired_replicas d
      then Some (''DeploymentProgressing'', replica_message name '' updated replicas '' (d_updated_replicas d) (desired_replicas d))
      else if d_ready_replicas d < desired_replicas d
      then Some (''DeploymentNotReady'', replica_message name '' ready replicas '' (d_ready_replicas d) (desired_replicas d))
      else if d_available_replicas d < desired_replicas d
      then Some (''DeploymentNotAvailable'', replica_message name '' available replicas '' (d_available_replicas d) (desired_replicas d))
      else None)"

definition evaluateInstanceReadiness ::
  "'w reconciler \<Rightarrow> string \<Rightarrow> string \<Rightarrow>
   ('w, go_error + (bool \<times> string \<times> string)) op" where
  "evaluateInstanceReadiness r svcName instance_host = do {
     inst \<leftarrow> get_inst;
     let deployName = chatui_name inst;
     found \<leftarrow> getDeployment r Cached (i_namespace inst, deployName);
     case found of
       Inl e \<Rightarrow>
         if e = NotFound
         then ret (Inr (False, ''DeploymentNotFound'', ''Deployment '' @ quote_name deployName @ '' not found''))
         else ret (Inl (Api e))
     | Inr deploy \<Rightarrow>
     (case deployment_pending deployName deploy of
        Some (reason, message) \<Rightarrow> ret (Inr (False, reason, message))
      | None \<Rightarrow> do {
     endpoints \<leftarrow> serviceHasReadyEndpoints r (i_namespace inst) svcName 8080;
     case endpoints of
       Inl e \<Rightarrow> ret (Inl e)
     | Inr (endpointsReady, message) \<Rightarrow>
         if \<not> endpointsReady then ret (Inr (False, ''ServiceEndpointsMissing'', message))
         else do {
           let probeURL = serviceProbeURL (i_namespace inst) svcName 8080 ''/ping'';
           health \<leftarrow> runServiceHealthCheck r probeURL;
           case health of
             Some e \<Rightarrow> ret (Inr (False, ''HealthCheckFailed'',
                 ''Service probe failed for '' @ probeURL @ '': '' @ error_text (api_error_text (r_lib r)) e))
           | None \<Rightarrow> do {
               dns \<leftarrow> runDNSCheck r instance_host;
               case dns of
                 Some e \<Rightarrow> ret (Inr (False, ''DNSNotReady'',
                     ''DNS not resolving for '' @ instance_host @ '': '' @ error_text (api_error_text (r_lib r)) e))
               | None \<Rightarrow> ret (Inr (True, ''Provisioned'', ''Chat UI is ready''))
             }
         }
     })
   }"

subsection \<open>Status of the happy path\<close>

definition instanceURL :: "'w reconciler \<Rightarrow> string \<Rightarrow> string" where
  "instanceURL r host =
     (let scheme = (if r_public_scheme r = [] then ''http'' else r_public_scheme r) in
      if TrimSpace host = [] then [] else scheme @ ''://'' @ host)"

definition progress_status ::
  "'w reconciler \<Rightarrow> chat_instance \<Rightarrow> string \<Rightarrow> string \<Rightarrow> string \<Rightarrow> string \<Rightarrow> string \<Rightarrow> chat_instance" where
  "progress_status r inst phase status host reason message =
     inst\<lparr>i_status := (i_status inst)
       \<lparr>st_conditions := set_condition (r_lib r) (ready_condition inst status reason message)
                           (st_conditions (i_status inst)),
        st_phase := phase, st_url := instanceURL r host,
        st_observed := meta_generation (i_meta inst)\<rparr>\<rparr>"

definition write_status :: "'w reconciler \<Rightarrow> chat_instance \<Rightarrow> ('w, go_error option) op" where
  "write_status r inst = do {
     put_inst inst;
     reply \<leftarrow> updateStatus r inst;
     case reply of
       Inl e \<Rightarrow> ret (Some (Api e))
     | Inr persisted \<Rightarrow> do { put_inst persisted; ret None }
   }"

definition updateProvisioningStatus ::
  "'w reconciler \<Rightarrow> string \<Rightarrow> string \<Rightarrow> string \<Rightarrow> ('w, go_error option) op" where
  "updateProvisioningStatus r host reason message = do {
     inst \<leftarrow> get_inst;
     write_status r (progress_status r inst phaseProvisioning ''False'' host reason message)
   }"

definition updateReadyStatus :: "'w reconciler \<Rightarrow> string \<Rightarrow> ('w, go_error option) op" where
  "updateReadyStatus r host = do {
     inst \<leftarrow> get_inst;
     write_status r (progress_status r inst ''Ready'' ''True'' host ''Provisioned'' ''Chat UI is ready'')
   }"

subsection \<open>Credentials Secrets\<close>

definition checksum_input :: "gomap \<Rightarrow> string" where
  "checksum_input data = concat (map (\<lambda>k. k @ map_get data k) (sorted_list_of_fset (fmdom data)))"

definition computeSecretChecksum :: "library \<Rightarrow> secret \<Rightarrow> string" where
  "computeSecretChecksum lib s =
     (if map_len (sec_data s) = 0 then []
      else take 16 (hex_encode (sha256_sum lib (checksum_input (sec_data s)))))"

definition findChatUIInstancesForSecret :: "'w reconciler \<Rightarrow> secret \<Rightarrow> ('w, key list) op" where
  "findChatUIInstancesForSecret r s = do {
     listed \<leftarrow> listInstances r Cached (meta_namespace (sec_meta s));
     case listed of
       Inl e \<Rightarrow> ret []
     | Inr items \<Rightarrow>
         ret (List.map_filter (\<lambda>inst.
           if TrimSpace (i_credentials inst) = meta_name (sec_meta s)
           then Some (i_namespace inst, i_name inst) else None) items)
   }"

end
