(* ===== verification/Reconcile.thy ===== *)
theory Reconcile
  imports Routing Readiness
begin

text \<open>
  \<open>Reconcile\<close> and \<open>SetupWithManager\<close> of \<open>chatuiinstance_controller.go\<close>. The body of \<open>Reconcile\<close> is
  one sequence of early returns; it is written here in eight consecutive parts
  (\<open>Reconcile\<close>, \<open>reconcile_gated\<close>, \<open>reconcile_limited\<close>, \<open>reconcile_hosted\<close>, \<open>reconcile_workload\<close>, \<open>reconcile_deploy\<close>,
  \<open>reconcile_publish\<close>, \<open>report_readiness\<close>), each calling the next. Tracing and logging are left
  out.
\<close>

text \<open>The readiness check and the status it leads to.\<close>

definition report_readiness :: "'w reconciler \<Rightarrow> string \<Rightarrow> string \<Rightarrow> ('w, result \<times> go_error option) op" where
  "report_readiness r svcName instance_host = do {
     evaluated \<leftarrow> evaluateInstanceReadiness r svcName instance_host;
     case evaluated of
       Inl e \<Rightarrow> ret (no_result, Some e)
     | Inr (ready, reason, message) \<Rightarrow>
         if \<not> ready then do {
           statusErr \<leftarrow> updateProvisioningStatus r instance_host reason message;
           (case statusErr of
              Some e \<Rightarrow> ret (no_result, Some e)
            | None \<Rightarrow> ret (requeue_after provisioningRequeueAfter, None))
         }
         else do {
           statusErr \<leftarrow> updateReadyStatus r instance_host;
           (case statusErr of
              Some e \<Rightarrow> ret (no_result, Some e)
            | None \<Rightarrow> ret (requeue_after hostnameRecheckAfter, None))
         }
   }"

text \<open>From the Service on: publish the route, then the status.\<close>

definition reconcile_publish ::
  "'w reconciler \<Rightarrow> gomap \<Rightarrow> string \<Rightarrow> ('w, result \<times> go_error option) op" where
  "reconcile_publish r labels instance_host = do {
     inst \<leftarrow> get_inst;
     let svcName = chatui_name inst;
     serviced \<leftarrow> reconcileService r labels svcName;
     case serviced of
       Some e \<Rightarrow> denyAccess r e
     | None \<Rightarrow> do {
         routed \<leftarrow> reconcileIngress r labels svcName instance_host ''/'';
         case routed of
           Some e \<Rightarrow> stopForHostnameFailure r e
         | None \<Rightarrow> report_readiness r svcName instance_host
       }
   }"

text \<open>The Deployment, for credentials that were read.\<close>

definition reconcile_deploy ::
  "'w reconciler \<Rightarrow> string \<Rightarrow> string \<Rightarrow> access_bundle \<Rightarrow> secret \<Rightarrow> ('w, result \<times> go_error option) op" where
  "reconcile_deploy r img instance_host access credentials = do {
     inst \<leftarrow> get_inst;
     let secretChecksum = computeSecretChecksum (r_lib r) credentials;
     let labels = uiLabels (i_name inst);
     let replicas = (if i_replicas inst \<le> 0 then 1 else i_replicas inst);
     deployed \<leftarrow> reconcileDeployment r labels replicas img secretChecksum access;
     case deployed of
       Some e \<Rightarrow>
         if errors_Is e ErrAccessCutover
         then do {
           statusErr \<leftarrow> updateImagePolicyStatus r phaseProvisioning ''AccessMigration''
             ''Waiting for prior pods to stop before access migration'';
           ret (requeue_after provisioningRequeueAfter, statusErr)
         }
         else denyAccess r e
     | None \<Rightarrow> reconcile_publish r labels instance_host
   }"

text \<open>From the finalizer to the credentials.\<close>

definition reconcile_workload ::
  "'w reconciler \<Rightarrow> string \<Rightarrow> string \<Rightarrow> access_bundle \<Rightarrow> ('w, result \<times> go_error option) op" where
  "reconcile_workload r img instance_host access = do {
     inst \<leftarrow> get_inst;
     if \<not> has_finalizer (r_lib r) (i_meta inst) finalizerName
     then do {
       let marked = inst\<lparr>i_meta := add_finalizer (r_lib r) (i_meta inst) finalizerName\<rparr>;
       put_inst marked;
       reply \<leftarrow> updateInstance r marked;
       case reply of
         Inl e \<Rightarrow> ret (requeue_after 3, None)
       | Inr persisted \<Rightarrow> do { put_inst persisted; ret (\<lparr>res_requeue = True, res_after = 0\<rparr>, None) }
     }
     else
       let secretName = TrimSpace (i_credentials inst) in
       if secretName = [] then denyAccess r (ErrNew ''backend secret name is not set'')
       else do {
         found \<leftarrow> getSecret r Cached (i_namespace inst, secretName);
         case found of
           Inl e \<Rightarrow> denyAccess r (Wrap ''backend credentials unavailable'' (Api e))
         | Inr credentials \<Rightarrow> reconcile_deploy r img instance_host access credentials
       }
   }"

text \<open>From the access bundle on.\<close>

definition reconcile_hosted :: "'w reconciler \<Rightarrow> string \<Rightarrow> string \<Rightarrow> ('w, result \<times> go_error option) op" where
  "reconcile_hosted r img instance_host = do {
     prepared \<leftarrow> prepareAccess r instance_host;
     case prepared of
       Inl e \<Rightarrow> denyAccess r e
     | Inr access \<Rightarrow> reconcile_workload r img instance_host access
   }"

text \<open>From the replica limit to the selection of the host.\<close>

definition reconcile_limited :: "'w reconciler \<Rightarrow> string \<Rightarrow> ('w, result \<times> go_error option) op" where
  "reconcile_limited r img = do {
     inst \<leftarrow> get_inst;
     if i_replicas inst > 1 then rejectReplicas r
     else do {
       selected \<leftarrow> selectedInstanceHost r;
       case selected of
         Inl e \<Rightarrow> stopForHostnameFailure r e
       | Inr instance_host \<Rightarrow> reconcile_hosted r img instance_host
     }
   }"

text \<open>From the check of the running image.\<close>

definition reconcile_gated :: "'w reconciler \<Rightarrow> string \<Rightarrow> ('w, result \<times> go_error option) op" where
  "reconcile_gated r img = do {
     stopping \<leftarrow> stopUnapprovedDeployment r False;
     case stopping of
       Inl e \<Rightarrow> do {
         let (reason, message) =
           (if errors_Is e ErrDeploymentNotOwned
            then (''ImagePolicyError'', ''The named Deployment is not controlled by this ChatUIInstance'')
            else (''ImageCheckFailed'', ''The Deployment image could not be verified''));
         withdrawErr \<leftarrow> withdrawAccess r;
         statusErr \<leftarrow> updateImagePolicyStatus r phaseError reason message;
         ret (no_result, errors_Join [Some e, withdrawErr, statusErr])
       }
     | Inr True \<Rightarrow> do {
         withdrawErr \<leftarrow> withdrawAccess r;
         statusErr \<leftarrow> updateImagePolicyStatus r phaseProvisioning ''ImageMigration''
           ''Waiting for Deployment scale-down before using the supported image'';
         ret (requeue_after provisioningRequeueAfter, errors_Join [withdrawErr, statusErr])
       }
     | Inr False \<Rightarrow> reconcile_limited r img
   }"

definition Reconcile :: "'w reconciler \<Rightarrow> key \<Rightarrow> ('w, result \<times> go_error option) op" where
  "Reconcile r req = do {
     fetched \<leftarrow> getInst r (routeReader r) req;
     case fetched of
       Inl e \<Rightarrow> if e = NotFound then ret (no_result, None) else ret (no_result, Some (Api e))
     | Inr inst \<Rightarrow> do {
         put_inst inst;
         if meta_deleted (i_meta inst) \<noteq> None
         then
           if has_finalizer (r_lib r) (i_meta inst) finalizerName
           then do {
             let released = inst\<lparr>i_meta := remove_finalizer (r_lib r) (i_meta inst) finalizerName\<rparr>;
             put_inst released;
             reply \<leftarrow> updateInstance r released;
             ret (no_result, write_error reply)
           }
           else ret (no_result, None)
         else (case resolveImage (i_image inst) of
             Inl e \<Rightarrow> do {
               err \<leftarrow> rejectImage r (error_text (api_error_text (r_lib r)) e);
               ret (no_result, err)
             }
           | Inr img \<Rightarrow> reconcile_gated r img)
       }
   }"

text \<open>\<open>complete\<close>: the error of building the controller with its watches, a call of the library.\<close>

definition SetupWithManager :: "go_error option \<Rightarrow> 'w reconciler \<Rightarrow> go_error + 'w reconciler" where
  "SetupWithManager complete r =
     (case r_access_policy r of
        None \<Rightarrow> Inl (ErrNew ''access policy is required'')
      | Some _ \<Rightarrow>
     (case r_hostname_policy r of
        None \<Rightarrow> Inl (ErrNew ''hostname policy is required'')
      | Some p \<Rightarrow>
     (case ValidatePublicHost (r_lib r) p (r_public_host r) of
        Some e \<Rightarrow> Inl e
      | None \<Rightarrow>
          (case complete of
             Some e \<Rightarrow> Inl e
           | None \<Rightarrow> Inr (r\<lparr>r_has_route_reader := True\<rparr>)))))"

end
