(* ===== verification/Go_Http.thy ===== *)
theory Go_Http
  imports Go_Encoding
begin

text \<open>
  Packages \<open>net/http\<close>, \<open>net/textproto\<close> and \<open>path\<close> as far as the access gate uses them: header
  maps with canonical keys, cookies in the \<open>Cookie\<close> header, the unpadded URL base64 decoder
  and \<open>path.Clean\<close>. The cookie functions are those of Go 1.25.0, the version of \<open>go.mod\<close>.
\<close>

subsection \<open>Header maps\<close>

type_synonym header = "(string, string list) fmap"

text \<open>The characters of a token (RFC 7230), and \<open>textproto.CanonicalMIMEHeaderKey\<close>.\<close>

definition token_char :: "char \<Rightarrow> bool" where
  "token_char c \<longleftrightarrow> between 48 57 c \<or> between 65 90 c \<or> between 97 122 c \<or>
     c \<in> set ''!#$%&*+-.^_|~'' \<or> c = byte 39 \<or> c = byte 96"

fun canonical_from :: "bool \<Rightarrow> string \<Rightarrow> string" where
  "canonical_from upper [] = []"
| "canonical_from upper (c # cs) =
     (let d = (if upper \<and> between 97 122 c then char_of (code_of c - 32)
               else if \<not> upper \<and> between 65 90 c then char_of (code_of c + 32)
               else c)
      in d # canonical_from (d = CHR ''-'') cs)"

definition CanonicalKey :: "string \<Rightarrow> string" where
  "CanonicalKey s = (if list_all token_char s then canonical_from True s else s)"

definition header_values :: "header \<Rightarrow> string \<Rightarrow> string list" where
  "header_values h k = (case fmlookup h (CanonicalKey k) of None \<Rightarrow> [] | Some vs \<Rightarrow> vs)"

definition header_get :: "header \<Rightarrow> string \<Rightarrow> string" where
  "header_get h k = (case header_values h k of [] \<Rightarrow> [] | v # _ \<Rightarrow> v)"

definition header_set :: "header \<Rightarrow> string \<Rightarrow> string \<Rightarrow> header" where
  "header_set h k v = fmupd (CanonicalKey k) [v] h"

definition header_del :: "header \<Rightarrow> string \<Rightarrow> header" where
  "header_del h k = fmdrop (CanonicalKey k) h"

text \<open>The server parses a request into a map with canonical keys.\<close>

definition canonical_header :: "header \<Rightarrow> bool" where
  "canonical_header h = fBall (fmdom h) (\<lambda>k. CanonicalKey k = k)"

lemma canonical_from_char: "between 97 122 c \<Longrightarrow> between 65 90 (char_of (code_of c - 32))"
  "between 65 90 c \<Longrightarrow> between 97 122 (char_of (code_of c + 32))"
  by (auto simp: between_def)

lemma canonical_from_idem [simp]: "canonical_from upper (canonical_from upper s) = canonical_from upper s"
proof (induction upper s rule: canonical_from.induct)
  case (1 upper)
  then show ?case by simp
next
  case (2 upper c cs)
  have up: "\<not> between 97 122 (char_of (code_of c - 32))" if "between 97 122 c"
    using that by (auto simp: between_def)
  have low: "\<not> between 65 90 (char_of (code_of c + 32))" if "between 65 90 c"
    using that by (auto simp: between_def)
  show ?case using 2 by (auto simp: Let_def up low)
qed

lemma token_char_case: "token_char c \<Longrightarrow> between 97 122 c \<Longrightarrow> token_char (char_of (code_of c - 32))"
  "token_char c \<Longrightarrow> between 65 90 c \<Longrightarrow> token_char (char_of (code_of c + 32))"
  by (auto simp: token_char_def dest: canonical_from_char)

lemma canonical_from_tokens: "list_all token_char s \<Longrightarrow> list_all token_char (canonical_from upper s)"
  by (induction upper s rule: canonical_from.induct) (auto simp: Let_def token_char_case)

lemma CanonicalKey_idem [simp]: "CanonicalKey (CanonicalKey s) = CanonicalKey s"
  by (simp add: CanonicalKey_def canonical_from_tokens)

lemma header_values_set [simp]:
  "header_values (header_set h k v) k' = (if CanonicalKey k' = CanonicalKey k then [v] else header_values h k')"
  by (simp add: header_values_def header_set_def)

lemma header_values_del [simp]:
  "header_values (header_del h k) k' = (if CanonicalKey k' = CanonicalKey k then [] else header_values h k')"
  by (simp add: header_values_def header_del_def)

lemma canonical_header_set [simp]: "canonical_header h \<Longrightarrow> canonical_header (header_set h k v)"
  by (auto simp: canonical_header_def header_set_def)

lemma canonical_header_del [simp]: "canonical_header h \<Longrightarrow> canonical_header (header_del h k)"
  by (auto simp: canonical_header_def header_del_def)

subsection \<open>Cookies\<close>

record cookie =
  ck_name :: string
  ck_value :: string
  ck_quoted :: bool

text \<open>\<open>strings.Cut\<close> at a character, without the flag.\<close>

definition cut :: "char \<Rightarrow> string \<Rightarrow> string \<times> string" where
  "cut c s = (takeWhile (\<lambda>x. x \<noteq> c) s, drop 1 (dropWhile (\<lambda>x. x \<noteq> c) s))"

definition trim_space_char :: "char \<Rightarrow> bool" where
  "trim_space_char c \<longleftrightarrow> c = byte 32 \<or> c = byte 9 \<or> c = byte 10 \<or> c = byte 13"

definition TrimString :: "string \<Rightarrow> string" where
  "TrimString s = rev (dropWhile trim_space_char (rev (dropWhile trim_space_char s)))"

definition is_token :: "string \<Rightarrow> bool" where
  "is_token s \<longleftrightarrow> s \<noteq> [] \<and> list_all token_char s"

definition cookie_value_char :: "char \<Rightarrow> bool" where
  "cookie_value_char c \<longleftrightarrow> between 32 126 c \<and> c \<noteq> byte 34 \<and> c \<noteq> CHR '';'' \<and> c \<noteq> byte 92"

definition parse_cookie_value :: "string \<Rightarrow> (string \<times> bool) option" where
  "parse_cookie_value raw =
     (let q = 1 < length raw \<and> hd raw = byte 34 \<and> last raw = byte 34;
          v = (if q then butlast (tl raw) else raw)
      in if list_all cookie_value_char v then Some (v, q) else None)"

text \<open>One part of a \<open>Cookie\<close> line; a part that is empty or malformed is skipped.\<close>

definition parse_cookie :: "string \<Rightarrow> cookie option" where
  "parse_cookie raw =
     (let part = TrimString raw in
      if part = [] then None
      else case cut (CHR ''='') part of (name, val) \<Rightarrow>
        let n = TrimString name in
        if \<not> is_token n then None
        else case parse_cookie_value val of
               None \<Rightarrow> None
             | Some (v, q) \<Rightarrow> Some \<lparr>ck_name = n, ck_value = v, ck_quoted = q\<rparr>)"

definition read_cookies :: "string list \<Rightarrow> cookie list" where
  "read_cookies lines =
     concat (map (\<lambda>line. List.map_filter parse_cookie (split_on (CHR '';'') (TrimString line))) lines)"

definition Cookies :: "header \<Rightarrow> cookie list" where
  "Cookies h = read_cookies (header_values h ''Cookie'')"

text \<open>\<open>Request.AddCookie\<close>\<close>

definition sanitize_cookie_name :: "string \<Rightarrow> string" where
  "sanitize_cookie_name = map (\<lambda>c. if c = byte 10 \<or> c = byte 13 then CHR ''-'' else c)"

definition sanitize_cookie_value :: "string \<Rightarrow> bool \<Rightarrow> string" where
  "sanitize_cookie_value raw q =
     (let v = filter cookie_value_char raw in
      if v = [] then v
      else if ContainsAny v '' ,'' \<or> q then byte 34 # v @ [byte 34]
      else v)"

definition print_cookie :: "cookie \<Rightarrow> string" where
  "print_cookie c = sanitize_cookie_name (ck_name c) @ ''='' @ sanitize_cookie_value (ck_value c) (ck_quoted c)"

definition AddCookie :: "header \<Rightarrow> cookie \<Rightarrow> header" where
  "AddCookie h c =
     (let old = header_get h ''Cookie'' in
      header_set h ''Cookie'' (if old \<noteq> [] then old @ ''; '' @ print_cookie c else print_cookie c))"

subsection \<open>Unpadded base64\<close>

text \<open>\<open>base64.RawURLEncoding.DecodeString\<close>\<close>

fun b64_raw_groups :: "string \<Rightarrow> string \<Rightarrow> string option" where
  "b64_raw_groups al [] = Some []"
| "b64_raw_groups al [a] = None"
| "b64_raw_groups al [a, b] =
     (case (index_of a al, index_of b al) of
        (Some i, Some j) \<Rightarrow> Some [char_of (i * 4 + j div 16)] | _ \<Rightarrow> None)"
| "b64_raw_groups al [a, b, c] =
     (case (index_of a al, index_of b al, index_of c al) of
        (Some i, Some j, Some k) \<Rightarrow> Some [char_of (i * 4 + j div 16), char_of (j mod 16 * 16 + k div 4)]
      | _ \<Rightarrow> None)"
| "b64_raw_groups al (a # b # c # d # rest) =
     (case (index_of a al, index_of b al, index_of c al, index_of d al, b64_raw_groups al rest) of
        (Some i, Some j, Some k, Some l, Some out) \<Rightarrow>
          Some (char_of (i * 4 + j div 16) # char_of (j mod 16 * 16 + k div 4) #
                char_of (k mod 4 * 64 + l) # out)
      | _ \<Rightarrow> None)"

definition RawURLDecode :: "string \<Rightarrow> string option" where
  "RawURLDecode s = b64_raw_groups url_alphabet (filter (\<lambda>c. c \<noteq> byte 13 \<and> c \<noteq> byte 10) s)"

text \<open>The encoding it inverts, as an identity provider uses it in a token.\<close>

fun b64_raw_encode :: "string \<Rightarrow> string \<Rightarrow> string" where
  "b64_raw_encode al [] = []"
| "b64_raw_encode al [a] = [al ! (code_of a div 4), al ! (code_of a mod 4 * 16)]"
| "b64_raw_encode al [a, b] =
     [al ! (code_of a div 4), al ! (code_of a mod 4 * 16 + code_of b div 16), al ! (code_of b mod 16 * 4)]"
| "b64_raw_encode al (a # b # c # rest) =
     [al ! (code_of a div 4), al ! (code_of a mod 4 * 16 + code_of b div 16),
      al ! (code_of b mod 16 * 4 + code_of c div 64), al ! (code_of c mod 64)] @ b64_raw_encode al rest"

definition RawURLEncode :: "string \<Rightarrow> string" where "RawURLEncode = b64_raw_encode url_alphabet"

context base64_alphabet
begin

lemma raw_groups_encode: "b64_raw_groups al (b64_raw_encode al s) = Some s"
proof (induction "length s" arbitrary: s rule: less_induct)
  case less
  consider "s = []" | a where "s = [a]" | a b where "s = [a, b]"
    | a b c rest where "s = a # b # c # rest"
    by (metis list.exhaust)
  then show ?case
    by cases (use less in \<open>simp_all add: sextets bytes_back\<close>)
qed

lemma raw_encode_chars: "set (b64_raw_encode al s) \<subseteq> set al"
proof (induction "length s" arbitrary: s rule: less_induct)
  case less
  have mem: "al ! i \<in> set al" if "i < 64" for i using that length by simp
  consider "s = []" | a where "s = [a]" | a b where "s = [a, b]"
    | a b c rest where "s = a # b # c # rest"
    by (metis list.exhaust)
  then show ?case
    by cases (use less in \<open>simp_all add: sextets mem\<close>)
qed

end

lemma RawURLEncode_chars: "set (RawURLEncode s) \<subseteq> set url_alphabet"
  by (simp add: RawURLEncode_def url.raw_encode_chars)

lemma length_RawURLEncode: "length (RawURLEncode s) \<le> 2 * length s"
proof -
  have "length (b64_raw_encode al s) \<le> 2 * length s" for al
    by (induction al s rule: b64_raw_encode.induct) simp_all
  then show ?thesis by (simp add: RawURLEncode_def)
qed

lemma RawURLDecode_Encode [simp]: "RawURLDecode (RawURLEncode s) = Some s"
proof -
  have "\<forall>c \<in> set (RawURLEncode s). c \<noteq> byte 13 \<and> c \<noteq> byte 10"
    using RawURLEncode_chars [of s] url.plain by (auto simp: line_breaks)
  then have "filter (\<lambda>c. c \<noteq> byte 13 \<and> c \<noteq> byte 10) (RawURLEncode s) = RawURLEncode s"
    by (simp add: filter_id_conv)
  then show ?thesis by (simp add: RawURLDecode_def RawURLEncode_def url.raw_groups_encode)
qed

subsection \<open>Clean paths\<close>

text \<open>
  \<open>path.Clean\<close> on the list of components: empty and dot components vanish, a double dot removes the
  component before it; it vanishes at the root and is kept at the start of a relative path. The stack
  is in reverse order.
\<close>

definition clean_step :: "bool \<Rightarrow> string \<Rightarrow> string list \<Rightarrow> string list" where
  "clean_step rooted part stack =
     (if part = [] \<or> part = ''.'' then stack
      else if part = ''..'' then
        (if stack \<noteq> [] \<and> hd stack \<noteq> ''..'' then tl stack
         else if rooted then stack
         else part # stack)
      else part # stack)"

definition Clean :: "string \<Rightarrow> string" where
  "Clean s =
     (if s = [] then ''.''
      else let rooted = (hd s = CHR ''/'');
               parts = rev (fold (clean_step rooted) (split_on (CHR ''/'') s) [])
           in if rooted then CHR ''/'' # join_with (CHR ''/'') parts
              else if parts = [] then ''.'' else join_with (CHR ''/'') parts)"

subsection \<open>A printed cookie is read back\<close>

lemma byte_chars:
  "byte 32 = CHR '' ''" "byte 34 = CHR 0x22" "byte 9 = CHR 0x09" "byte 10 = CHR 0x0A" "byte 13 = CHR 0x0D"
  "byte 39 = CHR 0x27" "byte 92 = CHR 0x5C" "byte 96 = CHR 0x60"
  by code_simp+

lemma split_on_append_all: "split_on c (p @ c # s) = split_on c p @ split_on c s"
  by (induction p) (auto split: list.splits)

text \<open>Text that \<open>TrimString\<close> leaves alone.\<close>

definition trimmed :: "string \<Rightarrow> bool" where
  "trimmed s \<longleftrightarrow> s \<noteq> [] \<and> \<not> trim_space_char (hd s) \<and> \<not> trim_space_char (last s)"

lemma dropWhile_stop: "s \<noteq> [] \<Longrightarrow> \<not> P (hd s) \<Longrightarrow> dropWhile P s = s"
  by (cases s) auto

lemma TrimString_trimmed: "trimmed s \<Longrightarrow> TrimString s = s"
  by (simp add: trimmed_def TrimString_def dropWhile_stop hd_rev)

lemma TrimString_space: "trimmed s \<Longrightarrow> TrimString (byte 32 # s) = s"
  by (simp add: trimmed_def TrimString_def trim_space_char_def dropWhile_stop hd_rev)

lemma trimmed_append: "trimmed s \<Longrightarrow> trimmed t \<Longrightarrow> trimmed (s @ u @ t)"
  by (simp add: trimmed_def)

text \<open>The cookies \<open>readCookies\<close> produces.\<close>

definition valid_cookie :: "cookie \<Rightarrow> bool" where
  "valid_cookie c \<longleftrightarrow> is_token (ck_name c) \<and> list_all cookie_value_char (ck_value c)"

lemma parse_cookie_valid: "parse_cookie raw = Some c \<Longrightarrow> valid_cookie c"
  by (auto simp: parse_cookie_def parse_cookie_value_def valid_cookie_def Let_def split: if_splits prod.splits option.splits)

lemma read_cookies_valid: "c \<in> set (read_cookies lines) \<Longrightarrow> valid_cookie c"
  by (auto simp: read_cookies_def List.map_filter_def dest: parse_cookie_valid)

lemma not_token_chars:
  "\<not> token_char (CHR ''='')" "\<not> token_char (CHR '';'')" "\<not> token_char (byte 32)" "\<not> token_char (byte 9)"
  "\<not> token_char (byte 10)" "\<not> token_char (byte 13)"
  by (simp_all add: token_char_def between_def byte_chars)

lemma token_char_not:
  "token_char c \<Longrightarrow> c \<noteq> CHR ''='' \<and> c \<noteq> CHR '';'' \<and> \<not> trim_space_char c \<and> c \<noteq> byte 10 \<and> c \<noteq> byte 13"
  using not_token_chars unfolding trim_space_char_def by blast

lemma not_value_chars: "\<not> cookie_value_char (byte 9)" "\<not> cookie_value_char (byte 10)" "\<not> cookie_value_char (byte 13)"
  by (simp_all add: cookie_value_char_def between_def byte_chars)

lemma value_char_not: "cookie_value_char c \<Longrightarrow> c \<noteq> byte 34 \<and> c \<noteq> CHR '';'' \<and> (trim_space_char c \<longrightarrow> c = byte 32)"
  using not_value_chars unfolding trim_space_char_def by (auto simp: cookie_value_char_def)

lemma printed_name: "is_token n \<Longrightarrow> sanitize_cookie_name n = n"
  unfolding sanitize_cookie_name_def
proof (rule map_idI)
  fix c assume "is_token n" "c \<in> set n"
  then have "c \<noteq> byte 10 \<and> c \<noteq> byte 13" using token_char_not unfolding is_token_def list_all_iff by blast
  then show "(if c = byte 10 \<or> c = byte 13 then CHR ''-'' else c) = c" by simp
qed

lemma printed_value:
  assumes "list_all cookie_value_char v"
  shows "sanitize_cookie_value v q = (if v = [] then v else if ContainsAny v '' ,'' \<or> q then byte 34 # v @ [byte 34] else v)"
  using assms by (simp add: sanitize_cookie_value_def Let_def filter_id_conv [THEN iffD2] list_all_iff)

definition value_text :: "string \<Rightarrow> string \<Rightarrow> bool" where
  "value_text v t \<longleftrightarrow> (\<exists>q. parse_cookie_value t = Some (v, q)) \<and> CHR '';'' \<notin> set t \<and>
     (t \<noteq> [] \<longrightarrow> \<not> trim_space_char (last t))"

lemma printed_value_text:
  assumes "list_all cookie_value_char v"
  shows "value_text v (sanitize_cookie_value v q)"
proof -
  have chars: "c \<in> set v \<Longrightarrow> c \<noteq> byte 34 \<and> c \<noteq> CHR '';'' \<and> (trim_space_char c \<longrightarrow> c = byte 32)" for c
    using assms value_char_not by (auto simp: list_all_iff)
  have quote: "CHR '';'' \<noteq> byte 34" "\<not> trim_space_char (byte 34)" "byte 32 = CHR '' ''"
    by (simp_all add: byte_chars trim_space_char_def)
  have bare: "\<not> trim_space_char (last v)" if "v \<noteq> []" "\<not> ContainsAny v '' ,''"
    using that chars [of "last v"] quote(3) by (auto simp: ContainsAny_def list_ex_iff)
  have hd: "v \<noteq> [] \<Longrightarrow> hd v \<noteq> byte 34" using chars by simp
  show ?thesis
    using assms bare hd chars quote
    by (auto simp: printed_value value_text_def parse_cookie_value_def Let_def)
qed

lemma parse_printed:
  assumes "valid_cookie c"
  shows "\<exists>q. parse_cookie (print_cookie c) = Some (c\<lparr>ck_quoted := q\<rparr>)"
    and "\<exists>q. parse_cookie (byte 32 # print_cookie c) = Some (c\<lparr>ck_quoted := q\<rparr>)"
    and "trimmed (print_cookie c)" and "CHR '';'' \<notin> set (print_cookie c)"
proof -
  let ?n = "ck_name c" and ?t = "sanitize_cookie_value (ck_value c) (ck_quoted c)"
  have name: "is_token ?n" and n: "?n \<noteq> []" "list_all token_char ?n" and v: "value_text (ck_value c) ?t"
    using assms printed_value_text by (auto simp: valid_cookie_def is_token_def)
  have print: "print_cookie c = ?n @ CHR ''='' # ?t"
    using name by (simp add: print_cookie_def printed_name)
  have chars: "x \<in> set ?n \<Longrightarrow> x \<noteq> CHR ''='' \<and> x \<noteq> CHR '';'' \<and> \<not> trim_space_char x" for x
    using n(2) token_char_not by (auto simp: list_all_iff)
  show trimmed: "trimmed (print_cookie c)"
    using n v chars [of "hd ?n"] by (auto simp: print trimmed_def value_text_def trim_space_char_def byte_chars)
  show "CHR '';'' \<notin> set (print_cookie c)" using v chars by (auto simp: print value_text_def)
  have cut: "cut (CHR ''='') (?n @ CHR ''='' # ?t) = (?n, ?t)"
    using chars by (auto simp: cut_def takeWhile_append2 dropWhile_append2)
  have "trimmed ?n" using n chars [of "hd ?n"] chars [of "last ?n"] by (simp add: trimmed_def)
  then have n': "TrimString ?n = ?n" by (rule TrimString_trimmed)
  obtain q where "parse_cookie_value ?t = Some (ck_value c, q)" using v by (auto simp: value_text_def)
  then have parse: "parse_cookie s = Some (c\<lparr>ck_quoted := q\<rparr>)" if "TrimString s = print_cookie c" for s
    using that name by (simp add: parse_cookie_def print cut n' Let_def)
  show "\<exists>q. parse_cookie (print_cookie c) = Some (c\<lparr>ck_quoted := q\<rparr>)"
    using parse TrimString_trimmed [OF trimmed] by blast
  show "\<exists>q. parse_cookie (byte 32 # print_cookie c) = Some (c\<lparr>ck_quoted := q\<rparr>)"
    using parse TrimString_space [OF trimmed] by blast
qed

text \<open>Cookies added to a request without any are read back in order, with their names and values.\<close>

definition cookie_pair :: "cookie \<Rightarrow> string \<times> string" where
  "cookie_pair c = (ck_name c, ck_value c)"

lemma cookie_pair_quoted [simp]: "cookie_pair (c\<lparr>ck_quoted := q\<rparr>) = cookie_pair c"
  by (simp add: cookie_pair_def)

definition cookie_line :: "string \<Rightarrow> cookie list \<Rightarrow> bool" where
  "cookie_line line cs \<longleftrightarrow>
     trimmed line \<and> map cookie_pair (List.map_filter parse_cookie (split_on (CHR '';'') line)) = map cookie_pair cs"

lemma cookie_line_single: "valid_cookie c \<Longrightarrow> cookie_line (print_cookie c) [c]"
  using parse_printed [of c] by (auto simp: cookie_line_def split_on_single List.map_filter_simps)

lemma map_filter_append: "List.map_filter f (xs @ ys) = List.map_filter f xs @ List.map_filter f ys"
  by (simp add: List.map_filter_def)

lemma cookie_line_snoc:
  assumes "cookie_line line cs" "valid_cookie c"
  shows "cookie_line (line @ ''; '' @ print_cookie c) (cs @ [c])"
proof -
  note c = parse_printed [OF assms(2)]
  have space: "CHR '' '' = byte 32" by (simp add: byte_chars)
  have tail: "split_on (CHR '';'') (byte 32 # print_cookie c) = [byte 32 # print_cookie c]"
    using c(4) by (intro split_on_single) (auto simp: byte_chars)
  have "trimmed (line @ ''; '' @ print_cookie c)"
    using assms(1) c(3) by (intro trimmed_append) (simp_all add: cookie_line_def)
  moreover have "split_on (CHR '';'') (line @ ''; '' @ print_cookie c) = split_on (CHR '';'') line @ [byte 32 # print_cookie c]"
    using split_on_append_all [of "CHR '';''" line] tail by (simp add: space)
  ultimately show ?thesis
    using assms(1) c(2) by (auto simp: cookie_line_def map_filter_append List.map_filter_simps)
qed

lemma Cookies_AddCookies:
  assumes "header_values h ''Cookie'' = []" "\<forall>c \<in> set cs. valid_cookie c"
  shows "map cookie_pair (Cookies (fold (\<lambda>c h. AddCookie h c) cs h)) = map cookie_pair cs"
proof -
  let ?h = "\<lambda>cs. fold (\<lambda>c h. AddCookie h c) cs h"
  have "if cs = [] then header_values (?h cs) ''Cookie'' = []
        else \<exists>line. header_values (?h cs) ''Cookie'' = [line] \<and> cookie_line line cs"
    using assms(2)
  proof (induction cs rule: rev_induct)
    case Nil
    then show ?case using assms(1) by simp
  next
    case (snoc c cs)
    then have valid: "valid_cookie c" by simp
    show ?case
    proof (cases "cs = []")
      case True
      then show ?thesis
        using assms(1) cookie_line_single [OF valid] by (simp add: AddCookie_def header_get_def)
    next
      case False
      with snoc obtain line where line: "header_values (?h cs) ''Cookie'' = [line]" "cookie_line line cs" by auto
      then have "line \<noteq> []" by (simp add: cookie_line_def trimmed_def)
      with line show ?thesis
        using cookie_line_snoc [OF line(2) valid] by (simp add: AddCookie_def header_get_def)
    qed
  qed
  then show ?thesis
    by (cases "cs = []") (auto simp: Cookies_def read_cookies_def cookie_line_def TrimString_trimmed)
qed

end
