(* ===== verification/Access_Gate.thy ===== *)
theory Access_Gate
  imports Gate_Config Go_Http Go_Effects "HOL-Library.Word"
begin

text \<open>
  \<open>internal/accessgate/gate.go\<close>: the gate in front of the web UI. \<open>authorize\<close> asks KCP with the
  caller's own token, \<open>ServeHTTP\<close> checks a request and relays it with the identity KCP's answer
  and the token give, and a running stream is checked again at every tick. KCP, the clock and the
  application belong to the outside world, which may answer anything; each request to them is in
  the log. The query string, timeouts and response headers are not modelled.
\<close>

subsection \<open>The outside world\<close>

text \<open>
  The fields of the KCP answer and of the token that the code decodes. The audience is a
  \<open>json.RawMessage\<close>, which is absent if the token has no such member.
\<close>

record kcp_object =
  ko_api_version :: string
  ko_kind :: string
  ko_name :: string
  ko_namespace :: string
  ko_uid :: string
  ko_deleted :: "string option"
  ko_annotations :: gomap

record claims =
  cl_issuer :: string
  cl_subject :: string
  cl_audience :: "json option"
  cl_expires :: "64 word"
  cl_authorized_party :: string

record kcp_request =
  kq_url :: string
  kq_authorization :: string
  kq_accept :: string

text \<open>The body is \<open>None\<close> if reading it fails.\<close>

datatype http_reply = Unreachable | Response int "string option"

record http_request =
  rq_method :: string
  rq_host :: string
  rq_path :: string
  rq_header :: header

record out_request =
  o_scheme :: string
  o_url_host :: string
  o_method :: string
  o_path :: string
  o_host :: string
  o_header :: header

datatype gate_call =
    KcpGet kcp_request http_reply
  | Clock int
  | AppGet string http_reply
  | Relay out_request int bool

text \<open>\<open>json.Unmarshal\<close> into the two structs: other members are ignored.\<close>

definition metadata_fields :: "(string \<times> kcp_object target) list" where
  "metadata_fields =
     [(''name'', text_member ko_name_update), (''namespace'', text_member ko_namespace_update),
      (''uid'', text_member ko_uid_update), (''deletionTimestamp'', pointer_member ko_deleted_update),
      (''annotations'', map_member ko_annotations ko_annotations_update)]"

definition unmarshal_object :: "string \<Rightarrow> kcp_object option" where
  "unmarshal_object data =
     Option.bind (read_document data) (\<lambda>j. struct_target False
       [(''apiVersion'', text_member ko_api_version_update), (''kind'', text_member ko_kind_update),
        (''metadata'', struct_target False metadata_fields)]
       j \<lparr>ko_api_version = [], ko_kind = [], ko_name = [], ko_namespace = [], ko_uid = [], ko_deleted = None,
          ko_annotations = fmempty\<rparr>)"

definition unmarshal_claims :: "string \<Rightarrow> claims option" where
  "unmarshal_claims data =
     Option.bind (read_document data) (\<lambda>j. struct_target False
       [(''iss'', text_member cl_issuer_update), (''sub'', text_member cl_subject_update),
        (''aud'', raw_member cl_audience_update), (''exp'', int64_member cl_expires_update),
        (''azp'', text_member cl_authorized_party_update)]
       j \<lparr>cl_issuer = [], cl_subject = [], cl_audience = None, cl_expires = 0, cl_authorized_party = []\<rparr>)"

text \<open>
  \<open>pem_valid\<close> stands for \<open>AppendCertsFromPEM\<close>. A request to KCP depends on the trusted roots. The clock
  gives seconds since Go's zero time; \<open>relay\<close> tells whether the application answered.
\<close>

record 'w gate_env =
  env_lib :: library
  pem_valid :: "string \<Rightarrow> bool"
  system_roots :: bool
  kcp_do :: "string option \<Rightarrow> kcp_request \<Rightarrow> 'w \<Rightarrow> http_reply \<times> 'w"
  now :: "'w \<Rightarrow> int \<times> 'w"
  app_do :: "string \<Rightarrow> 'w \<Rightarrow> http_reply \<times> 'w"
  relay :: "out_request \<Rightarrow> int \<Rightarrow> 'w \<Rightarrow> bool \<times> 'w"

type_synonym ('w, 'a) gate_op = "('w, unit, gate_call, 'a) go"

subsection \<open>The gate\<close>

definition WebUIURL :: string where "WebUIURL = ''http://127.0.0.1:8081''"

definition PermissionRecheckInterval :: int where "PermissionRecheckInterval = 30"

record 'w gate =
  g_env :: "'w gate_env"
  g_config :: gate_config
  g_roots :: "string option"
  g_upstream :: url
  g_host :: string
  g_recheck :: int

definition newGate :: "'w gate_env \<Rightarrow> gate_config \<Rightarrow> string \<Rightarrow> go_error + 'w gate" where
  "newGate env c upstream =
     (case config_Validate (env_lib env) c of
        Some e \<Rightarrow> Inl e
      | None \<Rightarrow>
        let trust = (if gc_kcp_ca c \<noteq> []
                     then if \<not> pem_valid env (gc_kcp_ca c) then Inl (ErrNew ''invalid KCP CA'')
                          else Inr (Some (gc_kcp_ca c))
                     else if \<not> system_roots env then Inl (ErrNew ''system trust store unavailable'')
                     else Inr None)
        in (case trust of
              Inl e \<Rightarrow> Inl e
            | Inr roots \<Rightarrow>
              (case parse_url (env_lib env) upstream of
                 None \<Rightarrow> Inl (ErrNew ''invalid upstream URL'')
               | Some target \<Rightarrow> Inr
                   \<lparr>g_env = env, g_config = c, g_roots = roots, g_upstream = target,
                    g_host = (case parse_url (env_lib env) (gc_public_url c) of
                       None \<Rightarrow> [] | Some public \<Rightarrow> url_host public),
                    g_recheck = PermissionRecheckInterval\<rparr>)))"

definition New :: "'w gate_env \<Rightarrow> gate_config \<Rightarrow> go_error + 'w gate" where
  "New env c = newGate env c WebUIURL"

subsection \<open>Who is asking\<close>

text \<open>\<open>expires := time.Unix(claims.Expires, 0)\<close>: the sum with the epoch wraps at 64 bits.\<close>

definition unix_seconds :: "64 word \<Rightarrow> int" where
  "unix_seconds e = sint (e + 62135596800)"

definition pseudonym :: "library \<Rightarrow> string \<Rightarrow> string \<Rightarrow> string" where
  "pseudonym lib issuer subject =
     hex_encode (sha256_sum lib (issuer @ byte 0 # subject)) @ ''@chatui.invalid''"

definition audiences_of :: "json option \<Rightarrow> string list option" where
  "audiences_of raw =
     (case raw of
        None \<Rightarrow> None
      | Some j \<Rightarrow>
          (case strings_of j of
             Some auds \<Rightarrow> Some auds
           | None \<Rightarrow> map_option (\<lambda>aud. [aud]) (text_target j [])))"

definition claims_of :: "string \<Rightarrow> go_error + claims" where
  "claims_of token =
     (case split_on (CHR ''.'') token of
        [_, body, _] \<Rightarrow>
          (case RawURLDecode body of
             None \<Rightarrow> Inl (ErrNew ''invalid OIDC claims'')
           | Some payload \<Rightarrow>
             (case unmarshal_claims payload of
                None \<Rightarrow> Inl (ErrNew ''invalid OIDC claims'')
              | Some c \<Rightarrow> Inr c))
      | _ \<Rightarrow> Inl (ErrNew ''OIDC token required''))"

definition oidcIdentity :: "'w gate \<Rightarrow> string \<Rightarrow> ('w, go_error + string \<times> int) gate_op" where
  "oidcIdentity g token =
     (case claims_of token of
        Inl e \<Rightarrow> ret (Inl e)
      | Inr c \<Rightarrow>
        (case audiences_of (cl_audience c) of
           None \<Rightarrow> ret (Inl (ErrNew ''invalid audience''))
         | Some auds \<Rightarrow> do {
             let expires = unix_seconds (cl_expires c);
             let client = gc_client_id (g_config g);
             if cl_issuer c \<noteq> gc_issuer (g_config g) \<or> cl_subject c = [] \<or> client \<notin> set auds
             then ret (Inl (ErrNew ''invalid OIDC identity''))
             else do {
               t \<leftarrow> external (now (g_env g)) Clock;
               if \<not> t < expires \<or> (1 < length auds \<and> cl_authorized_party c \<noteq> client) \<or>
                  (cl_authorized_party c \<noteq> [] \<and> cl_authorized_party c \<noteq> client)
               then ret (Inl (ErrNew ''invalid OIDC identity''))
               else ret (Inr (pseudonym (env_lib (g_env g)) (cl_issuer c) (cl_subject c), expires))
             }
           }))"

text \<open>The object in KCP's answer is exactly the configured source, and not being deleted.\<close>

definition source_matches :: "source \<Rightarrow> kcp_object \<Rightarrow> bool" where
  "source_matches s ob \<longleftrightarrow>
     ko_api_version ob = ''ui.privatellms.msp/v1alpha1'' \<and> ko_kind ob = ''ChatUIInstance'' \<and>
     ko_uid ob = src_uid s \<and> ko_name ob = src_name s \<and> ko_namespace ob = src_namespace s \<and>
     map_get (ko_annotations ob) ''kcp.io/cluster'' = src_cluster s \<and> ko_deleted ob = None"

definition permission_request :: "'w gate \<Rightarrow> string \<Rightarrow> kcp_request" where
  "permission_request g token =
     \<lparr>kq_url = gc_kcp_server (g_config g) @ source_Path (gc_source (g_config g)),
      kq_authorization = ''Bearer '' @ token, kq_accept = ''application/json''\<rparr>"

definition credential_ok :: "string \<Rightarrow> bool" where
  "credential_ok token \<longleftrightarrow> \<not> (token = [] \<or> length token > 65536 \<or> ContainsAny token blank_chars)"

definition authorize :: "'w gate \<Rightarrow> string \<Rightarrow> ('w, go_error + string \<times> int) gate_op" where
  "authorize g token =
     (if \<not> credential_ok token then ret (Inl (ErrNew ''missing credential''))
      else
        let req = permission_request g token in
        if parse_url (env_lib (g_env g)) (kq_url req) = None then ret (Inl (ErrNew ''invalid permission URL''))
        else do {
          reply \<leftarrow> external (kcp_do (g_env g) (g_roots g) req) (KcpGet req);
          (case reply of
             Unreachable \<Rightarrow> ret (Inl (ErrNew ''permission check unavailable''))
           | Response status body \<Rightarrow>
               if status \<noteq> 200 then ret (Inl (ErrNew ''permission denied''))
               else (case body of
                   None \<Rightarrow> ret (Inl (ErrNew ''invalid permission response''))
                 | Some content \<Rightarrow>
                     let data = take (1048576 + 1) content in
                     if length data > 1048576 then ret (Inl (ErrNew ''invalid permission response''))
                     else (case unmarshal_object data of
                         None \<Rightarrow> ret (Inl (ErrNew ''invalid permission response''))
                       | Some ob \<Rightarrow>
                           if \<not> source_matches (gc_source (g_config g)) ob
                           then ret (Inl (ErrNew ''source instance identity changed''))
                           else oidcIdentity g token)))
        })"

subsection \<open>The request that is relayed\<close>

definition identity_name :: "string \<Rightarrow> bool" where
  "identity_name name =
     (let n = ToLower name in
      Contains n ''_'' \<or> HasPrefix n ''x-chatui-'' \<or> HasPrefix n ''x-forwarded-'' \<or> HasPrefix n ''x-auth-'' \<or>
      HasPrefix n ''x-remote-'' \<or> HasPrefix n ''impersonate-'' \<or> n = ''forwarded'' \<or> n = ''x-api-key'')"

text \<open>The loop deletes the canonical form of every name that matches, in any order.\<close>

definition stripIdentity :: "header \<Rightarrow> header" where
  "stripIdentity h =
     fmfilter (\<lambda>k. \<not> fBex (fmdom h) (\<lambda>n. identity_name n \<and> CanonicalKey n = k)) h"

text \<open>
  What \<open>httputil.ReverseProxy\<close> does before it calls \<open>Rewrite\<close>: hop-by-hop headers are removed, an upgrade
  and trailers are announced again, and forwarding headers are removed. (It answers 502 by itself
  when the announced upgrade has unprintable characters; here the application does not answer.)
\<close>

definition contains_token :: "string list \<Rightarrow> string \<Rightarrow> bool" where
  "contains_token values token =
     list_ex (\<lambda>v. list_ex (\<lambda>part. map ascii_lower (TrimString part) = token) (split_on (CHR '','') v)) values"

definition hop_headers :: "string list" where
  "hop_headers = [''Connection'', ''Proxy-Connection'', ''Keep-Alive'', ''Proxy-Authenticate'',
     ''Proxy-Authorization'', ''Te'', ''Trailer'', ''Transfer-Encoding'', ''Upgrade'']"

definition nominated :: "header \<Rightarrow> string list" where
  "nominated h = filter (\<lambda>n. n \<noteq> [])
     (concat (map (\<lambda>v. map TrimString (split_on (CHR '','') v)) (header_values h ''Connection'')))"

definition proxied_header :: "header \<Rightarrow> header" where
  "proxied_header h =
     (let upgrade = (if contains_token (header_values h ''Connection'') ''upgrade''
                     then header_get h ''Upgrade'' else []);
          h1 = foldl header_del h (nominated h @ hop_headers);
          h2 = (if contains_token (header_values h ''Te'') ''trailers'' then header_set h1 ''Te'' ''trailers'' else h1);
          h3 = (if upgrade \<noteq> [] then header_set (header_set h2 ''Connection'' ''Upgrade'') ''Upgrade'' upgrade else h2)
      in foldl header_del h3 [''Forwarded'', ''X-Forwarded-For'', ''X-Forwarded-Host'', ''X-Forwarded-Proto''])"

text \<open>\<open>ProxyRequest.SetURL\<close> joins the path of the target and of the request with one slash.\<close>

definition join_path :: "string \<Rightarrow> string \<Rightarrow> string" where
  "join_path a b =
     (if HasSuffix a ''/'' \<and> HasPrefix b ''/'' then a @ tl b
      else if \<not> HasSuffix a ''/'' \<and> \<not> HasPrefix b ''/'' then a @ ''/'' @ b
      else a @ b)"

definition rewrite_header :: "'w gate \<Rightarrow> string \<Rightarrow> header \<Rightarrow> header" where
  "rewrite_header g identity h =
     (let stripped = stripIdentity h;
          named = header_set (header_set (header_set (header_set stripped
            EmailHeader identity) RoleHeader ''user'') ''X-Forwarded-Proto'' ''https'') ''X-Forwarded-Host'' (g_host g);
          cookies = Cookies named
      in fold (\<lambda>c out. if \<not> HasPrefix (ck_name c) CookieName then AddCookie out c else out) cookies
           (header_del named ''Cookie''))"

definition rewrite_request :: "'w gate \<Rightarrow> string \<Rightarrow> http_request \<Rightarrow> out_request" where
  "rewrite_request g identity rq =
     \<lparr>o_scheme = url_scheme (g_upstream g), o_url_host = url_host (g_upstream g), o_method = rq_method rq,
      o_path = join_path (url_path (g_upstream g)) (rq_path rq), o_host = g_host g,
      o_header = rewrite_header g identity (proxied_header (rq_header rq))\<rparr>"

subsection \<open>ServeHTTP\<close>

datatype served = Refused nat string | Relayed

definition allowedAuthPath :: "string \<Rightarrow> bool" where
  "allowedAuthPath p =
     (p \<in> {''/api/v1/auths/signin'', ''/api/v1/auths/signout'', ''/api/v1/auths/update/profile'',
           ''/api/v1/auths/update/timezone''})"

definition unsafe :: "http_request \<Rightarrow> bool" where
  "unsafe rq = (rq_method rq \<noteq> ''GET'' \<and> rq_method rq \<noteq> ''HEAD'' \<and> rq_method rq \<noteq> ''OPTIONS'')"

definition wants_upgrade :: "http_request \<Rightarrow> bool" where
  "wants_upgrade rq \<longleftrightarrow> header_get (rq_header rq) ''Upgrade'' \<noteq> [] \<or>
     list_ex (\<lambda>value. list_ex (\<lambda>token. EqualFold (TrimSpace token) ''upgrade'') (split_on (CHR '','') value))
       (header_values (rq_header rq) ''Connection'')"

definition bad_origin :: "'w gate \<Rightarrow> http_request \<Rightarrow> bool" where
  "bad_origin g rq =
     (let origin = header_get (rq_header rq) ''Origin'' in
      1 < length (header_values (rq_header rq) ''Origin'') \<or>
      (origin \<noteq> [] \<and> origin \<noteq> gc_public_url (g_config g)) \<or>
      ((unsafe rq \<or> wants_upgrade rq) \<and> origin = []))"

text \<open>From the call of \<open>authorize\<close> on. The deadline of the relayed request is the expiry of the token.\<close>

definition admit :: "'w gate \<Rightarrow> http_request \<Rightarrow> string \<Rightarrow> ('w, served) gate_op" where
  "admit g rq token = do {
     authorized \<leftarrow> authorize g token;
     case authorized of
       Inl e \<Rightarrow> ret (Refused 403 ''Chat UI access denied'')
     | Inr (identity, expires) \<Rightarrow> do {
         let out = rewrite_request g identity rq;
         answered \<leftarrow> external (relay (g_env g) out expires) (Relay out expires);
         ret (if answered then Relayed else Refused 502 ''Application unavailable'')
       }
   }"

definition ServeHTTP :: "'w gate \<Rightarrow> http_request \<Rightarrow> ('w, served) gate_op" where
  "ServeHTTP g rq =
     (if rq_host rq \<noteq> g_host g then ret (Refused 400 ''Invalid host'')
      else if bad_origin g rq then ret (Refused 403 ''Invalid origin'')
      else
        let p = Clean (rq_path rq) in
        if wants_upgrade rq \<and> p \<noteq> ''/ws/socket.io'' then ret (Refused 403 ''WebSocket route unavailable'')
        else if HasPrefix p ''/api/v1/auths/'' \<and> \<not> allowedAuthPath p
        then ret (Refused 403 ''Authentication managed by the platform'')
        else (case header_values (rq_header rq) TokenHeader of
            [token] \<Rightarrow> admit g rq token
          | _ \<Rightarrow> ret (Refused 401 ''Sign in required'')))"

text \<open>
  The goroutine beside a stream: at each tick the token is authorized again, and the context is
  cancelled unless the same identity comes out. The context also ends at the deadline, when the
  client leaves or when the stream ends.
\<close>

definition recheck :: "'w gate \<Rightarrow> string \<Rightarrow> string \<Rightarrow> ('w, bool) gate_op" where
  "recheck g token identity = do {
     current \<leftarrow> authorize g token;
     ret (case current of Inl e \<Rightarrow> False | Inr (c, _) \<Rightarrow> c = identity)
   }"

inductive stream_step ::
  "'w gate \<Rightarrow> string \<Rightarrow> string \<Rightarrow> ('w, unit, gate_call) run \<times> bool \<Rightarrow> ('w, unit, gate_call) run \<times> bool \<Rightarrow> bool"
  for g :: "'w gate" and token identity :: string
where
  tick: "run_state (recheck g token identity) s = (live, t) \<Longrightarrow> stream_step g token identity (s, True) (t, live)"
| ended: "stream_step g token identity (s, True) (s, False)"

inductive_cases stream_stepE [elim]: "stream_step g token identity (s, True) (t, live)"
inductive_simps stream_step_dead [simp]: "stream_step g token identity (s, False) x"

subsection \<open>Health\<close>

text \<open>\<open>url.URL.String\<close> for a URL of a scheme, a host and a path.\<close>

definition url_String :: "url \<Rightarrow> string" where
  "url_String u = url_scheme u @ ''://'' @ url_host u @ url_path u"

datatype probe = ProbeStatus nat string

definition Health :: "'w gate \<Rightarrow> http_request \<Rightarrow> ('w, probe) gate_op" where
  "Health g rq =
     (if rq_method rq \<noteq> ''GET'' \<or> rq_path rq \<noteq> ''/readyz'' then ret (ProbeStatus 404 ''404 page not found'')
      else
        let target = url_String (g_upstream g) @ ''/health'' in
        if parse_url (env_lib (g_env g)) target = None then ret (ProbeStatus 503 ''Not ready'')
        else do {
          reply \<leftarrow> external (app_do (g_env g) target) (AppGet target);
          ret (case reply of
                 Unreachable \<Rightarrow> ProbeStatus 503 ''Not ready''
               | Response status body \<Rightarrow> if status \<noteq> 200 then ProbeStatus 503 ''Not ready'' else ProbeStatus 200 [])
        })"

end
