(* ===== verification/Entry_Points.thy ===== *)
theory Entry_Points
  imports Reconcile Access_Gate
begin

text \<open>
  The two processes: \<open>cmd/main.go\<close> (the operator: options, policies, labelling client, start-up) and
  \<open>cmd/access-proxy/main.go\<close> (the proxy container: configuration, gate, two HTTP servers). Files,
  environment, the printing of a \<open>float64\<close> and controller-runtime are parameters; flag parsing is package
  \<open>flag\<close> and yields \<open>manager_flags\<close>.
\<close>

subsection \<open>parseJSONMap\<close>

text \<open>
  A decoded \<open>interface{}\<close>, as the document \<open>json.Marshal\<close> prints for it: an object is a Go map, so of
  members with the same name the last remains, and they are printed in the order of their names.
  \<open>num\<close> gives the text of the \<open>float64\<close> of a number literal, \<open>None\<close> if it is out of range.
\<close>

definition printed_members :: "(string \<times> json) list \<Rightarrow> (string \<times> json) list" where
  "printed_members ms =
     (let m = fmap_of_list (rev ms) in map (\<lambda>k. (k, the (fmlookup m k))) (sorted_list_of_fset (fmdom m)))"

fun any_value :: "(string \<Rightarrow> string option) \<Rightarrow> json \<Rightarrow> json option" where
  "any_value num (JNumber lit) = map_option JNumber (num lit)"
| "any_value num (JArray js) = map_option JArray (those (map (any_value num) js))"
| "any_value num (JObject ms) =
     map_option (\<lambda>vs. JObject (printed_members vs))
       (those (map (\<lambda>(k, j). map_option (Pair k) (any_value num j)) ms))"
| "any_value num j = Some j"

definition value_text :: "json \<Rightarrow> string" where
  "value_text v = (case v of JString t \<Rightarrow> t | _ \<Rightarrow> marshal v)"

text \<open>
  The loop over the decoded map writes a text under every key; \<open>json.Marshal\<close> of a decoded value does
  not fail. \<open>null\<close> is a map without members, and a document that cannot be decoded yields \<open>nil\<close>,
  which the callers do not tell from an empty map.
\<close>

definition unmarshal_map :: "(string \<Rightarrow> string option) \<Rightarrow> string \<Rightarrow> (string, json) fmap option" where
  "unmarshal_map num s =
     (case read_document s of
        Some (JObject ms) \<Rightarrow>
          map_option (\<lambda>vs. fmap_of_list (rev vs)) (those (map (\<lambda>(k, j). map_option (Pair k) (any_value num j)) ms))
      | Some JNull \<Rightarrow> Some fmempty
      | _ \<Rightarrow> None)"

definition parseJSONMap :: "(string \<Rightarrow> string option) \<Rightarrow> string \<Rightarrow> gomap" where
  "parseJSONMap num s = (case unmarshal_map num s of None \<Rightarrow> fmempty | Some raw \<Rightarrow> fmmap value_text raw)"

subsection \<open>The labelling client\<close>

definition label_step :: "gomap \<Rightarrow> string \<times> string \<Rightarrow> gomap" where
  "label_step labels kv =
     (case kv of (k, v) \<Rightarrow>
        if v = [] then labels else if k |\<notin>| fmdom labels then fmupd k v labels else labels)"

definition ensureLabels :: "library \<Rightarrow> gomap \<Rightarrow> object_meta \<Rightarrow> object_meta" where
  "ensureLabels lib base obj =
     (if map_len base = 0 then obj
      else obj\<lparr>meta_labels := foldl label_step (meta_labels obj) (map_range lib base)\<rparr>)"

text \<open>
  \<open>Create\<close> and \<open>Update\<close> label the object and delegate; reads, deletes and the status writer are
  those of the embedded client. (The operator does not call \<open>Patch\<close> outside the status writer.)
\<close>

definition newLabelingClient :: "library \<Rightarrow> gomap \<Rightarrow> 'w cluster \<Rightarrow> 'w cluster" where
  "newLabelingClient lib base c = c
     \<lparr>k_create_deployment := (\<lambda>d. k_create_deployment c (d\<lparr>d_meta := ensureLabels lib base (d_meta d)\<rparr>)),
      k_create_service := (\<lambda>s. k_create_service c (s\<lparr>svc_meta := ensureLabels lib base (svc_meta s)\<rparr>)),
      k_create_ingress := (\<lambda>g. k_create_ingress c (g\<lparr>ing_meta := ensureLabels lib base (ing_meta g)\<rparr>)),
      k_create_secret := (\<lambda>s. k_create_secret c (s\<lparr>sec_meta := ensureLabels lib base (sec_meta s)\<rparr>)),
      k_update_instance := (\<lambda>i. k_update_instance c (i\<lparr>i_meta := ensureLabels lib base (i_meta i)\<rparr>)),
      k_update_deployment := (\<lambda>d. k_update_deployment c (d\<lparr>d_meta := ensureLabels lib base (d_meta d)\<rparr>)),
      k_update_service := (\<lambda>s. k_update_service c (s\<lparr>svc_meta := ensureLabels lib base (svc_meta s)\<rparr>)),
      k_update_ingress := (\<lambda>g. k_update_ingress c (g\<lparr>ing_meta := ensureLabels lib base (ing_meta g)\<rparr>))\<rparr>"

definition base_labels :: "string \<Rightarrow> gomap" where
  "base_labels version =
     (let labels = fmap_of_list
        [(''app.kubernetes.io/name'', ''chat-ui''), (''app.kubernetes.io/part-of'', ''chat-ui''),
         (''app.kubernetes.io/managed-by'', ''chat-ui-operator'')]
      in if version \<noteq> [] then fmupd ''app.kubernetes.io/version'' version labels else labels)"

subsection \<open>Options and the outside of the process\<close>

record manager_flags =
  fl_metrics_address :: string
  fl_probe_address :: string
  fl_leader_elect :: bool
  fl_metrics_secure :: bool
  fl_enable_http2 :: bool
  fl_public_scheme :: string
  fl_extra_annotations :: string
  fl_tls_secret_name :: string
  fl_hostname_policy_file :: string
  fl_access_policy_file :: string

definition default_flags :: manager_flags where
  "default_flags =
     \<lparr>fl_metrics_address = '':8080'', fl_probe_address = '':8081'', fl_leader_elect = False,
      fl_metrics_secure = False, fl_enable_http2 = False, fl_public_scheme = [],
      fl_extra_annotations = [], fl_tls_secret_name = [], fl_hostname_policy_file = [],
      fl_access_policy_file = []\<rparr>"

text \<open>The options given to \<open>ctrl.NewManager\<close>; no protocol list means the default of package \<open>tls\<close>.\<close>

record manager_options =
  mo_metrics_address :: string
  mo_metrics_secure :: bool
  mo_probe_address :: string
  mo_leader_elect :: bool
  mo_leader_id :: string
  mo_next_protos :: "string list option"

text \<open>
  The manager controller-runtime returns: its client and API reader, and the errors of building
  the controller, of adding the two checks, and of running.
\<close>

record 'w manager =
  mg_client :: "'w cluster"
  mg_complete :: "go_error option"
  mg_healthz :: "go_error option"
  mg_readyz :: "go_error option"
  mg_start :: "go_error option"

text \<open>
  \<open>pe_open\<close>: the error of opening a file, or what reading it gives. \<open>pe_exporter True\<close> is the error of
  the OTLP exporter, \<open>pe_exporter False\<close> that of the exporter to standard output.
\<close>

type_synonym file_system = "string \<Rightarrow> go_error + string option"

record 'w process_env =
  pe_lib :: library
  pe_getenv :: "string \<Rightarrow> string"
  pe_open :: file_system
  pe_number_text :: "string \<Rightarrow> string option"
  pe_exporter :: "bool \<Rightarrow> go_error option"
  pe_kube_config :: bool
  pe_new_manager :: "manager_options \<Rightarrow> go_error + 'w manager"
  pe_version :: string
  pe_guard :: string

subsection \<open>Start-up of the operator\<close>

definition loadHostnamePolicy :: "'w process_env \<Rightarrow> string \<Rightarrow> go_error + policy" where
  "loadHostnamePolicy pe path =
     (if path = [] then Inl (ErrNew ''--hostname-policy-file is required'')
      else case pe_open pe path of
             Inl e \<Rightarrow> Inl e
           | Inr content \<Rightarrow> Parse (pe_lib pe) content)"

definition loadAccessPolicy :: "'w process_env \<Rightarrow> string \<Rightarrow> go_error + access_policy" where
  "loadAccessPolicy pe path =
     (if path = [] then Inl (ErrNew ''--access-policy-file is required'')
      else case pe_open pe path of
             Inl e \<Rightarrow> Inl (ErrNew ''access policy cannot be opened'')
           | Inr content \<Rightarrow> access_Parse (pe_lib pe) content)"

definition initOpenTelemetry :: "'w process_env \<Rightarrow> go_error option" where
  "initOpenTelemetry pe = pe_exporter pe
     (pe_getenv pe ''OTEL_EXPORTER_OTLP_ENDPOINT'' \<noteq> [] \<or> pe_getenv pe ''OTEL_EXPORTER_OTLP_TRACES_ENDPOINT'' \<noteq> [])"

definition public_host :: "'w process_env \<Rightarrow> string" where
  "public_host pe = (let v = pe_getenv pe ''PUBLIC_HOST'' in if v \<noteq> [] then v else ''localhost'')"

definition public_scheme :: "'w process_env \<Rightarrow> manager_flags \<Rightarrow> string" where
  "public_scheme pe fl =
     (if fl_public_scheme fl \<noteq> [] then fl_public_scheme fl
      else let v = pe_getenv pe ''PUBLIC_SCHEME'' in if v \<noteq> [] then v else ''http'')"

definition extra_annotations :: "'w process_env \<Rightarrow> manager_flags \<Rightarrow> gomap" where
  "extra_annotations pe fl =
     (let parse = parseJSONMap (pe_number_text pe);
          flagged = fl_extra_annotations fl;
          v = pe_getenv pe ''INGRESS_EXTRA_ANNOTATIONS''
      in if flagged \<noteq> [] \<and> map_len (parse flagged) > 0 then parse flagged
         else if v \<noteq> [] \<and> map_len (parse v) > 0 then parse v
         else fmempty)"

definition tls_secret_name :: "'w process_env \<Rightarrow> manager_flags \<Rightarrow> string" where
  "tls_secret_name pe fl =
     (if fl_tls_secret_name fl \<noteq> [] then fl_tls_secret_name fl else pe_getenv pe ''TLS_SECRET_NAME'')"

definition manager_options_of :: "manager_flags \<Rightarrow> manager_options" where
  "manager_options_of fl =
     \<lparr>mo_metrics_address = fl_metrics_address fl, mo_metrics_secure = fl_metrics_secure fl,
      mo_probe_address = fl_probe_address fl, mo_leader_elect = fl_leader_elect fl,
      mo_leader_id = ''6e1e9f7b.example.com'',
      mo_next_protos = (if fl_enable_http2 fl then None else Some [''http/1.1''])\<rparr>"

definition new_reconciler ::
  "'w process_env \<Rightarrow> manager_flags \<Rightarrow> policy \<Rightarrow> access_policy \<Rightarrow> 'w manager \<Rightarrow> 'w reconciler" where
  "new_reconciler pe fl hp ap mgr =
     \<lparr>r_lib = pe_lib pe,
      r_cluster = newLabelingClient (pe_lib pe) (base_labels (pe_version pe)) (mg_client mgr),
      r_hostname_policy = Some hp, r_access_policy = Some ap, r_has_route_reader = False,
      r_public_host = public_host pe, r_public_scheme = public_scheme pe fl,
      r_extra_annotations = extra_annotations pe fl, r_tls_secret_name = tls_secret_name pe fl,
      r_guard_source = pe_guard pe\<rparr>"

text \<open>
  The process exits with a message before the manager runs, or the manager runs with the
  reconciler and \<open>Start\<close> ends with an error or without.
\<close>

datatype 'w outcome = Refused string | Ran "'w reconciler" "go_error option"

text \<open>From the manager on.\<close>

definition run_manager ::
  "'w process_env \<Rightarrow> manager_flags \<Rightarrow> policy \<Rightarrow> access_policy \<Rightarrow> 'w manager \<Rightarrow> 'w outcome" where
  "run_manager pe fl hp ap mgr =
     (case SetupWithManager (mg_complete mgr) (new_reconciler pe fl hp ap mgr) of
        Inl e \<Rightarrow> Refused ''unable to create controller''
      | Inr r \<Rightarrow>
          if mg_healthz mgr \<noteq> None then Refused ''unable to set up health check''
          else if mg_readyz mgr \<noteq> None then Refused ''unable to set up ready check''
          else Ran r (mg_start mgr))"

text \<open>The outcome, and whether the failure of the tracing set-up was logged: it does not stop the process.\<close>

definition manager_main :: "'w process_env \<Rightarrow> manager_flags \<Rightarrow> bool \<times> 'w outcome" where
  "manager_main pe fl =
     (case loadHostnamePolicy pe (fl_hostname_policy_file fl) of
        Inl e \<Rightarrow> (False, Refused ''invalid hostname policy; refusing to start'')
      | Inr hp \<Rightarrow>
     (case loadAccessPolicy pe (fl_access_policy_file fl) of
        Inl e \<Rightarrow> (False, Refused ''invalid access policy; refusing to start'')
      | Inr ap \<Rightarrow>
          (initOpenTelemetry pe \<noteq> None,
           if \<not> pe_kube_config pe then Refused ''unable to get kubeconfig''
           else case pe_new_manager pe (manager_options_of fl) of
                  Inl e \<Rightarrow> Refused ''unable to start manager''
                | Inr mgr \<Rightarrow> run_manager pe fl hp ap mgr)))"

definition manager_status :: "'w outcome \<Rightarrow> int" where
  "manager_status out = (case out of Refused _ \<Rightarrow> 1 | Ran _ e \<Rightarrow> if e = None then 0 else 1)"

subsection \<open>The access proxy\<close>

datatype handler = ServeGate | ServeHealth

text \<open>\<open>http.Server\<close>; times in seconds, 0 for no limit.\<close>

record http_server =
  hs_address :: string
  hs_handler :: handler
  hs_read_header :: int
  hs_read :: int
  hs_write :: int
  hs_idle :: int
  hs_max_header :: int

definition proxy_server :: http_server where
  "proxy_server =
     \<lparr>hs_address = ''127.0.0.1:8082'', hs_handler = ServeGate, hs_read_header = 5, hs_read = 65,
      hs_write = 0, hs_idle = 30, hs_max_header = 98304\<rparr>"

definition health_server :: http_server where
  "health_server =
     \<lparr>hs_address = ''0.0.0.0:8083'', hs_handler = ServeHealth, hs_read_header = 3, hs_read = 5,
      hs_write = 5, hs_idle = 5, hs_max_header = 4096\<rparr>"

text \<open>How the \<open>select\<close> ends: a signal, or the first error one of the servers returns.\<close>

datatype serve_error = ErrServerClosed | ServeFailure string

datatype ending = Signalled | Stopped serve_error

datatype proxy_error = StartError go_error | RunError serve_error

text \<open>The gate and the servers that were started, if any, and the error \<open>run\<close> returns.\<close>

definition proxy_run ::
  "'w gate_env \<Rightarrow> file_system \<Rightarrow> ending \<Rightarrow> string \<Rightarrow>
   ('w gate \<times> http_server list) option \<times> proxy_error option" where
  "proxy_run env files ending path =
     (if path = [] then (None, Some (StartError (ErrNew ''--config is required'')))
      else case files path of
        Inl e \<Rightarrow> (None, Some (StartError (ErrNew ''access configuration cannot be opened'')))
      | Inr content \<Rightarrow>
     (case Decode decode_gate_config content of
        Inl e \<Rightarrow> (None, Some (StartError e))
      | Inr config \<Rightarrow>
     (case New env config of
        Inl e \<Rightarrow> (None, Some (StartError e))
      | Inr gate \<Rightarrow>
          (Some (gate, [proxy_server, health_server]),
           case ending of
             Signalled \<Rightarrow> None
           | Stopped ErrServerClosed \<Rightarrow> None
           | Stopped (ServeFailure e) \<Rightarrow> Some (RunError (ServeFailure e))))))"

definition proxy_status :: "proxy_error option \<Rightarrow> int" where
  "proxy_status err = (if err = None then 0 else 1)"

end
