(* ===== verification/Call_Frames.thy ===== *)
theory Call_Frames
  imports Reconcile
begin

text \<open>
  Frames of the reconciler's methods: which kinds of external calls each can make, and which
  methods leave the local instance alone. The safety proofs use them to skip the methods that
  are irrelevant to a property.
\<close>

datatype call_kind =
    Reading | InstanceWrite | DeploymentWrite | ServiceWrite | RouteWrite | RouteDelete
  | SecretCreate | SecretDelete | StatusPatch | StatusWrite | Entropy | Probing

fun kind_of :: "call \<Rightarrow> call_kind" where
  "kind_of (CreateDeployment d res) = DeploymentWrite"
| "kind_of (UpdateDeployment d res) = DeploymentWrite"
| "kind_of (CreateService s res) = ServiceWrite"
| "kind_of (UpdateService s res) = ServiceWrite"
| "kind_of (CreateIngress g res) = RouteWrite"
| "kind_of (UpdateIngress g res) = RouteWrite"
| "kind_of (DeleteIngress g uid rv res) = RouteDelete"
| "kind_of (CreateSecret s res) = SecretCreate"
| "kind_of (DeleteSecret s uid rv res) = SecretDelete"
| "kind_of (UpdateInstance i res) = InstanceWrite"
| "kind_of (PatchStatus old new lock res) = StatusPatch"
| "kind_of (UpdateStatus i res) = StatusWrite"
| "kind_of (RandomBytes n res) = Entropy"
| "kind_of (HealthCheck url res) = Probing"
| "kind_of (DNSCheck host res) = Probing"
| "kind_of _ = Reading"

definition calls :: "call_kind set \<Rightarrow> ('w, 'a) op \<Rightarrow> bool" where
  "calls K m \<longleftrightarrow> emits (\<lambda>e. kind_of (snd e) \<in> K) m"

lemma calls_mono: "calls K m \<Longrightarrow> K \<subseteq> L \<Longrightarrow> calls L m"
  unfolding calls_def by (erule emits_mono) blast

lemma calls_keeps: "calls K m \<Longrightarrow> (\<And>past e. kind_of (snd e) \<in> K \<Longrightarrow> ok past e) \<Longrightarrow> keeps ok m"
  unfolding calls_def by (erule emits_keeps) blast

text \<open>\<open>advanced ok s t\<close>: a justified log that contains the one of \<open>s\<close>, and the same local instance.\<close>

abbreviation advanced :: "(log_entry list \<Rightarrow> log_entry \<Rightarrow> bool) \<Rightarrow> 'w st \<Rightarrow> 'w st \<Rightarrow> bool" where
  "advanced ok s t \<equiv>
     justified ok (call_log t) \<and> set (call_log s) \<subseteq> set (call_log t) \<and> local_inst t = local_inst s"

lemma wp_advanced:
  "keeps ok m \<Longrightarrow> calls K m \<Longrightarrow> steady m \<Longrightarrow> justified ok (call_log s) \<Longrightarrow> wp m (\<lambda>_. advanced ok s) s"
  unfolding calls_def by (rule wp_steady) auto

lemmas calls_intros = emits_intros [where P = "\<lambda>e :: log_entry. kind_of (snd e) \<in> K" for K, folded calls_def]

subsection \<open>The single calls\<close>

named_theorems call_intros \<open>kinds of the single calls\<close>

lemma call_kinds [call_intros]:
  "Reading \<in> K \<Longrightarrow> calls K (getInst r rd k)"
  "Reading \<in> K \<Longrightarrow> calls K (getDeployment r rd k)"
  "Reading \<in> K \<Longrightarrow> calls K (getService r rd k)"
  "Reading \<in> K \<Longrightarrow> calls K (getIngress r rd k)"
  "Reading \<in> K \<Longrightarrow> calls K (getSecret r rd k)"
  "Reading \<in> K \<Longrightarrow> calls K (getEndpoints r rd k)"
  "Reading \<in> K \<Longrightarrow> calls K (listInstances r rd ns)"
  "Reading \<in> K \<Longrightarrow> calls K (listIngresses r rd)"
  "Reading \<in> K \<Longrightarrow> calls K (listDeployments r rd ns)"
  "Reading \<in> K \<Longrightarrow> calls K (listPods r rd ns sel)"
  "DeploymentWrite \<in> K \<Longrightarrow> calls K (createDeployment r d)"
  "ServiceWrite \<in> K \<Longrightarrow> calls K (createService r v)"
  "RouteWrite \<in> K \<Longrightarrow> calls K (createIngress r g)"
  "SecretCreate \<in> K \<Longrightarrow> calls K (createSecret r x)"
  "InstanceWrite \<in> K \<Longrightarrow> calls K (updateInstance r i)"
  "DeploymentWrite \<in> K \<Longrightarrow> calls K (updateDeployment r d)"
  "ServiceWrite \<in> K \<Longrightarrow> calls K (updateService r v)"
  "RouteWrite \<in> K \<Longrightarrow> calls K (updateIngress r g)"
  "RouteDelete \<in> K \<Longrightarrow> calls K (deleteIngress r g uid rv)"
  "SecretDelete \<in> K \<Longrightarrow> calls K (deleteSecret r x uid rv)"
  "StatusPatch \<in> K \<Longrightarrow> calls K (patchStatus r i j lock)"
  "StatusWrite \<in> K \<Longrightarrow> calls K (updateStatus r i)"
  "Entropy \<in> K \<Longrightarrow> calls K (randomBytes r n)"
  "Probing \<in> K \<Longrightarrow> calls K (runServiceHealthCheck r url)"
  "Probing \<in> K \<Longrightarrow> calls K (runDNSCheck r host)"
  by (simp_all add: api_defs runServiceHealthCheck_def runDNSCheck_def calls_def emits_external)

subsection \<open>The methods\<close>

lemma calls_withdrawAccess: "calls {Reading, RouteDelete} (withdrawAccess r)"
  unfolding withdrawAccess_def by (rule calls_intros call_intros | simp)+

lemma calls_stopUnapprovedDeployment: "calls {Reading, DeploymentWrite} (stopUnapprovedDeployment r force)"
  unfolding stopUnapprovedDeployment_def by (rule calls_intros call_intros | simp)+

lemma calls_updateImagePolicyStatus: "calls {StatusPatch} (updateImagePolicyStatus r phase reason message)"
  unfolding updateImagePolicyStatus_def by (rule calls_intros call_intros | simp)+

text \<open>The calls of the denying handlers.\<close>

abbreviation Denying :: "call_kind set" where
  "Denying \<equiv> {Reading, RouteDelete, DeploymentWrite, StatusPatch}"

lemma calls_denying [call_intros]:
  "Denying \<subseteq> K \<Longrightarrow> calls K (withdrawAccess r)"
  "Denying \<subseteq> K \<Longrightarrow> calls K (stopUnapprovedDeployment r force)"
  "Denying \<subseteq> K \<Longrightarrow> calls K (updateImagePolicyStatus r phase reason message)"
  by (auto intro: calls_mono [OF calls_withdrawAccess] calls_mono [OF calls_stopUnapprovedDeployment]
      calls_mono [OF calls_updateImagePolicyStatus])

lemma calls_rejectImage: "calls Denying (rejectImage r message)"
  unfolding rejectImage_def by (rule calls_intros call_intros | simp)+

lemma calls_denyAccess: "calls Denying (denyAccess r cause)"
  unfolding denyAccess_def by (rule calls_intros call_intros | simp)+

lemma calls_rejectReplicas: "calls Denying (rejectReplicas r)"
  unfolding rejectReplicas_def by (rule calls_intros call_intros | simp)+

lemma calls_hostnameFailure: "calls {StatusPatch} (hostnameFailure r cause)"
  unfolding hostnameFailure_def
  by (rule calls_intros calls_updateImagePolicyStatus call_kinds | simp)+

lemma calls_stopForHostnameFailure: "calls Denying (stopForHostnameFailure r cause)"
  unfolding stopForHostnameFailure_def
  by (rule calls_intros call_intros calls_mono [OF calls_hostnameFailure] | simp)+

lemma calls_checkHostname: "calls {Reading} (checkHostname r host)"
  unfolding checkHostname_def by (rule calls_intros call_kinds | simp)+

lemma calls_ensureSlug: "calls {Reading, StatusPatch} (ensureSlug r)"
  unfolding ensureSlug_def by (rule calls_intros call_kinds | simp)+

lemma calls_selectedInstanceHost: "calls {Reading, StatusPatch} (selectedInstanceHost r)"
  unfolding selectedInstanceHost_def
  by (rule calls_intros calls_ensureSlug calls_mono [OF calls_checkHostname] | simp)+

lemma calls_persistAccessSecretPins: "calls {Reading, StatusPatch} (persistAccessSecretPins r pins)"
  unfolding persistAccessSecretPins_def by (rule calls_intros call_kinds | simp)+

lemma calls_pinAccessSecret: "calls {Reading, StatusPatch} (pinAccessSecret r x)"
  unfolding pinAccessSecret_def
  by (rule calls_intros calls_persistAccessSecretPins | simp)+

lemma calls_fill_session_keys: "calls {Entropy} (fill_session_keys r names data)"
  by (induction names arbitrary: data) (simp add: calls_intros, unfold fill_session_keys.simps, (rule calls_intros call_kinds | simp)+)

lemma calls_create_pinned_secret: "calls {Reading, StatusPatch, SecretCreate} (create_pinned_secret r name data)"
  unfolding create_pinned_secret_def
  by (rule calls_intros call_kinds calls_mono [OF calls_pinAccessSecret] | simp)+

lemma calls_sessionSecret: "calls {Reading, StatusPatch, SecretCreate, Entropy} (sessionSecret r)"
  unfolding sessionSecret_def
  by (rule calls_intros call_kinds calls_mono [OF calls_create_pinned_secret]
      calls_mono [OF calls_fill_session_keys] | simp | blast)+

lemma calls_collect_candidates: "calls {Reading} (collect_candidates r inst referenced pins candidates)"
  by (induction pins arbitrary: candidates)
     (simp add: calls_intros, unfold collect_candidates.simps, (rule calls_intros call_kinds | simp)+)

lemma calls_confirm_gone: "calls {Reading} (confirm_gone r x)"
  unfolding confirm_gone_def by (rule calls_intros call_kinds | simp)+

lemma calls_retire_bundle: "calls {Reading, SecretDelete, StatusPatch} (retire_bundle r x)"
  unfolding retire_bundle_def
  by (rule calls_intros call_kinds calls_mono [OF calls_confirm_gone] calls_mono [OF calls_persistAccessSecretPins] | simp)+

lemma calls_makeAccessSecretRoom: "calls {Reading, SecretDelete, StatusPatch} (makeAccessSecretRoom r)"
  unfolding makeAccessSecretRoom_def
  by (rule calls_intros call_kinds calls_mono [OF calls_collect_candidates] calls_retire_bundle | simp)+

lemma calls_ensure_bundle: "calls {Reading, SecretCreate, SecretDelete, StatusPatch} (ensure_bundle r name data)"
  unfolding ensure_bundle_def
  by (rule calls_intros call_kinds calls_mono [OF calls_makeAccessSecretRoom]
      calls_mono [OF calls_create_pinned_secret] | simp)+

abbreviation Preparing :: "call_kind set" where
  "Preparing \<equiv> {Reading, SecretCreate, SecretDelete, StatusPatch, Entropy}"

lemma calls_prepare_bundle: "calls Preparing (prepare_bundle r p e host client)"
  unfolding prepare_bundle_def
  by (rule calls_intros call_kinds calls_mono [OF calls_sessionSecret] calls_mono [OF calls_ensure_bundle] | simp)+

lemma calls_prepareAccess: "calls Preparing (prepareAccess r host)"
  unfolding prepareAccess_def
  by (rule calls_intros call_kinds calls_prepare_bundle | simp)+

lemma calls_waitForAccessCutover: "calls {Reading, RouteDelete, DeploymentWrite} (waitForAccessCutover r d)"
  unfolding waitForAccessCutover_def
  by (rule calls_intros call_kinds calls_mono [OF calls_withdrawAccess] | simp)+

lemma calls_reconcileDeployment:
  "calls {Reading, RouteDelete, DeploymentWrite} (reconcileDeployment r labels n img checksum b)"
  unfolding reconcileDeployment_def
  by (rule calls_intros call_kinds calls_waitForAccessCutover | simp)+

lemma calls_reconcileService: "calls {Reading, ServiceWrite} (reconcileService r labels name)"
  unfolding reconcileService_def by (rule calls_intros call_kinds | simp)+

lemma calls_upsert_ingress: "calls {Reading, RouteWrite} (upsert_ingress r labels name host path)"
  unfolding upsert_ingress_def by (rule calls_intros call_kinds | simp)+

lemma calls_reconcileIngress: "calls {Reading, RouteWrite} (reconcileIngress r labels name host path)"
  unfolding reconcileIngress_def
  by (rule calls_intros calls_upsert_ingress calls_mono [OF calls_checkHostname] | simp)+

lemma calls_serviceHasReadyEndpoints: "calls {Reading} (serviceHasReadyEndpoints r ns name port)"
  unfolding serviceHasReadyEndpoints_def by (rule calls_intros call_kinds | simp)+

lemma calls_evaluateInstanceReadiness: "calls {Reading, Probing} (evaluateInstanceReadiness r name host)"
  unfolding evaluateInstanceReadiness_def
  by (rule calls_intros call_kinds calls_mono [OF calls_serviceHasReadyEndpoints] | simp)+

lemma calls_write_status: "calls {StatusWrite} (write_status r i)"
  unfolding write_status_def by (rule calls_intros call_kinds | simp)+

lemma calls_updateProvisioningStatus: "calls {StatusWrite} (updateProvisioningStatus r host reason message)"
  unfolding updateProvisioningStatus_def by (rule calls_intros calls_write_status)+

lemma calls_updateReadyStatus: "calls {StatusWrite} (updateReadyStatus r host)"
  unfolding updateReadyStatus_def by (rule calls_intros calls_write_status)+

text \<open>The denying handlers, in any frame that allows their calls.\<close>

lemma calls_handlers [call_intros]:
  "Denying \<subseteq> K \<Longrightarrow> calls K (rejectImage r message)"
  "Denying \<subseteq> K \<Longrightarrow> calls K (denyAccess r cause)"
  "Denying \<subseteq> K \<Longrightarrow> calls K (rejectReplicas r)"
  "Denying \<subseteq> K \<Longrightarrow> calls K (stopForHostnameFailure r cause)"
  by (auto intro: calls_mono [OF calls_rejectImage] calls_mono [OF calls_denyAccess]
      calls_mono [OF calls_rejectReplicas] calls_mono [OF calls_stopForHostnameFailure])

lemma calls_report_readiness: "calls {Reading, Probing, StatusWrite} (report_readiness r name host)"
  unfolding report_readiness_def
  by (rule calls_intros calls_mono [OF calls_evaluateInstanceReadiness]
      calls_mono [OF calls_updateProvisioningStatus] calls_mono [OF calls_updateReadyStatus] | simp)+

lemma calls_reconcile_publish:
  "calls (Denying \<union> {ServiceWrite, RouteWrite, Probing, StatusWrite}) (reconcile_publish r labels host)"
  unfolding reconcile_publish_def
  by (rule calls_intros call_intros calls_mono [OF calls_reconcileService] calls_mono [OF calls_reconcileIngress]
      calls_mono [OF calls_report_readiness] | simp)+

subsection \<open>Methods that leave the local instance alone\<close>

lemma steady_calls [steady_intros]:
  "steady (getInst r rd k)" "steady (getDeployment r rd k)" "steady (getService r rd k)"
  "steady (getIngress r rd k)" "steady (getSecret r rd k)" "steady (getEndpoints r rd k)"
  "steady (listIngresses r rd)" "steady (listDeployments r rd ns)" "steady (listPods r rd ns sel)"
  "steady (createDeployment r d)" "steady (createService r v)" "steady (createIngress r g)"
  "steady (createSecret r x)" "steady (updateDeployment r d)" "steady (updateService r v)"
  "steady (updateIngress r g)" "steady (deleteIngress r g uid rv)" "steady (deleteSecret r x uid rv)"
  "steady (randomBytes r n)" "steady (runServiceHealthCheck r url)" "steady (runDNSCheck r host)"
  by (simp_all add: api_defs runServiceHealthCheck_def runDNSCheck_def steady_external)

lemma steady_withdrawAccess [steady_intros]: "steady (withdrawAccess r)"
  unfolding withdrawAccess_def by (rule steady_intros)+

lemma steady_stopUnapprovedDeployment [steady_intros]: "steady (stopUnapprovedDeployment r force)"
  unfolding stopUnapprovedDeployment_def by (rule steady_intros)+

lemma steady_checkHostname [steady_intros]: "steady (checkHostname r host)"
  unfolding checkHostname_def by (rule steady_intros)+

lemma steady_fill_session_keys [steady_intros]: "steady (fill_session_keys r names data)"
  by (induction names arbitrary: data) (simp add: steady_intros, unfold fill_session_keys.simps, (rule steady_intros | simp)+)

lemma steady_collect_candidates [steady_intros]: "steady (collect_candidates r inst referenced pins candidates)"
  by (induction pins arbitrary: candidates)
     (simp add: steady_intros, unfold collect_candidates.simps, (rule steady_intros | simp)+)

lemma steady_confirm_gone [steady_intros]: "steady (confirm_gone r x)"
  unfolding confirm_gone_def by (rule steady_intros)+

lemma steady_waitForAccessCutover [steady_intros]: "steady (waitForAccessCutover r d)"
  unfolding waitForAccessCutover_def by (rule steady_intros)+

lemma steady_reconcileDeployment [steady_intros]: "steady (reconcileDeployment r labels n img checksum b)"
  unfolding reconcileDeployment_def by (rule steady_intros)+

lemma steady_reconcileService [steady_intros]: "steady (reconcileService r labels name)"
  unfolding reconcileService_def by (rule steady_intros)+

lemma steady_reconcileIngress [steady_intros]: "steady (reconcileIngress r labels name host path)"
  unfolding reconcileIngress_def upsert_ingress_def by (rule steady_intros)+

lemma steady_evaluateInstanceReadiness [steady_intros]: "steady (evaluateInstanceReadiness r name host)"
  unfolding evaluateInstanceReadiness_def serviceHasReadyEndpoints_def by (rule steady_intros)+

end
