(* ===== verification/Route_Convergence.thy ===== *)
theory Route_Convergence
  imports Routing
begin

text \<open>
  What the ensure functions of the Ingress promise, as a locale: after a step the managed part of the
  Ingress is as wanted; a step reports a change exactly if it was not, and otherwise does
  nothing. A sequence of such steps that do not undo each other has the same contract, which is
  how \<open>reconcileIngress\<close> converges.
\<close>

subsection \<open>The contract of an ensure step\<close>

locale ensure_step =
  fixes step :: "ingress \<Rightarrow> bool \<times> ingress"
    and wanted :: "ingress \<Rightarrow> bool"
  assumes establishes: "wanted (snd (step g))"
    and reports: "\<not> wanted g \<Longrightarrow> fst (step g)"
    and idle: "wanted g \<Longrightarrow> step g = (False, g)"
begin

lemma step_twice: "step (snd (step g)) = (False, snd (step g))"
  by (rule idle [OF establishes])

lemma reported_iff: "fst (step g) \<longleftrightarrow> \<not> wanted g"
  using idle [of g] reports [of g] by auto

lemma honest: "\<not> fst (step g) \<Longrightarrow> snd (step g) = g"
  using idle [of g] reported_iff [of g] by simp

end

text \<open>Two steps in a row, when the second keeps what the first established.\<close>

locale ensure_steps = first: ensure_step step1 wanted1 + second: ensure_step step2 wanted2
  for step1 wanted1 step2 wanted2 +
  assumes kept: "wanted1 g \<Longrightarrow> wanted1 (snd (step2 g))"
begin

lemma both_established: "wanted1 (snd (step2 (snd (step1 g)))) \<and> wanted2 (snd (step2 (snd (step1 g))))"
  using first.establishes second.establishes kept by blast

end

sublocale ensure_steps \<subseteq> both: ensure_step "\<lambda>g. and_then (step1 g) step2" "\<lambda>g. wanted1 g \<and> wanted2 g"
proof
  fix g
  show "wanted1 (snd (and_then (step1 g) step2)) \<and> wanted2 (snd (and_then (step1 g) step2))"
    using both_established by (simp add: and_then_def split_beta)
  show "fst (and_then (step1 g) step2)" if "\<not> (wanted1 g \<and> wanted2 g)"
    using that first.reported_iff [of g] second.reported_iff [of g] first.idle [of g]
    by (auto simp: and_then_def split_beta)
  show "and_then (step1 g) step2 = (False, g)" if "wanted1 g \<and> wanted2 g"
    using that by (simp add: and_then_def first.idle second.idle)
qed

subsection \<open>The steps of the code\<close>

definition wanted_annotations :: "string \<Rightarrow> bool \<Rightarrow> ingress \<Rightarrow> bool" where
  "wanted_annotations e h g =
     (map_get (ing_annotations g) entrypointsKey = e \<and>
      (if h then map_get (ing_annotations g) routerTLSKey = trueValue
       else routerTLSKey |\<notin>| fmdom (ing_annotations g)))"

definition wanted_dns :: "string \<Rightarrow> ingress \<Rightarrow> bool" where
  "wanted_dns host g = (host = [] \<or> map_get (ing_annotations g) dnsNamesKey = host)"

definition wanted_class :: "ingress \<Rightarrow> bool" where
  "wanted_class g = (ing_class g = Some ''traefik'')"

definition wanted_rule :: "string \<Rightarrow> string \<Rightarrow> string \<Rightarrow> ingress \<Rightarrow> bool" where
  "wanted_rule host path name g = (ing_rules g = managed_rules host path name \<and> ing_default_backend g = None)"

definition wanted_tls :: "'w reconciler \<Rightarrow> string \<Rightarrow> bool \<Rightarrow> ingress \<Rightarrow> bool" where
  "wanted_tls r host h g =
     (\<not> h \<or> TrimSpace (r_tls_secret_name r) = [] \<or>
      (case ing_tls g of [] \<Rightarrow> False
       | t # _ \<Rightarrow> tls_secret t = TrimSpace (r_tls_secret_name r) \<and>
           (case tls_hosts t of [] \<Rightarrow> False | x # _ \<Rightarrow> x = host)))"

lemma route_keys [simp]:
  "entrypointsKey \<noteq> routerTLSKey" "routerTLSKey \<noteq> entrypointsKey" "dnsNamesKey \<noteq> entrypointsKey"
  "dnsNamesKey \<noteq> routerTLSKey" "entrypointsKey \<noteq> dnsNamesKey" "routerTLSKey \<noteq> dnsNamesKey"
  by (simp_all add: entrypointsKey_def routerTLSKey_def dnsNamesKey_def)

lemma set_annotations_simps [simp]:
  "ing_annotations (set_annotations m g) = m" "ing_rules (set_annotations m g) = ing_rules g"
  "ing_class (set_annotations m g) = ing_class g" "ing_tls (set_annotations m g) = ing_tls g"
  "ing_default_backend (set_annotations m g) = ing_default_backend g"
  "set_annotations (ing_annotations g) g = g"
  by (simp_all add: set_annotations_def)

lemmas ensure_defs = ensureIngressAnnotations_def ensureIngressDNSAnnotation_def ensureIngressClass_def
  ensureIngressHTTPRule_def ensureIngressTLS_def
lemmas wanted_defs = wanted_annotations_def wanted_dns_def wanted_class_def wanted_rule_def wanted_tls_def

interpretation anns: ensure_step "ensureIngressAnnotations e h" "wanted_annotations e h" for e h
  by unfold_locales (auto simp: ensure_defs wanted_defs Let_def split: if_splits)

interpretation dns: ensure_step "ensureIngressDNSAnnotation host" "wanted_dns host" for host
  by unfold_locales (auto simp: ensure_defs wanted_defs)

interpretation cls: ensure_step ensureIngressClass wanted_class
  by unfold_locales (auto simp: ensure_defs wanted_defs)

interpretation rule: ensure_step "ensureIngressHTTPRule host path name" "wanted_rule host path name" for host path name
  by unfold_locales (auto simp: ensure_defs wanted_defs Let_def)

interpretation tls: ensure_step "ensureIngressTLS r host h" "wanted_tls r host h" for r host h
  by unfold_locales (auto simp: ensure_defs wanted_defs Let_def split: list.splits if_splits)

text \<open>Each later step keeps what the earlier ones established.\<close>

lemma kept_simps [simp]:
  "wanted_annotations e h g \<Longrightarrow> wanted_annotations e h (snd (ensureIngressDNSAnnotation host g))"
  "wanted_annotations e h (snd (ensureIngressClass g)) = wanted_annotations e h g"
  "wanted_annotations e h (snd (ensureIngressHTTPRule host path name g)) = wanted_annotations e h g"
  "wanted_annotations e h (snd (ensureIngressTLS r host k g)) = wanted_annotations e h g"
  "wanted_dns host (snd (ensureIngressClass g)) = wanted_dns host g"
  "wanted_dns host (snd (ensureIngressHTTPRule host' path name g)) = wanted_dns host g"
  "wanted_dns host (snd (ensureIngressTLS r host' k g)) = wanted_dns host g"
  "wanted_class (snd (ensureIngressHTTPRule host path name g)) = wanted_class g"
  "wanted_class (snd (ensureIngressTLS r host k g)) = wanted_class g"
  "wanted_rule host path name (snd (ensureIngressTLS r host' k g)) = wanted_rule host path name g"
  by (auto simp: ensure_defs wanted_defs Let_def)

interpretation s12: ensure_steps "ensureIngressAnnotations e h" "wanted_annotations e h"
  "ensureIngressDNSAnnotation host" "wanted_dns host" for e h host
  by unfold_locales simp

interpretation s123: ensure_steps "\<lambda>g. and_then (ensureIngressAnnotations e h g) (ensureIngressDNSAnnotation host)"
  "\<lambda>g. wanted_annotations e h g \<and> wanted_dns host g" ensureIngressClass wanted_class for e h host
  by unfold_locales simp

interpretation s1234: ensure_steps
  "\<lambda>g. and_then (and_then (ensureIngressAnnotations e h g) (ensureIngressDNSAnnotation host)) ensureIngressClass"
  "\<lambda>g. (wanted_annotations e h g \<and> wanted_dns host g) \<and> wanted_class g"
  "ensureIngressHTTPRule host path name" "wanted_rule host path name" for e h host path name
  by unfold_locales simp

interpretation route: ensure_steps
  "\<lambda>g. and_then (and_then (and_then (ensureIngressAnnotations e h g) (ensureIngressDNSAnnotation host)) ensureIngressClass)
     (ensureIngressHTTPRule host path name)"
  "\<lambda>g. ((wanted_annotations e h g \<and> wanted_dns host g) \<and> wanted_class g) \<and> wanted_rule host path name g"
  "ensureIngressTLS r host h" "wanted_tls r host h" for e h host path name r
  by unfold_locales simp

subsection \<open>The whole sequence\<close>

text \<open>The managed part of the route: what the operator wants of the Ingress.\<close>

definition wanted_route :: "'w reconciler \<Rightarrow> string \<Rightarrow> string \<Rightarrow> string \<Rightarrow> ingress \<Rightarrow> bool" where
  "wanted_route r name host path g \<longleftrightarrow>
     wanted_annotations (desiredIngressEntryPoints (isHTTPS r)) (isHTTPS r) g \<and> wanted_dns host g \<and>
     wanted_class g \<and> wanted_rule host path name g \<and> wanted_tls r host (isHTTPS r) g"

lemma and_then_idle: "and_then st (\<lambda>g. (False, g)) = st"
  by (simp add: and_then_def split_beta)

lemma converge_no_extra:
  assumes "map_len (r_extra_annotations r) = 0"
  shows "converge_ingress r name host path g =
    and_then (and_then (and_then (and_then
      (ensureIngressAnnotations (desiredIngressEntryPoints (isHTTPS r)) (isHTTPS r) g)
      (ensureIngressDNSAnnotation host)) ensureIngressClass) (ensureIngressHTTPRule host path name))
      (ensureIngressTLS r host (isHTTPS r))"
proof -
  have "applyExtraIngressAnnotations r True = (\<lambda>g. (False, g))"
    using assms by (simp add: applyExtraIngressAnnotations_def fun_eq_iff)
  then show ?thesis by (simp add: converge_ingress_def Let_def and_then_idle)
qed

lemma snd_and_then: "snd (and_then st f) = snd (f (snd st))"
  by (simp add: and_then_def split_beta)

text \<open>With or without extra annotations, the route proper is the managed one.\<close>

lemma converge_route:
  "wanted_dns host g' \<and> wanted_class g' \<and> wanted_rule host path name g' \<and> wanted_tls r host (isHTTPS r) g'"
  if "g' = snd (converge_ingress r name host path g)"
  using that by (simp add: converge_ingress_def Let_def snd_and_then dns.establishes cls.establishes
      rule.establishes tls.establishes)

lemma annotations_only [simp]:
  "wanted_class (snd (applyExtraIngressAnnotations r o' g)) = wanted_class g"
  "wanted_rule host path name (snd (applyExtraIngressAnnotations r o' g)) = wanted_rule host path name g"
  "wanted_class (snd (ensureIngressDNSAnnotation host g)) = wanted_class g"
  "wanted_rule host' path name (snd (ensureIngressDNSAnnotation host g)) = wanted_rule host' path name g"
  by (simp_all add: wanted_defs applyExtraIngressAnnotations_def ensureIngressDNSAnnotation_def split_beta)

lemma build_route:
  "wanted_dns host (buildDesiredIngress r inst labels name host path)"
  "wanted_class (buildDesiredIngress r inst labels name host path)"
  "wanted_rule host path name (buildDesiredIngress r inst labels name host path)"
  unfolding buildDesiredIngress_def Let_def
  by (rule dns.establishes, unfold annotations_only, simp_all add: wanted_defs)


end
