(* ===== verification/Ownership.thy ===== *)
theory Ownership
  imports Call_Frames Route_Convergence
begin

text \<open>
  The reconciler never touches an object of somebody else. \<open>owned_write\<close> says of a call that
  changes or deletes an existing object what must have been read before it, in the same
  reconcile, for the same local instance.
\<close>

subsection \<open>The obligation of each write\<close>

definition owned_write :: "'w reconciler \<Rightarrow> log_entry list \<Rightarrow> log_entry \<Rightarrow> bool" where
  "owned_write r past entry = (case entry of (inst, c) \<Rightarrow>
     (case c of
        UpdateDeployment d _ \<Rightarrow>
          (\<exists>k d0. (inst, GetDeployment (routeReader r) k (Inr d0)) \<in> set past \<and>
                  ownedByInstance (d_meta d0) inst \<and> d_meta d = d_meta d0)
      | UpdateService v _ \<Rightarrow>
          (\<exists>k v0. (inst, GetService (routeReader r) k (Inr v0)) \<in> set past \<and>
                  ownedByInstance (svc_meta v0) inst \<and> svc_meta v = svc_meta v0)
      | UpdateIngress g _ \<Rightarrow>
          (\<exists>k g0. (inst, GetIngress (routeReader r) k (Inr g0)) \<in> set past \<and>
                  ownedByInstance (ing_meta g0) inst \<and>
                  (\<exists>anns. ing_meta g = (ing_meta g0)\<lparr>meta_annotations := anns\<rparr>))
      | DeleteIngress g uid rv _ \<Rightarrow>
          (\<exists>k. (inst, GetIngress (routeReader r) k (Inr g)) \<in> set past) \<and>
          ownedByInstance (ing_meta g) inst \<and> uid = meta_uid (ing_meta g) \<and>
          rv = meta_resource_version (ing_meta g)
      | DeleteSecret x uid rv _ \<Rightarrow>
          (\<exists>k. (inst, GetSecret (routeReader r) k (Inr x)) \<in> set past) \<and>
          ownedByInstance (sec_meta x) inst \<and> sec_immutable x = Some True \<and>
          uid = meta_uid (sec_meta x) \<and> uid \<noteq> [] \<and> rv = meta_resource_version (sec_meta x)
      | _ \<Rightarrow> True))"

lemma owned_write_free:
  "kind_of (snd e) \<in> {Reading, InstanceWrite, SecretCreate, StatusPatch, StatusWrite, Entropy, Probing}
   \<Longrightarrow> owned_write r past e"
  by (cases e; cases "snd e") (auto simp: owned_write_def)

lemma owned_write_simps [simp]:
  "owned_write r past (i, GetDeployment rd k dres)"
  "owned_write r past (i, GetService rd k vres)"
  "owned_write r past (i, GetIngress rd k gres)"
  "owned_write r past (i, GetSecret rd k xres)"
  "owned_write r past (i, ListDeployments rd ns dlres)"
  "owned_write r past (i, ListPods rd ns sel plres)"
  "owned_write r past (i, CreateDeployment d dres)"
  "owned_write r past (i, CreateService v vres)"
  "owned_write r past (i, CreateIngress g gres)"
  by (simp_all add: owned_write_def)

lemma owned_updates:
  "(i, GetDeployment (routeReader r) k (Inr d0)) \<in> set past \<Longrightarrow> ownedByInstance (d_meta d0) i \<Longrightarrow>
   d_meta d = d_meta d0 \<Longrightarrow> owned_write r past (i, UpdateDeployment d dres)"
  "(i, GetService (routeReader r) k (Inr v0)) \<in> set past \<Longrightarrow> ownedByInstance (svc_meta v0) i \<Longrightarrow>
   svc_meta v = svc_meta v0 \<Longrightarrow> owned_write r past (i, UpdateService v vres)"
  "(i, GetIngress (routeReader r) k (Inr g0)) \<in> set past \<Longrightarrow> ownsIngress i g0 \<Longrightarrow>
   ing_meta g = (ing_meta g0)\<lparr>meta_annotations := anns\<rparr> \<Longrightarrow> owned_write r past (i, UpdateIngress g gres)"
  "(i, GetIngress (routeReader r) k (Inr g)) \<in> set past \<Longrightarrow> ownsIngress i g \<Longrightarrow>
   owned_write r past (i, DeleteIngress g (meta_uid (ing_meta g)) (meta_resource_version (ing_meta g)) ures)"
  by (cases k; auto simp: owned_write_def ownsIngress_ownedByInstance)+

lemma owned_withdrawAccess: "keeps (owned_write r) (withdrawAccess r)"
  unfolding keeps_def withdrawAccess_def api_defs
  by (auto simp: wp_simps split: sum.splits intro!: owned_updates(4))

lemma owned_stopUnapprovedDeployment: "keeps (owned_write r) (stopUnapprovedDeployment r force)"
  unfolding keeps_def stopUnapprovedDeployment_def api_defs
  by (auto simp: wp_simps Let_def split: sum.splits option.splits intro!: owned_updates(1))

lemma owned_waitForAccessCutover:
  assumes "justified (owned_write r) (call_log s)"
    and "(local_inst s, GetDeployment (routeReader r) k (Inr existing)) \<in> set (call_log s)"
    and "ownedByInstance (d_meta existing) (local_inst s)"
  shows "wp (waitForAccessCutover r existing) (\<lambda>_. advanced (owned_write r) s) s"
  unfolding waitForAccessCutover_def api_defs wp_bind
  by (rule wp_use [OF wp_advanced [OF owned_withdrawAccess calls_withdrawAccess steady_withdrawAccess assms(1)]])
     (use assms in \<open>auto simp: wp_simps split: option.splits sum.splits intro!: owned_updates(1) [of _ _ k existing]\<close>)

lemma owned_reconcileDeployment: "keeps (owned_write r) (reconcileDeployment r labels n img checksum b)"
  unfolding keeps_def reconcileDeployment_def getDeployment_def createDeployment_def updateDeployment_def
  by (auto simp: wp_simps Let_def split: sum.splits
      intro!: wp_use [OF owned_waitForAccessCutover] owned_updates(1))

lemma owned_reconcileService: "keeps (owned_write r) (reconcileService r labels name)"
  unfolding keeps_def reconcileService_def api_defs
  by (auto simp: wp_simps Let_def managed_service_def split: sum.splits intro!: owned_updates(2))

subsection \<open>The Ingress keeps its identity\<close>

definition same_object :: "ingress \<Rightarrow> ingress \<Rightarrow> bool" where
  "same_object g0 g \<longleftrightarrow> (\<exists>anns. ing_meta g = (ing_meta g0)\<lparr>meta_annotations := anns\<rparr>)"

lemma same_object_refl: "same_object g g"
  unfolding same_object_def by (rule exI [of _ "meta_annotations (ing_meta g)"]) simp

lemma same_object_trans: "same_object g h \<Longrightarrow> same_object h k \<Longrightarrow> same_object g k"
  by (auto simp: same_object_def)

lemma same_object_set_annotations: "same_object g (set_annotations anns g)"
  by (auto simp: same_object_def set_annotations_def)

lemma same_object_steps:
  "same_object g (snd (ensureIngressAnnotations e h g))"
  "same_object g (snd (applyExtraIngressAnnotations r o' g))"
  "same_object g (snd (ensureIngressDNSAnnotation host g))"
  "same_object g (snd (ensureIngressClass g))"
  "same_object g (snd (ensureIngressHTTPRule host path name g))"
  "same_object g (snd (ensureIngressTLS r host h g))"
  by (auto simp: ensureIngressAnnotations_def applyExtraIngressAnnotations_def ensureIngressDNSAnnotation_def
      ensureIngressClass_def ensureIngressHTTPRule_def ensureIngressTLS_def Let_def split_beta
      intro: same_object_set_annotations same_object_refl)
     (auto simp: same_object_def intro: exI [of _ "meta_annotations (ing_meta g)"])

lemma same_object_converge: "same_object g (snd (converge_ingress r name host path g))"
  unfolding converge_ingress_def Let_def snd_and_then
  by (rule same_object_trans [OF _ same_object_steps(6)] same_object_trans [OF _ same_object_steps(5)]
      same_object_trans [OF _ same_object_steps(4)] same_object_trans [OF _ same_object_steps(3)]
      same_object_trans [OF _ same_object_steps(2)] same_object_steps(1))+

lemma calls_keeps_owned:
  "calls K m \<Longrightarrow> K \<subseteq> {Reading, InstanceWrite, SecretCreate, StatusPatch, StatusWrite, Entropy, Probing} \<Longrightarrow>
   keeps (owned_write r) m"
  by (erule calls_keeps, rule owned_write_free) auto

lemma owned_checkHostname: "keeps (owned_write r) (checkHostname r host)"
  by (rule calls_keeps_owned [OF calls_checkHostname]) simp

lemma owned_upsert_ingress: "keeps (owned_write r) (upsert_ingress r labels name host path)"
proof -
  have "ing_meta g' = (ing_meta g)\<lparr>meta_annotations := meta_annotations (ing_meta g')\<rparr>"
    if "converge_ingress r name host path g = (u, g')" for g g' u
    using same_object_converge [of g r name host path] that by (auto simp: same_object_def)
  then show ?thesis
    unfolding keeps_def upsert_ingress_def api_defs
    by (auto simp: wp_simps Let_def split: sum.splits prod.splits intro!: owned_updates(3))
qed

lemma owned_reconcileIngress: "keeps (owned_write r) (reconcileIngress r labels name host path)"
  unfolding reconcileIngress_def by (rule keeps_intros owned_checkHostname owned_upsert_ingress)+

subsection \<open>Retirement candidates\<close>

text \<open>What the loop of \<open>makeAccessSecretRoom\<close> has established of a candidate.\<close>

definition retirable ::
  "'w reconciler \<Rightarrow> chat_instance \<Rightarrow> string set \<Rightarrow> (string \<times> string) list \<Rightarrow> log_entry set \<Rightarrow> secret \<Rightarrow> bool" where
  "retirable r inst referenced pins L c \<longleftrightarrow>
     (\<exists>name uid. (name, uid) \<in> set pins \<and> name \<noteq> sessionSecretName (r_lib r) inst \<and>
        HasPrefix name ''chatui-access-'' \<and> uid \<noteq> [] \<and> name \<notin> referenced \<and>
        ((inst, GetSecret (routeReader r) (i_namespace inst, name) (Inr c)) \<in> L \<and>
           ownedByInstance (sec_meta c) inst \<and> sec_immutable c = Some True \<and> meta_uid (sec_meta c) = uid \<or>
         (inst, GetSecret (routeReader r) (i_namespace inst, name) (Inl NotFound)) \<in> L \<and>
           sec_meta c = new_meta (i_namespace inst) name))"

lemma retirable_mono:
  "retirable r inst referenced pins L c \<Longrightarrow> set pins \<subseteq> set pins' \<Longrightarrow> L \<subseteq> L' \<Longrightarrow>
   retirable r inst referenced pins' L' c"
  unfolding retirable_def by blast

lemma collect_candidates_retirable:
  assumes "local_inst s = inst"
    and "\<And>c. c \<in> set candidates \<Longrightarrow> retirable r inst referenced seen (set (call_log s)) c"
  shows "wp (collect_candidates r inst referenced pins candidates)
           (\<lambda>a t. \<forall>cs. a = Inr cs \<longrightarrow>
              (\<forall>c \<in> set cs. retirable r inst referenced (seen @ pins) (set (call_log t)) c)) s"
  using assms
proof (induction pins arbitrary: s candidates seen)
  case Nil
  then show ?case by (simp add: wp_simps)
next
  case (Cons pin pins)
  obtain name uid where pin: "pin = (name, uid)" by (cases pin)
  show ?case
  proof (cases "name = sessionSecretName (r_lib r) inst \<or> \<not> HasPrefix name ''chatui-access-'' \<or> uid = []")
    case True
    have "retirable r inst referenced (seen @ [pin]) (set (call_log s)) c" if "c \<in> set candidates" for c
      using Cons.prems(2) [OF that] by (rule retirable_mono) auto
    from Cons.IH [OF Cons.prems(1) this] True show ?thesis by (auto simp: pin wp_simps)
  next
    case False
    have more: "retirable r inst referenced (seen @ [pin]) (set (call_log t)) x"
      if "x \<in> set (if name \<notin> referenced then candidates @ [y] else candidates)"
        and t: "set (call_log s) \<subseteq> set (call_log t)"
        and y: "name \<notin> referenced \<Longrightarrow> retirable r inst referenced [pin] (set (call_log t)) y" for x y t
    proof (cases "x \<in> set candidates")
      case True
      from Cons.prems(2) [OF this] show ?thesis by (rule retirable_mono) (use t in auto)
    next
      case False
      with that(1) have "x = y" "name \<notin> referenced" by (auto split: if_splits)
      with y have "retirable r inst referenced [pin] (set (call_log t)) x" by simp
      then show ?thesis by (rule retirable_mono) auto
    qed
    obtain found w where found: "k_get_secret (r_cluster r) (routeReader r) (i_namespace inst, name) (world s) = (found, w)"
      by fastforce
    let ?t = "s\<lparr>world := w, call_log := call_log s @ [(inst, GetSecret (routeReader r) (i_namespace inst, name) found)]\<rparr>"
    have go: "wp (collect_candidates r inst referenced pins
               (if name \<notin> referenced then candidates @ [y] else candidates))
             (\<lambda>a t. \<forall>cs. a = Inr cs \<longrightarrow>
                (\<forall>c \<in> set cs. retirable r inst referenced (seen @ pin # pins) (set (call_log t)) c)) ?t"
      if "name \<notin> referenced \<Longrightarrow> retirable r inst referenced [pin] (set (call_log ?t)) y" for y
    proof -
      have grow: "set (call_log s) \<subseteq> set (call_log ?t)" by auto
      have "wp (collect_candidates r inst referenced pins
               (if name \<notin> referenced then candidates @ [y] else candidates))
             (\<lambda>a t. \<forall>cs. a = Inr cs \<longrightarrow>
                (\<forall>c \<in> set cs. retirable r inst referenced ((seen @ [pin]) @ pins) (set (call_log t)) c)) ?t"
        by (rule Cons.IH) (use Cons.prems(1) in simp, erule more [OF _ grow that])
      then show ?thesis by simp
    qed
    have gone: "retirable r inst referenced [pin] (set (call_log ?t))
        \<lparr>sec_meta = new_meta (i_namespace inst) name, sec_type = [], sec_immutable = None, sec_data = fmempty\<rparr>"
      if "found = Inl NotFound" "name \<notin> referenced"
      using False that by (auto simp: retirable_def pin)
    have live: "retirable r inst referenced [pin] (set (call_log ?t)) x"
      if "found = Inr x" "ownedByInstance (sec_meta x) inst" "sec_immutable x = Some True"
        "meta_uid (sec_meta x) = uid" "name \<notin> referenced" for x
      using False that by (auto simp: retirable_def pin)
    show ?thesis
      using False Cons.prems(1) go gone live found
      by (cases found) (auto simp: pin wp_simps getSecret_def Let_def)
  qed
qed

lemma hd_sort_key: "sort_key f xs = y # ys \<Longrightarrow> y \<in> set xs"
  by (metis list.set_intros(1) set_sort)

text \<open>
  To reason about \<open>makeAccessSecretRoom\<close> it is enough to look at the retirement of a candidate,
  after the two listings and the loop.
\<close>

lemma wp_makeAccessSecretRoom:
  fixes s :: "'a st"
  assumes ok: "justified ok (call_log s)" "\<And>past e. kind_of (snd e) = Reading \<Longrightarrow> ok past e"
    and none: "Q None s"
    and err: "\<And>e t. advanced ok s t \<Longrightarrow> Q (Some e) t"
    and retire: "\<And>t ds ps x. advanced ok s t \<Longrightarrow> maxAccessBundles < map_len (i_pins (local_inst s)) \<Longrightarrow>
       (local_inst s, ListDeployments (routeReader r) (i_namespace (local_inst s)) (Inr ds)) \<in> set (call_log t) \<Longrightarrow>
       (local_inst s, ListPods (routeReader r) (i_namespace (local_inst s)) None (Inr ps)) \<in> set (call_log t) \<Longrightarrow>
       retirable r (local_inst s) (referenced_secrets ds ps) (map_range (r_lib r) (i_pins (local_inst s)))
         (set (call_log t)) x \<Longrightarrow> wp (retire_bundle r x) Q t"
  shows "wp (makeAccessSecretRoom r) Q s"
proof -
  let ?i = "local_inst s"
  have loop: "wp (collect_candidates r ?i (referenced_secrets ds ps) (map_range (r_lib r) (i_pins ?i)) [])
      (\<lambda>a. wp (case a of Inl e \<Rightarrow> ret (Some e)
        | Inr candidates \<Rightarrow>
           (case sort_key candidate_key candidates of
              [] \<Rightarrow> ret (Some (ErrNew ''access Secret history is still in use; cannot retire a bundle''))
            | retired # _ \<Rightarrow> retire_bundle r retired)) Q) u"
    if u: "advanced ok s u" "maxAccessBundles < map_len (i_pins ?i)"
      "(?i, ListDeployments (routeReader r) (i_namespace ?i) (Inr ds)) \<in> set (call_log u)"
      "(?i, ListPods (routeReader r) (i_namespace ?i) None (Inr ps)) \<in> set (call_log u)" for u ds ps
  proof (rule wp_use)
    have "keeps ok (collect_candidates r ?i (referenced_secrets ds ps) (map_range (r_lib r) (i_pins ?i)) [])"
      by (rule calls_keeps [OF calls_collect_candidates]) (simp add: ok(2))
    then have "wp (collect_candidates r ?i (referenced_secrets ds ps) (map_range (r_lib r) (i_pins ?i)) [])
        (\<lambda>_. advanced ok u) u"
      using u(1) by (intro wp_advanced [OF _ calls_collect_candidates steady_collect_candidates]) simp_all
    moreover have "wp (collect_candidates r ?i (referenced_secrets ds ps) (map_range (r_lib r) (i_pins ?i)) [])
        (\<lambda>a t. \<forall>cs. a = Inr cs \<longrightarrow> (\<forall>c \<in> set cs.
           retirable r ?i (referenced_secrets ds ps) (map_range (r_lib r) (i_pins ?i)) (set (call_log t)) c)) u"
      using collect_candidates_retirable [of u ?i "[]" r "referenced_secrets ds ps" "[]"] u(1) by simp
    ultimately show "wp (collect_candidates r ?i (referenced_secrets ds ps) (map_range (r_lib r) (i_pins ?i)) [])
        (\<lambda>a t. advanced ok u t \<and> (\<forall>cs. a = Inr cs \<longrightarrow> (\<forall>c \<in> set cs.
           retirable r ?i (referenced_secrets ds ps) (map_range (r_lib r) (i_pins ?i)) (set (call_log t)) c))) u"
      by (rule wp_conj)
  next
    fix a :: "go_error + secret list" and t :: "'a st"
    assume t: "advanced ok u t \<and> (\<forall>cs. a = Inr cs \<longrightarrow> (\<forall>c \<in> set cs.
           retirable r ?i (referenced_secrets ds ps) (map_range (r_lib r) (i_pins ?i)) (set (call_log t)) c))"
    then have "advanced ok s t" using u(1) by auto
    with t u show "wp (case a of Inl e \<Rightarrow> ret (Some e)
        | Inr candidates \<Rightarrow>
           (case sort_key candidate_key candidates of
              [] \<Rightarrow> ret (Some (ErrNew ''access Secret history is still in use; cannot retire a bundle''))
            | retired # _ \<Rightarrow> retire_bundle r retired)) Q t"
      by (auto simp: wp_simps split: sum.splits list.splits dest!: hd_sort_key
          intro!: err retire [of t ds ps])
  qed
  show ?thesis
    unfolding makeAccessSecretRoom_def listDeployments_def listPods_def
    using ok none by (auto simp: wp_simps split: sum.splits intro!: err loop)
qed

subsection \<open>The rest of the reconciler\<close>

lemma owned_persist: "keeps (owned_write r) (persistAccessSecretPins r pins)"
  by (rule calls_keeps_owned [OF calls_persistAccessSecretPins]) simp

lemma owned_confirm_gone: "keeps (owned_write r) (confirm_gone r x)"
  by (rule calls_keeps_owned [OF calls_confirm_gone]) simp

lemma owned_retire_bundle:
  assumes "justified (owned_write r) (call_log s)"
    and "retirable r (local_inst s) referenced pins (set (call_log s)) x"
  shows "wp (retire_bundle r x) (\<lambda>_ t. justified (owned_write r) (call_log t)) s"
proof -
  have del: "owned_write r (call_log s)
      (local_inst s, DeleteSecret x (meta_uid (sec_meta x)) (meta_resource_version (sec_meta x)) res)"
    if "meta_uid (sec_meta x) \<noteq> []" for res
    using assms that by (auto simp: owned_write_def retirable_def new_meta_def)
  have rest: "wp (persistAccessSecretPins r pins) (\<lambda>_ t. justified (owned_write r) (call_log t)) t"
    "wp (confirm_gone r x) (\<lambda>a. wp (case a of Some e \<Rightarrow> ret (Some e) | None \<Rightarrow> persistAccessSecretPins r pins)
       (\<lambda>_ t. justified (owned_write r) (call_log t))) t"
    if "justified (owned_write r) (call_log t)" for t pins
    by (rule keepsD [OF owned_persist that],
        rule keepsD [OF keeps_bind [OF owned_confirm_gone keeps_case_option [OF owned_persist keeps_return]] that,
          unfolded wp_bind])
  show ?thesis
    unfolding retire_bundle_def deleteSecret_def
    using assms(1) del rest by (auto simp: wp_simps split: sum.splits)
qed

lemma owned_single_calls:
  "keeps (owned_write r) (getInst r rd k)"
  "keeps (owned_write r) (getSecret r rd k)"
  "keeps (owned_write r) (updateInstance r i)"
  by (rule calls_keeps_owned [where K = "{Reading, InstanceWrite}"], rule call_kinds, simp, simp)+

lemma owned_makeAccessSecretRoom: "keeps (owned_write r) (makeAccessSecretRoom r)"
  unfolding keeps_def
  by (auto intro!: wp_makeAccessSecretRoom owned_write_free owned_retire_bundle)

lemma owned_create_pinned_secret: "keeps (owned_write r) (create_pinned_secret r name data)"
  by (rule calls_keeps_owned [OF calls_create_pinned_secret]) simp

lemma owned_ensure_bundle: "keeps (owned_write r) (ensure_bundle r name data)"
  unfolding ensure_bundle_def
  by (rule keeps_intros owned_makeAccessSecretRoom owned_create_pinned_secret
      owned_single_calls | simp)+

lemma owned_sessionSecret: "keeps (owned_write r) (sessionSecret r)"
  by (rule calls_keeps_owned [OF calls_sessionSecret]) simp

lemma owned_prepareAccess: "keeps (owned_write r) (prepareAccess r host)"
  unfolding prepareAccess_def prepare_bundle_def
  by (rule keeps_intros owned_ensure_bundle owned_sessionSecret owned_single_calls | simp)+

lemma owned_updateImagePolicyStatus: "keeps (owned_write r) (updateImagePolicyStatus r phase reason message)"
  by (rule calls_keeps_owned [OF calls_updateImagePolicyStatus]) simp

lemma owned_handlers:
  "keeps (owned_write r) (rejectImage r message)"
  "keeps (owned_write r) (denyAccess r cause)"
  "keeps (owned_write r) (rejectReplicas r)"
  "keeps (owned_write r) (stopForHostnameFailure r cause)"
  unfolding rejectImage_def denyAccess_def rejectReplicas_def stopForHostnameFailure_def
  by (rule keeps_intros owned_withdrawAccess owned_stopUnapprovedDeployment owned_updateImagePolicyStatus
      calls_keeps_owned [OF calls_hostnameFailure] | simp)+

lemma owned_publish: "keeps (owned_write r) (reconcile_publish r labels host)"
  unfolding reconcile_publish_def
  by (rule keeps_intros owned_handlers owned_reconcileService owned_reconcileIngress
      calls_keeps_owned [OF calls_report_readiness] | simp)+

lemma owned_workload: "keeps (owned_write r) (reconcile_workload r img host b)"
  unfolding reconcile_workload_def reconcile_deploy_def
  by (rule keeps_intros owned_handlers owned_reconcileDeployment owned_publish owned_updateImagePolicyStatus
      owned_single_calls owned_single_calls | simp)+

lemma owned_gated: "keeps (owned_write r) (reconcile_gated r img)"
  unfolding reconcile_gated_def reconcile_limited_def reconcile_hosted_def
  by (rule keeps_intros owned_handlers owned_workload owned_updateImagePolicyStatus owned_withdrawAccess
      owned_stopUnapprovedDeployment owned_prepareAccess calls_keeps_owned [OF calls_selectedInstanceHost] | simp)+

lemma owned_Reconcile: "keeps (owned_write r) (Reconcile r req)"
  unfolding Reconcile_def
  by (rule keeps_intros owned_handlers owned_gated owned_single_calls
      owned_single_calls | simp)+

text \<open>The log of one reconcile, started in any world with any instance in hand.\<close>

definition reconcile_log :: "'w reconciler \<Rightarrow> key \<Rightarrow> 'w \<Rightarrow> chat_instance \<Rightarrow> log_entry list" where
  "reconcile_log r req w i =
     call_log (snd (run_state (Reconcile r req) \<lparr>world = w, local_inst = i, call_log = []\<rparr>))"

lemma reconcile_log_justified: "keeps ok (Reconcile r req) \<Longrightarrow> justified ok (reconcile_log r req w i)"
  by (simp add: keeps_def wp_run reconcile_log_def)

text \<open>
  C4. No foreign object is ever touched. In the log of any reconcile, whatever the API server
  replies at any call: an update of a Deployment, Service or Ingress, and a deletion of an Ingress or
  of a Secret, comes after an uncached read (in the same run, for the same instance in hand) that
  returned this very object controlled by this instance; an update keeps the object's name,
  UID, owner and resource version, and a delete carries the read UID and resource version as
  preconditions. Only immutable Secrets are deleted.
\<close>

theorem only_owned_objects_are_written: "justified (owned_write r) (reconcile_log r req w i)"
  by (rule reconcile_log_justified [OF owned_Reconcile])

end
