(* ===== verification/Secret_Pins.thy ===== *)
theory Secret_Pins
  imports Ownership
begin

text \<open>
  The life of an access Secret: it is created only under a name that is neither taken nor pinned,
  pinned only from the reply to that creation, and retired only when no workload refers to it;
  its pin is forgotten only when it is gone.
\<close>

definition pin_added :: "chat_instance \<Rightarrow> log_entry set \<Rightarrow> gomap \<Rightarrow> bool" where
  "pin_added inst L pins \<longleftrightarrow>
     (\<exists>x created. (inst, CreateSecret x (Inr created)) \<in> L \<and> meta_uid (sec_meta created) \<noteq> [] \<and>
        pins = fmupd (meta_name (sec_meta created)) (meta_uid (sec_meta created)) (i_pins inst) \<and>
        map_len pins \<le> maxAccessBundles + 1)"

definition retirement :: "'w reconciler \<Rightarrow> chat_instance \<Rightarrow> log_entry set \<Rightarrow> secret \<Rightarrow> bool" where
  "retirement r inst L x \<longleftrightarrow>
     (\<exists>ds ps. (inst, ListDeployments (routeReader r) (i_namespace inst) (Inr ds)) \<in> L \<and>
        (inst, ListPods (routeReader r) (i_namespace inst) None (Inr ps)) \<in> L \<and>
        retirable r inst (referenced_secrets ds ps) (map_range (r_lib r) (i_pins inst)) L x) \<and>
     maxAccessBundles < map_len (i_pins inst)"

definition pin_dropped :: "'w reconciler \<Rightarrow> chat_instance \<Rightarrow> log_entry set \<Rightarrow> gomap \<Rightarrow> bool" where
  "pin_dropped r inst L pins \<longleftrightarrow>
     (\<exists>x. retirement r inst L x \<and> pins = fmdrop (meta_name (sec_meta x)) (i_pins inst) \<and>
        (inst, GetSecret (routeReader r) (i_namespace inst, meta_name (sec_meta x)) (Inl NotFound)) \<in> L)"

definition secret_step :: "'w reconciler \<Rightarrow> log_entry list \<Rightarrow> log_entry \<Rightarrow> bool" where
  "secret_step r past entry = (case entry of (inst, c) \<Rightarrow>
     (case c of
        CreateSecret x _ \<Rightarrow>
          sec_immutable x = Some True \<and>
          (\<exists>name. set_controller (r_lib r) (i_meta inst) (new_meta (i_namespace inst) name) = Inr (sec_meta x) \<and>
             map_get (i_pins inst) name = [] \<and>
             (\<exists>i. (i, GetSecret (routeReader r) (i_namespace i, name) (Inl NotFound)) \<in> set past))
      | DeleteSecret x uid rv _ \<Rightarrow>
          retirement r inst (set past) x \<and> uid = meta_uid (sec_meta x) \<and> uid \<noteq> []
      | PatchStatus old new lock _ \<Rightarrow>
          i_pins new = i_pins old \<or>
          lock \<and> old = inst \<and> new = inst\<lparr>i_status := (i_status inst)\<lparr>st_pins := i_pins new\<rparr>\<rparr> \<and>
          (pin_added inst (set past) (i_pins new) \<or> pin_dropped r inst (set past) (i_pins new))
      | _ \<Rightarrow> True))"

lemma secret_step_free:
  "kind_of (snd e) \<notin> {SecretCreate, SecretDelete, StatusPatch} \<Longrightarrow> secret_step r past e"
  by (cases e; cases "snd e") (auto simp: secret_step_def)

lemma calls_keeps_secret:
  "calls K m \<Longrightarrow> K \<inter> {SecretCreate, SecretDelete, StatusPatch} = {} \<Longrightarrow> keeps (secret_step r) m"
  by (erule calls_keeps, rule secret_step_free) auto

lemma secret_step_simps [simp]:
  "secret_step r past (i, GetInstance rd k ires)"
  "secret_step r past (i, GetSecret rd k xres)"
  "i_pins new = i_pins old \<Longrightarrow> secret_step r past (i, PatchStatus old new lock ires)"
  by (simp_all add: secret_step_def)

subsection \<open>Status patches that leave the pins alone\<close>

lemma pins_denied_status [simp]: "i_pins (denied_status lib i phase reason message) = i_pins i"
  by (simp add: denied_status_def)

lemma secret_updateImagePolicyStatus: "keeps (secret_step r) (updateImagePolicyStatus r phase reason message)"
  unfolding keeps_def updateImagePolicyStatus_def patchStatus_def
  by (auto simp: wp_simps Let_def split: sum.splits)

lemma secret_hostnameFailure: "keeps (secret_step r) (hostnameFailure r cause)"
  unfolding keeps_def hostnameFailure_def patchStatus_def
  by (auto simp: wp_simps Let_def split: sum.splits option.splits
      intro!: wp_use [OF keepsD [OF secret_updateImagePolicyStatus]])

lemma secret_ensureSlug: "keeps (secret_step r) (ensureSlug r)"
  unfolding keeps_def ensureSlug_def patchStatus_def getInst_def
  by (auto simp: wp_simps Let_def split: sum.splits)

subsection \<open>Pinning and retiring\<close>

lemma secret_persist:
  assumes "justified (secret_step r) (call_log s)"
    and "pin_added (local_inst s) (set (call_log s)) pins \<or> pin_dropped r (local_inst s) (set (call_log s)) pins"
  shows "wp (persistAccessSecretPins r pins)
           (\<lambda>a t. justified (secret_step r) (call_log t) \<and> (a = None \<longrightarrow> i_pins (local_inst t) = pins)) s"
proof -
  have "secret_step r (call_log s) (local_inst s, PatchStatus (local_inst s)
      ((local_inst s)\<lparr>i_status := (i_status (local_inst s))\<lparr>st_pins := pins\<rparr>\<rparr>) True res)" for res
    using assms(2) by (simp add: secret_step_def)
  with assms(1) show ?thesis
    unfolding persistAccessSecretPins_def patchStatus_def getInst_def
    by (auto simp: wp_simps Let_def split: sum.splits)
qed

lemma pin_addedI:
  "(inst, CreateSecret x (Inr created)) \<in> L \<Longrightarrow> meta_uid (sec_meta created) \<noteq> [] \<Longrightarrow>
   map_len (fmupd (meta_name (sec_meta created)) (meta_uid (sec_meta created)) (i_pins inst)) \<le> maxAccessBundles + 1 \<Longrightarrow>
   pin_added inst L (fmupd (meta_name (sec_meta created)) (meta_uid (sec_meta created)) (i_pins inst))"
  unfolding pin_added_def by blast

lemma secret_create_pinned:
  assumes "justified (secret_step r) (call_log s)"
    and "map_get (i_pins (local_inst s)) name = []"
    and "(i, GetSecret (routeReader r) (i_namespace i, name) (Inl NotFound)) \<in> set (call_log s)"
  shows "wp (create_pinned_secret r name data) (\<lambda>_ t. justified (secret_step r) (call_log t)) s"
proof -
  have step: "secret_step r (call_log s) (local_inst s, CreateSecret
      \<lparr>sec_meta = m, sec_type = ''Opaque'', sec_immutable = Some True, sec_data = data\<rparr> res)"
    if "set_controller (r_lib r) (i_meta (local_inst s)) (new_meta (i_namespace (local_inst s)) name) = Inr m" for m res
    using assms(2,3) that by (auto simp: secret_step_def)
  have pin: "wp (pinAccessSecret r created)
      (\<lambda>a. wp (case a of Some e \<Rightarrow> ret (Inl e) | None \<Rightarrow> ret (Inr created)) (\<lambda>_ t. justified (secret_step r) (call_log t))) t"
    if t: "justified (secret_step r) (call_log t)" "(local_inst t, CreateSecret x (Inr created)) \<in> set (call_log t)"
    for t created x
    unfolding pinAccessSecret_def
    using t by (auto simp: wp_simps Let_def not_less simp del: map_len_upd split: option.splits
        intro!: wp_use [OF secret_persist] disjI1 pin_addedI)
  show ?thesis
    unfolding create_pinned_secret_def createSecret_def
    using assms(1) step by (auto simp: wp_simps split: sum.splits intro!: pin)
qed

lemma secret_retire:
  assumes "justified (secret_step r) (call_log s)" "retirement r (local_inst s) (set (call_log s)) x"
  shows "wp (retire_bundle r x) (\<lambda>a t. justified (secret_step r) (call_log t) \<and>
           (a = None \<longrightarrow> i_pins (local_inst t) = fmdrop (meta_name (sec_meta x)) (i_pins (local_inst s)))) s"
proof -
  let ?i = "local_inst s"
  let ?gone = "\<lambda>L. (?i, GetSecret (routeReader r) (i_namespace ?i, meta_name (sec_meta x)) (Inl NotFound)) \<in> L"
  have drop: "wp (persistAccessSecretPins r (fmdrop (meta_name (sec_meta x)) (i_pins ?i)))
      (\<lambda>a t. justified (secret_step r) (call_log t) \<and>
         (a = None \<longrightarrow> i_pins (local_inst t) = fmdrop (meta_name (sec_meta x)) (i_pins ?i))) t"
    if t: "justified (secret_step r) (call_log t)" "set (call_log s) \<subseteq> set (call_log t)" "local_inst t = ?i"
      "?gone (set (call_log t))" for t
  proof (rule secret_persist [OF t(1)])
    have "retirement r ?i (set (call_log t)) x"
      using assms(2) t(2) retirable_mono unfolding retirement_def by (meson order_refl subsetD)
    then have "pin_dropped r (local_inst t) (set (call_log t)) (fmdrop (meta_name (sec_meta x)) (i_pins ?i))"
      unfolding pin_dropped_def t(3) using t(4) by blast
    then show "pin_added (local_inst t) (set (call_log t)) (fmdrop (meta_name (sec_meta x)) (i_pins ?i)) \<or>
        pin_dropped r (local_inst t) (set (call_log t)) (fmdrop (meta_name (sec_meta x)) (i_pins ?i))" ..
  qed
  have absent: "?gone (set (call_log s))" if "meta_uid (sec_meta x) = []"
    using assms(2) that by (auto simp: retirement_def retirable_def new_meta_def)
  have present: "meta_namespace (sec_meta x) = i_namespace ?i" if "meta_uid (sec_meta x) \<noteq> []"
    using assms(2) that by (auto simp: retirement_def retirable_def new_meta_def ownedByInstance_def)
  have del: "secret_step r (call_log s) (?i, DeleteSecret x (meta_uid (sec_meta x)) rv res)"
    if "meta_uid (sec_meta x) \<noteq> []" for rv res
    using assms(2) that by (simp add: secret_step_def)
  show ?thesis
  proof (cases "meta_uid (sec_meta x) = []")
    case True
    then show ?thesis
      unfolding retire_bundle_def using drop [of s] assms(1) absent by (simp add: wp_simps)
  next
    case False
    then show ?thesis
      unfolding retire_bundle_def confirm_gone_def deleteSecret_def getSecret_def
      using assms(1) del present
      by (auto simp: wp_simps meta_key_def split: sum.splits intro!: drop)
  qed
qed

lemma secret_room:
  assumes "justified (secret_step r) (call_log s)" "map_get (i_pins (local_inst s)) name = []"
  shows "wp (makeAccessSecretRoom r) (\<lambda>a t. justified (secret_step r) (call_log t) \<and>
           (a = None \<longrightarrow> map_get (i_pins (local_inst t)) name = [])) s"
proof (rule wp_makeAccessSecretRoom [OF assms(1)])
  fix t ds ps x
  assume t: "advanced (secret_step r) s t"
    and size: "maxAccessBundles < map_len (i_pins (local_inst s))"
    and lists: "(local_inst s, ListDeployments (routeReader r) (i_namespace (local_inst s)) (Inr ds)) \<in> set (call_log t)"
      "(local_inst s, ListPods (routeReader r) (i_namespace (local_inst s)) None (Inr ps)) \<in> set (call_log t)"
    and x: "retirable r (local_inst s) (referenced_secrets ds ps) (map_range (r_lib r) (i_pins (local_inst s)))
         (set (call_log t)) x"
  then have "retirement r (local_inst t) (set (call_log t)) x"
    unfolding retirement_def by auto
  then show "wp (retire_bundle r x) (\<lambda>a t. justified (secret_step r) (call_log t) \<and>
           (a = None \<longrightarrow> map_get (i_pins (local_inst t)) name = [])) t"
    using t assms(2) by (auto intro!: wp_use [OF secret_retire] simp: map_get_def)
qed (use assms in \<open>auto intro: secret_step_free\<close>)

lemma secret_ensure_bundle:
  fixes r :: "'w reconciler"
  shows "keeps (secret_step r) (ensure_bundle r name data)"
proof -
  have create: "wp (makeAccessSecretRoom r)
      (\<lambda>a. wp (case a of Some e \<Rightarrow> ret (Some e)
        | None \<Rightarrow> do { created \<leftarrow> create_pinned_secret r name data; ret (err_of created) })
        (\<lambda>_ t. justified (secret_step r) (call_log t))) s"
    if s: "justified (secret_step r) (call_log s)" "map_get (i_pins (local_inst s)) name = []"
      "(local_inst s, GetSecret (routeReader r) (i_namespace (local_inst s), name) (Inl NotFound)) \<in> set (call_log s)" for s
  proof (rule wp_use [OF wp_conj [OF secret_room [OF s(1,2)] emits_grows [OF calls_makeAccessSecretRoom [unfolded calls_def]]]])
    fix a :: "go_error option" and t :: "'w st"
    assume "(justified (secret_step r) (call_log t) \<and> (a = None \<longrightarrow> map_get (i_pins (local_inst t)) name = [])) \<and>
      set (call_log s) \<subseteq> set (call_log t)"
    with s(3) show "wp (case a of Some e \<Rightarrow> ret (Some e)
        | None \<Rightarrow> do { created \<leftarrow> create_pinned_secret r name data; ret (err_of created) })
        (\<lambda>_ t. justified (secret_step r) (call_log t)) t"
      by (auto simp: wp_simps split: option.splits intro!: wp_use [OF secret_create_pinned])
  qed
  show ?thesis
    unfolding keeps_def ensure_bundle_def getSecret_def
    by (auto simp: wp_simps split: sum.splits intro!: create)
qed

lemma secret_sessionSecret: "keeps (secret_step r) (sessionSecret r)"
proof -
  have fill: "keeps (secret_step r) (fill_session_keys r names data)" for names data
    by (rule calls_keeps_secret [OF calls_fill_session_keys]) simp
  have create: "wp (fill_session_keys r names init)
      (\<lambda>a. wp (case a of Inl e \<Rightarrow> ret (Inl e) | Inr data \<Rightarrow> create_pinned_secret r name data)
        (\<lambda>_ t. justified (secret_step r) (call_log t))) s"
    if s: "justified (secret_step r) (call_log s)" "map_get (i_pins (local_inst s)) name = []"
      "(local_inst s, GetSecret (routeReader r) (i_namespace (local_inst s), name) (Inl NotFound)) \<in> set (call_log s)"
    for s names init name
    using s by (auto simp: wp_simps split: sum.splits intro!: secret_create_pinned
        intro!: wp_use [OF wp_advanced [OF fill calls_fill_session_keys steady_fill_session_keys]])
  show ?thesis
    unfolding keeps_def sessionSecret_def getSecret_def
    by (auto simp: wp_simps Let_def split: sum.splits intro!: create)
qed

subsection \<open>The rest of the reconciler\<close>

lemma secret_frames:
  "keeps (secret_step r) (getInst r rd k)"
  "keeps (secret_step r) (getSecret r rd k)"
  "keeps (secret_step r) (updateInstance r i)"
  "keeps (secret_step r) (withdrawAccess r)"
  "keeps (secret_step r) (stopUnapprovedDeployment r force)"
  "keeps (secret_step r) (checkHostname r host)"
  "keeps (secret_step r) (reconcileDeployment r labels n img checksum b)"
  "keeps (secret_step r) (reconcileService r labels name)"
  "keeps (secret_step r) (reconcileIngress r labels name host path)"
  "keeps (secret_step r) (report_readiness r name host)"
  by ((rule calls_keeps_secret [OF call_kinds(1) [of "{Reading}"]] calls_keeps_secret [OF call_kinds(5) [of "{Reading}"]]
      calls_keeps_secret [OF call_kinds(15) [of "{InstanceWrite}"]] calls_keeps_secret [OF calls_withdrawAccess]
      calls_keeps_secret [OF calls_stopUnapprovedDeployment] calls_keeps_secret [OF calls_checkHostname]
      calls_keeps_secret [OF calls_reconcileDeployment] calls_keeps_secret [OF calls_reconcileService]
      calls_keeps_secret [OF calls_reconcileIngress] calls_keeps_secret [OF calls_report_readiness]); simp)+

lemma secret_handlers:
  "keeps (secret_step r) (rejectImage r message)"
  "keeps (secret_step r) (denyAccess r cause)"
  "keeps (secret_step r) (rejectReplicas r)"
  "keeps (secret_step r) (stopForHostnameFailure r cause)"
  unfolding rejectImage_def denyAccess_def rejectReplicas_def stopForHostnameFailure_def
  by (rule keeps_intros secret_frames secret_updateImagePolicyStatus secret_hostnameFailure)+

lemma secret_Reconcile: "keeps (secret_step r) (Reconcile r req)"
  unfolding Reconcile_def reconcile_gated_def reconcile_limited_def reconcile_hosted_def reconcile_workload_def reconcile_deploy_def reconcile_publish_def prepareAccess_def prepare_bundle_def
    selectedInstanceHost_def
  by (rule keeps_intros secret_frames secret_handlers secret_updateImagePolicyStatus secret_ensureSlug
      secret_sessionSecret secret_ensure_bundle)+


end
