(* ===== verification/Guarded_Pod.thy ===== *)
theory Guarded_Pod
  imports Workload
begin

text \<open>
  The pod template of an instance: \<open>managedAccessTemplate\<close> reaches a fixed point in one step, and
  what a template at that fixed point runs, mounts and exposes.
\<close>

subsection \<open>Convergence of the managed template\<close>

lemma managed_probe_idem [simp]: "managed_probe (managed_probe p) = managed_probe p"
  by (cases "pr_http_get p") (simp_all add: managed_probe_def)

lemma managed_probe_idem_map: "map_option managed_probe (map_option managed_probe p) = map_option managed_probe p"
  by (cases p) simp_all

lemma managed_volume_idem: "managed_volume (managed_volume v) = managed_volume v"
  by (cases "vol_secret v") (simp_all add: managed_volume_def)

lemma fmadd_idem: "fmadd (fmadd m n) n = fmadd m n"
  by (intro fmap_ext) simp

lemma admitted_resources_append:
  "admitted_resources (xs @ ys) c =
     foldl (\<lambda>res old. if c_name old = c_name c then c_resources old else res) (admitted_resources xs c) ys"
  by (simp add: admitted_resources_def)

lemma admitted_none:
  "c_name c \<notin> c_name ` set xs \<Longrightarrow>
   foldl (\<lambda>res old. if c_name old = c_name c then c_resources old else res) a xs = a"
  by (induction xs rule: rev_induct) auto

lemma managed_container_name [simp]: "c_name (managed_container xs c) = c_name c"
  by (simp add: managed_container_def)

lemma managed_container_resources [simp]: "c_resources (managed_container xs c) = admitted_resources xs c"
  by (simp add: managed_container_def)

text \<open>With distinct names, a container keeps the sizing it was admitted with.\<close>

lemma admitted_resources_managed:
  assumes "distinct (map c_name cs)" "c \<in> set cs" "c_name d = c_name c"
  shows "admitted_resources (map (managed_container xs) cs) d = admitted_resources xs c"
proof -
  from assms(2) obtain as bs where cs: "cs = as @ c # bs" by (meson split_list)
  with assms(1) have "c_name c \<notin> c_name ` set bs" by auto
  with assms(3) have "c_name d \<notin> c_name ` set (map (managed_container xs) bs)" by (auto simp: image_iff)
  from admitted_none [OF this] show ?thesis
    unfolding cs admitted_resources_def by (simp add: assms(3) admitted_resources_def)
qed

lemma managed_containers_idem:
  assumes "distinct (map c_name cs)" "c \<in> set cs"
  shows "managed_container (map (managed_container xs) cs) c = managed_container xs c"
  using admitted_resources_managed [OF assms refl] by (simp add: managed_container_def)

lemma managedAccessTemplate_idem:
  assumes "distinct (map c_name (p_containers (t_spec desired)))"
  shows "managedAccessTemplate (managedAccessTemplate existing desired) desired =
         managedAccessTemplate existing desired"
  unfolding managedAccessTemplate_def using managed_containers_idem [OF assms]
  by (simp add: fmadd_idem)

text \<open>A template built from itself is a fixed point for itself.\<close>

lemma managed_self_container:
  assumes "distinct (map c_name cs)" "c \<in> set cs"
  shows "managed_container (map (managed_container cs) cs) (managed_container cs c) = managed_container cs c"
proof -
  have "admitted_resources (map (managed_container cs) cs) (managed_container cs c) = admitted_resources cs c"
    by (rule admitted_resources_managed [OF assms]) simp
  then show ?thesis
    by (simp add: managed_container_def managed_probe_idem_map comp_def)
qed

lemma managed_self_idem:
  assumes "distinct (map c_name (p_containers (t_spec t)))"
  shows "managedAccessTemplate (managedAccessTemplate t t) (managedAccessTemplate t t) = managedAccessTemplate t t"
  unfolding managedAccessTemplate_def
  using managed_self_container [OF assms] managed_volume_idem
  by (simp add: fmadd_idem comp_def)

subsection \<open>The template the operator writes\<close>

abbreviation desired_template ::
  "'w reconciler \<Rightarrow> chat_instance \<Rightarrow> gomap \<Rightarrow> int \<Rightarrow> string \<Rightarrow> string \<Rightarrow> access_bundle \<Rightarrow> pod_template" where
  "desired_template r inst labels n img checksum b \<equiv> d_template (desiredDeployment r inst labels n img checksum b)"

definition guarded_containers ::
  "'w reconciler \<Rightarrow> chat_instance \<Rightarrow> string \<Rightarrow> access_bundle \<Rightarrow> container list" where
  "guarded_containers r inst img b =
     [guarded_webui b (webui_container (r_lib r) inst img), gate_container (proxy_image r), oauth_container b]"

lemma guarded_container_names:
  "map c_name (guarded_containers r inst img b) = [''open-webui'', ''instance-access'', ''oauth2-proxy'']"
  by (simp add: guarded_containers_def guarded_webui_def webui_container_def gate_container_def oauth_container_def)

lemma desired_template_self:
  "\<exists>g. desired_template r inst labels n img checksum b = managedAccessTemplate g g \<and>
       p_containers (t_spec g) = guarded_containers r inst img b \<and>
       p_volumes (t_spec g) = access_volumes b \<and>
       t_labels g = fmupd instanceUIDLabel (i_uid inst) labels"
  by (rule exI [of _ "guard_template (d_template (buildDeployment (r_lib r) inst labels n img checksum)) inst b (proxy_image r)"])
     (simp add: desiredDeployment_def applyAccessDeployment_def guard_template_def buildDeployment_def
        guarded_containers_def Let_def)

lemma desired_containers:
  "p_containers (t_spec (desired_template r inst labels n img checksum b)) =
   map (managed_container (guarded_containers r inst img b)) (guarded_containers r inst img b)"
  using desired_template_self [of r inst labels n img checksum b]
  by (auto simp: managedAccessTemplate_def)

lemma desired_distinct: "distinct (map c_name (p_containers (t_spec (desired_template r inst labels n img checksum b))))"
proof -
  have "map c_name (p_containers (t_spec (desired_template r inst labels n img checksum b))) =
      map c_name (guarded_containers r inst img b)"
    by (simp add: desired_containers)
  then show ?thesis by (simp add: guarded_container_names)
qed

lemma desired_self_fixed:
  "managedAccessTemplate (desired_template r inst labels n img checksum b)
     (desired_template r inst labels n img checksum b) = desired_template r inst labels n img checksum b"
proof -
  obtain g where g: "desired_template r inst labels n img checksum b = managedAccessTemplate g g"
    "p_containers (t_spec g) = guarded_containers r inst img b"
    using desired_template_self by blast
  have "distinct (map c_name (p_containers (t_spec g)))"
    by (simp only: g(2) guarded_container_names) simp
  from managed_self_idem [OF this] show ?thesis by (simp only: g(1))
qed

text \<open>
  C11. The managed template converges in one step. After \<open>reconcileDeployment\<close> has written the
  managed form of any existing template, or has created the Deployment, computing the managed form
  again with the same inputs gives the same template: a second reconcile sees no drift and starts
  no cutover of the pods.
\<close>

theorem template_converges:
  "managedAccessTemplate (managedAccessTemplate existing (desired_template r inst labels n img checksum b))
     (desired_template r inst labels n img checksum b) =
   managedAccessTemplate existing (desired_template r inst labels n img checksum b) \<and>
   managedAccessTemplate (desired_template r inst labels n img checksum b)
     (desired_template r inst labels n img checksum b) =
   desired_template r inst labels n img checksum b"
  by (simp only: managedAccessTemplate_idem [OF desired_distinct] desired_self_fixed simp_thms)

text \<open>What a sealed pod is: three containers, none privileged, one open port for users.\<close>

definition unprivileged :: "container \<Rightarrow> bool" where
  "unprivileged c = (case c_security c of None \<Rightarrow> False
     | Some sc \<Rightarrow> sc_allow_escalation sc = Some False \<and> sc_run_as_non_root sc = Some True \<and> sc_drop sc = [''ALL''])"

definition open_ports :: "pod_template \<Rightarrow> (string \<times> int) list" where
  "open_ports t = concat (map (\<lambda>c. map (\<lambda>p. (c_name c, cp_port p)) (c_ports c)) (p_containers (t_spec t)))"

definition mounted_secrets :: "pod_template \<Rightarrow> string list" where
  "mounted_secrets t = concat (map (\<lambda>v. case vol_secret v of None \<Rightarrow> [] | Some sv \<Rightarrow> [sv_name sv]) (p_volumes (t_spec t)))"

definition sealed_pod :: "string \<Rightarrow> string \<Rightarrow> string \<Rightarrow> pod_template \<Rightarrow> bool" where
  "sealed_pod bundle img proxyImage t =
     (map (\<lambda>c. (c_name c, c_image c)) (p_containers (t_spec t)) =
        [(''open-webui'', img), (''instance-access'', proxyImage), (''oauth2-proxy'', OAuthImage)] \<and>
      p_init_containers (t_spec t) = [] \<and>
      list_all unprivileged (p_containers (t_spec t)) \<and>
      open_ports t = [(''instance-access'', 8083), (''oauth2-proxy'', 8080)] \<and>
      mounted_secrets t = [bundle, bundle, bundle] \<and>
      p_automount (t_spec t) = Some False \<and>
      \<not> p_host_network (t_spec t) \<and> \<not> p_host_pid (t_spec t) \<and> \<not> p_host_ipc (t_spec t) \<and>
      p_share_process_ns (t_spec t) = None)"


subsection \<open>The environment of Open WebUI\<close>

definition webui_env :: "pod_template \<Rightarrow> env_var list" where
  "webui_env t = concat (map c_env (filter (\<lambda>c. c_name c = ''open-webui'') (p_containers (t_spec t))))"

definition env_secrets :: "env_var list \<Rightarrow> (string \<times> string \<times> string) list" where
  "env_secrets env = List.map_filter (\<lambda>v. case env_value_from v of None \<Rightarrow> None
     | Some src \<Rightarrow> map_option (\<lambda>k. (env_name v, skr_name k, skr_key k)) (es_secret_key_ref src)) env"

lemma webui_env_written:
  "webui_env (managedAccessTemplate existing (desired_template r inst labels n img checksum b)) =
   base_env (r_lib r) inst @ access_env b"
proof -
  have "webui_env (managedAccessTemplate existing t) = webui_env t" for t
    by (simp add: webui_env_def managedAccessTemplate_def filter_map comp_def managed_container_def)
  moreover have "webui_env (desired_template r inst labels n img checksum b) =
      concat (map c_env (filter (\<lambda>c. c_name c = ''open-webui'') (guarded_containers r inst img b)))"
    by (simp add: webui_env_def desired_containers filter_map comp_def managed_container_def)
  ultimately show ?thesis
    by (simp add: guarded_containers_def guarded_webui_def webui_container_def gate_container_def
        oauth_container_def no_container_def)
qed

lemma webui_env_distinct: "distinct (map env_name (base_env lib inst @ access_env b))"
  unfolding base_env_def access_env_def plain_env_def secret_env_def list.map append.simps env_var.simps
  by simp

lemma webui_env_secrets:
  "env_secrets (base_env lib inst @ access_env b) =
     [(''WEBUI_SECRET_KEY'', sessionSecretName lib inst, ''webui-secret''),
      (''OPENAI_API_KEY'', i_credentials inst, ''OPENAI_API_KEY''),
      (''OPENAI_API_BASE_URL'', i_credentials inst, ''OPENAI_API_URL'')]"
  by (simp add: env_secrets_def base_env_def access_env_def plain_env_def secret_env_def List.map_filter_simps)

definition lockdown_env :: "env_var list" where
  "lockdown_env =
     [plain_env ''WEBUI_AUTH'' ''true'', plain_env ''ENABLE_LOGIN_FORM'' ''false'',
      plain_env ''ENABLE_SIGNUP'' ''false'', plain_env ''ENABLE_OAUTH_SIGNUP'' ''false'',
      plain_env ''ENABLE_INITIAL_ADMIN_SIGNUP'' ''false'', plain_env ''DEFAULT_USER_ROLE'' ''user'',
      plain_env ''ENABLE_ADMIN_EXPORT'' ''false'', plain_env ''ENABLE_ADMIN_CHAT_ACCESS'' ''false'',
      plain_env ''ENABLE_API_KEYS'' ''false'', plain_env ''ENABLE_CODE_EXECUTION'' ''false'',
      plain_env ''ENABLE_DIRECT_CONNECTIONS'' ''false'', plain_env ''WEBUI_AUTH_COOKIE_SECURE'' ''true'',
      plain_env ''HOST'' ''127.0.0.1'',
      plain_env ''WEBUI_AUTH_TRUSTED_EMAIL_HEADER'' EmailHeader,
      plain_env ''WEBUI_AUTH_TRUSTED_ROLE_HEADER'' RoleHeader]"

text \<open>
  C10. The environment of Open WebUI in every template the operator writes. No variable is set
  twice, so the access settings appended by \<open>applyAccessDeployment\<close> neither override nor are
  overridden by those of \<open>buildDeployment\<close>. Authentication is on, every way to sign up, to log in
  locally or to become an administrator is off, the server binds the loopback address, and the
  identity is taken from the two headers the access gate sets. Only three variables come from
  Secrets: the session key of this instance and the two credentials of the backend.
\<close>

theorem webui_environment_locked:
  "(let env = webui_env (managedAccessTemplate existing (desired_template r inst labels n img checksum b)) in
    distinct (map env_name env) \<and> set lockdown_env \<subseteq> set env \<and>
    plain_env ''CORS_ALLOW_ORIGIN'' (ab_public_url b) \<in> set env \<and>
    env_secrets env =
      [(''WEBUI_SECRET_KEY'', sessionSecretName (r_lib r) inst, ''webui-secret''),
       (''OPENAI_API_KEY'', i_credentials inst, ''OPENAI_API_KEY''),
       (''OPENAI_API_BASE_URL'', i_credentials inst, ''OPENAI_API_URL'')])"
  unfolding Let_def webui_env_written webui_env_secrets
  by (simp only: webui_env_distinct simp_thms)
     (simp add: lockdown_env_def base_env_def access_env_def trueValue_def)

end
