(* ===== verification/Publication.thy ===== *)
theory Publication
  imports Secret_Pins Guarded_Pod
begin

text \<open>
  The order of a reconcile: a route is published only behind every check. The predicates below
  name the evidence that the log of the run holds at the moment an Ingress is created or
  updated; the lemmas show which method leaves which evidence.
\<close>

subsection \<open>Evidence in the log\<close>

text \<open>The instance as first read: not being deleted, the supported image, at most one replica.\<close>

definition approved :: "'w reconciler \<Rightarrow> key \<Rightarrow> log_entry set \<Rightarrow> chat_instance \<Rightarrow> bool" where
  "approved r req L i \<longleftrightarrow>
     (\<exists>j. (j, GetInstance (routeReader r) req (Inr i)) \<in> L) \<and> meta_deleted (i_meta i) = None \<and>
     resolveImage (i_image i) = Inr SupportedImage \<and> i_replicas i \<le> 1"

definition host_selected :: "'w reconciler \<Rightarrow> chat_instance \<Rightarrow> string \<Rightarrow> bool" where
  "host_selected r i host \<longleftrightarrow>
     (\<exists>sel. Select (r_lib r) (r_hostname_policy r) (i_meta i) = Inr sel \<and>
            Host (r_lib r) (r_public_host r) (sel_slug sel) = Inr host)"

text \<open>
  The access bundle is a trusted Secret with exactly the content wanted, or was created with it
  in this run and its UID read back from the status.
\<close>

definition bundle_in_place :: "'w reconciler \<Rightarrow> log_entry set \<Rightarrow> string \<Rightarrow> gomap \<Rightarrow> bool" where
  "bundle_in_place r L name data \<longleftrightarrow>
     (\<exists>j x. (j, GetSecret (routeReader r) (i_namespace j, name) (Inr x)) \<in> L \<and>
        trusted_secret j x \<and> sec_data x = data) \<or>
     (\<exists>j x created k i. (j, CreateSecret x (Inr created)) \<in> L \<and>
        set_controller (r_lib r) (i_meta j) (new_meta (i_namespace j) name) = Inr (sec_meta x) \<and>
        sec_immutable x = Some True \<and> sec_data x = data \<and>
        (j, GetInstance (routeReader r) k (Inr i)) \<in> L \<and>
        map_get (i_pins i) (meta_name (sec_meta created)) = meta_uid (sec_meta created) \<and>
        meta_uid (sec_meta created) \<noteq> [])"

definition access_prepared :: "'w reconciler \<Rightarrow> log_entry set \<Rightarrow> string \<Rightarrow> access_bundle \<Rightarrow> bool" where
  "access_prepared r L host b \<longleftrightarrow>
     (\<exists>p e j credential key j'.
        r_access_policy r = Some p \<and> access_Select (Some p) (i_meta j) = Inr e \<and>
        r_public_scheme r = ''https'' \<and> ap_credentials_namespace p \<noteq> i_namespace j \<and>
        \<not> reserved_credentials (i_credentials j) \<and>
        (j, GetSecret (routeReader r) (ap_credentials_namespace p, ae_client_secret_name e) (Inr credential)) \<in> L \<and>
        16 \<le> length (map_get (sec_data credential) ''client_secret'') \<and> length key = 32 \<and>
        ab_public_url b = ''https://'' @ host \<and>
        (let data = bundle_data r p e (ab_public_url b) (map_get (sec_data credential) ''client_secret'') (URLEncode key)
         in ab_revision b = bundle_revision r p j' data \<and> ab_name b = ''chatui-access-'' @ ab_revision b \<and>
            bundle_in_place r L (ab_name b) data))"

text \<open>The Deployment was read, or written, at the fixed point of the managed template.\<close>

definition workload_guarded ::
  "'w reconciler \<Rightarrow> log_entry set \<Rightarrow> chat_instance \<Rightarrow> int \<Rightarrow> string \<Rightarrow> string \<Rightarrow> access_bundle \<Rightarrow> bool" where
  "workload_guarded r L inst n img checksum b \<longleftrightarrow>
     (\<exists>d d'. ((inst, GetDeployment (routeReader r) (chatui_key inst) (Inr d)) \<in> L \<and> ownedByInstance (d_meta d) inst \<or>
              (inst, CreateDeployment d (Inr d')) \<in> L \<or> (inst, UpdateDeployment d (Inr d')) \<in> L) \<and>
        d_replicas d = Some n \<and> strat_type (d_strategy d) = ''Recreate'' \<and>
        d_template d = managedAccessTemplate (d_template d)
          (desired_template r inst (uiLabels (i_name inst)) n img checksum b))"

definition service_in_place :: "'w reconciler \<Rightarrow> log_entry set \<Rightarrow> chat_instance \<Rightarrow> string \<Rightarrow> bool" where
  "service_in_place r L inst name \<longleftrightarrow>
     (\<exists>v v'. ((inst, GetService (routeReader r) (i_namespace inst, name) (Inr v)) \<in> L \<and> ownedByInstance (svc_meta v) inst \<or>
              (inst, CreateService v (Inr v')) \<in> L \<or> (inst, UpdateService v (Inr v')) \<in> L) \<and>
        svc_selector v = service_labels (uiLabels (i_name inst)) inst \<and> svc_ports v = service_ports \<and>
        svc_external_name v = [])"

text \<open>No other Ingress of the cluster claims the host.\<close>

definition hostname_free :: "'w reconciler \<Rightarrow> log_entry set \<Rightarrow> chat_instance \<Rightarrow> string \<Rightarrow> bool" where
  "hostname_free r L inst host \<longleftrightarrow>
     (\<exists>items. (inst, ListIngresses (routeReader r) (Inr items)) \<in> L \<and>
        (\<forall>ing \<in> set items. \<forall>rule \<in> set (ing_rules ing). claimsHost (ir_host rule) host \<longrightarrow>
           meta_key (ing_meta ing) = chatui_key inst \<and> ownsIngress inst ing))"

lemma evidence_mono:
  assumes "L \<subseteq> L'"
  shows "approved r req L i \<Longrightarrow> approved r req L' i"
    and "bundle_in_place r L name data \<Longrightarrow> bundle_in_place r L' name data"
    and "workload_guarded r L inst n img checksum b \<Longrightarrow> workload_guarded r L' inst n img checksum b"
    and "service_in_place r L inst name \<Longrightarrow> service_in_place r L' inst name"
    and "hostname_free r L inst host \<Longrightarrow> hostname_free r L' inst host"
proof -
  show "bundle_in_place r L name data \<Longrightarrow> bundle_in_place r L' name data"
    using assms unfolding bundle_in_place_def by blast
  show "approved r req L i \<Longrightarrow> approved r req L' i"
    using assms by (auto simp: approved_def)
  show "workload_guarded r L inst n img checksum b \<Longrightarrow> workload_guarded r L' inst n img checksum b"
    using assms unfolding workload_guarded_def by (meson subsetD)
  show "service_in_place r L inst name \<Longrightarrow> service_in_place r L' inst name"
    using assms unfolding service_in_place_def by (meson subsetD)
  show "hostname_free r L inst host \<Longrightarrow> hostname_free r L' inst host"
    using assms unfolding hostname_free_def by (meson subsetD)
qed

lemma access_prepared_mono:
  "access_prepared r L host b \<Longrightarrow> L \<subseteq> L' \<Longrightarrow> access_prepared r L' host b"
  unfolding access_prepared_def Let_def by (meson subsetD evidence_mono(2))

lemma wp_grows: "calls K m \<Longrightarrow> wp m (\<lambda>_ t. set (call_log s) \<subseteq> set (call_log t)) s"
  unfolding calls_def by (rule emits_grows)

subsection \<open>Which method leaves which evidence\<close>

lemma persist_evidence:
  "wp (persistAccessSecretPins r pins) (\<lambda>a t. set (call_log s) \<subseteq> set (call_log t) \<and>
     (a = None \<longrightarrow> (\<exists>k i. (local_inst s, GetInstance (routeReader r) k (Inr i)) \<in> set (call_log t) \<and>
        i_pins i = pins))) s"
  unfolding persistAccessSecretPins_def patchStatus_def getInst_def
  by (auto simp: wp_simps Let_def simp del: split_paired_Ex split: sum.splits)

lemma pin_evidence:
  "wp (pinAccessSecret r x) (\<lambda>a t. set (call_log s) \<subseteq> set (call_log t) \<and>
     (a = None \<longrightarrow> meta_uid (sec_meta x) \<noteq> [] \<and>
        (\<exists>k i. (local_inst s, GetInstance (routeReader r) k (Inr i)) \<in> set (call_log t) \<and>
        map_get (i_pins i) (meta_name (sec_meta x)) = meta_uid (sec_meta x)))) s"
  unfolding pinAccessSecret_def
  by (auto simp: wp_simps Let_def simp del: split_paired_Ex intro!: wp_use [OF persist_evidence]) fastforce+

lemma create_pinned_evidence:
  "wp (create_pinned_secret r name data)
     (\<lambda>a t. isl a \<or> bundle_in_place r (set (call_log t)) name data) s"
proof -
  have pinned: "wp (pinAccessSecret r created)
      (\<lambda>a. wp (case a of Some e \<Rightarrow> ret (Inl e) | None \<Rightarrow> ret (Inr created))
         (\<lambda>a t. isl a \<or> bundle_in_place r (set (call_log t)) name data)) t"
    if t: "(local_inst t, CreateSecret x (Inr created)) \<in> set (call_log t)"
      "set_controller (r_lib r) (i_meta (local_inst t)) (new_meta (i_namespace (local_inst t)) name) = Inr (sec_meta x)"
      "sec_immutable x = Some True" "sec_data x = data" for t x created
    using t by (auto simp: wp_simps bundle_in_place_def split: option.splits intro!: wp_use [OF pin_evidence]) blast+
  show ?thesis
    unfolding create_pinned_secret_def createSecret_def
    by (auto simp: wp_simps split: sum.splits intro!: pinned)
qed

lemma ensure_bundle_evidence:
  "wp (ensure_bundle r name data) (\<lambda>a t. a = None \<longrightarrow> bundle_in_place r (set (call_log t)) name data) s"
proof -
  have create: "wp (create_pinned_secret r name data)
      (\<lambda>a. wp (ret (err_of a)) (\<lambda>a t. a = None \<longrightarrow> bundle_in_place r (set (call_log t)) name data)) t" for t
    by (rule wp_use [OF create_pinned_evidence]) (auto simp: wp_simps err_of_def split: sum.splits)
  have room: "wp (makeAccessSecretRoom r)
      (\<lambda>a. wp (case a of Some e \<Rightarrow> ret (Some e)
        | None \<Rightarrow> do { created \<leftarrow> create_pinned_secret r name data; ret (err_of created) })
        (\<lambda>a t. a = None \<longrightarrow> bundle_in_place r (set (call_log t)) name data)) t" for t
    by (rule wp_use [where P = "\<lambda>_ _. True"]) (auto simp: wp_run [where m = "makeAccessSecretRoom r"] wp_simps create split: option.splits)
  have found: "bundle_in_place r L name (sec_data x)"
    if "(j, GetSecret (routeReader r) (i_namespace j, name) (Inr x)) \<in> L" "trusted_secret j x" for L j x
    using that unfolding bundle_in_place_def by blast
  show ?thesis
    unfolding ensure_bundle_def getSecret_def
    by (auto simp: wp_simps split: sum.splits intro!: room intro: found)
qed

lemma oauthCookieSecret_Inr:
  "oauthCookieSecret encoded = Inr c \<Longrightarrow> \<exists>key. length key = 32 \<and> c = URLEncode key \<and> StdDecode encoded = Some key"
  by (auto simp: oauthCookieSecret_def split: option.splits if_splits)

lemma prepare_bundle_evidence:
  "wp (prepare_bundle r p e host client) (\<lambda>a t.
     (\<forall>b. a = Inr b \<longrightarrow> (\<exists>key j. length key = 32 \<and> ab_public_url b = ''https://'' @ host \<and>
        (let data = bundle_data r p e (ab_public_url b) client (URLEncode key)
         in ab_revision b = bundle_revision r p j data \<and> ab_name b = ''chatui-access-'' @ ab_revision b \<and>
            bundle_in_place r (set (call_log t)) (ab_name b) data)))) s"
  unfolding prepare_bundle_def
  by (auto simp: wp_simps Let_def split: sum.splits option.splits dest!: oauthCookieSecret_Inr
      intro!: wp_use [OF wp_grows [OF calls_sessionSecret]] wp_use [OF ensure_bundle_evidence]) blast

lemma prepareAccess_evidence:
  "wp (prepareAccess r host) (\<lambda>a t. \<forall>b. a = Inr b \<longrightarrow> access_prepared r (set (call_log t)) host b) s"
  unfolding prepareAccess_def getSecret_def
  by (auto simp: wp_simps not_less split: sum.splits option.splits
      intro!: wp_use [OF wp_conj [OF prepare_bundle_evidence wp_grows [OF calls_prepare_bundle]]])
     (simp add: access_prepared_def, blast)

lemma write_error_None: "write_error reply = None \<Longrightarrow> \<exists>a. reply = Inr a"
  by (cases reply) auto

lemma workload_guarded_insert:
  "workload_guarded r L inst n img checksum b \<Longrightarrow> workload_guarded r (insert e L) inst n img checksum b"
  by (rule evidence_mono(3)) auto

lemma workload_guardedI:
  assumes "d_replicas d = Some n" "strat_type (d_strategy d) = ''Recreate''"
    "d_template d = managedAccessTemplate (d_template d) (desired_template r inst (uiLabels (i_name inst)) n img checksum b)"
  shows "ownedByInstance (d_meta d) inst \<Longrightarrow>
      workload_guarded r (insert (inst, GetDeployment (routeReader r) (chatui_key inst) (Inr d)) L) inst n img checksum b"
    and "workload_guarded r (insert (inst, CreateDeployment d (Inr d')) L) inst n img checksum b"
    and "workload_guarded r (insert (inst, UpdateDeployment d (Inr d')) L) inst n img checksum b"
  using assms unfolding workload_guarded_def by blast+

lemma desired_fixed_points:
  "managedAccessTemplate (managedAccessTemplate e (desired_template r inst labels n img checksum b))
     (desired_template r inst labels n img checksum b) =
   managedAccessTemplate e (desired_template r inst labels n img checksum b)"
  "managedAccessTemplate (desired_template r inst labels n img checksum b)
     (desired_template r inst labels n img checksum b) = desired_template r inst labels n img checksum b"
  by (rule managedAccessTemplate_idem [OF desired_distinct], rule desired_self_fixed)

lemma desired_scalars:
  "d_replicas (desiredDeployment r inst labels n img checksum b) = Some n"
  "strat_type (d_strategy (desiredDeployment r inst labels n img checksum b)) = ''Recreate''"
  by (simp_all add: desiredDeployment_def applyAccessDeployment_def buildDeployment_def Let_def)

lemma reconcileDeployment_evidence:
  fixes r :: "'w reconciler"
  shows "wp (reconcileDeployment r (uiLabels (i_name (local_inst s))) n img checksum b)
     (\<lambda>a t. a = None \<longrightarrow> workload_guarded r (set (call_log t)) (local_inst s) n img checksum b) s"
proof -
  let ?i = "local_inst s"
  let ?desired = "desired_template r ?i (uiLabels (i_name ?i)) n img checksum b"
  have cutover: "wp (waitForAccessCutover r existing) (\<lambda>_ t. local_inst t = local_inst u) u" for existing u
    using steady_waitForAccessCutover [of r existing] by (simp add: wp_run steady_def)
  show ?thesis
    unfolding reconcileDeployment_def getDeployment_def createDeployment_def updateDeployment_def
    by (auto simp: wp_simps Let_def desired_fixed_points desired_scalars split: sum.splits
        intro!: wp_use [OF cutover] dest!: write_error_None)
      (auto intro!: workload_guardedI(2,3) intro: workload_guardedI(1) workload_guarded_insert
        simp: desired_fixed_points desired_scalars)
qed

lemma service_in_place_insert: "service_in_place r L inst name \<Longrightarrow> service_in_place r (insert e L) inst name"
  by (rule evidence_mono(4)) auto

lemma service_in_placeI:
  assumes "svc_selector v = service_labels (uiLabels (i_name inst)) inst" "svc_ports v = service_ports"
    "svc_external_name v = []"
  shows "ownedByInstance (svc_meta v) inst \<Longrightarrow>
      service_in_place r (insert (inst, GetService (routeReader r) (i_namespace inst, name) (Inr v)) L) inst name"
    and "service_in_place r (insert (inst, CreateService v (Inr v')) L) inst name"
    and "service_in_place r (insert (inst, UpdateService v (Inr v')) L) inst name"
  using assms unfolding service_in_place_def by blast+

lemma reconcileService_evidence:
  "wp (reconcileService r (uiLabels (i_name (local_inst s))) name)
     (\<lambda>a t. a = None \<longrightarrow> service_in_place r (set (call_log t)) (local_inst s) name) s"
  unfolding reconcileService_def api_defs
  by (auto simp: wp_simps Let_def new_service_def managed_service_def split: sum.splits dest!: write_error_None)
     (auto intro!: service_in_placeI(2,3) intro: service_in_placeI(1) service_in_place_insert)

lemma checkHostname_evidence:
  "wp (checkHostname r host) (\<lambda>a t. a = None \<longrightarrow> hostname_free r (set (call_log t)) (local_inst s) host) s"
  unfolding checkHostname_def api_defs
  by (auto simp: wp_simps hostname_free_def list_ex_iff split: sum.splits option.splits if_splits)

subsection \<open>Publishing\<close>

text \<open>Everything that must hold before the Service and the route are touched.\<close>

definition gate_ready :: "'w reconciler \<Rightarrow> key \<Rightarrow> log_entry set \<Rightarrow> chat_instance \<Rightarrow> string \<Rightarrow> bool" where
  "gate_ready r req L inst host \<longleftrightarrow>
     (\<exists>i b credentials.
        approved r req L i \<and> host_selected r i host \<and> access_prepared r L host b \<and>
        (inst, GetSecret Cached (i_namespace inst, TrimSpace (i_credentials inst)) (Inr credentials)) \<in> L \<and>
        workload_guarded r L inst (if i_replicas inst \<le> 0 then 1 else i_replicas inst) SupportedImage
          (computeSecretChecksum (r_lib r) credentials) b)"

definition published :: "'w reconciler \<Rightarrow> key \<Rightarrow> log_entry set \<Rightarrow> chat_instance \<Rightarrow> ingress \<Rightarrow> bool" where
  "published r req L inst g \<longleftrightarrow>
     (\<exists>host. gate_ready r req L inst host \<and> service_in_place r L inst (chatui_name inst) \<and>
        hostname_free r L inst host \<and> wanted_rule host ''/'' (chatui_name inst) g \<and> wanted_class g)"

text \<open>
  The evidence behind Ready=True: the Deployment is rolled out, the Service has a ready endpoint
  on its port, and the probe of the Service and the lookup of the host succeeded.
\<close>

definition ready_evidence :: "'w reconciler \<Rightarrow> log_entry set \<Rightarrow> chat_instance \<Rightarrow> string \<Rightarrow> bool" where
  "ready_evidence r L j host \<longleftrightarrow>
     (\<exists>d subsets.
        (j, GetDeployment Cached (chatui_key j) (Inr d)) \<in> L \<and>
        meta_generation (d_meta d) \<le> d_observed_generation d \<and>
        desired_replicas d \<le> d_updated_replicas d \<and> desired_replicas d \<le> d_ready_replicas d \<and>
        desired_replicas d \<le> d_available_replicas d \<and>
        (j, GetEndpoints Cached (chatui_key j) (Inr subsets)) \<in> L \<and> has_ready_port 8080 subsets) \<and>
     (j, HealthCheck (serviceProbeURL (i_namespace j) (chatui_name j) 8080 ''/ping'') None) \<in> L \<and>
     (j, DNSCheck host None) \<in> L"

text \<open>A full status write reports progress of a gated instance, and Ready only on that evidence.\<close>

definition status_reported :: "'w reconciler \<Rightarrow> key \<Rightarrow> log_entry set \<Rightarrow> chat_instance \<Rightarrow> bool" where
  "status_reported r req L i \<longleftrightarrow>
     (\<exists>j host. gate_ready r req L j host \<and>
        ((\<exists>reason message. i = progress_status r j phaseProvisioning ''False'' host reason message) \<or>
         i = progress_status r j ''Ready'' ''True'' host ''Provisioned'' ''Chat UI is ready'' \<and>
         ready_evidence r L j host))"

definition publish_ok :: "'w reconciler \<Rightarrow> key \<Rightarrow> log_entry list \<Rightarrow> log_entry \<Rightarrow> bool" where
  "publish_ok r req past entry = (case entry of (inst, c) \<Rightarrow>
     (case c of
        CreateIngress g _ \<Rightarrow> published r req (set past) inst g
      | UpdateIngress g _ \<Rightarrow> published r req (set past) inst g
      | UpdateStatus i _ \<Rightarrow> status_reported r req (set past) i
      | _ \<Rightarrow> True))"

lemma publish_ok_free: "kind_of (snd e) \<notin> {RouteWrite, StatusWrite} \<Longrightarrow> publish_ok r req past e"
  by (cases e; cases "snd e") (auto simp: publish_ok_def)

lemma calls_keeps_publish: "calls K m \<Longrightarrow> K \<inter> {RouteWrite, StatusWrite} = {} \<Longrightarrow> keeps (publish_ok r req) m"
  by (erule calls_keeps, rule publish_ok_free) auto

lemma gate_ready_mono: "gate_ready r req L inst host \<Longrightarrow> L \<subseteq> L' \<Longrightarrow> gate_ready r req L' inst host"
  unfolding gate_ready_def
  by (elim exE conjE, intro exI conjI, erule evidence_mono(1) [rotated], assumption, assumption,
      erule access_prepared_mono, assumption, erule subsetD, assumption, erule evidence_mono(3) [rotated], assumption)

lemma published_mono: "published r req L inst g \<Longrightarrow> L \<subseteq> L' \<Longrightarrow> published r req L' inst g"
  unfolding published_def
  by (elim exE conjE, intro exI conjI, erule gate_ready_mono, assumption, erule evidence_mono(4) [rotated], assumption,
      erule evidence_mono(5) [rotated], assumption+)

lemma publish_upsert:
  assumes "justified (publish_ok r req) (call_log s)" "gate_ready r req (set (call_log s)) (local_inst s) host"
    and "service_in_place r (set (call_log s)) (local_inst s) (chatui_name (local_inst s))"
    and "hostname_free r (set (call_log s)) (local_inst s) host"
  shows "wp (upsert_ingress r labels (chatui_name (local_inst s)) host ''/'')
           (\<lambda>_ t. justified (publish_ok r req) (call_log t)) s"
proof -
  let ?i = "local_inst s"
  have ok: "published r req L ?i g"
    if "wanted_rule host ''/'' (chatui_name ?i) g" "wanted_class g" "set (call_log s) \<subseteq> L" for g L
    by (rule published_mono [OF _ that(3)]) (use assms that in \<open>auto simp: published_def\<close>)
  have new: "published r req L ?i ((buildDesiredIngress r ?i labels (chatui_name ?i) host ''/'')\<lparr>ing_meta := m\<rparr>)"
    if "set (call_log s) \<subseteq> L" for m L
    using build_route(2,3) by (intro ok) (simp_all add: that wanted_defs)
  have conv: "published r req L ?i g'"
    if "converge_ingress r (chatui_name ?i) host ''/'' g = (u, g')" "set (call_log s) \<subseteq> L" for u g g' L
    using that converge_route [where g' = g' and r = r and host = host and path = "''/''" and name = "chatui_name ?i" and g = g]
    by (intro ok) simp_all
  show ?thesis
    unfolding upsert_ingress_def getIngress_def createIngress_def updateIngress_def
    using assms(1) by (auto simp: wp_simps Let_def publish_ok_def split: sum.splits prod.splits intro!: new conv)
qed

text \<open>A call that keeps the log justified and leaves evidence behind.\<close>

lemma wp_evidence:
  assumes "keeps ok m" "calls K m" "justified ok (call_log s)" "wp m E s"
    and "\<And>a t. justified ok (call_log t) \<Longrightarrow> set (call_log s) \<subseteq> set (call_log t) \<Longrightarrow> E a t \<Longrightarrow> Q a t"
  shows "wp m Q s"
  by (rule wp_use [OF wp_conj [OF wp_conj [OF keepsD [OF assms(1,3)] wp_grows [OF assms(2)]] assms(4)]])
     (use assms(5) in blast)

lemma wp_steady_evidence:
  assumes "keeps ok m" "calls K m" "steady m" "justified ok (call_log s)" "wp m E s"
    and "\<And>a t. advanced ok s t \<Longrightarrow> E a t \<Longrightarrow> Q a t"
  shows "wp m Q s"
  by (rule wp_use [OF wp_conj [OF wp_advanced [OF assms(1-4)] assms(5)]]) (use assms(6) in blast)

lemma publish_reconcileIngress:
  assumes "justified (publish_ok r req) (call_log s)" "gate_ready r req (set (call_log s)) (local_inst s) host"
    and "service_in_place r (set (call_log s)) (local_inst s) (chatui_name (local_inst s))"
  shows "wp (reconcileIngress r labels (chatui_name (local_inst s)) host ''/'')
           (\<lambda>_ t. justified (publish_ok r req) (call_log t)) s"
  unfolding reconcileIngress_def wp_bind
proof (rule wp_steady_evidence [OF calls_keeps_publish [OF calls_checkHostname] calls_checkHostname
      steady_checkHostname assms(1) checkHostname_evidence])
  fix a :: "go_error option" and t
  assume t: "advanced (publish_ok r req) s t"
    and free: "a = None \<longrightarrow> hostname_free r (set (call_log t)) (local_inst s) host"
  have "wp (upsert_ingress r labels (chatui_name (local_inst t)) host ''/'')
      (\<lambda>_ t. justified (publish_ok r req) (call_log t)) t" if "a = None"
    using t free that assms(2,3) by (intro publish_upsert) (auto elim: gate_ready_mono evidence_mono(4) [rotated])
  with t show "wp (case a of Some e \<Rightarrow> ret (Some e) | None \<Rightarrow> upsert_ingress r labels (chatui_name (local_inst s)) host ''/'')
      (\<lambda>_ t. justified (publish_ok r req) (call_log t)) t"
    by (cases a) (simp_all add: wp_simps)
qed simp_all

lemma publish_handlers:
  "keeps (publish_ok r req) (rejectImage r message)"
  "keeps (publish_ok r req) (denyAccess r cause)"
  "keeps (publish_ok r req) (rejectReplicas r)"
  "keeps (publish_ok r req) (stopForHostnameFailure r cause)"
  by (rule calls_keeps_publish [OF calls_rejectImage] calls_keeps_publish [OF calls_denyAccess]
      calls_keeps_publish [OF calls_rejectReplicas] calls_keeps_publish [OF calls_stopForHostnameFailure]; simp)+

lemma publish_frames:
  "keeps (publish_ok r req) (getInst r rd k)"
  "keeps (publish_ok r req) (getSecret r rd k)"
  "keeps (publish_ok r req) (updateInstance r i)"
  "keeps (publish_ok r req) (withdrawAccess r)"
  "keeps (publish_ok r req) (stopUnapprovedDeployment r force)"
  "keeps (publish_ok r req) (updateImagePolicyStatus r phase reason message)"
  "keeps (publish_ok r req) (selectedInstanceHost r)"
  "keeps (publish_ok r req) (prepareAccess r host)"
  "keeps (publish_ok r req) (reconcileDeployment r labels n img checksum b)"
  "keeps (publish_ok r req) (reconcileService r labels name)"
  "keeps (publish_ok r req) (evaluateInstanceReadiness r name host)"
  by ((rule calls_keeps_publish [OF call_kinds(1) [of "{Reading}"]] calls_keeps_publish [OF call_kinds(5) [of "{Reading}"]]
      calls_keeps_publish [OF call_kinds(15) [of "{InstanceWrite}"]] calls_keeps_publish [OF calls_withdrawAccess]
      calls_keeps_publish [OF calls_stopUnapprovedDeployment] calls_keeps_publish [OF calls_updateImagePolicyStatus]
      calls_keeps_publish [OF calls_selectedInstanceHost] calls_keeps_publish [OF calls_prepareAccess]
      calls_keeps_publish [OF calls_reconcileDeployment] calls_keeps_publish [OF calls_reconcileService]
      calls_keeps_publish [OF calls_evaluateInstanceReadiness]); simp)+

lemma evaluate_evidence:
  "wp (evaluateInstanceReadiness r (chatui_name (local_inst s)) host)
     (\<lambda>a t. \<forall>reason message. a = Inr (True, reason, message) \<longrightarrow>
        ready_evidence r (set (call_log t)) (local_inst s) host) s"
  unfolding evaluateInstanceReadiness_def serviceHasReadyEndpoints_def runServiceHealthCheck_def runDNSCheck_def
    getDeployment_def getEndpoints_def
  by (auto simp: wp_simps Let_def ready_evidence_def deployment_pending_def not_less
      split: sum.splits option.splits if_splits)

lemma publish_report:
  fixes r :: "'w reconciler"
  assumes "justified (publish_ok r req) (call_log s)" "gate_ready r req (set (call_log s)) (local_inst s) host"
  shows "wp (report_readiness r (chatui_name (local_inst s)) host)
           (\<lambda>_ t. justified (publish_ok r req) (call_log t)) s"
  unfolding report_readiness_def wp_bind
proof (rule wp_steady_evidence [OF publish_frames(11) calls_evaluateInstanceReadiness
      steady_evaluateInstanceReadiness assms(1) evaluate_evidence])
  let ?i = "local_inst s"
  fix a :: "go_error + bool \<times> string \<times> string" and t :: "'w st"
  assume t: "advanced (publish_ok r req) s t"
    and ready: "\<forall>reason message. a = Inr (True, reason, message) \<longrightarrow> ready_evidence r (set (call_log t)) ?i host"
  have gate: "gate_ready r req (set (call_log t)) ?i host"
    using t gate_ready_mono [OF assms(2)] by blast
  have waiting: "status_reported r req (set (call_log t))
      (progress_status r ?i phaseProvisioning ''False'' host reason message)" for reason message
    using gate unfolding status_reported_def by blast
  have finished: "status_reported r req (set (call_log t))
      (progress_status r ?i ''Ready'' ''True'' host ''Provisioned'' ''Chat UI is ready'')"
    if "a = Inr (True, reason, message)" for reason message
    using gate ready that unfolding status_reported_def by blast
  show "wp (case a of Inl e \<Rightarrow> ret (no_result, Some e)
     | Inr (ready, reason, message) \<Rightarrow>
         if \<not> ready then do {
           statusErr \<leftarrow> updateProvisioningStatus r host reason message;
           (case statusErr of
              Some e \<Rightarrow> ret (no_result, Some e)
            | None \<Rightarrow> ret (requeue_after provisioningRequeueAfter, None))
         }
         else do {
           statusErr \<leftarrow> updateReadyStatus r host;
           (case statusErr of
              Some e \<Rightarrow> ret (no_result, Some e)
            | None \<Rightarrow> ret (requeue_after hostnameRecheckAfter, None))
         }) (\<lambda>_ t. justified (publish_ok r req) (call_log t)) t"
    unfolding updateProvisioningStatus_def updateReadyStatus_def write_status_def updateStatus_def
    using t waiting finished by (auto simp: wp_simps publish_ok_def split: sum.splits)
qed

lemma publish_publish:
  fixes r :: "'w reconciler"
  assumes "justified (publish_ok r req) (call_log s)" "gate_ready r req (set (call_log s)) (local_inst s) host"
  shows "wp (reconcile_publish r (uiLabels (i_name (local_inst s))) host)
           (\<lambda>_ t. justified (publish_ok r req) (call_log t)) s"
  unfolding reconcile_publish_def wp_bind wp_get_inst wp_Let
proof (rule wp_steady_evidence [OF publish_frames(10) calls_reconcileService steady_reconcileService
      assms(1) reconcileService_evidence])
  let ?i = "local_inst s"
  let ?ok = "\<lambda>_ t. justified (publish_ok r req) (call_log t)"
  fix a :: "go_error option" and t :: "'w st"
  assume t: "advanced (publish_ok r req) s t"
    and service: "a = None \<longrightarrow> service_in_place r (set (call_log t)) ?i (chatui_name ?i)"
  have gate: "gate_ready r req (set (call_log t)) ?i host"
    using t gate_ready_mono [OF assms(2)] by blast
  have route: "wp (reconcileIngress r labels (chatui_name ?i) host ''/'')
      (\<lambda>a. wp (case a of Some e \<Rightarrow> stopForHostnameFailure r e | None \<Rightarrow> report_readiness r (chatui_name ?i) host) ?ok) t"
    if "a = None" for labels
  proof (rule wp_use [OF wp_conj [OF wp_conj [OF _ wp_grows [OF calls_reconcileIngress]]]])
    show "wp (reconcileIngress r labels (chatui_name ?i) host ''/'') ?ok t"
      using publish_reconcileIngress [of r req t host labels] t service that gate by auto
    show "wp (reconcileIngress r labels (chatui_name ?i) host ''/'') (\<lambda>_ u. local_inst u = ?i) t"
      using steady_reconcileIngress [of r] t by (simp add: wp_run steady_def)
  next
    fix a :: "go_error option" and u :: "'w st"
    assume u: "(justified (publish_ok r req) (call_log u) \<and> set (call_log t) \<subseteq> set (call_log u)) \<and> local_inst u = ?i"
    then have "wp (report_readiness r (chatui_name ?i) host) ?ok u"
      using publish_report [of r req u host] gate_ready_mono [OF gate] by auto
    then show "wp (case a of Some e \<Rightarrow> stopForHostnameFailure r e | None \<Rightarrow> report_readiness r (chatui_name ?i) host) ?ok u"
      using u by (cases a) (simp_all add: keepsD [OF publish_handlers(4)])
  qed
  show "wp (case a of Some e \<Rightarrow> denyAccess r e
      | None \<Rightarrow> do {
          routed \<leftarrow> reconcileIngress r (uiLabels (i_name ?i)) (chatui_name ?i) host ''/'';
          case routed of Some e \<Rightarrow> stopForHostnameFailure r e | None \<Rightarrow> report_readiness r (chatui_name ?i) host
        }) ?ok t"
    using t route by (cases a) (simp_all add: wp_bind keepsD [OF publish_handlers(2)])
qed

lemma publish_deploy:
  fixes r :: "'w reconciler"
  assumes "justified (publish_ok r req) (call_log s)"
    and "approved r req (set (call_log s)) i" "host_selected r i host" "access_prepared r (set (call_log s)) host b"
    and "(local_inst s, GetSecret Cached (i_namespace (local_inst s), TrimSpace (i_credentials (local_inst s)))
           (Inr credentials)) \<in> set (call_log s)"
  shows "wp (reconcile_deploy r SupportedImage host b credentials)
           (\<lambda>_ t. justified (publish_ok r req) (call_log t)) s"
  unfolding reconcile_deploy_def wp_bind wp_get_inst wp_Let
proof (rule wp_steady_evidence [OF publish_frames(9) calls_reconcileDeployment steady_reconcileDeployment
      assms(1) reconcileDeployment_evidence])
  let ?i = "local_inst s"
  let ?n = "if i_replicas ?i \<le> 0 then 1 else i_replicas ?i"
  fix a :: "go_error option" and t :: "'w st"
  assume t: "advanced (publish_ok r req) s t"
    and guarded: "a = None \<longrightarrow> workload_guarded r (set (call_log t)) ?i ?n SupportedImage
      (computeSecretChecksum (r_lib r) credentials) b"
  have gate: "gate_ready r req (set (call_log t)) ?i host" if "a = None"
  proof -
    have "approved r req (set (call_log t)) i" "access_prepared r (set (call_log t)) host b"
      using t assms(2,4) evidence_mono(1) access_prepared_mono by blast+
    moreover have "(?i, GetSecret Cached (i_namespace ?i, TrimSpace (i_credentials ?i)) (Inr credentials)) \<in> set (call_log t)"
      using t assms(5) by blast
    ultimately show ?thesis
      using guarded that assms(3) unfolding gate_ready_def by blast
  qed
  show "wp (case a of Some e \<Rightarrow>
        if errors_Is e ErrAccessCutover
        then do {
          statusErr \<leftarrow> updateImagePolicyStatus r phaseProvisioning ''AccessMigration''
             ''Waiting for prior pods to stop before access migration'';
          ret (requeue_after provisioningRequeueAfter, statusErr)
        }
        else denyAccess r e
      | None \<Rightarrow> reconcile_publish r (uiLabels (i_name ?i)) host) (\<lambda>_ t. justified (publish_ok r req) (call_log t)) t"
    using t gate publish_publish [of r req t host]
    by (cases a) (auto simp: wp_simps intro!: keepsD [OF publish_handlers(2)]
        wp_use [OF keepsD [OF publish_frames(6)]])
qed

lemma selected_evidence:
  "wp (selectedInstanceHost r) (\<lambda>a t. \<forall>h. a = Inr h \<longrightarrow> host_selected r (local_inst s) h) s"
proof -
  have slug: "wp (ensureSlug r) (\<lambda>a t. \<forall>x. a = Inr x \<longrightarrow>
      (\<exists>sel. Select (r_lib r) (r_hostname_policy r) (i_meta (local_inst s)) = Inr sel \<and> x = sel_slug sel)) s"
    unfolding ensureSlug_def patchStatus_def getInst_def
    by (auto simp: wp_simps Let_def split: sum.splits)
  have check: "wp (checkHostname r host) (\<lambda>_ _. True) t" for host t by (simp add: wp_run)
  show ?thesis
    unfolding selectedInstanceHost_def
    by (auto simp: wp_simps host_selected_def instanceHost_def split: sum.splits option.splits
        intro!: wp_use [OF slug] wp_use [OF check])
qed

lemma publish_workload:
  fixes r :: "'w reconciler"
  assumes "justified (publish_ok r req) (call_log s)"
    and "approved r req (set (call_log s)) i" "host_selected r i host" "access_prepared r (set (call_log s)) host b"
  shows "wp (reconcile_workload r SupportedImage host b) (\<lambda>_ t. justified (publish_ok r req) (call_log t)) s"
proof -
  let ?i = "local_inst s"
  have deploy: "wp (reconcile_deploy r SupportedImage host b credentials) (\<lambda>_ t. justified (publish_ok r req) (call_log t)) t"
    if t: "justified (publish_ok r req) (call_log t)" "local_inst t = ?i"
      "call_log t = call_log s @ [(?i, GetSecret Cached (i_namespace ?i, TrimSpace (i_credentials ?i)) (Inr credentials))]"
    for t credentials
  proof (rule publish_deploy [OF t(1) _ assms(3)])
    have sub: "set (call_log s) \<subseteq> set (call_log t)" by (auto simp: t(3))
    show "approved r req (set (call_log t)) i" using assms(2) sub evidence_mono(1) by blast
    show "access_prepared r (set (call_log t)) host b" using assms(4) sub access_prepared_mono by blast
  qed (simp add: t)
  show ?thesis
    unfolding reconcile_workload_def updateInstance_def getSecret_def
    using assms(1) by (auto simp: wp_simps Let_def publish_ok_free split: sum.splits
        intro!: keepsD [OF publish_handlers(2)] deploy)
qed

lemma publish_hosted:
  fixes r :: "'w reconciler"
  assumes "justified (publish_ok r req) (call_log s)" "approved r req (set (call_log s)) i" "host_selected r i host"
  shows "wp (reconcile_hosted r SupportedImage host) (\<lambda>_ t. justified (publish_ok r req) (call_log t)) s"
  unfolding reconcile_hosted_def wp_bind
proof (rule wp_evidence [OF publish_frames(8) calls_prepareAccess assms(1) prepareAccess_evidence])
  fix a :: "go_error + access_bundle" and u :: "'w st"
  assume u: "justified (publish_ok r req) (call_log u)" "set (call_log s) \<subseteq> set (call_log u)"
    and b: "\<forall>b. a = Inr b \<longrightarrow> access_prepared r (set (call_log u)) host b"
  have "approved r req (set (call_log u)) i" using assms(2) u(2) evidence_mono(1) by blast
  then show "wp (case a of Inl e \<Rightarrow> denyAccess r e | Inr access \<Rightarrow> reconcile_workload r SupportedImage host access)
      (\<lambda>_ t. justified (publish_ok r req) (call_log t)) u"
    using u(1) b assms(3) by (cases a) (simp_all add: wp_simps keepsD [OF publish_handlers(2)] publish_workload)
qed

lemma publish_limited:
  fixes r :: "'w reconciler"
  assumes "justified (publish_ok r req) (call_log s)"
    and "i_replicas (local_inst s) \<le> 1 \<Longrightarrow> approved r req (set (call_log s)) (local_inst s)"
  shows "wp (reconcile_limited r SupportedImage) (\<lambda>_ t. justified (publish_ok r req) (call_log t)) s"
proof -
  let ?i = "local_inst s"
  have "wp (selectedInstanceHost r) (\<lambda>a. wp (case a of Inl e \<Rightarrow> stopForHostnameFailure r e
      | Inr host \<Rightarrow> reconcile_hosted r SupportedImage host) (\<lambda>_ t. justified (publish_ok r req) (call_log t))) s"
    if "i_replicas ?i \<le> 1"
  proof (rule wp_evidence [OF publish_frames(7) calls_selectedInstanceHost assms(1) selected_evidence])
    fix a :: "go_error + string" and u :: "'w st"
    assume u: "justified (publish_ok r req) (call_log u)" "set (call_log s) \<subseteq> set (call_log u)"
      and h: "\<forall>h. a = Inr h \<longrightarrow> host_selected r ?i h"
    have "approved r req (set (call_log u)) ?i" using assms(2) that u(2) evidence_mono(1) by blast
    then show "wp (case a of Inl e \<Rightarrow> stopForHostnameFailure r e
        | Inr host \<Rightarrow> reconcile_hosted r SupportedImage host) (\<lambda>_ t. justified (publish_ok r req) (call_log t)) u"
      using u(1) h by (cases a) (simp_all add: wp_simps keepsD [OF publish_handlers(4)] publish_hosted)
  qed
  then show ?thesis
    unfolding reconcile_limited_def
    using keepsD [OF publish_handlers(3) assms(1)] by (simp add: wp_simps)
qed

lemma publish_gated:
  fixes r :: "'w reconciler"
  assumes "justified (publish_ok r req) (call_log s)"
    and "i_replicas (local_inst s) \<le> 1 \<Longrightarrow> approved r req (set (call_log s)) (local_inst s)"
  shows "wp (reconcile_gated r SupportedImage) (\<lambda>_ t. justified (publish_ok r req) (call_log t)) s"
  unfolding reconcile_gated_def wp_bind
proof (rule wp_use [OF wp_advanced [OF publish_frames(5) calls_stopUnapprovedDeployment
      steady_stopUnapprovedDeployment assms(1)]])
  fix a :: "go_error + bool" and t :: "'w st"
  assume t: "advanced (publish_ok r req) s t"
  have "approved r req (set (call_log t)) (local_inst t)" if "i_replicas (local_inst t) \<le> 1"
  proof -
    from that t have "i_replicas (local_inst s) \<le> 1" by simp
    from evidence_mono(1) [OF _ assms(2) [OF this], of "set (call_log t)"] t show ?thesis by simp
  qed
  then have limited: "wp (reconcile_limited r SupportedImage) (\<lambda>_ t. justified (publish_ok r req) (call_log t)) t"
    by (intro publish_limited) (use t in simp_all)
  have withdraw: "keeps (publish_ok r req) (do {
      withdrawErr \<leftarrow> withdrawAccess r;
      statusErr \<leftarrow> updateImagePolicyStatus r phase reason message;
      ret (f withdrawErr statusErr :: result \<times> go_error option) })" for phase reason message f
    by (rule keeps_intros publish_frames)+
  show "wp (case a of
       Inl e \<Rightarrow> do {
         let (reason, message) =
           (if errors_Is e ErrDeploymentNotOwned
            then (''ImagePolicyError'', ''The named Deployment is not controlled by this ChatUIInstance'')
            else (''ImageCheckFailed'', ''The Deployment image could not be verified''));
         withdrawErr \<leftarrow> withdrawAccess r;
         statusErr \<leftarrow> updateImagePolicyStatus r phaseError reason message;
         ret (no_result, errors_Join [Some e, withdrawErr, statusErr])
       }
     | Inr True \<Rightarrow> do {
         withdrawErr \<leftarrow> withdrawAccess r;
         statusErr \<leftarrow> updateImagePolicyStatus r phaseProvisioning ''ImageMigration''
           ''Waiting for Deployment scale-down before using the supported image'';
         ret (requeue_after provisioningRequeueAfter, errors_Join [withdrawErr, statusErr])
       }
     | Inr False \<Rightarrow> reconcile_limited r SupportedImage) (\<lambda>_ t. justified (publish_ok r req) (call_log t)) t"
  proof (cases a)
    case (Inl e)
    then show ?thesis using t by (simp add: Let_def keepsD [OF withdraw] split: prod.splits)
  next
    case (Inr b)
    then show ?thesis using t limited by (cases b) (simp_all add: keepsD [OF withdraw])
  qed
qed

lemma publish_Reconcile:
  fixes r :: "'w reconciler"
  shows "keeps (publish_ok r req) (Reconcile r req)"
proof -
  have gated: "wp (reconcile_gated r img) (\<lambda>_ t. justified (publish_ok r req) (call_log t)) s"
    if "resolveImage (i_image (local_inst s)) = Inr img" "justified (publish_ok r req) (call_log s)"
      "meta_deleted (i_meta (local_inst s)) = None"
      "\<exists>j. (j, GetInstance (routeReader r) req (Inr (local_inst s))) \<in> set (call_log s)" for img and s :: "'w st"
  proof -
    have img: "img = SupportedImage"
      using that(1) by (auto simp: resolveImage_def split: if_splits)
    show ?thesis
      unfolding img by (rule publish_gated [OF that(2)]) (use that img in \<open>auto simp: approved_def\<close>)
  qed
  show ?thesis
    unfolding keeps_def Reconcile_def getInst_def updateInstance_def
    by (auto simp: wp_simps publish_ok_free Let_def split: sum.splits
        intro!: wp_use [OF keepsD [OF publish_handlers(1)]] gated)
qed

text \<open>
  C1. A route is published only behind every check. In the log of any reconcile, whatever the API
  server replies, when an Ingress is created or updated the same run has: read the instance as not
  being deleted, with the supported image and at most one replica; selected its host from the
  operator's hostname policy; found the instance in the access table, under https, and read a
  client secret of at least 16 bytes from the isolated namespace; an access bundle in place with
  exactly the content derived from these; read the backend credentials; the Deployment at the fixed
  point of the guarded template; the Service on the pods of this instance alone;
  and listed all Ingresses without finding another claim on the host. The Ingress written has
  exactly one rule, for that host.
\<close>

theorem route_published_behind_every_check:
  "justified (\<lambda>past entry. case entry of (inst, c) \<Rightarrow> (case c of
       CreateIngress g _ \<Rightarrow> published r req (set past) inst g
     | UpdateIngress g _ \<Rightarrow> published r req (set past) inst g
     | _ \<Rightarrow> True)) (reconcile_log r req w i)"
  by (rule justified_mono [OF reconcile_log_justified [OF publish_Reconcile]])
     (auto simp: publish_ok_def split: call.splits)


end
