(* ===== verification/Fail_Closed_Laws.thy ===== *)
theory Fail_Closed_Laws
  imports Publication
begin

text \<open>
  The denying handlers share a contract, stated as a locale: whatever the API server replies, the
  route of the instance is looked up and, if it is owned, deleted; and the Deployment is looked up
  and, if it is owned and not yet at zero, scaled to zero. Each is attempted even if the other
  failed.
\<close>

subsection \<open>What an attempt looks like in the log\<close>

definition route_withdrawal :: "'w reconciler \<Rightarrow> chat_instance \<Rightarrow> log_entry set \<Rightarrow> bool" where
  "route_withdrawal r inst L \<longleftrightarrow>
     (\<exists>res. (inst, GetIngress (routeReader r) (chatui_key inst) res) \<in> L \<and>
        (case res of
           Inl e \<Rightarrow> True
         | Inr g \<Rightarrow> ownsIngress inst g \<longrightarrow>
             (\<exists>deleted. (inst, DeleteIngress g (meta_uid (ing_meta g))
                (meta_resource_version (ing_meta g)) deleted) \<in> L)))"

definition workload_stop :: "'w reconciler \<Rightarrow> chat_instance \<Rightarrow> log_entry set \<Rightarrow> bool" where
  "workload_stop r inst L \<longleftrightarrow>
     (\<exists>res. (inst, GetDeployment (routeReader r) (chatui_key inst) res) \<in> L \<and>
        (case res of
           Inl e \<Rightarrow> True
         | Inr d \<Rightarrow> ownedByInstance (d_meta d) inst \<and> d_replicas d \<noteq> Some 0 \<longrightarrow>
             (\<exists>updated. (inst, UpdateDeployment (d\<lparr>d_replicas := Some 0\<rparr>) updated) \<in> L)))"

text \<open>The same attempts, and they succeeded: no route of ours and no running workload of ours is left.\<close>

definition route_gone :: "'w reconciler \<Rightarrow> chat_instance \<Rightarrow> log_entry set \<Rightarrow> bool" where
  "route_gone r inst L \<longleftrightarrow>
     (inst, GetIngress (routeReader r) (chatui_key inst) (Inl NotFound)) \<in> L \<or>
     (\<exists>g deleted. (inst, GetIngress (routeReader r) (chatui_key inst) (Inr g)) \<in> L \<and> ownsIngress inst g \<and>
        (inst, DeleteIngress g (meta_uid (ing_meta g)) (meta_resource_version (ing_meta g)) deleted) \<in> L \<and>
        deleted \<in> {Inr (), Inl NotFound})"

definition workload_down :: "'w reconciler \<Rightarrow> chat_instance \<Rightarrow> log_entry set \<Rightarrow> bool" where
  "workload_down r inst L \<longleftrightarrow>
     (inst, GetDeployment (routeReader r) (chatui_key inst) (Inl NotFound)) \<in> L \<or>
     (\<exists>d. (inst, GetDeployment (routeReader r) (chatui_key inst) (Inr d)) \<in> L \<and> ownedByInstance (d_meta d) inst \<and>
        (d_replicas d = Some 0 \<or>
         (\<exists>d'. (inst, UpdateDeployment (d\<lparr>d_replicas := Some 0\<rparr>) (Inr d')) \<in> L)))"

definition foreign_route :: "'w reconciler \<Rightarrow> chat_instance \<Rightarrow> log_entry set \<Rightarrow> bool" where
  "foreign_route r inst L \<longleftrightarrow>
     (\<exists>g. (inst, GetIngress (routeReader r) (chatui_key inst) (Inr g)) \<in> L \<and> \<not> ownsIngress inst g)"

lemma attempt_mono:
  assumes "L \<subseteq> L'"
  shows "route_withdrawal r inst L \<Longrightarrow> route_withdrawal r inst L'"
    and "workload_stop r inst L \<Longrightarrow> workload_stop r inst L'"
    and "route_gone r inst L \<Longrightarrow> route_gone r inst L'"
    and "workload_down r inst L \<Longrightarrow> workload_down r inst L'"
proof -
  show "route_withdrawal r inst L'" if "route_withdrawal r inst L"
  proof -
    from that obtain res where "(inst, GetIngress (routeReader r) (chatui_key inst) res) \<in> L"
      "case res of Inl e \<Rightarrow> True | Inr g \<Rightarrow> ownsIngress inst g \<longrightarrow>
         (\<exists>deleted. (inst, DeleteIngress g (meta_uid (ing_meta g)) (meta_resource_version (ing_meta g)) deleted) \<in> L)"
      by (auto simp: route_withdrawal_def)
    with assms show ?thesis
      unfolding route_withdrawal_def by (intro exI [of _ res]) (auto split: sum.splits)
  qed
  show "workload_stop r inst L'" if "workload_stop r inst L"
  proof -
    from that obtain res where "(inst, GetDeployment (routeReader r) (chatui_key inst) res) \<in> L"
      "case res of Inl e \<Rightarrow> True | Inr d \<Rightarrow> ownedByInstance (d_meta d) inst \<and> d_replicas d \<noteq> Some 0 \<longrightarrow>
         (\<exists>updated. (inst, UpdateDeployment (d\<lparr>d_replicas := Some 0\<rparr>) updated) \<in> L)"
      by (auto simp: workload_stop_def)
    with assms show ?thesis
      unfolding workload_stop_def by (intro exI [of _ res]) (auto split: sum.splits)
  qed
  show "route_gone r inst L \<Longrightarrow> route_gone r inst L'"
    unfolding route_gone_def using assms by blast
  show "workload_down r inst L \<Longrightarrow> workload_down r inst L'"
    unfolding workload_down_def using assms by blast
qed

text \<open>The entries a method adds to the log satisfy \<open>P\<close>, together with its result.\<close>

definition leaves :: "('w, 'a) op \<Rightarrow> ('a \<Rightarrow> chat_instance \<Rightarrow> log_entry set \<Rightarrow> bool) \<Rightarrow> bool" where
  "leaves m P \<longleftrightarrow> (\<forall>s. wp m (\<lambda>a t. \<exists>es. call_log t = call_log s @ es \<and> P a (local_inst s) (set es)) s)"

subsection \<open>The two attempts\<close>

lemma withdrawAccess_leaves:
  "leaves (withdrawAccess r) (\<lambda>a inst L. route_withdrawal r inst L \<and> (a = None \<longrightarrow> route_gone r inst L) \<and>
     (\<forall>e. a = Some e \<longrightarrow> errors_Is e ErrIngressNotOwned \<longrightarrow> foreign_route r inst L))"
  unfolding leaves_def withdrawAccess_def api_defs
  by (auto simp: wp_simps route_withdrawal_def route_gone_def foreign_route_def split: sum.splits)

lemma stopUnapprovedDeployment_leaves:
  "leaves (stopUnapprovedDeployment r True) (\<lambda>a inst L. workload_stop r inst L \<and> (\<not> isl a \<longrightarrow> workload_down r inst L))"
  unfolding leaves_def stopUnapprovedDeployment_def api_defs
  by (auto simp: wp_simps Let_def workload_stop_def workload_down_def split: sum.splits option.splits
      dest!: write_error_None)

lemma leaves_steady:
  "leaves m P \<Longrightarrow> steady m \<Longrightarrow>
   wp m (\<lambda>a t. \<exists>es. call_log t = call_log s @ es \<and> local_inst t = local_inst s \<and> P a (local_inst s) (set es)) s"
  by (auto simp: leaves_def wp_run steady_def)

lemma leavesD:
  "leaves m P \<Longrightarrow> wp m (\<lambda>a t. \<exists>es. call_log t = call_log s @ es \<and> P a (local_inst s) (set es)) s"
  by (simp add: leaves_def)

text \<open>The status patch of a denial: no URL, the phase Error, Ready=False for this generation.\<close>

definition status_denied :: "'w reconciler \<Rightarrow> string \<Rightarrow> chat_instance \<Rightarrow> log_entry set \<Rightarrow> bool" where
  "status_denied r reason inst L \<longleftrightarrow>
     (\<exists>new message res. (new, PatchStatus inst new False res) \<in> L \<and> new = denied_status (r_lib r) inst phaseError reason message)"

lemma updateImagePolicyStatus_leaves:
  "leaves (updateImagePolicyStatus r phaseError reason message) (\<lambda>a inst L. status_denied r reason inst L)"
  unfolding leaves_def updateImagePolicyStatus_def patchStatus_def
  by (auto simp: wp_simps Let_def status_denied_def split: sum.splits)

lemma status_denied_mono: "status_denied r reason inst L \<Longrightarrow> L \<subseteq> L' \<Longrightarrow> status_denied r reason inst L'"
  unfolding status_denied_def by blast

subsection \<open>The contract of a denying handler\<close>

locale fail_closed =
  fixes r :: "'w reconciler"
    and handler :: "('w, 'a) op"
    and failure :: "'a \<Rightarrow> go_error option"
  assumes attempts: "leaves handler (\<lambda>a inst L. route_withdrawal r inst L \<and> workload_stop r inst L)"
    and honest: "leaves handler (\<lambda>a inst L. failure a = None \<longrightarrow>
      (route_gone r inst L \<or> foreign_route r inst L) \<and> workload_down r inst L)"
begin

text \<open>Read off the whole log after the handler.\<close>

lemma withdraws:
  "wp handler (\<lambda>a t. route_withdrawal r (local_inst s) (set (call_log t)) \<and> workload_stop r (local_inst s) (set (call_log t))) s"
proof (rule wp_use [OF leavesD [OF attempts]])
  fix t :: "'w st"
  assume "\<exists>es. call_log t = call_log s @ es \<and> route_withdrawal r (local_inst s) (set es) \<and> workload_stop r (local_inst s) (set es)"
  then show "route_withdrawal r (local_inst s) (set (call_log t)) \<and> workload_stop r (local_inst s) (set (call_log t))"
    using attempt_mono(1,2) [of _ "set (call_log t)"] by (metis set_append sup_ge2)
qed

lemma obeyed:
  "wp handler (\<lambda>a t. failure a = None \<longrightarrow>
     (route_gone r (local_inst s) (set (call_log t)) \<or> foreign_route r (local_inst s) (set (call_log t))) \<and>
     workload_down r (local_inst s) (set (call_log t))) s"
proof (rule wp_use [OF leavesD [OF honest]])
  fix a and t :: "'w st"
  assume "\<exists>es. call_log t = call_log s @ es \<and> (failure a = None \<longrightarrow>
      (route_gone r (local_inst s) (set es) \<or> foreign_route r (local_inst s) (set es)) \<and> workload_down r (local_inst s) (set es))"
  then obtain es where es: "set es \<subseteq> set (call_log t)" and "failure a = None \<longrightarrow>
      (route_gone r (local_inst s) (set es) \<or> foreign_route r (local_inst s) (set es)) \<and> workload_down r (local_inst s) (set es)"
    by (metis set_append sup_ge2)
  moreover have "foreign_route r (local_inst s) (set (call_log t))" if "foreign_route r (local_inst s) (set es)"
    using that es unfolding foreign_route_def by blast
  ultimately show "failure a = None \<longrightarrow>
     (route_gone r (local_inst s) (set (call_log t)) \<or> foreign_route r (local_inst s) (set (call_log t))) \<and>
     workload_down r (local_inst s) (set (call_log t))"
    using attempt_mono(3,4) [OF es] by blast
qed

end

text \<open>The common shape: withdraw, stop, then something that only adds to the log.\<close>

lemma handler_leaves:
  assumes "\<And>w x. leaves (rest w x) (\<lambda>a inst L. P w x a inst L)"
    and "\<And>w x a inst L L1 L2. P w x a inst L \<Longrightarrow> route_withdrawal r inst L1 \<Longrightarrow> (w = None \<Longrightarrow> route_gone r inst L1) \<Longrightarrow>
       (\<And>e. w = Some e \<Longrightarrow> errors_Is e ErrIngressNotOwned \<Longrightarrow> foreign_route r inst L1) \<Longrightarrow>
       workload_stop r inst L2 \<Longrightarrow> (\<not> isl x \<Longrightarrow> workload_down r inst L2) \<Longrightarrow> Q a inst (L1 \<union> (L2 \<union> L))"
  shows "leaves (do { w \<leftarrow> withdrawAccess r; x \<leftarrow> stopUnapprovedDeployment r True; rest w x }) Q"
  unfolding leaves_def
proof
  fix s
  show "wp (do { w \<leftarrow> withdrawAccess r; x \<leftarrow> stopUnapprovedDeployment r True; rest w x })
      (\<lambda>a t. \<exists>es. call_log t = call_log s @ es \<and> Q a (local_inst s) (set es)) s"
    unfolding wp_bind
    by (rule wp_use [OF leaves_steady [OF withdrawAccess_leaves steady_withdrawAccess]], elim exE conjE,
        rule wp_use [OF leaves_steady [OF stopUnapprovedDeployment_leaves steady_stopUnapprovedDeployment]], elim exE conjE,
        rule wp_use [OF leavesD [OF assms(1)]], elim exE conjE)
       (simp add: assms(2))
qed

lemma leaves_ret: "leaves (ret a) (\<lambda>a' inst L. a' = a)"
  by (simp add: leaves_def wp_return)

lemma image_status_leaves:
  "leaves (do { e \<leftarrow> updateImagePolicyStatus r phaseError reason message; ret (f e) })
     (\<lambda>a inst L. status_denied r reason inst L \<and> (\<exists>e. a = f e))"
  unfolding leaves_def wp_bind wp_return
  by (intro allI, rule wp_use [OF leavesD [OF updateImagePolicyStatus_leaves]]) blast

text \<open>What a denying handler leaves: both attempts, the denied status, and an honest error.\<close>

definition denied ::
  "'w reconciler \<Rightarrow> string \<Rightarrow> go_error option \<Rightarrow> chat_instance \<Rightarrow> log_entry set \<Rightarrow> bool" where
  "denied r reason failure inst L \<longleftrightarrow>
     route_withdrawal r inst L \<and> workload_stop r inst L \<and> status_denied r reason inst L \<and>
     (failure = None \<longrightarrow> route_gone r inst L \<and> workload_down r inst L)"

lemma deniedI:
  assumes "status_denied r reason inst L" "route_withdrawal r inst L1" "w = None \<Longrightarrow> route_gone r inst L1"
    "workload_stop r inst L2" "\<not> isl x \<Longrightarrow> workload_down r inst L2"
    "failure = None \<Longrightarrow> w = None \<and> \<not> isl x"
  shows "denied r reason failure inst (L1 \<union> (L2 \<union> L))"
  unfolding denied_def
  using assms status_denied_mono [OF assms(1), of "L1 \<union> (L2 \<union> L)"]
    attempt_mono(1) [of L1 "L1 \<union> (L2 \<union> L)"] attempt_mono(3) [of L1 "L1 \<union> (L2 \<union> L)"]
    attempt_mono(2) [of L2 "L1 \<union> (L2 \<union> L)"] attempt_mono(4) [of L2 "L1 \<union> (L2 \<union> L)"] by blast

lemma err_of_None: "err_of x = None \<Longrightarrow> \<not> isl x"
  by (cases x) auto

lemma rejectImage_denies:
  "leaves (rejectImage r message) (\<lambda>a inst L. denied r ''ImageNotAllowed'' a inst L)"
  unfolding rejectImage_def
  by (rule handler_leaves [OF image_status_leaves])
     (auto intro!: deniedI simp: errors_Join_None_iff dest: err_of_None)

lemma errors_Join_Some: "\<exists>j. errors_Join (Some e # es) = Some j"
  using errors_Join_None_iff [of "Some e # es"] by (cases "errors_Join (Some e # es)") auto

lemma denyAccess_denies:
  "leaves (denyAccess r cause) (\<lambda>a inst L. denied r ''AccessNotConfigured'' (snd a) inst L \<and> snd a \<noteq> None)"
  unfolding denyAccess_def
  by (rule handler_leaves [OF image_status_leaves])
     (auto intro!: deniedI simp: errors_Join_Some errors_Join_None_iff)

lemma rejectReplicas_denies:
  "leaves (rejectReplicas r) (\<lambda>a inst L. denied r ''UnsupportedReplicas'' (snd a) inst L)"
  unfolding rejectReplicas_def
  by (rule handler_leaves [OF image_status_leaves])
     (auto intro!: deniedI simp: errors_Join_None_iff dest: err_of_None)

lemma stopForHostnameFailure_closes:
  "leaves (stopForHostnameFailure r cause) (\<lambda>a inst L. route_withdrawal r inst L \<and> workload_stop r inst L \<and>
     (snd a = None \<longrightarrow> (route_gone r inst L \<or> foreign_route r inst L) \<and> workload_down r inst L))"
proof -
  have rest: "leaves (do { outcome \<leftarrow> hostnameFailure r cause;
      case outcome of (result, statusErr) \<Rightarrow> ret (result, errors_Join [w, x, statusErr]) })
      (\<lambda>a inst L. \<exists>y. snd a = errors_Join [w, x, y])" for w x
  proof -
    have "calls {StatusPatch} (hostnameFailure r cause)" by (rule calls_hostnameFailure)
    then show ?thesis
      unfolding leaves_def wp_bind calls_def emits_wp
      by (intro allI, elim allE, erule_tac wp_use) (auto simp: wp_simps split: prod.splits)
  qed
  have mono: "route_withdrawal r inst L1 \<Longrightarrow> route_withdrawal r inst (L1 \<union> L)"
    "route_gone r inst L1 \<Longrightarrow> route_gone r inst (L1 \<union> L)"
    "foreign_route r inst L1 \<Longrightarrow> foreign_route r inst (L1 \<union> L)"
    "workload_stop r inst L1 \<Longrightarrow> workload_stop r inst (L \<union> (L1 \<union> L'))"
    "workload_down r inst L1 \<Longrightarrow> workload_down r inst (L \<union> (L1 \<union> L'))" for inst L1 L L'
    using attempt_mono [of L1 "L1 \<union> L" r inst] attempt_mono [of L1 "L \<union> (L1 \<union> L')" r inst]
    by (auto simp: foreign_route_def)
  show ?thesis
    unfolding stopForHostnameFailure_def Let_def
    by (rule handler_leaves [OF rest])
       (auto simp: errors_Join_None_iff split: option.splits if_splits dest!: err_of_None intro!: mono)
qed

subsection \<open>The contract holds of all four\<close>

lemma leaves_mono:
  "leaves m P \<Longrightarrow> (\<And>a inst L. P a inst L \<Longrightarrow> Q a inst L) \<Longrightarrow> leaves m Q"
  unfolding leaves_def by (intro allI, elim allE, erule wp_use) blast

interpretation reject_image: fail_closed r "rejectImage r message" "\<lambda>a. a" for r message
  by unfold_locales (rule leaves_mono [OF rejectImage_denies], simp add: denied_def)+

interpretation deny_access: fail_closed r "denyAccess r cause" snd for r cause
  by unfold_locales (rule leaves_mono [OF denyAccess_denies], simp add: denied_def)+

interpretation reject_replicas: fail_closed r "rejectReplicas r" snd for r
  by unfold_locales (rule leaves_mono [OF rejectReplicas_denies], simp add: denied_def)+

interpretation stop_hostname: fail_closed r "stopForHostnameFailure r cause" snd for r cause
  by unfold_locales (rule leaves_mono [OF stopForHostnameFailure_closes], simp)+


subsection \<open>A whole reconcile closes the route or passed every check\<close>

definition closed_or_gated :: "'w reconciler \<Rightarrow> key \<Rightarrow> log_entry set \<Rightarrow> bool" where
  "closed_or_gated r req L \<longleftrightarrow>
     (\<exists>j e. (j, GetInstance (routeReader r) req (Inl e)) \<in> L) \<or>
     (\<exists>j i. (j, GetInstance (routeReader r) req (Inr i)) \<in> L \<and> meta_deleted (i_meta i) \<noteq> None) \<or>
     (\<exists>inst. route_withdrawal r inst L) \<or>
     (\<exists>i host b j i' res. approved r req L i \<and> host_selected r i host \<and> access_prepared r L host b \<and>
        (j, UpdateInstance i' res) \<in> L) \<or>
     (\<exists>inst host. gate_ready r req L inst host \<and> service_in_place r L inst (chatui_name inst) \<and>
        hostname_free r L inst host)"

lemma closed_withdrawn: "route_withdrawal r inst L \<Longrightarrow> closed_or_gated r req L"
  unfolding closed_or_gated_def by blast

lemma handlers_close:
  "wp (rejectImage r message) (\<lambda>_ t. closed_or_gated r req (set (call_log t))) s"
  "wp (denyAccess r cause) (\<lambda>_ t. closed_or_gated r req (set (call_log t))) s"
  "wp (rejectReplicas r) (\<lambda>_ t. closed_or_gated r req (set (call_log t))) s"
  "wp (stopForHostnameFailure r cause) (\<lambda>_ t. closed_or_gated r req (set (call_log t))) s"
  by (rule wp_use [OF reject_image.withdraws] wp_use [OF deny_access.withdraws] wp_use [OF reject_replicas.withdraws]
      wp_use [OF stop_hostname.withdraws]; blast intro: closed_withdrawn)+

lemma withdrawal_in_log:
  "wp (withdrawAccess r) (\<lambda>_ t. local_inst t = local_inst s \<and> route_withdrawal r (local_inst s) (set (call_log t))) s"
proof (rule wp_use [OF leaves_steady [OF withdrawAccess_leaves steady_withdrawAccess]])
  fix a :: "go_error option" and t
  assume "\<exists>es. call_log t = call_log s @ es \<and> local_inst t = local_inst s \<and>
     (route_withdrawal r (local_inst s) (set es) \<and> (a = None \<longrightarrow> route_gone r (local_inst s) (set es)) \<and>
     (\<forall>e. a = Some e \<longrightarrow> errors_Is e ErrIngressNotOwned \<longrightarrow> foreign_route r (local_inst s) (set es)))"
  then show "local_inst t = local_inst s \<and> route_withdrawal r (local_inst s) (set (call_log t))"
    using attempt_mono(1) [of _ "set (call_log t)"] by (metis set_append sup_ge2)
qed

lemma withdrawn_stays:
  "calls K m \<Longrightarrow> route_withdrawal r inst (set (call_log s)) \<Longrightarrow>
   wp m (\<lambda>_ t. route_withdrawal r inst (set (call_log t))) s"
  by (rule wp_use [OF wp_grows]) (auto intro: attempt_mono(1))

lemma cutover_withdraws:
  "wp (waitForAccessCutover r d) (\<lambda>_ t. route_withdrawal r (local_inst s) (set (call_log t))) s"
proof -
  have rest: "route_withdrawal r i L \<Longrightarrow> route_withdrawal r i (insert e L)" for i L e
    by (rule attempt_mono(1)) auto
  show ?thesis
    unfolding waitForAccessCutover_def wp_bind listPods_def updateDeployment_def
    by (rule wp_use [OF withdrawal_in_log])
       (auto simp: wp_simps rest split: option.splits sum.splits)
qed

lemma reconcileDeployment_cutover:
  "wp (reconcileDeployment r labels n img checksum b) (\<lambda>a t. \<forall>e. a = Some e \<longrightarrow> errors_Is e ErrAccessCutover \<longrightarrow>
      route_withdrawal r (local_inst s) (set (call_log t))) s"
proof -
  have rest: "route_withdrawal r i L \<Longrightarrow> route_withdrawal r i (insert e L)" for i L e
    by (rule attempt_mono(1)) auto
  have werr: "\<not> errors_Is e ErrAccessCutover" if "write_error res = Some e" for e and res :: "api_error + 'z"
    using that by (cases res) auto
  show ?thesis
    unfolding reconcileDeployment_def getDeployment_def createDeployment_def updateDeployment_def
    by (auto simp: wp_simps Let_def rest dest: werr split: sum.splits intro!: wp_use [OF cutover_withdraws])
qed

lemma reconcileIngress_evidence:
  fixes r :: "'w reconciler"
  shows "wp (reconcileIngress r labels name host path)
     (\<lambda>a t. a = None \<longrightarrow> hostname_free r (set (call_log t)) (local_inst s) host) s"
  unfolding reconcileIngress_def wp_bind
proof (rule wp_use [OF checkHostname_evidence])
  fix a :: "go_error option" and t :: "'w st"
  assume free: "a = None \<longrightarrow> hostname_free r (set (call_log t)) (local_inst s) host"
  have "wp (upsert_ingress r labels name host path)
      (\<lambda>a t. a = None \<longrightarrow> hostname_free r (set (call_log t)) (local_inst s) host) t" if "a = None"
    by (rule wp_use [OF wp_grows [OF calls_upsert_ingress]]) (use free that evidence_mono(5) in blast)
  then show "wp (case a of Some e \<Rightarrow> ret (Some e) | None \<Rightarrow> upsert_ingress r labels name host path)
      (\<lambda>a t. a = None \<longrightarrow> hostname_free r (set (call_log t)) (local_inst s) host) t"
    by (cases a) (simp_all add: wp_simps)
qed

lemma wp_steadily: "steady m \<Longrightarrow> wp m (\<lambda>_ t. local_inst t = local_inst s) s"
  by (simp add: wp_run steady_def)

lemma closed_publish:
  fixes r :: "'w reconciler"
  assumes "gate_ready r req (set (call_log s)) (local_inst s) host"
  shows "wp (reconcile_publish r (uiLabels (i_name (local_inst s))) host)
           (\<lambda>_ t. closed_or_gated r req (set (call_log t))) s"
  unfolding reconcile_publish_def wp_bind wp_get_inst wp_Let
proof (rule wp_use [OF wp_conj [OF wp_conj [OF reconcileService_evidence wp_grows [OF calls_reconcileService]]
      wp_steadily [OF steady_reconcileService]]])
  let ?i = "local_inst s"
  let ?Q = "\<lambda>_ t. closed_or_gated r req (set (call_log t))"
  fix a :: "go_error option" and t :: "'w st"
  assume t: "((a = None \<longrightarrow> service_in_place r (set (call_log t)) ?i (chatui_name ?i)) \<and>
      set (call_log s) \<subseteq> set (call_log t)) \<and> local_inst t = ?i"
  have route: "wp (reconcileIngress r labels (chatui_name ?i) host ''/'')
      (\<lambda>a. wp (case a of Some e \<Rightarrow> stopForHostnameFailure r e | None \<Rightarrow> report_readiness r (chatui_name ?i) host) ?Q) t"
    if "a = None" for labels
  proof (rule wp_use [OF wp_conj [OF reconcileIngress_evidence wp_grows [OF calls_reconcileIngress]]])
    fix b :: "go_error option" and u :: "'w st"
    assume u: "(b = None \<longrightarrow> hostname_free r (set (call_log u)) (local_inst t) host) \<and> set (call_log t) \<subseteq> set (call_log u)"
    have "closed_or_gated r req L" if "b = None" "set (call_log u) \<subseteq> L" for L
    proof -
      have sub: "set (call_log t) \<subseteq> L" "set (call_log s) \<subseteq> L" using u t that(2) by auto
      have "hostname_free r L ?i host" using u t that evidence_mono(5) by auto
      moreover have "service_in_place r L ?i (chatui_name ?i)"
        using t \<open>a = None\<close> evidence_mono(4) [OF sub(1)] by blast
      ultimately show ?thesis
        using gate_ready_mono [OF assms sub(2)] unfolding closed_or_gated_def by blast
    qed
    then have "wp (report_readiness r (chatui_name ?i) host) ?Q u" if "b = None"
      using that by (intro wp_use [OF wp_grows [OF calls_report_readiness]]) blast
    then show "wp (case b of Some e \<Rightarrow> stopForHostnameFailure r e | None \<Rightarrow> report_readiness r (chatui_name ?i) host) ?Q u"
      by (cases b) (simp_all add: handlers_close)
  qed
  show "wp (case a of Some e \<Rightarrow> denyAccess r e
      | None \<Rightarrow> do {
          routed \<leftarrow> reconcileIngress r (uiLabels (i_name ?i)) (chatui_name ?i) host ''/'';
          case routed of Some e \<Rightarrow> stopForHostnameFailure r e | None \<Rightarrow> report_readiness r (chatui_name ?i) host
        }) ?Q t"
    using route by (cases a) (simp_all add: wp_bind handlers_close)
qed

lemma gate_readyI:
  "approved r req L i \<Longrightarrow> host_selected r i host \<Longrightarrow> access_prepared r L host b \<Longrightarrow>
   (inst, GetSecret Cached (i_namespace inst, TrimSpace (i_credentials inst)) (Inr credentials)) \<in> L \<Longrightarrow>
   workload_guarded r L inst (if i_replicas inst \<le> 0 then 1 else i_replicas inst) SupportedImage
     (computeSecretChecksum (r_lib r) credentials) b \<Longrightarrow> gate_ready r req L inst host"
  unfolding gate_ready_def by blast

lemma closed_deploy:
  fixes r :: "'w reconciler"
  assumes "approved r req (set (call_log s)) i" "host_selected r i host" "access_prepared r (set (call_log s)) host b"
    and "(local_inst s, GetSecret Cached (i_namespace (local_inst s), TrimSpace (i_credentials (local_inst s)))
           (Inr credentials)) \<in> set (call_log s)"
  shows "wp (reconcile_deploy r SupportedImage host b credentials) (\<lambda>_ t. closed_or_gated r req (set (call_log t))) s"
  unfolding reconcile_deploy_def wp_bind wp_get_inst wp_Let
proof (rule wp_use [OF wp_conj [OF wp_conj [OF wp_conj [OF reconcileDeployment_evidence
      wp_grows [OF calls_reconcileDeployment]] wp_steadily [OF steady_reconcileDeployment]] reconcileDeployment_cutover]])
  let ?i = "local_inst s"
  let ?Q = "\<lambda>_ t. closed_or_gated r req (set (call_log t))"
  let ?n = "if i_replicas ?i \<le> 0 then 1 else i_replicas ?i"
  fix a :: "go_error option" and t :: "'w st"
  assume t: "(((a = None \<longrightarrow> workload_guarded r (set (call_log t)) ?i ?n SupportedImage
      (computeSecretChecksum (r_lib r) credentials) b) \<and> set (call_log s) \<subseteq> set (call_log t)) \<and> local_inst t = ?i) \<and>
    (\<forall>e. a = Some e \<longrightarrow> errors_Is e ErrAccessCutover \<longrightarrow> route_withdrawal r ?i (set (call_log t)))"
  then have sub: "set (call_log s) \<subseteq> set (call_log t)" by blast
  have publish: "wp (reconcile_publish r (uiLabels (i_name ?i)) host) ?Q t" if "a = None"
  proof -
    have "gate_ready r req (set (call_log t)) ?i host"
      by (rule gate_readyI [OF evidence_mono(1) [OF sub assms(1)] assms(2) access_prepared_mono [OF assms(3) sub]
            subsetD [OF sub assms(4)]]) (use t that in blast)
    then show ?thesis using closed_publish [of r req t host] t by simp
  qed
  have cutover: "wp (updateImagePolicyStatus r phase reason message) (\<lambda>x. wp (ret (f x)) ?Q) t"
    if "a = Some e" "errors_Is e ErrAccessCutover" for e phase reason message and f :: "go_error option \<Rightarrow> result \<times> go_error option"
    by (rule wp_use [OF withdrawn_stays [OF calls_updateImagePolicyStatus]])
       (use t that in \<open>auto simp: wp_return intro: closed_withdrawn\<close>)
  show "wp (case a of Some e \<Rightarrow>
        if errors_Is e ErrAccessCutover
        then do {
          statusErr \<leftarrow> updateImagePolicyStatus r phaseProvisioning ''AccessMigration''
             ''Waiting for prior pods to stop before access migration'';
          ret (requeue_after provisioningRequeueAfter, statusErr)
        }
        else denyAccess r e
      | None \<Rightarrow> reconcile_publish r (uiLabels (i_name ?i)) host) ?Q t"
    using publish cutover by (cases a) (simp_all add: wp_bind wp_return handlers_close)
qed

lemma closed_workload:
  fixes r :: "'w reconciler"
  assumes "approved r req (set (call_log s)) i" "host_selected r i host" "access_prepared r (set (call_log s)) host b"
  shows "wp (reconcile_workload r SupportedImage host b) (\<lambda>_ t. closed_or_gated r req (set (call_log t))) s"
proof -
  let ?i = "local_inst s"
  have marked: "closed_or_gated r req (insert (j, UpdateInstance i' res) (set (call_log s)))" for j i' res
  proof -
    have sub: "set (call_log s) \<subseteq> insert (j, UpdateInstance i' res) (set (call_log s))" by blast
    show ?thesis
      unfolding closed_or_gated_def
      using evidence_mono(1) [OF sub assms(1)] assms(2) access_prepared_mono [OF assms(3) sub] by blast
  qed
  have deploy: "wp (reconcile_deploy r SupportedImage host b credentials) (\<lambda>_ t. closed_or_gated r req (set (call_log t))) t"
    if t: "local_inst t = ?i"
      "call_log t = call_log s @ [(?i, GetSecret Cached (i_namespace ?i, TrimSpace (i_credentials ?i)) (Inr credentials))]"
    for t :: "'w st" and credentials
  proof (rule closed_deploy [OF _ assms(2)])
    have sub: "set (call_log s) \<subseteq> set (call_log t)" by (auto simp: t(2))
    show "approved r req (set (call_log t)) i" using assms(1) sub evidence_mono(1) by blast
    show "access_prepared r (set (call_log t)) host b" using assms(3) sub access_prepared_mono by blast
  qed (simp add: t)
  show ?thesis
    unfolding reconcile_workload_def updateInstance_def getSecret_def
    by (auto simp: wp_simps Let_def marked split: sum.splits intro!: handlers_close deploy)
qed

lemma closed_hosted:
  fixes r :: "'w reconciler"
  assumes "approved r req (set (call_log s)) i" "host_selected r i host"
  shows "wp (reconcile_hosted r SupportedImage host) (\<lambda>_ t. closed_or_gated r req (set (call_log t))) s"
  unfolding reconcile_hosted_def wp_bind
proof (rule wp_use [OF wp_conj [OF prepareAccess_evidence wp_grows [OF calls_prepareAccess]]])
  fix a :: "go_error + access_bundle" and u :: "'w st"
  assume u: "(\<forall>b. a = Inr b \<longrightarrow> access_prepared r (set (call_log u)) host b) \<and> set (call_log s) \<subseteq> set (call_log u)"
  then have "approved r req (set (call_log u)) i" using assms(1) evidence_mono(1) by blast
  then show "wp (case a of Inl e \<Rightarrow> denyAccess r e | Inr access \<Rightarrow> reconcile_workload r SupportedImage host access)
      (\<lambda>_ t. closed_or_gated r req (set (call_log t))) u"
    using u assms(2) by (cases a) (simp_all add: handlers_close closed_workload)
qed

lemma closed_limited:
  fixes r :: "'w reconciler"
  assumes "i_replicas (local_inst s) \<le> 1 \<Longrightarrow> approved r req (set (call_log s)) (local_inst s)"
  shows "wp (reconcile_limited r SupportedImage) (\<lambda>_ t. closed_or_gated r req (set (call_log t))) s"
proof -
  let ?i = "local_inst s"
  have "wp (selectedInstanceHost r) (\<lambda>a. wp (case a of Inl e \<Rightarrow> stopForHostnameFailure r e
      | Inr host \<Rightarrow> reconcile_hosted r SupportedImage host) (\<lambda>_ t. closed_or_gated r req (set (call_log t)))) s"
    if "i_replicas ?i \<le> 1"
  proof (rule wp_use [OF wp_conj [OF selected_evidence wp_grows [OF calls_selectedInstanceHost]]])
    fix a :: "go_error + string" and u :: "'w st"
    assume u: "(\<forall>h. a = Inr h \<longrightarrow> host_selected r ?i h) \<and> set (call_log s) \<subseteq> set (call_log u)"
    then have "approved r req (set (call_log u)) ?i" using assms that evidence_mono(1) by blast
    then show "wp (case a of Inl e \<Rightarrow> stopForHostnameFailure r e
        | Inr host \<Rightarrow> reconcile_hosted r SupportedImage host) (\<lambda>_ t. closed_or_gated r req (set (call_log t))) u"
      using u by (cases a) (simp_all add: handlers_close closed_hosted)
  qed
  then show ?thesis
    unfolding reconcile_limited_def by (simp add: wp_simps handlers_close)
qed

lemma withdraw_and_report_closes:
  "wp (do { withdrawErr \<leftarrow> withdrawAccess r; statusErr \<leftarrow> updateImagePolicyStatus r phase reason message;
        ret (f withdrawErr statusErr :: result \<times> go_error option) })
     (\<lambda>_ t. closed_or_gated r req (set (call_log t))) s"
  unfolding wp_bind wp_return
  by (rule wp_use [OF withdrawal_in_log], elim conjE, rule wp_use [OF withdrawn_stays [OF calls_updateImagePolicyStatus]], assumption)
     (rule closed_withdrawn)

lemma closed_gated:
  fixes r :: "'w reconciler"
  assumes "i_replicas (local_inst s) \<le> 1 \<Longrightarrow> approved r req (set (call_log s)) (local_inst s)"
  shows "wp (reconcile_gated r SupportedImage) (\<lambda>_ t. closed_or_gated r req (set (call_log t))) s"
  unfolding reconcile_gated_def wp_bind [where m = "stopUnapprovedDeployment r False"]
proof (rule wp_use [OF wp_conj [OF wp_grows [OF calls_stopUnapprovedDeployment] wp_steadily [OF steady_stopUnapprovedDeployment]]])
  fix a :: "go_error + bool" and t :: "'w st"
  assume t: "set (call_log s) \<subseteq> set (call_log t) \<and> local_inst t = local_inst s"
  then have "wp (reconcile_limited r SupportedImage) (\<lambda>_ t. closed_or_gated r req (set (call_log t))) t"
    by (intro closed_limited) (use assms evidence_mono(1) [of _ _ r req] in \<open>simp, blast\<close>)
  then show "wp (case a of
       Inl e \<Rightarrow> do {
         let (reason, message) =
           (if errors_Is e ErrDeploymentNotOwned
            then (''ImagePolicyError'', ''The named Deployment is not controlled by this ChatUIInstance'')
            else (''ImageCheckFailed'', ''The Deployment image could not be verified''));
         withdrawErr \<leftarrow> withdrawAccess r;
         statusErr \<leftarrow> updateImagePolicyStatus r phaseError reason message;
         ret (no_result, errors_Join [Some e, withdrawErr, statusErr])
       }
     | Inr True \<Rightarrow> do {
         withdrawErr \<leftarrow> withdrawAccess r;
         statusErr \<leftarrow> updateImagePolicyStatus r phaseProvisioning ''ImageMigration''
           ''Waiting for Deployment scale-down before using the supported image'';
         ret (requeue_after provisioningRequeueAfter, errors_Join [withdrawErr, statusErr])
       }
     | Inr False \<Rightarrow> reconcile_limited r SupportedImage) (\<lambda>_ t. closed_or_gated r req (set (call_log t))) t"
  proof (cases a)
    case (Inl e)
    then show ?thesis by (simp add: Let_def withdraw_and_report_closes split: prod.splits)
  next
    case (Inr b)
    then show ?thesis
      using \<open>wp (reconcile_limited r SupportedImage) _ t\<close> by (cases b) (simp_all add: withdraw_and_report_closes)
  qed
qed

lemma closed_Reconcile:
  fixes r :: "'w reconciler"
  shows "wp (Reconcile r req) (\<lambda>_ t. closed_or_gated r req (set (call_log t))) s"
proof -
  have gated: "wp (reconcile_gated r img) (\<lambda>_ t. closed_or_gated r req (set (call_log t))) t"
    if "resolveImage (i_image (local_inst t)) = Inr img" "meta_deleted (i_meta (local_inst t)) = None"
      "\<exists>j. (j, GetInstance (routeReader r) req (Inr (local_inst t))) \<in> set (call_log t)" for img and t :: "'w st"
  proof -
    have img: "img = SupportedImage"
      using that(1) by (auto simp: resolveImage_def split: if_splits)
    show ?thesis
      unfolding img by (rule closed_gated) (use that img in \<open>auto simp: approved_def\<close>)
  qed
  have unread: "closed_or_gated r req (insert (j, GetInstance (routeReader r) req (Inl e)) L)" for j e L
    unfolding closed_or_gated_def by blast
  have removed: "closed_or_gated r req L"
    if "(j, GetInstance (routeReader r) req (Inr x)) \<in> L" "meta_deleted (i_meta x) \<noteq> None" for j x L
    using that unfolding closed_or_gated_def by blast
  show ?thesis
    unfolding Reconcile_def getInst_def updateInstance_def
    by (auto simp: wp_simps unread Let_def split: sum.splits
        intro!: wp_use [OF handlers_close(1)] gated intro: removed)
qed


end
