(* ===== verification/Gate_Laws.thy ===== *)
theory Gate_Laws
  imports Access_Gate Fail_Closed_Laws
begin

text \<open>
  What the access gate guarantees: a request is relayed only with KCP's fresh approval of exactly the
  configured object, under the identity of the token, with headers and cookies the application can
  trust; a stream lives only as long as each recheck approves; the configuration the operator
  generates is one the gate accepts.
\<close>

subsection \<open>Authorization\<close>

text \<open>
  KCP answered the GET of the configured object made with this token, and the answer is exactly that
  object, by UID, name, namespace and cluster, and it is not being deleted.
\<close>

definition approves :: "'w gate \<Rightarrow> string \<Rightarrow> gate_call \<Rightarrow> bool" where
  "approves g token c \<longleftrightarrow>
     (let s = gc_source (g_config g);
          req = \<lparr>kq_url = gc_kcp_server (g_config g) @ source_Path s, kq_authorization = ''Bearer '' @ token,
                 kq_accept = ''application/json''\<rparr>
      in \<exists>body ob. c = KcpGet req (Response 200 (Some body)) \<and> length body \<le> 1048576 \<and>
        unmarshal_object body = Some ob \<and>
        ko_api_version ob = ''ui.privatellms.msp/v1alpha1'' \<and> ko_kind ob = ''ChatUIInstance'' \<and>
        ko_uid ob = src_uid s \<and> ko_name ob = src_name s \<and> ko_namespace ob = src_namespace s \<and>
        map_get (ko_annotations ob) ''kcp.io/cluster'' = src_cluster s \<and> ko_deleted ob = None)"

lemma approves_iff:
  "approves g token c \<longleftrightarrow>
     (\<exists>body ob. c = KcpGet (permission_request g token) (Response 200 (Some body)) \<and> length body \<le> 1048576 \<and>
        unmarshal_object body = Some ob \<and> source_matches (gc_source (g_config g)) ob)"
  unfolding approves_def Let_def source_matches_def permission_request_def by blast

text \<open>
  The token is issued by the configured issuer to the configured client, for a subject, and these give
  the identity and the expiry.
\<close>

definition token_names :: "'w gate \<Rightarrow> string \<Rightarrow> string \<Rightarrow> int \<Rightarrow> bool" where
  "token_names g token identity expires \<longleftrightarrow>
     (\<exists>c auds. claims_of token = Inr c \<and> audiences_of (cl_audience c) = Some auds \<and>
        cl_issuer c = gc_issuer (g_config g) \<and> cl_subject c \<noteq> [] \<and> gc_client_id (g_config g) \<in> set auds \<and>
        (cl_authorized_party c = gc_client_id (g_config g) \<or> cl_authorized_party c = [] \<and> length auds \<le> 1) \<and>
        identity = pseudonym (env_lib (g_env g)) (cl_issuer c) (cl_subject c) \<and>
        expires = unix_seconds (cl_expires c))"

definition asks :: "'w gate \<Rightarrow> string \<Rightarrow> gate_call set" where
  "asks g token = range (KcpGet (permission_request g token)) \<union> range Clock"

definition may_ask :: "'w gate \<Rightarrow> string \<Rightarrow> bool" where
  "may_ask g token \<longleftrightarrow> 0 < length token \<and> length token \<le> 65536 \<and> set token \<inter> {CHR '' '', byte 9, byte 10, byte 13} = {} \<and>
     parse_url (env_lib (g_env g)) (kq_url (permission_request g token)) \<noteq> None"

lemma may_ask_iff:
  "may_ask g token \<longleftrightarrow> credential_ok token \<and> parse_url (env_lib (g_env g)) (kq_url (permission_request g token)) \<noteq> None"
proof -
  have blank: "set blank_chars = {CHR '' '', byte 9, byte 10, byte 13}"
    unfolding blank_chars_def byte_chars(1) by auto
  have "ContainsAny token blank_chars \<longleftrightarrow> set token \<inter> set blank_chars \<noteq> {}"
    unfolding ContainsAny_def list_ex_iff by blast
  then have "credential_ok token \<longleftrightarrow> 0 < length token \<and> length token \<le> 65536 \<and> set token \<inter> set blank_chars = {}"
    unfolding credential_ok_def not_less [symmetric] by blast
  then show ?thesis unfolding may_ask_def blank by blast
qed

text \<open>The entries that a call of \<open>authorize\<close> leaves in the log, with its result.\<close>

definition authorized_by ::
  "'w gate \<Rightarrow> string \<Rightarrow> gate_call list \<Rightarrow> go_error + string \<times> int \<Rightarrow> bool" where
  "authorized_by g token made a \<longleftrightarrow>
     set made \<subseteq> asks g token \<and> (made = [] \<longleftrightarrow> \<not> may_ask g token) \<and>
     (\<forall>identity expires. a = Inr (identity, expires) \<longleftrightarrow>
        (\<exists>c t. made = [c, Clock t] \<and> approves g token c \<and> t < expires \<and> token_names g token identity expires))"

lemma authorized_byD:
  assumes "authorized_by g token made (Inr (identity, expires))"
  shows "may_ask g token"
    and "\<exists>c t. made = [c, Clock t] \<and> approves g token c \<and> t < expires \<and> token_names g token identity expires"
proof -
  let ?a = "Inr (identity, expires) :: go_error + string \<times> int"
  have "?a = Inr (identity, expires) \<longleftrightarrow>
      (\<exists>c t. made = [c, Clock t] \<and> approves g token c \<and> t < expires \<and> token_names g token identity expires)"
    using assms [unfolded authorized_by_def, THEN conjunct2, THEN conjunct2, rule_format] .
  then show "\<exists>c t. made = [c, Clock t] \<and> approves g token c \<and> t < expires \<and> token_names g token identity expires"
    by simp
  then have "made \<noteq> []" by blast
  then show "may_ask g token" using assms unfolding authorized_by_def by blast
qed

lemma wp_case_reply [wp_simps]:
  "wp (case r of Unreachable \<Rightarrow> m | Response status body \<Rightarrow> f status body) Q s =
     (case r of Unreachable \<Rightarrow> wp m Q s | Response status body \<Rightarrow> wp (f status body) Q s)"
  by (cases r) simp_all

lemma party_ok:
  "\<not> (1 < n \<and> azp \<noteq> client) \<and> \<not> (azp \<noteq> [] \<and> azp \<noteq> client) \<longleftrightarrow> azp = client \<or> azp = [] \<and> n \<le> (1 :: nat)"
  by auto

lemma oidcIdentity_log:
  "wp (oidcIdentity g token) (\<lambda>a t. \<exists>es. call_log t = call_log s @ es \<and>
     (map snd es = [] \<and> (\<exists>e. a = Inl e) \<and> (\<forall>identity expires. \<not> token_names g token identity expires) \<or>
      (\<exists>n. map snd es = [Clock n] \<and>
         (\<forall>identity expires. a = Inr (identity, expires) \<longleftrightarrow> n < expires \<and> token_names g token identity expires)))) s"
  unfolding oidcIdentity_def
  using party_ok [where client = "gc_client_id (g_config g)"]
  by (auto simp: wp_simps Let_def token_names_def split: sum.splits option.splits)

lemma authorize_log:
  "wp (authorize g token) (\<lambda>a t. \<exists>es. call_log t = call_log s @ es \<and> authorized_by g token (map snd es) a) s"
  unfolding authorize_def
  by (auto simp: wp_simps Let_def authorized_by_def may_ask_iff asks_def approves_iff
      split: http_reply.splits option.splits intro!: wp_use [OF oidcIdentity_log])

subsection \<open>Requests\<close>

text \<open>
  The checks before KCP is asked: the request is for the public host; it carries at most one origin, the
  public URL, and does carry it if it may change something or upgrades; only Socket.IO upgrades;
  of the authentication endpoints only four are open; and there is exactly one token.
\<close>

definition request_ok :: "'w gate \<Rightarrow> http_request \<Rightarrow> string \<Rightarrow> bool" where
  "request_ok g rq token \<longleftrightarrow>
     rq_host rq = g_host g \<and>
     length (header_values (rq_header rq) ''Origin'') \<le> 1 \<and>
     (let origin = header_get (rq_header rq) ''Origin'' in
        if origin = [] then rq_method rq \<in> {''GET'', ''HEAD'', ''OPTIONS''} \<and> \<not> wants_upgrade rq
        else origin = gc_public_url (g_config g)) \<and>
     (if wants_upgrade rq then Clean (rq_path rq) = ''/ws/socket.io'' else True) \<and>
     (if HasPrefix (Clean (rq_path rq)) ''/api/v1/auths/''
      then Clean (rq_path rq) \<in> {''/api/v1/auths/signin'', ''/api/v1/auths/signout'',
        ''/api/v1/auths/update/profile'', ''/api/v1/auths/update/timezone''} else True) \<and>
     header_values (rq_header rq) TokenHeader = [token] \<and> may_ask g token"

text \<open>The calls of one request, and the answer to the browser.\<close>

definition gate_log :: "'w gate \<Rightarrow> http_request \<Rightarrow> 'w \<Rightarrow> gate_call list" where
  "gate_log g rq w = map snd (call_log (snd (run_state (ServeHTTP g rq) \<lparr>world = w, local_inst = (), call_log = []\<rparr>)))"

definition gate_answer :: "'w gate \<Rightarrow> http_request \<Rightarrow> 'w \<Rightarrow> served" where
  "gate_answer g rq w = fst (run_state (ServeHTTP g rq) \<lparr>world = w, local_inst = (), call_log = []\<rparr>)"

definition relays :: "'w gate \<Rightarrow> http_request \<Rightarrow> string \<Rightarrow> bool \<Rightarrow> gate_call list \<Rightarrow> bool" where
  "relays g rq token answered made \<longleftrightarrow>
     (\<exists>c t identity expires. made = [c, Clock t, Relay (rewrite_request g identity rq) expires answered] \<and>
        approves g token c \<and> t < expires \<and> token_names g token identity expires)"

text \<open>What a request leaves: nothing if it fails a local check, else one authorization and at most a relay.\<close>

definition request_outcome :: "'w gate \<Rightarrow> http_request \<Rightarrow> gate_call list \<Rightarrow> served \<Rightarrow> bool" where
  "request_outcome g rq made a \<longleftrightarrow>
     (made = [] \<and> (\<forall>token. \<not> request_ok g rq token) \<and> (\<exists>status text. a = Refused status text \<and> status \<in> {400, 401, 403})) \<or>
     (\<exists>token. request_ok g rq token \<and>
        ((\<exists>e. made \<noteq> [] \<and> authorized_by g token made (Inl e) \<and> a = Refused 403 ''Chat UI access denied'') \<or>
         (\<exists>answered. relays g rq token answered made \<and>
            a = (if answered then Relayed else Refused 502 ''Application unavailable''))))"

lemma refused_early:
  assumes "\<And>token. \<not> request_ok g rq token" "status \<in> {400, 401, 403}"
  shows "wp (ret (Refused status text)) (\<lambda>a t. \<exists>es. call_log t = call_log s @ es \<and> request_outcome g rq (map snd es) a) s"
  using assms by (auto simp: wp_return request_outcome_def)

lemma refused_uncredible:
  assumes "\<not> may_ask g token" "header_values (rq_header rq) TokenHeader = [token]" "authorized_by g token [] (Inl e)"
  shows "request_outcome g rq [] (Refused 403 ''Chat UI access denied'')"
  using assms by (auto simp: request_outcome_def request_ok_def)

lemma admit_log:
  fixes g :: "'w gate"
  assumes ok: "may_ask g token \<Longrightarrow> request_ok g rq token" and token: "header_values (rq_header rq) TokenHeader = [token]"
  shows "wp (admit g rq token) (\<lambda>a t. \<exists>es. call_log t = call_log s @ es \<and> request_outcome g rq (map snd es) a) s"
  unfolding admit_def wp_bind [where m = "authorize g token"]
proof (rule wp_use [OF authorize_log], elim exE conjE)
  fix a :: "go_error + string \<times> int" and t :: "('w, unit, gate_call) run" and es
  assume t: "call_log t = call_log s @ es" and made: "authorized_by g token (map snd es) a"
  show "wp (case a of
             Inl e \<Rightarrow> ret (Refused 403 ''Chat UI access denied'')
           | Inr (identity, expires) \<Rightarrow> do {
               let out = rewrite_request g identity rq;
               answered \<leftarrow> external (relay (g_env g) out expires) (Relay out expires);
               ret (if answered then Relayed else Refused 502 ''Application unavailable'')
             }) (\<lambda>a t. \<exists>es. call_log t = call_log s @ es \<and> request_outcome g rq (map snd es) a) t"
  proof (cases a)
    case (Inl e)
    have "request_outcome g rq (map snd es) (Refused 403 ''Chat UI access denied'')"
    proof (cases "may_ask g token")
      case True
      then show ?thesis using made ok Inl by (auto simp: request_outcome_def authorized_by_def)
    next
      case False
      then have "es = []" using made by (simp add: authorized_by_def)
      then show ?thesis using refused_uncredible [OF False token] made Inl by simp
    qed
    then show ?thesis using t Inl by (auto simp: wp_return)
  next
    case (Inr p)
    then obtain identity expires where p: "a = Inr (identity, expires)" by (cases p) auto
    with made have ok: "authorized_by g token (map snd es) (Inr (identity, expires))" by simp
    obtain c n where es: "map snd es = [c, Clock n]" "approves g token c" "n < expires"
        "token_names g token identity expires"
      using authorized_byD(2) [OF ok] by (elim exE conjE)
    have "request_ok g rq token" by (rule assms(1) [OF authorized_byD(1) [OF ok]])
    then have outcome: "request_outcome g rq (map snd es @ [Relay (rewrite_request g identity rq) expires b])
        (if b then Relayed else Refused 502 ''Application unavailable'')" for b
      using es unfolding request_outcome_def relays_def by fastforce
    show ?thesis
      using t outcome by (auto simp: p wp_simps Let_def)
  qed
qed

lemma ServeHTTP_log:
  "wp (ServeHTTP g rq) (\<lambda>a t. \<exists>es. call_log t = call_log s @ es \<and> request_outcome g rq (map snd es) a) s"
proof -
  let ?vs = "header_values (rq_header rq) TokenHeader" and ?p = "Clean (rq_path rq)"
  have origin: "bad_origin g rq \<longleftrightarrow> \<not> (length (header_values (rq_header rq) ''Origin'') \<le> 1 \<and>
     (let origin = header_get (rq_header rq) ''Origin'' in
        if origin = [] then rq_method rq \<in> {''GET'', ''HEAD'', ''OPTIONS''} \<and> \<not> wants_upgrade rq
        else origin = gc_public_url (g_config g)))"
    by (auto simp: bad_origin_def unsafe_def Let_def)
  consider "rq_host rq \<noteq> g_host g" | "rq_host rq = g_host g" "bad_origin g rq"
    | "rq_host rq = g_host g" "\<not> bad_origin g rq" "wants_upgrade rq" "?p \<noteq> ''/ws/socket.io''"
    | "rq_host rq = g_host g" "\<not> bad_origin g rq" "\<not> (wants_upgrade rq \<and> ?p \<noteq> ''/ws/socket.io'')"
      "HasPrefix ?p ''/api/v1/auths/'' \<and> \<not> allowedAuthPath ?p"
    | "rq_host rq = g_host g" "\<not> bad_origin g rq" "\<not> (wants_upgrade rq \<and> ?p \<noteq> ''/ws/socket.io'')"
      "\<not> (HasPrefix ?p ''/api/v1/auths/'' \<and> \<not> allowedAuthPath ?p)"
    by blast
  then show ?thesis
  proof cases
    case 1
    then show ?thesis by (simp add: ServeHTTP_def) (rule refused_early, simp_all add: request_ok_def)
  next
    case 2
    then have "\<not> request_ok g rq token" for token unfolding origin request_ok_def by blast
    then show ?thesis using 2 by (simp add: ServeHTTP_def refused_early)
  next
    case 3
    then have "\<not> request_ok g rq token" for token by (simp add: request_ok_def)
    then show ?thesis using 3 by (simp add: ServeHTTP_def refused_early)
  next
    case 4
    then have "\<not> request_ok g rq token" for token by (auto simp: request_ok_def allowedAuthPath_def)
    then show ?thesis using 4 by (auto simp: ServeHTTP_def Let_def intro: refused_early)
  next
    case 5
    then have serve: "ServeHTTP g rq = (case ?vs of [token] \<Rightarrow> admit g rq token | _ \<Rightarrow> ret (Refused 401 ''Sign in required''))"
      by (auto simp: ServeHTTP_def Let_def)
    show ?thesis
    proof (cases "\<exists>token. ?vs = [token]")
      case True
      then obtain token where token: "?vs = [token]" by blast
      have "request_ok g rq token" if "may_ask g token"
        using 5 that token unfolding origin by (auto simp: request_ok_def allowedAuthPath_def)
      then show ?thesis using serve token by (simp add: admit_log)
    next
      case False
      then have "\<not> request_ok g rq token" for token by (simp add: request_ok_def)
      moreover have "ServeHTTP g rq = ret (Refused 401 ''Sign in required'')"
        using serve False by (auto split: list.splits)
      ultimately show ?thesis by (simp add: refused_early)
    qed
  qed
qed

text \<open>
  C18. A browser request is relayed only with KCP's fresh approval. Whatever KCP, the clock and the
  application do: a request that fails a local check (host, origin, upgrade, authentication path,
  exactly one well-formed token) is refused with 400, 401 or 403 and no call is made, so the token is
  never sent; otherwise the first call is the GET of exactly the configured object with that token.
  The request is relayed exactly if KCP answered 200 with exactly that object, not being deleted,
  and the clock read afterwards is before the expiry of a token of the configured issuer and
  client; it is relayed once, in the name of the token's subject, with the expiry as the deadline. Every other
  outcome is a 403.
\<close>

theorem relayed_only_with_permission:
  "request_outcome g rq (gate_log g rq w) (gate_answer g rq w)"
  using ServeHTTP_log [of g rq "\<lparr>world = w, local_inst = (), call_log = []\<rparr>"]
  by (simp add: wp_run gate_log_def gate_answer_def)

lemma admitted_when_ok: "request_ok g rq token \<Longrightarrow> ServeHTTP g rq = admit g rq token"
  by (auto simp: request_ok_def ServeHTTP_def bad_origin_def unsafe_def allowedAuthPath_def Let_def split: if_splits)

lemma authorize_when_approved:
  assumes "may_ask g token" "kcp_do (g_env g) (g_roots g) (permission_request g token) (world s) = (reply, w1)"
    and "approves g token (KcpGet (permission_request g token) reply)"
    and "now (g_env g) w1 = (t, w2)" "token_names g token identity expires" "t < expires"
  shows "wp (authorize g token) (\<lambda>a u. a = Inr (identity, expires) \<and> world u = w2) s"
proof -
  obtain body ob where reply: "reply = Response 200 (Some body)" "length body \<le> 1048576"
    "unmarshal_object body = Some ob" "source_matches (gc_source (g_config g)) ob"
    using assms(3) by (auto simp: approves_iff)
  show ?thesis
    using assms(1,2,4-6) reply unfolding authorize_def oidcIdentity_def token_names_def may_ask_iff
    by (auto simp: wp_simps Let_def)
qed

text \<open>
  C23. A permitted request does get through: if the request passes the local checks, KCP answers 200 with the
  configured object, the clock is then before the expiry the token names, and the application
  answers, the browser gets the application's answer.
\<close>

theorem permitted_request_is_relayed:
  assumes "request_ok g rq token"
    and "kcp_do (g_env g) (g_roots g) (permission_request g token) w = (reply, w1)"
    and "approves g token (KcpGet (permission_request g token) reply)"
    and "now (g_env g) w1 = (t, w2)" "token_names g token identity expires" "t < expires"
    and "fst (relay (g_env g) (rewrite_request g identity rq) expires w2)"
  shows "gate_answer g rq w = Relayed"
proof -
  let ?s = "\<lparr>world = w, local_inst = (), call_log = []\<rparr>"
  have ask: "may_ask g token" using assms(1) by (simp add: request_ok_def)
  have "wp (authorize g token) (\<lambda>a u. a = Inr (identity, expires) \<and> world u = w2) ?s"
    by (rule authorize_when_approved [OF ask _ assms(3-6)]) (simp add: assms(2))
  then have "wp (admit g rq token) (\<lambda>a _. a = Relayed) ?s"
    unfolding admit_def wp_bind [where m = "authorize g token"]
    by (rule wp_use) (use assms(7) in \<open>auto simp: wp_simps Let_def split: prod.splits\<close>)
  then show ?thesis
    by (simp add: gate_answer_def admitted_when_ok [OF assms(1)] wp_run)
qed

subsection \<open>Streams\<close>

text \<open>A sequence of rechecks that all approved the token under the same identity.\<close>

fun approvals :: "'w gate \<Rightarrow> string \<Rightarrow> string \<Rightarrow> gate_call list \<Rightarrow> bool" where
  "approvals g token identity [] \<longleftrightarrow> True"
| "approvals g token identity (c # Clock t # rest) \<longleftrightarrow>
     approves g token c \<and> (\<exists>expires. t < expires \<and> token_names g token identity expires) \<and>
     approvals g token identity rest"
| "approvals g token identity _ \<longleftrightarrow> False"

lemma approvals_append:
  "approvals g token identity cs \<Longrightarrow> approvals g token identity ds \<Longrightarrow> approvals g token identity (cs @ ds)"
  by (induction g token identity cs rule: approvals.induct) auto

lemma recheck_log:
  "wp (recheck g token identity) (\<lambda>live t. \<exists>es. call_log t = call_log s @ es \<and>
     set (map snd es) \<subseteq> asks g token \<and> (live \<longrightarrow> approvals g token identity (map snd es))) s"
proof -
  have "authorized_by g token made (Inr (identity, expires)) \<Longrightarrow> approvals g token identity made" for made expires
    by (drule authorized_byD(2)) auto
  then show ?thesis
    unfolding recheck_def wp_bind wp_return
    by (intro wp_use [OF authorize_log]) (auto simp: authorized_by_def split: sum.splits)
qed

text \<open>
  C19. A stream outlives no failed recheck. As long as a stream is alive, every recheck since it started
  was approved by KCP for the same token, under the identity it was opened with, before the expiry
  of the token; an ended stream makes no further step.
\<close>

theorem stream_lives_by_approval:
  assumes "(stream_step g token identity)\<^sup>*\<^sup>* (s, True) (t, True)"
  shows "\<exists>es. call_log t = call_log s @ es \<and> approvals g token identity (map snd es)"
  using assms
proof (induction "(t, True)" arbitrary: t rule: rtranclp_induct)
  case base
  then show ?case by simp
next
  case (step x)
  obtain u live where x: "x = (u, live)" by (cases x) auto
  with step.hyps(2) have live: "live" and tick: "run_state (recheck g token identity) u = (True, t)"
    by (auto elim: stream_step.cases)
  have "\<exists>es. call_log t = call_log u @ es \<and> approvals g token identity (map snd es)"
    using recheck_log [of g token identity u] tick by (auto simp: wp_run)
  moreover obtain ds where "call_log u = call_log s @ ds" "approvals g token identity (map snd ds)"
    using step.hyps(3) x live by blast
  ultimately show ?case by (metis append_assoc approvals_append map_append)
qed

subsection \<open>Headers and cookies\<close>

lemma token_char_ascii: "token_char c \<Longrightarrow> c \<noteq> byte 226 \<and> c \<noteq> byte 196"
proof -
  have "byte 226 = CHR 0xE2" "byte 196 = CHR 0xC4" by code_simp+
  then have "\<not> token_char (byte 226)" "\<not> token_char (byte 196)"
    by (simp_all add: token_char_def between_def byte_chars)
  then show "token_char c \<Longrightarrow> c \<noteq> byte 226 \<and> c \<noteq> byte 196" by blast
qed

lemma ToLower_tokens: "list_all token_char s \<Longrightarrow> ToLower s = map ascii_lower s"
  by (induction s rule: ToLower.induct) (auto dest: token_char_ascii)

lemma lower_canonical: "map ascii_lower (canonical_from upper s) = map ascii_lower s"
  by (induction upper s rule: canonical_from.induct) (auto simp: Let_def ascii_lower_def between_def)

lemma ToLower_CanonicalKey: "ToLower (CanonicalKey s) = ToLower s"
  by (simp add: CanonicalKey_def ToLower_tokens canonical_from_tokens lower_canonical)

lemma identity_name_canonical: "identity_name (CanonicalKey n) = identity_name n"
  by (simp add: identity_name_def ToLower_CanonicalKey)

lemma fmlookup_strip:
  "fmlookup (stripIdentity h) (CanonicalKey k) = (if identity_name k then None else fmlookup h (CanonicalKey k))"
proof (cases "identity_name k")
  case True
  then have k: "identity_name (CanonicalKey k)" by (simp only: identity_name_canonical)
  show ?thesis
  proof (cases "fmlookup h (CanonicalKey k)")
    case None
    then show ?thesis by (simp add: stripIdentity_def)
  next
    case (Some v)
    then have "CanonicalKey k |\<in>| fmdom h" by (rule fmdomI)
    then have "fBex (fmdom h) (\<lambda>n. identity_name n \<and> CanonicalKey n = CanonicalKey k)"
      using k CanonicalKey_idem by blast
    with True show ?thesis unfolding stripIdentity_def by (simp only: fmlookup_filter) auto
  qed
next
  case False
  have "\<not> fBex (fmdom h) (\<lambda>n. identity_name n \<and> CanonicalKey n = CanonicalKey k)"
    using False identity_name_canonical by metis
  with False show ?thesis by (simp add: stripIdentity_def)
qed

lemma header_values_strip [simp]:
  "header_values (stripIdentity h) k = (if identity_name k then [] else header_values h k)"
  by (simp add: header_values_def fmlookup_strip)

lemma canonical_names:
  "canonical_from True EmailHeader = ''X-Chatui-Email''" "canonical_from True RoleHeader = ''X-Chatui-Role''"
  "canonical_from True ''X-Forwarded-Proto'' = ''X-Forwarded-Proto''"
  "canonical_from True ''X-Forwarded-Host'' = ''X-Forwarded-Host''"
  "canonical_from True ''Cookie'' = ''Cookie''" "canonical_from True TokenHeader = ''X-Chatui-Oidc-Token''"
  by (simp_all add: EmailHeader_def RoleHeader_def Let_def between_def)
     (simp add: TokenHeader_def Let_def between_def char_of_def bit_Suc_0_iff)

lemma header_names:
  "CanonicalKey EmailHeader = ''X-Chatui-Email''" "CanonicalKey RoleHeader = ''X-Chatui-Role''"
  "CanonicalKey ''X-Forwarded-Proto'' = ''X-Forwarded-Proto''" "CanonicalKey ''X-Forwarded-Host'' = ''X-Forwarded-Host''"
  "CanonicalKey ''Cookie'' = ''Cookie''" "CanonicalKey TokenHeader = ''X-Chatui-Oidc-Token''"
  unfolding CanonicalKey_def canonical_names
  by (simp_all add: EmailHeader_def RoleHeader_def TokenHeader_def token_char_def between_def)

lemma header_values_AddCookie [simp]:
  "CanonicalKey k \<noteq> ''Cookie'' \<Longrightarrow> header_values (AddCookie h c) k = header_values h k"
  by (simp add: AddCookie_def Let_def header_names)

lemma header_values_AddCookies:
  "CanonicalKey k \<noteq> ''Cookie'' \<Longrightarrow> header_values (fold (\<lambda>c h. AddCookie h c) cs h) k = header_values h k"
  by (induction cs arbitrary: h) simp_all

lemma fold_if: "fold (\<lambda>c h. if P c then f h c else h) cs h = fold (\<lambda>c h. f h c) (filter P cs) h"
  by (induction cs arbitrary: h) simp_all

lemma rewrite_header_fold:
  "rewrite_header g identity h =
     (let named = header_set (header_set (header_set (header_set (stripIdentity h)
            EmailHeader identity) RoleHeader ''user'') ''X-Forwarded-Proto'' ''https'') ''X-Forwarded-Host'' (g_host g)
      in fold (\<lambda>c h. AddCookie h c) (filter (\<lambda>c. \<not> HasPrefix (ck_name c) CookieName) (Cookies named))
           (header_del named ''Cookie''))"
  by (simp add: rewrite_header_def Let_def fold_if)

lemma not_identity_Cookie: "\<not> identity_name ''Cookie''"
proof -
  have "ToLower ''Cookie'' = ''cookie''" by code_simp
  then show ?thesis by (simp add: identity_name_def Let_def Contains_def sublist_Cons_right)
qed

text \<open>
  C20. The headers the application sees, for every name in any spelling. The identity is the one the gate
  derived, the role is user, and the forwarding headers name HTTPS and the public host; every other
  name that could carry an identity (with an underscore, or under one of the stripped prefixes, the
  token of the proxy among them) is absent, whatever the browser sent and whatever it nominated as
  hop-by-hop; any other header than \<open>Cookie\<close> is what the proxy passed on.
\<close>

theorem relayed_headers:
  "header_values (rewrite_header g identity h) k =
     (if CanonicalKey k = ''Cookie'' then header_values (rewrite_header g identity h) ''Cookie''
      else if CanonicalKey k = ''X-Chatui-Email'' then [identity]
      else if CanonicalKey k = ''X-Chatui-Role'' then [''user'']
      else if CanonicalKey k = ''X-Forwarded-Proto'' then [''https'']
      else if CanonicalKey k = ''X-Forwarded-Host'' then [g_host g]
      else if identity_name k then [] else header_values h k)"
proof (cases "CanonicalKey k = ''Cookie''")
  case True
  then show ?thesis by (simp add: header_values_def header_names)
next
  case False
  then show ?thesis
    by (simp add: rewrite_header_fold Let_def header_values_AddCookies header_names)
qed

text \<open>
  C21. The session cookie stays at the gate. The cookies the application can read from the relayed request
  are, in order and with their names and values, those of the incoming request less every cookie
  whose name starts with the name of the session cookie (OAuth2 Proxy splits a long session over
  several cookies and names its CSRF cookies after it).
\<close>

theorem session_cookies_stripped:
  "map cookie_pair (Cookies (rewrite_header g identity h)) =
     map cookie_pair (filter (\<lambda>c. \<not> HasPrefix (ck_name c) CookieName) (Cookies h))"
proof -
  let ?named = "header_set (header_set (header_set (header_set (stripIdentity h)
     EmailHeader identity) RoleHeader ''user'') ''X-Forwarded-Proto'' ''https'') ''X-Forwarded-Host'' (g_host g)"
  have "header_values ?named ''Cookie'' = header_values h ''Cookie''"
    by (simp add: header_names not_identity_Cookie)
  then have cookies: "Cookies ?named = Cookies h" by (simp add: Cookies_def)
  have valid: "\<forall>c \<in> set (filter (\<lambda>c. \<not> HasPrefix (ck_name c) CookieName) (Cookies h)). valid_cookie c"
    using read_cookies_valid by (auto simp: Cookies_def)
  show ?thesis
    unfolding rewrite_header_fold Let_def cookies by (rule Cookies_AddCookies [OF _ valid]) simp
qed

subsection \<open>Time\<close>


subsection \<open>From the access table to the gate\<close>

lemma generated_configuration_valid:
  assumes "access_Parse lib input = Inr p" "access_Select (Some p) obj = Inr e" "HTTPSURL lib publicURL True = None"
  shows "config_Validate lib (gate_config_for p e publicURL) = None"
proof -
  have row: "e \<in> set (ap_entries p)" using access_Select_Inr [OF assms(2)] by auto
  obtain t where loop: "range_loop (access_step lib) (ap_entries p)
      \<lparr>as_uids = {}, as_local = {}, as_sources = {}\<rparr> = Inr t"
    using access_Parse_Inr(4) [OF assms(1)] by blast
  show ?thesis
    using access_Parse_Inr(1) [OF assms(1)] access_loop_valid [OF loop row] assms(3)
    by (simp add: config_Validate_def gate_config_for_def)
qed

text \<open>
  The gate accepts what the operator generates. For a row selected from an accepted access table and
  an HTTPS origin as the public URL, the configuration written into the bundle passes the gate's own
  validation; with usable trust roots the gate starts, serves only that public host, and asks the
  KCP server of the table for exactly the source object of the row.
\<close>

theorem generated_configuration_starts_gate:
  assumes "access_Parse (env_lib env) input = Inr p" "access_Select (Some p) obj = Inr e"
    and "HTTPSURL (env_lib env) publicURL True = None"
    and "if ap_kcp_ca p = [] then system_roots env else pem_valid env (ap_kcp_ca p)"
    and "parse_url (env_lib env) WebUIURL \<noteq> None"
  shows "\<exists>g public. New env (gate_config_for p e publicURL) = Inr g \<and>
    parse_url (env_lib env) publicURL = Some public \<and> g_host g = url_host public \<and>
    kq_url (permission_request g token) = ap_kcp_server p @ source_Path (ae_source e) \<and>
    gc_source (g_config g) = ae_source e \<and> gc_client_id (g_config g) = ae_client_id e \<and>
    gc_issuer (g_config g) = ae_issuer e"
proof -
  have valid: "config_Validate (env_lib env) (gate_config_for p e publicURL) = None"
    by (rule generated_configuration_valid [OF assms(1-3)])
  obtain public where "parse_url (env_lib env) publicURL = Some public"
    using assms(3) by (auto simp: HTTPSURL_def Let_def split: option.splits)
  moreover obtain web where "parse_url (env_lib env) WebUIURL = Some web" using assms(5) by blast
  ultimately show ?thesis
    using valid assms(4)
    by (auto simp: New_def newGate_def gate_config_for_def permission_request_def Let_def split: if_splits)
qed

subsection \<open>Health\<close>

text \<open>
  C24. The health port answers nothing but the probe. Only \<open>GET /readyz\<close> causes a call, a single GET of
  the health page of the application, which does not depend on the request; the answer is 200
  exactly if that page answered 200.
\<close>

theorem health_only_probes:
  "wp (Health g rq) (\<lambda>a t.
     if rq_method rq = ''GET'' \<and> rq_path rq = ''/readyz'' \<and>
        parse_url (env_lib (g_env g)) (url_String (g_upstream g) @ ''/health'') \<noteq> None
     then \<exists>reply. call_log t = call_log s @ [((), AppGet (url_String (g_upstream g) @ ''/health'') reply)] \<and>
            (a = ProbeStatus 200 [] \<longleftrightarrow> (\<exists>body. reply = Response 200 body))
     else call_log t = call_log s \<and> a \<noteq> ProbeStatus 200 []) s"
  unfolding Health_def
  by (auto simp: wp_simps Let_def split: http_reply.splits prod.splits)

subsection \<open>A concrete gate\<close>

definition sample_claims :: claims where
  "sample_claims = \<lparr>cl_issuer = ''https://issuer.example.test/realms/org'', cl_subject = ''alice'',
     cl_audience = Some (JString ''chat-ui''), cl_expires = 1000, cl_authorized_party = []\<rparr>"

definition sample_kcp_object :: kcp_object where
  "sample_kcp_object = \<lparr>ko_api_version = ''ui.privatellms.msp/v1alpha1'', ko_kind = ''ChatUIInstance'', ko_name = ''chat'',
     ko_namespace = ''default'', ko_uid = ''source-uid'', ko_deleted = None,
     ko_annotations = fmap_of_list [(''kcp.io/cluster'', ''account'')]\<rparr>"

text \<open>The texts they are decoded from.\<close>

definition sample_kcp_json :: json where
  "sample_kcp_json = JObject
     [(''apiVersion'', JString ''ui.privatellms.msp/v1alpha1''), (''kind'', JString ''ChatUIInstance''),
      (''metadata'', JObject
        [(''name'', JString ''chat''), (''namespace'', JString ''default''), (''uid'', JString ''source-uid''),
         (''resourceVersion'', JString ''7''),
         (''annotations'', JObject [(''kcp.io/cluster'', JString ''account'')])])]"

definition sample_kcp_body :: string where "sample_kcp_body = marshal sample_kcp_json"

definition sample_claims_json :: json where
  "sample_claims_json = JObject
     [(''iss'', JString ''https://issuer.example.test/realms/org''), (''sub'', JString ''alice''),
      (''aud'', JString ''chat-ui''), (''exp'', JNumber ''1000'')]"

lemma sample_kcp_answer: "unmarshal_object sample_kcp_body = Some sample_kcp_object" "length sample_kcp_body \<le> 1048576"
proof -
  have "printable max_nesting_depth sample_kcp_json"
    by (simp add: max_nesting_depth_def sample_kcp_json_def utf8_valid_ascii)
  then have "read_document sample_kcp_body = Some sample_kcp_json"
    using read_marshal [of sample_kcp_json "[]"] by (simp add: sample_kcp_body_def read_document_def json_blank_def)
  moreover have "find_member metadata_fields ''resourceVersion'' = None"
    by (simp add: find_member_def metadata_fields_def fold_name_ascii)
  moreover have "find_member metadata_fields ''name'' = Some (text_member ko_name_update)"
    "find_member metadata_fields ''namespace'' = Some (text_member ko_namespace_update)"
    "find_member metadata_fields ''uid'' = Some (text_member ko_uid_update)"
    "find_member metadata_fields ''annotations'' = Some (map_member ko_annotations ko_annotations_update)"
    by (simp_all add: metadata_fields_def)
  ultimately show "unmarshal_object sample_kcp_body = Some sample_kcp_object"
    by (simp add: unmarshal_object_def sample_kcp_json_def struct_target_def text_member_def map_member_def
        text_target_def sample_kcp_object_def)
  show "length sample_kcp_body \<le> 1048576"
    using length_marshal(1) [of sample_kcp_json] by (simp add: sample_kcp_body_def sample_kcp_json_def)
qed

lemma sample_token_claims:
  "unmarshal_claims (marshal sample_claims_json) = Some sample_claims" "length (marshal sample_claims_json) \<le> 1000"
proof -
  have "number_text ''1000''"
    by code_simp
  then have "printable max_nesting_depth sample_claims_json"
    by (simp add: max_nesting_depth_def sample_claims_json_def utf8_valid_ascii)
  then have "read_document (marshal sample_claims_json) = Some sample_claims_json"
    using read_marshal [of sample_claims_json "[]"] by (simp add: read_document_def json_blank_def)
  moreover have "ParseInt64 ''1000'' = Some 1000"
    by (simp add: ParseInt64_def decimal_def is_digit_def between_def Let_def)
  ultimately show "unmarshal_claims (marshal sample_claims_json) = Some sample_claims"
    by (simp add: unmarshal_claims_def sample_claims_json_def struct_target_def text_member_def raw_member_def
        int64_member_def sample_claims_def)
  show "length (marshal sample_claims_json) \<le> 1000"
    using length_marshal(1) [of sample_claims_json] by (simp add: sample_claims_json_def)
qed

definition sample_env :: "nat gate_env" where
  "sample_env =
     \<lparr>env_lib = sample_library, pem_valid = (\<lambda>_. True), system_roots = True,
      kcp_do = (\<lambda>_ _ w. (Response 200 (Some sample_kcp_body), Suc w)), now = (\<lambda>w. (62135596800 + int w, w)),
      app_do = (\<lambda>_ w. (Response 200 None, w)), relay = (\<lambda>_ _ w. (True, w))\<rparr>"

definition sample_gate :: "nat gate" where
  "sample_gate =
     \<lparr>g_env = sample_env, g_config = gate_config_for sample_access_policy sample_access_entry ''https://ui.example.test'',
      g_roots = None, g_upstream = sample_url ''http'' ''127.0.0.1:8081'', g_host = ''ui.example.test'', g_recheck = 30\<rparr>"

definition sample_token :: string where
  "sample_token = ''e30.'' @ RawURLEncode (marshal sample_claims_json) @ ''.c2ln''"

lemma sample_token_ok: "credential_ok sample_token"
proof -
  let ?body = "RawURLEncode (marshal sample_claims_json)"
  have "list_all visible url_alphabet" by (simp add: url_alphabet_def visible_def)
  then have "list_all visible ?body" using RawURLEncode_chars [of "marshal sample_claims_json"] by (auto simp: list_all_iff)
  moreover have "length ?body \<le> 2000"
    using length_RawURLEncode [of "marshal sample_claims_json"] sample_token_claims(2) by linarith
  ultimately show ?thesis by (simp add: credential_ok_def sample_token_def visible_not_blank visible_def)
qed

definition sample_identity :: string where
  "sample_identity = pseudonym sample_library ''https://issuer.example.test/realms/org'' ''alice''"

lemma sample_HTTPSURL: "HTTPSURL sample_library ''https://ui.example.test'' True = None"
  by (simp add: HTTPSURL_def sample_library_def sample_url_def visible_not_blank visible_def)

lemma sample_select:
  "access_Select (Some sample_access_policy)
     \<lparr>meta_name = ''chat'', meta_namespace = ''tenant'', meta_uid = ''uid-1'', meta_resource_version = ''1'',
      meta_generation = 1, meta_created = 200, meta_deleted = None, meta_labels = fmempty,
      meta_annotations = fmempty, meta_finalizers = [], meta_controller = None\<rparr> = Inr sample_access_entry"
  by (simp add: access_Select_def sample_access_policy_def sample_access_entry_def row_matches_def)

theorem generated_configuration_starts_gate_witness:
  "\<exists>g public. New sample_env (gate_config_for sample_access_policy sample_access_entry ''https://ui.example.test'') = Inr g \<and>
    parse_url sample_library ''https://ui.example.test'' = Some public \<and> g_host g = url_host public \<and>
    kq_url (permission_request g sample_token) =
      ''https://kcp.example.test/clusters/account/apis/ui.privatellms.msp/v1alpha1/namespaces/default/chatuiinstances/chat'' \<and>
    gc_source (g_config g) = ae_source sample_access_entry \<and> gc_client_id (g_config g) = ''chat-ui''"
proof -
  have lib: "env_lib sample_env = sample_library" by (simp add: sample_env_def)
  have url: "ap_kcp_server sample_access_policy @ source_Path (ae_source sample_access_entry) =
      ''https://kcp.example.test/clusters/account/apis/ui.privatellms.msp/v1alpha1/namespaces/default/chatuiinstances/chat''"
    by (simp add: sample_access_policy_def sample_access_entry_def source_Path_def)
  have client: "ae_client_id sample_access_entry = ''chat-ui''" by (simp add: sample_access_entry_def)
  have web: "parse_url sample_library WebUIURL \<noteq> None" by (simp add: sample_library_def WebUIURL_def)
  have roots: "ap_kcp_ca sample_access_policy = []" "system_roots sample_env"
    by (simp_all add: sample_access_policy_def sample_env_def)
  obtain g public where "New sample_env (gate_config_for sample_access_policy sample_access_entry ''https://ui.example.test'') = Inr g"
    "parse_url sample_library ''https://ui.example.test'' = Some public" "g_host g = url_host public"
    "kq_url (permission_request g sample_token) = ap_kcp_server sample_access_policy @ source_Path (ae_source sample_access_entry)"
    "gc_source (g_config g) = ae_source sample_access_entry" "gc_client_id (g_config g) = ae_client_id sample_access_entry"
    using generated_configuration_starts_gate [of sample_env, unfolded lib, OF sample_access_Parse sample_select sample_HTTPSURL,
        of sample_token] roots web by auto
  then show ?thesis unfolding url client by blast
qed

lemma sample_gate_starts:
  "New sample_env (gate_config_for sample_access_policy sample_access_entry ''https://ui.example.test'') = Inr sample_gate"
proof -
  have "config_Validate sample_library (gate_config_for sample_access_policy sample_access_entry ''https://ui.example.test'') = None"
    by (rule generated_configuration_valid [OF sample_access_Parse sample_select sample_HTTPSURL])
  then show ?thesis
    by (simp add: New_def newGate_def sample_gate_def sample_env_def gate_config_for_def sample_access_policy_def
        sample_library_def sample_url_def PermissionRecheckInterval_def WebUIURL_def)
qed

text \<open>One tick of a live stream, and one request that passes every check.\<close>

lemma sample_claims_of: "claims_of sample_token = Inr sample_claims"
proof -
  let ?body = "RawURLEncode (marshal sample_claims_json)"
  have "CHR ''.'' \<notin> set ?body" using RawURLEncode_chars by (force simp: url_alphabet_def)
  then have "split_on (CHR ''.'') sample_token = [''e30'', ?body, ''c2ln'']"
    using split_on_append [of "CHR ''.''" "''e30''" "?body @ ''.c2ln''"] split_on_append [of "CHR ''.''" ?body "''c2ln''"]
    by (simp add: sample_token_def)
  then show ?thesis by (simp add: claims_of_def sample_token_claims)
qed

lemma sample_authorize:
  "run_state (authorize sample_gate sample_token) \<lparr>world = 0, local_inst = (), call_log = es\<rparr> =
     (Inr (sample_identity, 62135597800), \<lparr>world = 1, local_inst = (),
        call_log = es @ [((), KcpGet (permission_request sample_gate sample_token) (Response 200 (Some sample_kcp_body))), ((), Clock 62135596801)]\<rparr>)"
proof -
  have source: "source_matches (gc_source (g_config sample_gate)) sample_kcp_object"
    by (simp add: source_matches_def sample_gate_def gate_config_for_def sample_access_entry_def sample_kcp_object_def map_get_def fmlookup_of_list)
  have url: "parse_url sample_library (kq_url (permission_request sample_gate sample_token)) \<noteq> None"
    by (simp add: permission_request_def sample_gate_def gate_config_for_def sample_access_policy_def sample_library_def)
  have expiry: "unix_seconds 1000 = 62135597800" by (simp add: unix_seconds_def)
  have env: "g_env sample_gate = sample_env" "g_roots sample_gate = None" by (simp_all add: sample_gate_def)
  have config: "gc_issuer (g_config sample_gate) = cl_issuer sample_claims"
      "gc_client_id (g_config sample_gate) = ''chat-ui''"
    by (simp_all add: sample_gate_def gate_config_for_def sample_access_entry_def sample_claims_def)
  have oidc: "run_state (oidcIdentity sample_gate sample_token) \<lparr>world = 1, local_inst = (), call_log = fs\<rparr> =
     (Inr (sample_identity, 62135597800), \<lparr>world = 1, local_inst = (), call_log = fs @ [((), Clock 62135596801)]\<rparr>)" for fs
    unfolding oidcIdentity_def env sample_claims_of config Let_def
    by (simp add: audiences_of_def strings_of_def text_target_def sample_env_def sample_claims_def external_def expiry sample_identity_def config)
  show ?thesis
    unfolding authorize_def env Let_def
    using sample_token_ok url source oidc sample_kcp_answer(2)
    by (simp add: external_def sample_env_def sample_kcp_answer(1) not_less)
qed

theorem stream_lives_by_approval_witness:
  "\<exists>es. call_log \<lparr>world = 1, local_inst = (),
        call_log = [((), KcpGet (permission_request sample_gate sample_token) (Response 200 (Some sample_kcp_body))), ((), Clock 62135596801)]\<rparr>
      = [] @ es \<and> approvals sample_gate sample_token sample_identity (map snd es)"
proof -
  let ?s = "\<lparr>world = 0, local_inst = (), call_log = []\<rparr> :: (nat, unit, gate_call) run"
  let ?t = "\<lparr>world = 1, local_inst = (),
     call_log = [((), KcpGet (permission_request sample_gate sample_token) (Response 200 (Some sample_kcp_body))), ((), Clock 62135596801)]\<rparr>
     :: (nat, unit, gate_call) run"
  have "run_state (recheck sample_gate sample_token sample_identity) ?s = (True, ?t)"
    using sample_authorize [of "[]"] by (simp add: recheck_def)
  then have "(stream_step sample_gate sample_token sample_identity)\<^sup>*\<^sup>* (?s, True) (?t, True)"
    by (intro r_into_rtranclp tick)
  from stream_lives_by_approval [OF this] show ?thesis by simp
qed

definition sample_request :: http_request where
  "sample_request =
     \<lparr>rq_method = ''GET'', rq_host = ''ui.example.test'', rq_path = ''/api/v1//auths/./signin'',
      rq_header = fmap_of_list [(''X-Chatui-Oidc-Token'', [sample_token]), (''X-Forwarded-For'', [''10.0.0.1''])]\<rparr>"

lemma sample_request_ok: "request_ok sample_gate sample_request sample_token"
proof -
  let ?h = "rq_header sample_request"
  have names: "CanonicalKey ''Origin'' = ''Origin''" "CanonicalKey ''Upgrade'' = ''Upgrade''"
      "CanonicalKey ''Connection'' = ''Connection''"
    by (simp_all add: CanonicalKey_def token_char_def between_def Let_def)
  have hvals: "header_values ?h ''Origin'' = []" "header_values ?h ''Upgrade'' = []"
      "header_values ?h ''Connection'' = []" "header_values ?h TokenHeader = [sample_token]"
    by (simp_all add: header_values_def names header_names sample_request_def fmlookup_of_list)
  have path: "Clean (rq_path sample_request) = ''/api/v1/auths/signin''"
    by (simp add: sample_request_def Clean_def Let_def clean_step_def)
  have token: "may_ask sample_gate sample_token"
    by (simp add: may_ask_iff sample_token_ok permission_request_def
        sample_gate_def sample_env_def gate_config_for_def sample_access_policy_def sample_library_def)
  have "\<not> wants_upgrade sample_request"
    by (simp add: wants_upgrade_def header_get_def hvals)
  then show ?thesis
    using hvals path token by (simp add: request_ok_def header_get_def) (simp add: sample_request_def sample_gate_def)
qed

theorem permitted_request_is_relayed_witness: "gate_answer sample_gate sample_request 0 = Relayed"
proof (rule permitted_request_is_relayed [OF sample_request_ok])
  have config: "gc_issuer (g_config sample_gate) = cl_issuer sample_claims" "g_env sample_gate = sample_env"
      "gc_client_id (g_config sample_gate) = ''chat-ui''"
    by (simp_all add: sample_gate_def gate_config_for_def sample_access_entry_def sample_claims_def)
  show "kcp_do (g_env sample_gate) (g_roots sample_gate) (permission_request sample_gate sample_token) 0 =
      (Response 200 (Some sample_kcp_body), 1)"
    "now (g_env sample_gate) 1 = (62135596801, 1)" "(62135596801 :: int) < 62135597800"
    "fst (relay (g_env sample_gate) (rewrite_request sample_gate sample_identity sample_request) 62135597800 1)"
    by (simp_all add: config sample_env_def)
  show "approves sample_gate sample_token (KcpGet (permission_request sample_gate sample_token) (Response 200 (Some sample_kcp_body)))"
    by (simp add: approves_iff config sample_kcp_answer) (simp add: sample_env_def sample_gate_def gate_config_for_def source_matches_def
        sample_access_entry_def sample_kcp_object_def map_get_def fmlookup_of_list)
  show "token_names sample_gate sample_token sample_identity 62135597800"
    unfolding token_names_def config sample_claims_of
    by (simp add: sample_claims_def audiences_of_def strings_of_def text_target_def sample_env_def sample_identity_def unix_seconds_def)
qed

end
