(* ===== verification/Steady_State.thy ===== *)
theory Steady_State
  imports Fail_Closed_Laws
begin

text \<open>
  The fixed point of the reconciler: if the API server holds the wanted objects, a reconcile
  changes none of them, reports Ready and comes back after 30 seconds. \<open>settled\<close> lists what the
  server answers; the world may change in any other way.
\<close>

subsection \<open>Methods that only read\<close>

text \<open>
  \<open>quietly I inst m a\<close>: run for the instance \<open>inst\<close> in a world with \<open>I\<close>, \<open>m\<close> returns \<open>a\<close>, only reads, and
  keeps the local instance and \<open>I\<close>.
\<close>

definition quietly :: "('w \<Rightarrow> bool) \<Rightarrow> chat_instance \<Rightarrow> ('w, 'a) op \<Rightarrow> 'a \<Rightarrow> bool" where
  "quietly I inst m a \<longleftrightarrow> (\<forall>s. local_inst s = inst \<and> I (world s) \<longrightarrow>
     wp m (\<lambda>a' t. a' = a \<and> (local_inst t = inst \<and> I (world t)) \<and>
       (\<exists>es. call_log t = call_log s @ es \<and> list_all (\<lambda>e. kind_of (snd e) \<in> {Reading, Probing}) es)) s)"

lemma quietly_ret: "quietly I inst (ret a) a"
  by (simp add: quietly_def wp_return)

lemma quietly_bind:
  fixes m :: "('w, 'a) op"
  shows "quietly I inst m a \<Longrightarrow> quietly I inst (f a) b \<Longrightarrow> quietly I inst (State_Monad.bind m f) b"
  unfolding quietly_def wp_bind
proof (intro allI impI)
  fix s :: "'w st"
  let ?quiet = "\<lambda>s es. list_all (\<lambda>e. kind_of (snd e) \<in> {Reading, Probing}) (es :: log_entry list)"
  let ?here = "\<lambda>t :: 'w st. local_inst t = inst \<and> I (world t)"
  assume s: "?here s"
    and m: "\<forall>s. ?here s \<longrightarrow> wp m (\<lambda>a' t. a' = a \<and> ?here t \<and> (\<exists>es. call_log t = call_log s @ es \<and> ?quiet s es)) s"
    and f: "\<forall>s. ?here s \<longrightarrow> wp (f a) (\<lambda>a' t. a' = b \<and> ?here t \<and> (\<exists>es. call_log t = call_log s @ es \<and> ?quiet s es)) s"
  show "wp m (\<lambda>a. wp (f a) (\<lambda>a' t. a' = b \<and> ?here t \<and> (\<exists>es. call_log t = call_log s @ es \<and> ?quiet s es))) s"
  proof (rule wp_use [OF m [rule_format, OF s]], elim conjE exE)
    fix a' es and t :: "'w st"
    assume t: "a' = a" "local_inst t = inst" "I (world t)" "call_log t = call_log s @ es" "?quiet s es"
    show "wp (f a') (\<lambda>a' t. a' = b \<and> ?here t \<and> (\<exists>es. call_log t = call_log s @ es \<and> ?quiet s es)) t"
      unfolding t(1) by (rule wp_use [OF f [rule_format, OF conjI [OF t(2,3)]]]) (use t in auto)
  qed
qed

lemma quietly_get_inst: "quietly I inst get_inst inst"
  by (simp add: quietly_def wp_get_inst)

text \<open>In every world with \<open>I\<close>, an operation of the server replies \<open>v\<close> and keeps \<open>I\<close>.\<close>

definition replies :: "('w \<Rightarrow> bool) \<Rightarrow> ('w \<Rightarrow> 'r \<times> 'w) \<Rightarrow> 'r \<Rightarrow> bool" where
  "replies I f v \<longleftrightarrow> (\<forall>w. I w \<longrightarrow> fst (f w) = v \<and> I (snd (f w)))"

lemma quietly_external:
  "replies I f a \<Longrightarrow> kind_of (entry a) \<in> {Reading, Probing} \<Longrightarrow> quietly I inst (external f entry) a"
  by (simp add: quietly_def replies_def wp_external split_beta)

lemma quietly_method: "quietly I inst (f inst) a \<Longrightarrow> quietly I inst (State_Monad.bind get_inst f) a"
  by (rule quietly_bind [OF quietly_get_inst])

subsection \<open>A settled instance\<close>

text \<open>What the API server holds for one instance, and every Ingress of the cluster.\<close>

record snapshot =
  sn_instance :: chat_instance
  sn_deployment :: "deployment option"
  sn_service :: "service option"
  sn_ingress :: "ingress option"
  sn_ingresses :: "ingress list"
  sn_secret :: "key \<Rightarrow> secret option"

definition get_reply :: "'a option \<Rightarrow> api_error + 'a" where
  "get_reply x = (case x of None \<Rightarrow> Inl NotFound | Some a \<Rightarrow> Inr a)"

lemma get_reply_simps [simp]: "get_reply None = Inl NotFound" "get_reply (Some a) = Inr a"
  by (simp_all add: get_reply_def)

text \<open>In the worlds with \<open>I\<close>, reads are answered from the snapshot.\<close>

definition serves :: "'w reconciler \<Rightarrow> key \<Rightarrow> snapshot \<Rightarrow> ('w \<Rightarrow> bool) \<Rightarrow> bool" where
  "serves r req sn I \<longleftrightarrow>
     (let inst = sn_instance sn; cl = r_cluster r in
      \<forall>rd. replies I (k_get_instance cl rd req) (Inr inst) \<and>
        replies I (k_get_deployment cl rd (chatui_key inst)) (get_reply (sn_deployment sn)) \<and>
        replies I (k_get_service cl rd (chatui_key inst)) (get_reply (sn_service sn)) \<and>
        replies I (k_get_ingress cl rd (chatui_key inst)) (get_reply (sn_ingress sn)) \<and>
        replies I (k_list_ingresses cl rd) (Inr (sn_ingresses sn)) \<and>
        (\<forall>k. replies I (k_get_secret cl rd k) (get_reply (sn_secret sn k))))"

text \<open>The endpoints are ready, both probes succeed, and a status of this instance is stored.\<close>

definition probes_pass :: "'w reconciler \<Rightarrow> snapshot \<Rightarrow> ('w \<Rightarrow> bool) \<Rightarrow> bool" where
  "probes_pass r sn I \<longleftrightarrow>
     (let inst = sn_instance sn; cl = r_cluster r in
      (\<exists>endpoints. (\<forall>rd. replies I (k_get_endpoints cl rd (chatui_key inst)) (Inr endpoints)) \<and> has_ready_port 8080 endpoints) \<and>
      (\<forall>url. replies I (case k_custom_health cl of None \<Rightarrow> defaultServiceHealthChecker cl url | Some ch \<Rightarrow> ch url) None) \<and>
      (\<forall>host. replies I (case k_custom_dns cl of None \<Rightarrow> defaultDNSChecker cl host | Some ch \<Rightarrow> ch host) None) \<and>
      (\<forall>i w. I w \<and> i_meta i = i_meta inst \<and> i_spec i = i_spec inst \<longrightarrow> (\<exists>j. fst (k_update_status cl i w) = Inr j)))"

text \<open>No Ingress but the own one claims the host.\<close>

definition unclaimed :: "chat_instance \<Rightarrow> string \<Rightarrow> ingress list \<Rightarrow> bool" where
  "unclaimed inst host items \<longleftrightarrow>
     (\<forall>ing \<in> set items. \<forall>rule \<in> set (ing_rules ing). claimsHost (ir_host rule) host \<longrightarrow>
        meta_key (ing_meta ing) = chatui_key inst \<and> ownsIngress inst ing)"

text \<open>The instance is accepted, its host selected and recorded, and nobody else claims it.\<close>

definition settled_host :: "'w reconciler \<Rightarrow> snapshot \<Rightarrow> string \<Rightarrow> bool" where
  "settled_host r sn host \<longleftrightarrow>
     (let inst = sn_instance sn in
      meta_deleted (i_meta inst) = None \<and> i_image inst \<in> {[], SupportedImage} \<and> i_replicas inst \<le> 1 \<and>
      (\<exists>sel. Select (r_lib r) (r_hostname_policy r) (i_meta inst) = Inr sel \<and>
         Host (r_lib r) (r_public_host r) (sel_slug sel) = Inr host \<and>
         st_slug (i_status inst) = sel_slug sel \<and> st_slug_source (i_status inst) = sel_source sel) \<and>
      pred_option (ownsIngress inst) (sn_ingress sn) \<and>
      unclaimed inst host (sn_ingresses sn))"

text \<open>The session keys and the access bundle are in place.\<close>

definition settled_access :: "'w reconciler \<Rightarrow> snapshot \<Rightarrow> string \<Rightarrow> access_bundle \<Rightarrow> bool" where
  "settled_access r sn host b \<longleftrightarrow>
     (let inst = sn_instance sn; url = ''https://'' @ host in
      \<exists>p e credential session cookie bundle.
        r_access_policy r = Some p \<and> access_Select (Some p) (i_meta inst) = Inr e \<and> r_public_scheme r = ''https'' \<and>
        ap_credentials_namespace p \<noteq> i_namespace inst \<and> \<not> reserved_credentials (i_credentials inst) \<and>
        sn_secret sn (ap_credentials_namespace p, ae_client_secret_name e) = Some credential \<and>
        16 \<le> length (map_get (sec_data credential) ''client_secret'') \<and>
        sn_secret sn (i_namespace inst, sessionSecretName (r_lib r) inst) = Some session \<and>
        trusted_secret inst session \<and>
        list_all (\<lambda>n. valid_session_key (map_get (sec_data session) n)) session_key_names \<and>
        oauthCookieSecret (map_get (sec_data session) ''cookie-secret'') = Inr cookie \<and>
        (let data = bundle_data r p e url (map_get (sec_data credential) ''client_secret'') cookie;
             revision = bundle_revision r p inst data
         in b = \<lparr>ab_name = ''chatui-access-'' @ revision, ab_session_name = meta_name (sec_meta session),
                 ab_revision = revision, ab_public_url = url\<rparr> \<and>
            sn_secret sn (i_namespace inst, ab_name b) = Some bundle \<and> trusted_secret inst bundle \<and> sec_data bundle = data))"

text \<open>The Deployment, the Service and the route are the wanted ones.\<close>

definition settled_deployment :: "'w reconciler \<Rightarrow> snapshot \<Rightarrow> access_bundle \<Rightarrow> bool" where
  "settled_deployment r sn b \<longleftrightarrow>
     (let inst = sn_instance sn; name = TrimSpace (i_credentials inst);
          n = (if i_replicas inst \<le> 0 then 1 else i_replicas inst) in
      \<exists>d credentials. sn_deployment sn = Some d \<and> sn_secret sn (i_namespace inst, name) = Some credentials \<and>
        d_template d = managedAccessTemplate (d_template d)
           (desired_template r inst (uiLabels (i_name inst)) n SupportedImage (computeSecretChecksum (r_lib r) credentials) b) \<and>
        ownedByInstance (d_meta d) inst \<and> strat_type (d_strategy d) = ''Recreate'' \<and> d_replicas d = Some n \<and>
        list_all (\<lambda>c. c_name c = ''open-webui'' \<longrightarrow> c_image c = SupportedImage) (p_containers (t_spec (d_template d))))"

definition settled_service :: "snapshot \<Rightarrow> bool" where
  "settled_service sn \<longleftrightarrow>
     (let inst = sn_instance sn in
      \<exists>v. sn_service sn = Some v \<and> ownedByInstance (svc_meta v) inst \<and> svc_type v = ''ClusterIP'' \<and>
        svc_external_name v = [] \<and> svc_selector v = service_labels (uiLabels (i_name inst)) inst \<and> svc_ports v = service_ports)"

definition settled_route :: "'w reconciler \<Rightarrow> snapshot \<Rightarrow> string \<Rightarrow> bool" where
  "settled_route r sn host \<longleftrightarrow> map_len (r_extra_annotations r) = 0 \<and>
     (\<exists>g. sn_ingress sn = Some g \<and> wanted_route r (chatui_name (sn_instance sn)) host ''/'' g)"

text \<open>What the reconciler itself has to bring about, and what the cluster adds to it.\<close>

definition in_place :: "'w reconciler \<Rightarrow> snapshot \<Rightarrow> string \<Rightarrow> access_bundle \<Rightarrow> bool" where
  "in_place r sn host b \<longleftrightarrow>
     settled_host r sn host \<and> settled_access r sn host b \<and>
     has_finalizer (r_lib r) (i_meta (sn_instance sn)) finalizerName \<and> TrimSpace (i_credentials (sn_instance sn)) \<noteq> [] \<and>
     settled_deployment r sn b \<and> settled_service sn \<and> settled_route r sn host"

definition rolled_out :: "snapshot \<Rightarrow> bool" where
  "rolled_out sn \<longleftrightarrow> (\<forall>d. sn_deployment sn = Some d \<longrightarrow> deployment_pending (chatui_name (sn_instance sn)) d = None)"

definition settled :: "'w reconciler \<Rightarrow> key \<Rightarrow> snapshot \<Rightarrow> ('w \<Rightarrow> bool) \<Rightarrow> string \<Rightarrow> access_bundle \<Rightarrow> bool" where
  "settled r req sn I host b \<longleftrightarrow>
     serves r req sn I \<and> in_place r sn host b \<and> rolled_out sn \<and> probes_pass r sn I"

subsection \<open>Each method finds nothing to do\<close>

lemma quiet_reads:
  assumes "serves r req sn I"
  shows "quietly I i (getInst r rd req) (Inr (sn_instance sn))"
    and "quietly I i (getDeployment r rd (chatui_key (sn_instance sn))) (get_reply (sn_deployment sn))"
    and "quietly I i (getService r rd (chatui_key (sn_instance sn))) (get_reply (sn_service sn))"
    and "quietly I i (getIngress r rd (chatui_key (sn_instance sn))) (get_reply (sn_ingress sn))"
    and "quietly I i (listIngresses r rd) (Inr (sn_ingresses sn))"
    and "quietly I i (getSecret r rd k) (get_reply (sn_secret sn k))"
  using assms unfolding serves_def Let_def api_defs by (auto intro!: quietly_external simp del: split_paired_All)

text \<open>Running a chain of calls whose replies are known.\<close>

lemma converge_settled:
  "map_len (r_extra_annotations r) = 0 \<Longrightarrow> wanted_route r name host path g \<Longrightarrow> converge_ingress r name host path g = (False, g)"
  unfolding converge_no_extra wanted_route_def by (rule route.both.idle) simp

lemma quiet_checkHostname:
  assumes "serves r req sn I" "settled_host r sn host"
  shows "quietly I (sn_instance sn) (checkHostname r host) None"
proof -
  let ?i = "sn_instance sn"
  have own: "pred_option (ownsIngress ?i) (sn_ingress sn)" using assms(2) by (simp add: settled_host_def Let_def)
  have free: "\<not> list_ex (\<lambda>ing. \<not> (meta_key (ing_meta ing) = chatui_key ?i \<and> ownsIngress ?i ing) \<and>
      list_ex (\<lambda>rule. claimsHost (ir_host rule) host) (ing_rules ing)) (sn_ingresses sn)"
    using assms(2) by (auto simp: settled_host_def unclaimed_def Let_def list_ex_iff)
  have owned: "(case get_reply (sn_ingress sn) of
      Inl e \<Rightarrow> if e \<noteq> NotFound then Some (Api e) else None
    | Inr existing \<Rightarrow> if \<not> ownsIngress ?i existing then Some (Sentinel ErrIngressNotOwned) else None) = None"
    using own by (cases "sn_ingress sn") simp_all
  show ?thesis
    unfolding checkHostname_def
    by (rule quietly_method, rule quietly_bind [OF quiet_reads(4) [OF assms(1)]], unfold owned option.case,
        rule quietly_bind [OF quiet_reads(5) [OF assms(1)]]) (simp only: sum.case free if_False quietly_ret)
qed

lemma quiet_selectedInstanceHost:
  assumes "serves r req sn I" "settled_host r sn host"
  shows "quietly I (sn_instance sn) (selectedInstanceHost r) (Inr host)"
proof -
  let ?i = "sn_instance sn"
  obtain sel where sel: "Select (r_lib r) (r_hostname_policy r) (i_meta ?i) = Inr sel"
    "Host (r_lib r) (r_public_host r) (sel_slug sel) = Inr host"
    "st_slug (i_status ?i) = sel_slug sel" "st_slug_source (i_status ?i) = sel_source sel"
    using assms(2) by (auto simp: settled_host_def Let_def)
  have slug: "quietly I ?i (ensureSlug r) (Inr (sel_slug sel))"
    unfolding ensureSlug_def by (rule quietly_method) (simp add: sel quietly_ret)
  show ?thesis
    unfolding selectedInstanceHost_def
    by (rule quietly_bind [OF slug], simp add: instanceHost_def sel,
        rule quietly_bind [OF quiet_checkHostname [OF assms]]) (simp add: quietly_ret)
qed

lemma quiet_reconcileIngress:
  assumes "serves r req sn I" "settled_host r sn host" "settled_route r sn host"
  shows "quietly I (sn_instance sn) (reconcileIngress r labels (chatui_name (sn_instance sn)) host ''/'') None"
proof -
  let ?i = "sn_instance sn"
  obtain g where g: "sn_ingress sn = Some g" and route: "converge_ingress r (chatui_name ?i) host ''/'' g = (False, g)"
    using assms(3) converge_settled unfolding settled_route_def by blast
  have own: "ownsIngress ?i g"
    using assms(2) by (simp add: settled_host_def Let_def g)
  show ?thesis
    unfolding reconcileIngress_def upsert_ingress_def
    by (rule quietly_bind [OF quiet_checkHostname [OF assms(1,2)]], simp, rule quietly_method,
        rule quietly_bind [OF quiet_reads(4) [OF assms(1)]]) (simp add: g own route quietly_ret)
qed

lemma quiet_sessionSecret:
  assumes "serves r req sn I" "sn_secret sn (i_namespace (sn_instance sn), sessionSecretName (r_lib r) (sn_instance sn)) = Some x"
    and "trusted_secret (sn_instance sn) x" "list_all (\<lambda>n. valid_session_key (map_get (sec_data x) n)) session_key_names"
  shows "quietly I (sn_instance sn) (sessionSecret r) (Inr x)"
  unfolding sessionSecret_def Let_def
  by (rule quietly_method, rule quietly_bind [OF quiet_reads(6) [OF assms(1)]]) (simp add: assms(2-4) quietly_ret)

lemma quiet_ensure_bundle:
  assumes "serves r req sn I" "sn_secret sn (i_namespace (sn_instance sn), name) = Some x"
    and "trusted_secret (sn_instance sn) x" "sec_data x = data"
  shows "quietly I (sn_instance sn) (ensure_bundle r name data) None"
  unfolding ensure_bundle_def
  by (rule quietly_method, rule quietly_bind [OF quiet_reads(6) [OF assms(1)]]) (simp add: assms(2-4) quietly_ret)

lemma quiet_prepareAccess:
  assumes "serves r req sn I" "settled_access r sn host b"
  shows "quietly I (sn_instance sn) (prepareAccess r host) (Inr b)"
proof -
  let ?i = "sn_instance sn" and ?url = "''https://'' @ host"
  obtain p e credential session cookie held where
    access: "r_access_policy r = Some p" "access_Select (Some p) (i_meta ?i) = Inr e" "r_public_scheme r = ''https''"
      "ap_credentials_namespace p \<noteq> i_namespace ?i" "\<not> reserved_credentials (i_credentials ?i)"
      "sn_secret sn (ap_credentials_namespace p, ae_client_secret_name e) = Some credential"
      "\<not> length (map_get (sec_data credential) ''client_secret'') < 16"
    and session: "sn_secret sn (i_namespace ?i, sessionSecretName (r_lib r) ?i) = Some session" "trusted_secret ?i session"
      "list_all (\<lambda>n. valid_session_key (map_get (sec_data session) n)) session_key_names"
      "oauthCookieSecret (map_get (sec_data session) ''cookie-secret'') = Inr cookie"
    and b: "let data = bundle_data r p e ?url (map_get (sec_data credential) ''client_secret'') cookie;
             revision = bundle_revision r p ?i data
         in b = \<lparr>ab_name = ''chatui-access-'' @ revision, ab_session_name = meta_name (sec_meta session),
                 ab_revision = revision, ab_public_url = ?url\<rparr> \<and>
            sn_secret sn (i_namespace ?i, ab_name b) = Some held \<and> trusted_secret ?i held \<and> sec_data held = data"
    using assms(2) unfolding settled_access_def by (auto simp: Let_def not_less)
  define data where "data = bundle_data r p e ?url (map_get (sec_data credential) ''client_secret'') cookie"
  have name: "ab_name b = ''chatui-access-'' @ bundle_revision r p ?i data"
    and held: "sn_secret sn (i_namespace ?i, ab_name b) = Some held" "trusted_secret ?i held" "sec_data held = data"
    and parts: "b = \<lparr>ab_name = ab_name b, ab_session_name = meta_name (sec_meta session),
       ab_revision = bundle_revision r p ?i data, ab_public_url = ?url\<rparr>"
    using b by (auto simp: data_def Let_def)
  have ensured: "quietly I ?i (ensure_bundle r (ab_name b) data) None"
    by (rule quiet_ensure_bundle [OF assms(1) held])
  have prepare: "quietly I ?i (prepare_bundle r p e host (map_get (sec_data credential) ''client_secret'')) (Inr b)"
    unfolding prepare_bundle_def
  proof (rule quietly_bind [OF quiet_sessionSecret [OF assms(1) session(1-3)]], unfold sum.case session(4),
      rule quietly_method, unfold Let_def, fold data_def, fold name)
    have "quietly I ?i (ret (Inr \<lparr>ab_name = ab_name b, ab_session_name = meta_name (sec_meta session),
        ab_revision = bundle_revision r p ?i data, ab_public_url = ?url\<rparr>)) (Inr b)"
      unfolding parts [symmetric] by (rule quietly_ret)
    then show "quietly I ?i (do {
        ensured \<leftarrow> ensure_bundle r (ab_name b) data;
        case ensured of Some err \<Rightarrow> ret (Inl err)
        | None \<Rightarrow> ret (Inr \<lparr>ab_name = ab_name b, ab_session_name = meta_name (sec_meta session),
            ab_revision = bundle_revision r p ?i data, ab_public_url = ?url\<rparr>) }) (Inr b)"
      by (intro quietly_bind [OF ensured]) simp
  qed
  show ?thesis
    unfolding prepareAccess_def
    by (rule quietly_method, simp add: access(1-5),
        rule quietly_bind [OF quiet_reads(6) [OF assms(1)]]) (simp add: access(6-7) prepare)
qed

lemma quiet_reconcileDeployment:
  assumes "serves r req sn I" "sn_deployment sn = Some d" "ownedByInstance (d_meta d) (sn_instance sn)"
    and "d_template d = managedAccessTemplate (d_template d) (desired_template r (sn_instance sn) labels n img checksum b)"
    and "strat_type (d_strategy d) = ''Recreate''" "d_replicas d = Some n"
  shows "quietly I (sn_instance sn) (reconcileDeployment r labels n img checksum b) None"
  unfolding reconcileDeployment_def Let_def
  by (rule quietly_method, rule quietly_bind [OF quiet_reads(2) [OF assms(1)]])
     (simp add: assms(2,3,5,6) assms(4) [symmetric] quietly_ret)

lemma quiet_reconcileService:
  assumes "serves r req sn I" "settled_service sn"
  shows "quietly I (sn_instance sn) (reconcileService r (uiLabels (i_name (sn_instance sn))) (chatui_name (sn_instance sn))) None"
  using assms(2) unfolding reconcileService_def Let_def settled_service_def
  by (intro quietly_method quietly_bind [OF quiet_reads(3) [OF assms(1)]]) (auto simp: quietly_ret)

lemma quiet_stopUnapprovedDeployment:
  assumes "serves r req sn I" "sn_deployment sn = None \<or> settled_deployment r sn b"
  shows "quietly I (sn_instance sn) (stopUnapprovedDeployment r False) (Inr False)"
proof -
  have "\<not> list_ex (\<lambda>c. c_name c = ''open-webui'' \<and> c_image c \<noteq> SupportedImage) (p_containers (t_spec (d_template d))) \<and>
      ownedByInstance (d_meta d) (sn_instance sn)" if "sn_deployment sn = Some d" for d
    using assms(2) that by (auto simp: settled_deployment_def Let_def list_all_iff list_ex_iff)
  then show ?thesis
    unfolding stopUnapprovedDeployment_def Let_def
    by (intro quietly_method quietly_bind [OF quiet_reads(2) [OF assms(1)]])
       (cases "sn_deployment sn", simp_all add: quietly_ret)
qed

lemma quiet_evaluate:
  assumes "serves r req sn I" "settled_deployment r sn b" "rolled_out sn" "probes_pass r sn I"
  shows "quietly I (sn_instance sn) (evaluateInstanceReadiness r (chatui_name (sn_instance sn)) host)
    (Inr (True, ''Provisioned'', ''Chat UI is ready''))"
proof -
  let ?i = "sn_instance sn"
  obtain d where d: "sn_deployment sn = Some d" "deployment_pending (chatui_name ?i) d = None"
    using assms(2,3) by (auto simp: settled_deployment_def rolled_out_def Let_def)
  obtain endpoints where ready: "has_ready_port 8080 endpoints"
    and reads: "quietly I ?i (getEndpoints r rd (chatui_key ?i)) (Inr endpoints)" for rd
    using assms(4) quietly_external [where entry = "GetEndpoints rd (chatui_key ?i)" for rd]
    unfolding probes_pass_def Let_def api_defs by (metis insertI1 kind_of.simps(21))
  have probes: "quietly I ?i (runServiceHealthCheck r url) None" "quietly I ?i (runDNSCheck r host) None" for url
    using assms(4) unfolding probes_pass_def Let_def runServiceHealthCheck_def runDNSCheck_def
    by (auto intro!: quietly_external simp del: split_paired_All)
  have endpoints: "quietly I ?i (serviceHasReadyEndpoints r (i_namespace ?i) (chatui_name ?i) 8080) (Inr (True, []))"
    unfolding serviceHasReadyEndpoints_def
    by (rule quietly_bind [OF reads]) (simp add: ready quietly_ret)
  show ?thesis
    unfolding evaluateInstanceReadiness_def Let_def
    by (rule quietly_method, rule quietly_bind [OF quiet_reads(2) [OF assms(1)]], simp add: d,
        rule quietly_bind [OF endpoints], simp, rule quietly_bind [OF probes(1)], simp,
        rule quietly_bind [OF probes(2)]) (simp add: quietly_ret)
qed

subsection \<open>The whole run\<close>

text \<open>
  The run ends in the Ready status: only reads and probes before one status write, of the instance
  as read with the Ready status, and the result asks for a recheck after 30 seconds.
\<close>

definition ready_run :: "'w reconciler \<Rightarrow> snapshot \<Rightarrow> string \<Rightarrow> log_entry list \<Rightarrow> bool" where
  "ready_run r sn host log \<longleftrightarrow>
     (\<exists>es stored. log = es @ [(let i = progress_status r (sn_instance sn) ''Ready'' ''True'' host ''Provisioned'' ''Chat UI is ready''
                              in (i, UpdateStatus i (Inr stored)))] \<and>
        list_all (\<lambda>e. kind_of (snd e) \<in> {Reading, Probing}) es)"

lemma ready_run_append:
  "list_all (\<lambda>e. kind_of (snd e) \<in> {Reading, Probing}) ds \<Longrightarrow> ready_run r sn host log \<Longrightarrow> ready_run r sn host (ds @ log)"
  unfolding ready_run_def by (elim exE conjE, rule_tac x = "ds @ es" in exI) (auto simp: Let_def)

definition ends_ready ::
  "'w reconciler \<Rightarrow> snapshot \<Rightarrow> ('w \<Rightarrow> bool) \<Rightarrow> string \<Rightarrow> ('w, result \<times> go_error option) op \<Rightarrow> bool" where
  "ends_ready r sn I host m \<longleftrightarrow> (\<forall>s. local_inst s = sn_instance sn \<and> I (world s) \<longrightarrow>
     wp m (\<lambda>a t. a = (requeue_after hostnameRecheckAfter, None) \<and>
       (\<exists>es. call_log t = call_log s @ es \<and> ready_run r sn host es)) s)"

lemma ends_ready_bind:
  fixes m :: "('w, 'a) op"
  assumes "quietly I (sn_instance sn) m a" "ends_ready r sn I host (f a)"
  shows "ends_ready r sn I host (State_Monad.bind m f)"
  unfolding ends_ready_def wp_bind
proof (intro allI impI)
  fix s :: "'w st"
  let ?Q = "\<lambda>s a t. a = (requeue_after hostnameRecheckAfter, None) \<and> (\<exists>es. call_log t = call_log s @ es \<and> ready_run r sn host es)"
  assume s: "local_inst s = sn_instance sn \<and> I (world s)"
  show "wp m (\<lambda>a. wp (f a) (?Q s)) s"
  proof (rule wp_use [OF assms(1) [unfolded quietly_def, rule_format, OF s]], elim conjE exE)
    fix a' es and t :: "'w st"
    assume t: "a' = a" "local_inst t = sn_instance sn" "I (world t)" "call_log t = call_log s @ es"
      "list_all (\<lambda>e. kind_of (snd e) \<in> {Reading, Probing}) es"
    show "wp (f a') (?Q s) t"
      unfolding t(1)
      by (rule wp_use [OF assms(2) [unfolded ends_ready_def, rule_format, OF conjI [OF t(2,3)]]])
         (use t(4) ready_run_append [OF t(5)] in auto)
  qed
qed

lemma ends_ready_method: "ends_ready r sn I host (f (sn_instance sn)) \<Longrightarrow> ends_ready r sn I host (State_Monad.bind get_inst f)"
  by (rule ends_ready_bind [OF quietly_get_inst])

lemma ends_ready_report:
  assumes "settled r req sn I host b"
  shows "ends_ready r sn I host (report_readiness r (chatui_name (sn_instance sn)) host)"
proof -
  have serves: "serves r req sn I" and work: "settled_deployment r sn b" "rolled_out sn" "probes_pass r sn I"
    using assms by (simp_all add: settled_def in_place_def)
  let ?new = "progress_status r (sn_instance sn) ''Ready'' ''True'' host ''Provisioned'' ''Chat UI is ready''"
  have reply: "\<exists>j. fst (k_update_status (r_cluster r) ?new w) = Inr j" if "I w" for w
    using work(3) that unfolding probes_pass_def Let_def by (simp add: progress_status_def)
  have "ends_ready r sn I host (do {
      statusErr \<leftarrow> updateReadyStatus r host;
      case statusErr of Some e \<Rightarrow> ret (no_result, Some e) | None \<Rightarrow> ret (requeue_after hostnameRecheckAfter, None) })"
    unfolding ends_ready_def updateReadyStatus_def write_status_def updateStatus_def
    by (auto simp: wp_simps split_beta ready_run_def Let_def dest!: reply)
  then show ?thesis
    unfolding report_readiness_def
    by (intro ends_ready_bind [OF quiet_evaluate [OF serves work]]) simp_all
qed

lemma ends_ready_publish:
  assumes "settled r req sn I host b"
  shows "ends_ready r sn I host (reconcile_publish r (uiLabels (i_name (sn_instance sn))) host)"
proof -
  have serves: "serves r req sn I" and place: "settled_service sn" "settled_host r sn host" "settled_route r sn host"
    using assms by (simp_all add: settled_def in_place_def)
  show ?thesis
    unfolding reconcile_publish_def Let_def
    by (intro ends_ready_method ends_ready_bind [OF quiet_reconcileService [OF serves place(1)]])
       (simp, rule ends_ready_bind [OF quiet_reconcileIngress [OF serves place(2,3)]], simp add: ends_ready_report [OF assms])
qed

lemma ends_ready_workload:
  assumes "settled r req sn I host b"
  shows "ends_ready r sn I host (reconcile_workload r SupportedImage host b)"
proof -
  let ?i = "sn_instance sn"
  let ?n = "if i_replicas ?i \<le> 0 then 1 else i_replicas ?i"
  have serves: "serves r req sn I" and place: "in_place r sn host b" using assms by (simp_all add: settled_def)
  obtain d credentials where cred: "sn_secret sn (i_namespace ?i, TrimSpace (i_credentials ?i)) = Some credentials"
    and d: "sn_deployment sn = Some d" "ownedByInstance (d_meta d) ?i"
      "d_template d = managedAccessTemplate (d_template d)
        (desired_template r ?i (uiLabels (i_name ?i)) ?n SupportedImage (computeSecretChecksum (r_lib r) credentials) b)"
      "strat_type (d_strategy d) = ''Recreate''" "d_replicas d = Some ?n"
    using place unfolding in_place_def settled_deployment_def Let_def by blast
  have deploy: "ends_ready r sn I host (reconcile_deploy r SupportedImage host b credentials)"
    unfolding reconcile_deploy_def Let_def
    by (intro ends_ready_method ends_ready_bind [OF quiet_reconcileDeployment [OF serves d]])
       (simp add: ends_ready_publish [OF assms])
  have finalizer: "has_finalizer (r_lib r) (i_meta ?i) finalizerName" and name: "TrimSpace (i_credentials ?i) \<noteq> []"
    using place by (simp_all add: in_place_def)
  show ?thesis
    unfolding reconcile_workload_def Let_def
    by (rule ends_ready_method, simp only: finalizer name not_True_eq_False if_False,
        rule ends_ready_bind [OF quiet_reads(6) [OF serves]]) (simp add: cred deploy)
qed

lemma ends_ready_gated:
  assumes "settled r req sn I host b"
  shows "ends_ready r sn I host (reconcile_gated r SupportedImage)"
proof -
  have serves: "serves r req sn I" and host: "settled_host r sn host" and access: "settled_access r sn host b"
    and deployed: "settled_deployment r sn b"
    using assms by (simp_all add: settled_def in_place_def)
  have hosted: "ends_ready r sn I host (reconcile_hosted r SupportedImage host)"
    unfolding reconcile_hosted_def
    by (rule ends_ready_bind [OF quiet_prepareAccess [OF serves access]]) (simp add: ends_ready_workload [OF assms])
  have limit: "\<not> 1 < i_replicas (sn_instance sn)" using host by (simp add: settled_host_def Let_def)
  have limited: "ends_ready r sn I host (reconcile_limited r SupportedImage)"
    unfolding reconcile_limited_def
    by (rule ends_ready_method, simp add: limit, rule ends_ready_bind [OF quiet_selectedInstanceHost [OF serves host]])
       (simp add: hosted)
  have stop: "quietly I (sn_instance sn) (stopUnapprovedDeployment r False) (Inr False)"
    by (rule quiet_stopUnapprovedDeployment [OF serves disjI2 [OF deployed]])
  show ?thesis
    unfolding reconcile_gated_def by (rule ends_ready_bind [OF stop]) (simp add: limited)
qed

text \<open>The result and the log of a whole run.\<close>

definition reconcile_result :: "'w reconciler \<Rightarrow> key \<Rightarrow> 'w \<Rightarrow> chat_instance \<Rightarrow> result \<times> go_error option" where
  "reconcile_result r req w i = fst (run_state (Reconcile r req) \<lparr>world = w, local_inst = i, call_log = []\<rparr>)"

lemma settled_run:
  assumes "settled r req sn I host b" "I w"
  shows "wp (Reconcile r req) (\<lambda>a t. a = (requeue_after hostnameRecheckAfter, None) \<and> ready_run r sn host (call_log t))
    \<lparr>world = w, local_inst = i, call_log = []\<rparr>"
proof -
  have serves: "serves r req sn I" and host: "settled_host r sn host" using assms by (simp_all add: settled_def in_place_def)
  have read: "fst (k_get_instance (r_cluster r) rd req w) = Inr (sn_instance sn)" "I (snd (k_get_instance (r_cluster r) rd req w))" for rd
    using serves assms(2) by (simp_all add: serves_def replies_def Let_def)
  have inst: "meta_deleted (i_meta (sn_instance sn)) = None" "resolveImage (i_image (sn_instance sn)) = Inr SupportedImage"
    using host by (auto simp: settled_host_def Let_def resolveImage_def)
  show ?thesis
    unfolding Reconcile_def getInst_def
    using ready_run_append [of "[(i, GetInstance (routeReader r) req (Inr (sn_instance sn)))]" r sn host]
    by (auto simp: wp_simps split_beta read inst
        intro!: wp_use [OF ends_ready_gated [OF assms(1), unfolded ends_ready_def, rule_format]])
qed


subsection \<open>A settled sample\<close>

text \<open>A cluster without objects that refuses every write, and one that answers with a snapshot.\<close>

definition bare_cluster :: "unit cluster" where
  "bare_cluster =
     \<lparr>k_get_instance = (\<lambda>_ _ w. (Inl NotFound, w)), k_get_deployment = (\<lambda>_ _ w. (Inl NotFound, w)),
      k_get_service = (\<lambda>_ _ w. (Inl NotFound, w)), k_get_ingress = (\<lambda>_ _ w. (Inl NotFound, w)),
      k_get_secret = (\<lambda>_ _ w. (Inl NotFound, w)), k_get_endpoints = (\<lambda>_ _ w. (Inl NotFound, w)),
      k_list_instances = (\<lambda>_ _ w. (Inr [], w)), k_list_ingresses = (\<lambda>_ w. (Inr [], w)),
      k_list_deployments = (\<lambda>_ _ w. (Inr [], w)), k_list_pods = (\<lambda>_ _ _ w. (Inr [], w)),
      k_create_deployment = (\<lambda>_ w. (Inl Conflict, w)), k_create_service = (\<lambda>_ w. (Inl Conflict, w)),
      k_create_ingress = (\<lambda>_ w. (Inl Conflict, w)), k_create_secret = (\<lambda>_ w. (Inl Conflict, w)),
      k_update_instance = (\<lambda>_ w. (Inl Conflict, w)), k_update_deployment = (\<lambda>_ w. (Inl Conflict, w)),
      k_update_service = (\<lambda>_ w. (Inl Conflict, w)), k_update_ingress = (\<lambda>_ w. (Inl Conflict, w)),
      k_delete_ingress = (\<lambda>_ _ _ w. (Inl Conflict, w)), k_delete_secret = (\<lambda>_ _ _ w. (Inl Conflict, w)),
      k_patch_status = (\<lambda>_ _ _ w. (Inl Conflict, w)), k_update_status = (\<lambda>_ w. (Inl Conflict, w)),
      k_random = (\<lambda>_ w. (None, w)), k_http_get = (\<lambda>_ w. (Inr 200, w)),
      k_lookup_host = (\<lambda>_ w. (Inr [''192.0.2.1''], w)), k_custom_health = None, k_custom_dns = None\<rparr>"

definition answering :: "key \<Rightarrow> snapshot \<Rightarrow> unit cluster" where
  "answering req sn =
     (let own = chatui_key (sn_instance sn) in bare_cluster
      \<lparr>k_get_instance := (\<lambda>_ k w. (if k = req then Inr (sn_instance sn) else Inl NotFound, w)),
       k_get_deployment := (\<lambda>_ k w. (if k = own then get_reply (sn_deployment sn) else Inl NotFound, w)),
       k_get_service := (\<lambda>_ k w. (if k = own then get_reply (sn_service sn) else Inl NotFound, w)),
       k_get_ingress := (\<lambda>_ k w. (if k = own then get_reply (sn_ingress sn) else Inl NotFound, w)),
       k_get_secret := (\<lambda>_ k w. (get_reply (sn_secret sn k), w)),
       k_get_endpoints := (\<lambda>_ k w. (if k = own then Inr [\<lparr>ess_addresses = [''10.1.2.3''], ess_ports = [8080]\<rparr>] else Inl NotFound, w)),
       k_list_ingresses := (\<lambda>_ w. (Inr (sn_ingresses sn), w)),
       k_update_status := (\<lambda>i w. (Inr i, w))\<rparr>)"

definition configured :: "'w cluster \<Rightarrow> 'w reconciler" where
  "configured cl =
     \<lparr>r_lib = sample_library, r_cluster = cl, r_hostname_policy = Some sample_policy,
      r_access_policy = Some sample_access_policy, r_has_route_reader = True, r_public_host = ''chat.example.test'',
      r_public_scheme = ''https'', r_extra_annotations = fmempty, r_tls_secret_name = ''chat-tls'',
      r_guard_source = ''guard''\<rparr>"

lemma serves_answering: "serves (configured (answering req sn)) req sn (\<lambda>_. True)"
  by (simp add: serves_def replies_def answering_def bare_cluster_def configured_def Let_def)

lemma probes_answering: "probes_pass (configured (answering req sn)) sn (\<lambda>_. True)"
  by (simp add: probes_pass_def replies_def answering_def bare_cluster_def configured_def Let_def has_ready_port_def
      defaultServiceHealthChecker_def defaultDNSChecker_def)

definition sample_owner :: owner_ref where
  "sample_owner = \<lparr>owner_api_version = GroupVersion, owner_kind = ''ChatUIInstance'', owner_name = ''chat'', owner_uid = ''uid-1''\<rparr>"

definition owned :: "string \<Rightarrow> string \<Rightarrow> object_meta" where
  "owned name uid = (new_meta ''tenant'' name)\<lparr>meta_uid := uid, meta_controller := Some sample_owner\<rparr>"

definition sample_key32 :: string where "sample_key32 = replicate 32 (CHR ''k'')"

definition sample_session :: string where
  "sample_session = ''chatui-session-'' @ uidHash sample_library ''uid-1''"

definition sample_host :: string where "sample_host = ''old-name.chat.example.test''"

definition sample_data :: "unit reconciler \<Rightarrow> gomap" where
  "sample_data r = bundle_data r sample_access_policy sample_access_entry (''https://'' @ sample_host)
     ''0123456789abcdef'' (URLEncode sample_key32)"

definition sample_revision :: "unit reconciler \<Rightarrow> string" where
  "sample_revision r = uidHash sample_library (''uid-1'' @ serialized_data (sample_data r) @ sample_proxy_image)"

definition sample_bundle :: "unit reconciler \<Rightarrow> access_bundle" where
  "sample_bundle r = \<lparr>ab_name = ''chatui-access-'' @ sample_revision r, ab_session_name = sample_session,
     ab_revision = sample_revision r, ab_public_url = ''https://'' @ sample_host\<rparr>"

definition sample_instance :: "unit reconciler \<Rightarrow> chat_instance" where
  "sample_instance r =
     \<lparr>i_meta = (sample_object ''uid-1'' ''chat'')\<lparr>meta_finalizers := [finalizerName]\<rparr>,
      i_spec = \<lparr>spec_credentials = \<lparr>cr_name = ''backend''\<rparr>, spec_replicas = 0, spec_image = []\<rparr>,
      i_status = \<lparr>st_pins = fmupd sample_session ''s-uid'' (fmupd (ab_name (sample_bundle r)) ''b-uid'' fmempty),
        st_phase = phaseProvisioning, st_url = [], st_slug = ''old-name'', st_slug_source = Legacy,
        st_observed = 1, st_conditions = []\<rparr>\<rparr>"

definition sample_secrets :: "unit reconciler \<Rightarrow> key \<Rightarrow> secret option" where
  "sample_secrets r k =
     (if k = (''operator'', ''oidc-client'')
      then Some \<lparr>sec_meta = new_meta ''operator'' ''oidc-client'', sec_type = [], sec_immutable = None,
                 sec_data = fmupd ''client_secret'' ''0123456789abcdef'' fmempty\<rparr>
      else if k = (''tenant'', sample_session)
      then Some \<lparr>sec_meta = owned sample_session ''s-uid'', sec_type = ''Opaque'', sec_immutable = Some True,
                 sec_data = fmupd ''cookie-secret'' (StdEncode sample_key32) (fmupd ''webui-secret'' (StdEncode sample_key32) fmempty)\<rparr>
      else if k = (''tenant'', ab_name (sample_bundle r))
      then Some \<lparr>sec_meta = owned (ab_name (sample_bundle r)) ''b-uid'', sec_type = ''Opaque'', sec_immutable = Some True,
                 sec_data = sample_data r\<rparr>
      else if k = (''tenant'', ''backend'')
      then Some \<lparr>sec_meta = new_meta ''tenant'' ''backend'', sec_type = [], sec_immutable = None, sec_data = fmempty\<rparr>
      else None)"

definition sample_deployment :: "unit reconciler \<Rightarrow> deployment" where
  "sample_deployment r = (desiredDeployment r (sample_instance r) (uiLabels ''chat'') 1 SupportedImage [] (sample_bundle r))
     \<lparr>d_meta := owned ''chat-chatui'' ''d-uid'', d_updated_replicas := 1, d_ready_replicas := 1, d_available_replicas := 1\<rparr>"

definition sample_snapshot :: "unit reconciler \<Rightarrow> snapshot" where
  "sample_snapshot r =
     (let inst = sample_instance r; labels = uiLabels ''chat'' in
      \<lparr>sn_instance = inst,
       sn_deployment = Some (sample_deployment r),
       sn_service = Some \<lparr>svc_meta = owned ''chat-chatui'' ''v-uid'', svc_type = ''ClusterIP'', svc_external_name = [],
         svc_selector = service_labels labels inst, svc_ports = service_ports, svc_other = []\<rparr>,
       sn_ingress = Some (let g = snd (converge_ingress r ''chat-chatui'' sample_host ''/''
           (buildDesiredIngress r inst labels ''chat-chatui'' sample_host ''/''))
         in g\<lparr>ing_meta := (owned ''chat-chatui'' ''g-uid'')\<lparr>meta_annotations := ing_annotations g\<rparr>\<rparr>),
       sn_ingresses = [], sn_secret = sample_secrets r\<rparr>)"

text \<open>The snapshot does not depend on the cluster behind the reconciler.\<close>

definition sample_base :: "unit reconciler" where
  "sample_base = configured bare_cluster"

definition sample_reconciler :: "unit reconciler" where
  "sample_reconciler = configured (answering (''tenant'', ''chat'') (sample_snapshot sample_base))"

lemma same_desired:
  "desiredDeployment sample_reconciler = desiredDeployment sample_base"
  "bundle_data sample_reconciler = bundle_data sample_base"
  by (simp_all add: fun_eq_iff desiredDeployment_def proxy_image_def bundle_data_def sample_reconciler_def sample_base_def configured_def)

lemma sample_config:
  "r_lib sample_reconciler = sample_library" "r_hostname_policy sample_reconciler = Some sample_policy"
  "r_access_policy sample_reconciler = Some sample_access_policy" "r_public_host sample_reconciler = ''chat.example.test''"
  "r_public_scheme sample_reconciler = ''https''" "r_extra_annotations sample_reconciler = fmempty"
  "r_tls_secret_name sample_reconciler = ''chat-tls''"
  "r_lib sample_base = sample_library" "r_public_scheme sample_base = ''https''" "r_extra_annotations sample_base = fmempty"
  "r_tls_secret_name sample_base = ''chat-tls''"
  by (simp_all add: sample_reconciler_def sample_base_def configured_def)

lemma sample_i_meta: "i_meta (sample_instance r) = (sample_object ''uid-1'' ''chat'')\<lparr>meta_finalizers := [finalizerName]\<rparr>"
  by (simp add: sample_instance_def)

lemma sample_meta:
  "i_uid (sample_instance r) = ''uid-1''" "i_name (sample_instance r) = ''chat''" "i_namespace (sample_instance r) = ''tenant''"
  "chatui_name (sample_instance r) = ''chat-chatui''" "sessionSecretName sample_library (sample_instance r) = sample_session"
  by (simp_all add: sample_instance_def sample_object_def chatui_name_def sessionSecretName_def sample_session_def)

lemma sample_fields:
  "i_credentials (sample_instance r) = ''backend''" "i_replicas (sample_instance r) = 0" "i_image (sample_instance r) = []"
  "st_slug (i_status (sample_instance r)) = ''old-name''" "st_slug_source (i_status (sample_instance r)) = Legacy"
  "i_pins (sample_instance r) = fmupd sample_session ''s-uid'' (fmupd (ab_name (sample_bundle r)) ''b-uid'' fmempty)"
  "sn_instance (sample_snapshot r) = sample_instance r" "sn_secret (sample_snapshot r) = sample_secrets r"
  by (simp_all add: sample_instance_def sample_snapshot_def Let_def)

lemma sample_owned: "ownedByInstance (owned name uid) (sample_instance r)"
  by (simp add: ownedByInstance_def owned_def sample_meta sample_owner_def new_meta_def)

lemma sample_serves: "serves sample_reconciler (''tenant'', ''chat'') (sample_snapshot sample_base) (\<lambda>_. True)"
  unfolding sample_reconciler_def by (rule serves_answering)

lemma sample_probes: "probes_pass sample_reconciler (sample_snapshot sample_base) (\<lambda>_. True)"
  unfolding sample_reconciler_def by (rule probes_answering)

lemma sample_route: "settled_route sample_reconciler (sample_snapshot sample_base) sample_host"
proof -
  let ?g = "buildDesiredIngress sample_base (sample_instance sample_base) (uiLabels ''chat'') ''chat-chatui'' sample_host ''/''"
  have same: "wanted_route sample_reconciler = wanted_route sample_base"
    unfolding fun_eq_iff wanted_route_def wanted_tls_def isHTTPS_def sample_config by simp
  have no_extra: "map_len (r_extra_annotations sample_base) = 0" by (simp add: sample_config)
  have "wanted_route sample_base ''chat-chatui'' sample_host ''/'' (snd (converge_ingress sample_base ''chat-chatui'' sample_host ''/'' ?g))"
    unfolding converge_no_extra [OF no_extra] wanted_route_def using route.both.establishes by simp
  moreover have "wanted_route sample_base name host path (g\<lparr>ing_meta := (m :: object_meta)\<lparr>meta_annotations := ing_annotations g\<rparr>\<rparr>) =
      wanted_route sample_base name host path g" for name host path g m
    by (simp add: wanted_route_def wanted_annotations_def wanted_dns_def wanted_class_def wanted_rule_def wanted_tls_def)
  ultimately show ?thesis
    unfolding settled_route_def same sample_fields by (simp add: sample_config sample_snapshot_def sample_meta Let_def)
qed

lemma sample_Select_instance:
  "Select sample_library (Some sample_policy) (i_meta (sample_instance r)) = Inr \<lparr>sel_slug = ''old-name'', sel_source = Legacy\<rparr>"
  by (simp add: Select_def sample_i_meta sample_policy_def sample_entries_def sample_object_def legacyMode_def)

lemma sample_settled_host: "settled_host sample_reconciler (sample_snapshot sample_base) sample_host"
proof -
  have "pred_option (ownsIngress (sample_instance sample_base)) (sn_ingress (sample_snapshot sample_base))"
    unfolding ownsIngress_ownedByInstance
    by (simp add: sample_snapshot_def Let_def ownedByInstance_def owned_def sample_meta sample_owner_def new_meta_def)
  moreover have "meta_deleted (i_meta (sample_instance sample_base)) = None"
    by (simp add: sample_i_meta sample_object_def)
  moreover have "sn_ingresses (sample_snapshot sample_base) = []" by (simp add: sample_snapshot_def Let_def)
  ultimately show ?thesis
    unfolding settled_host_def Let_def sample_fields
    by (simp add: sample_config sample_Select_instance sample_fields sample_host_def sample_Host unclaimed_def)
qed

lemma sample_names_distinct: "sample_session \<noteq> ab_name (sample_bundle r)" "ab_name (sample_bundle r) \<noteq> sample_session"
  "ab_name (sample_bundle r) \<noteq> ''backend''" "sample_session \<noteq> ''backend''"
  "''backend'' \<noteq> ab_name (sample_bundle r)" "''backend'' \<noteq> sample_session"
  by (simp_all add: sample_session_def sample_bundle_def)

lemma sample_found:
  "map_get (sec_data (the (sample_secrets r (''operator'', ''oidc-client'')))) ''client_secret'' = ''0123456789abcdef''"
  "\<exists>s. sample_secrets r (''tenant'', sample_session) = Some s \<and> sec_meta s = owned sample_session ''s-uid'' \<and>
     sec_immutable s = Some True \<and> map_get (sec_data s) ''cookie-secret'' = StdEncode sample_key32 \<and>
     map_get (sec_data s) ''webui-secret'' = StdEncode sample_key32"
  "\<exists>s. sample_secrets r (''tenant'', ab_name (sample_bundle r)) = Some s \<and>
     sec_meta s = owned (ab_name (sample_bundle r)) ''b-uid'' \<and> sec_immutable s = Some True \<and> sec_data s = sample_data r"
  "\<exists>s. sample_secrets r (''tenant'', ''backend'') = Some s \<and> sec_data s = fmempty"
  using sample_names_distinct by (simp_all add: sample_secrets_def map_get_def)

lemma sample_trusted:
  assumes "sec_meta s = owned name uid" "sec_immutable s = Some True" "uid \<noteq> []"
    and "map_get (i_pins (sample_instance r)) name = uid"
  shows "trusted_secret (sample_instance r) s"
  using assms by (simp add: trusted_secret_def sample_owned) (simp add: owned_def new_meta_def)

lemma sample_keys: "valid_session_key (StdEncode sample_key32)"
  "oauthCookieSecret (StdEncode sample_key32) = Inr (URLEncode sample_key32)"
  by (simp_all add: valid_session_key_def oauthCookieSecret_def sample_key32_def)

lemma sample_settled_access:
  "settled_access sample_reconciler (sample_snapshot sample_base) sample_host (sample_bundle sample_base)"
proof -
  obtain session where session: "sample_secrets sample_base (''tenant'', sample_session) = Some session"
    "sec_meta session = owned sample_session ''s-uid''" "sec_immutable session = Some True"
    "map_get (sec_data session) ''cookie-secret'' = StdEncode sample_key32"
    "map_get (sec_data session) ''webui-secret'' = StdEncode sample_key32"
    using sample_found(2) by blast
  obtain stored where stored: "sample_secrets sample_base (''tenant'', ab_name (sample_bundle sample_base)) = Some stored"
    "sec_meta stored = owned (ab_name (sample_bundle sample_base)) ''b-uid''" "sec_immutable stored = Some True"
    "sec_data stored = sample_data sample_base"
    using sample_found(3) by blast
  obtain credential where credential: "sample_secrets sample_base (''operator'', ''oidc-client'') = Some credential"
    "map_get (sec_data credential) ''client_secret'' = ''0123456789abcdef''"
    using sample_found(1) [of sample_base] by (simp add: sample_secrets_def)
  have pins: "map_get (i_pins (sample_instance sample_base)) sample_session = ''s-uid''"
    "map_get (i_pins (sample_instance sample_base)) (ab_name (sample_bundle sample_base)) = ''b-uid''"
    using sample_names_distinct by (simp_all add: sample_fields map_get_def)
  have trusted: "trusted_secret (sample_instance sample_base) session" "trusted_secret (sample_instance sample_base) stored"
    using sample_trusted [OF session(2,3) _ pins(1)] sample_trusted [OF stored(2,3) _ pins(2)] by simp_all
  have selected: "access_Select (Some sample_access_policy) (i_meta (sample_instance sample_base)) = Inr sample_access_entry"
    by (simp add: access_Select_def sample_i_meta sample_object_def sample_access_policy_def sample_access_entry_def sample_second_entry_def row_matches_def)
  have name: "meta_name (sec_meta session) = sample_session" by (simp add: session(2) owned_def new_meta_def)
  have policy: "ap_credentials_namespace sample_access_policy = ''operator''" "ae_client_secret_name sample_access_entry = ''oidc-client''"
    "ap_proxy_image sample_access_policy = sample_proxy_image"
    by (simp_all add: sample_access_policy_def sample_access_entry_def)
  have revision: "bundle_revision sample_reconciler sample_access_policy (sample_instance sample_base) (sample_data sample_base) =
      sample_revision sample_base"
    unfolding bundle_revision_def sample_config sample_meta policy sample_revision_def ..
  let ?data = "bundle_data sample_reconciler sample_access_policy sample_access_entry (''https://'' @ sample_host)
    (map_get (sec_data credential) ''client_secret'') (URLEncode sample_key32)"
  have data: "?data = sample_data sample_base"
    by (simp only: same_desired credential sample_data_def)
  show ?thesis
    unfolding settled_access_def Let_def sample_fields sample_config sample_meta
  proof (intro exI conjI)
    show "access_Select (Some sample_access_policy) (i_meta (sample_instance sample_base)) = Inr sample_access_entry" by (rule selected)
    show "sample_secrets sample_base (ap_credentials_namespace sample_access_policy, ae_client_secret_name sample_access_entry) = Some credential"
      by (simp only: policy credential)
    show "sample_secrets sample_base (''tenant'', sample_session) = Some session" by (rule session)
    show "sample_secrets sample_base (''tenant'', ab_name (sample_bundle sample_base)) = Some stored" by (rule stored)
    show "oauthCookieSecret (map_get (sec_data session) ''cookie-secret'') = Inr (URLEncode sample_key32)"
      by (simp only: session sample_keys)
    show "sample_bundle sample_base =
        \<lparr>ab_name = ''chatui-access-'' @ bundle_revision sample_reconciler sample_access_policy (sample_instance sample_base) ?data,
         ab_session_name = meta_name (sec_meta session),
         ab_revision = bundle_revision sample_reconciler sample_access_policy (sample_instance sample_base) ?data,
         ab_public_url = ''https://'' @ sample_host\<rparr>"
      by (simp only: data revision name sample_bundle_def)
    show "sec_data stored = ?data" by (simp only: data stored)
  qed (simp_all add: trusted policy credential session_key_names_def session sample_keys reserved_credentials_def)
qed

lemma desired_fixed_fields:
  "strat_type (d_strategy (desiredDeployment r inst labels n img checksum b)) = ''Recreate''"
  "d_replicas (desiredDeployment r inst labels n img checksum b) = Some n"
  "d_observed_generation (desiredDeployment r inst labels n img checksum b) = 0"
  by (simp_all add: desiredDeployment_def applyAccessDeployment_def buildDeployment_def Let_def)

lemma desired_webui_image:
  "list_all (\<lambda>c. c_name c = ''open-webui'' \<longrightarrow> c_image c = img)
     (p_containers (t_spec (desired_template r inst labels n img checksum b)))"
  unfolding desired_containers
  by (simp add: guarded_containers_def guarded_webui_def webui_container_def gate_container_def oauth_container_def managed_container_def no_container_def)

lemma sample_deployed: "settled_deployment sample_reconciler (sample_snapshot sample_base) (sample_bundle sample_base)"
proof -
  obtain credentials where credentials: "sample_secrets sample_base (''tenant'', ''backend'') = Some credentials" "sec_data credentials = fmempty"
    using sample_found(4) by blast
  have "TrimSpace ''backend'' = ''backend''"
    by (simp add: TrimSpace_visible visible_def)
  moreover have "computeSecretChecksum sample_library credentials = []"
    by (simp add: computeSecretChecksum_def credentials map_len_def)
  moreover have "sn_deployment (sample_snapshot sample_base) = Some (sample_deployment sample_base)"
    by (simp add: sample_snapshot_def Let_def)
  ultimately show ?thesis
    unfolding settled_deployment_def Let_def sample_fields sample_meta sample_config
    using credentials
    by (simp add: sample_deployment_def desired_fixed_fields desired_self_fixed same_desired desired_webui_image sample_owned)
qed

lemma sample_in_place: "in_place sample_reconciler (sample_snapshot sample_base) sample_host (sample_bundle sample_base)"
proof -
  have "has_finalizer sample_library (i_meta (sample_instance sample_base)) finalizerName"
    by (simp add: sample_i_meta sample_library_def)
  moreover have "settled_service (sample_snapshot sample_base)"
    by (simp add: settled_service_def sample_snapshot_def Let_def sample_owned sample_meta)
  moreover have "TrimSpace ''backend'' \<noteq> []"
    by (simp add: TrimSpace_visible visible_def)
  ultimately show ?thesis
    using sample_settled_host sample_settled_access sample_deployed sample_route
    by (simp add: in_place_def sample_config sample_fields)
qed

lemma sample_rolled_out: "rolled_out (sample_snapshot sample_base)"
  by (simp add: rolled_out_def sample_snapshot_def Let_def deployment_pending_def sample_deployment_def desired_fixed_fields
      desired_replicas_def owned_def new_meta_def)


end
