(* ===== verification/Entry_Laws.thy ===== *)
theory Entry_Laws
  imports Entry_Points Gate_Laws Steady_State
begin

text \<open>
  What starting the two processes guarantees: the operator runs only with valid policies, labels
  never displace those of an object, no route without HTTPS, and the proxy container starts on
  the configuration the operator generates and listens for users on the loopback interface only.
\<close>

subsection \<open>Options\<close>

text \<open>Every member of the document is taken over, a string as it is, another value as its text.\<close>

lemma parseJSONMap_lookup:
  "fmlookup (parseJSONMap num s) k =
     (case unmarshal_map num s of None \<Rightarrow> None | Some raw \<Rightarrow> map_option value_text (fmlookup raw k))"
  by (simp add: parseJSONMap_def split: option.splits)

text \<open>A map of strings survives being printed and read again.\<close>

definition strings_json :: "(string \<times> string) list \<Rightarrow> json" where
  "strings_json kvs = JObject (map (\<lambda>(k, v). (k, JString v)) kvs)"

lemma those_Some: "those (map (\<lambda>x. Some (f x)) xs) = Some (map f xs)"
  by (induction xs) auto

lemma parse_printed_strings:
  assumes "list_all (\<lambda>(k, v). utf8_valid k \<and> utf8_valid v) kvs" "distinct (map fst kvs)"
  shows "parseJSONMap num (marshal (strings_json kvs)) = fmap_of_list kvs"
proof -
  let ?ms = "map (\<lambda>(k, v). (k, JString v)) kvs"
  have "printable max_nesting_depth (strings_json kvs)"
    using assms(1) by (simp add: strings_json_def max_nesting_depth_def list_all_iff case_prod_beta)
  then have "read_document (marshal (strings_json kvs)) = Some (JObject ?ms)"
    using read_marshal [of "strings_json kvs" "[]"] by (simp add: read_document_def json_blank_def strings_json_def)
  moreover have "those (map (\<lambda>(k, j). map_option (Pair k) (any_value num j)) ?ms) = Some ?ms"
    using those_Some [of "\<lambda>(k, v). (k, JString v)" kvs] by (simp add: comp_def case_prod_beta)
  ultimately have raw: "unmarshal_map num (marshal (strings_json kvs)) = Some (fmap_of_list (rev ?ms))"
    by (simp add: unmarshal_map_def)
  have members: "map_of (rev ?ms) k = map_option JString (map_of kvs k)" for k
  proof -
    have "map_of (rev ?ms) = map_of ?ms"
      using assms(2) by (subst map_of_inject_set) (simp_all add: comp_def case_prod_beta flip: rev_map)
    then show ?thesis by (simp add: map_of_map)
  qed
  show ?thesis
    by (rule fmap_ext) (simp add: parseJSONMap_lookup raw fmlookup_of_list members option.map_comp comp_def value_text_def option.map_ident)
qed

text \<open>
  C38. Configured annotations arrive unchanged. If the option (or else the environment) holds the JSON text
  of a non-empty map of strings in valid UTF-8, as \<open>json.Marshal\<close> prints it, then the reconciler of the
  started manager works with exactly this map, whatever the environment holds besides the option.
\<close>

theorem annotations_arrive_unchanged:
  assumes "list_all (\<lambda>(k, v). utf8_valid k \<and> utf8_valid v) kvs" "distinct (map fst kvs)" "kvs \<noteq> []"
    and "fl_extra_annotations fl = marshal (strings_json kvs) \<or>
         fl_extra_annotations fl = [] \<and> pe_getenv pe ''INGRESS_EXTRA_ANNOTATIONS'' = marshal (strings_json kvs)"
  shows "r_extra_annotations (new_reconciler pe fl hp ap mgr) = fmap_of_list kvs"
proof -
  have parse: "parseJSONMap (pe_number_text pe) (marshal (strings_json kvs)) = fmap_of_list kvs"
    by (rule parse_printed_strings [OF assms(1,2)])
  obtain k where "k |\<in>| fmdom (fmap_of_list kvs)" using assms(3) by (cases kvs) auto
  then have "0 < map_len (fmap_of_list kvs)" using map_len_drop by fastforce
  moreover have "marshal (strings_json kvs) \<noteq> []" by (simp add: strings_json_def)
  ultimately have "extra_annotations pe fl = fmap_of_list kvs"
    using assms(4) by (auto simp: extra_annotations_def Let_def parse)
  then show ?thesis by (simp add: new_reconciler_def)
qed

subsection \<open>Labels\<close>

lemma label_loop:
  "distinct (map fst kvs) \<Longrightarrow>
   fmlookup (foldl label_step labels kvs) k =
     (case fmlookup labels k of
        Some v \<Rightarrow> Some v
      | None \<Rightarrow> (case map_of kvs k of None \<Rightarrow> None | Some v \<Rightarrow> if v = [] then None else Some v))"
proof (induction kvs arbitrary: labels)
  case (Cons kv kvs)
  obtain x v where kv: "kv = (x, v)" by fastforce
  have "map_of kvs x = None" using Cons.prems kv by (force simp: map_of_eq_None_iff)
  moreover have "fmlookup (label_step labels kv) k =
      (if k = x \<and> fmlookup labels x = None \<and> v \<noteq> [] then Some v else fmlookup labels k)"
    by (cases "fmlookup labels x") (auto simp: kv label_step_def fmlookup_dom_iff)
  moreover have "fmlookup (foldl label_step labels (kv # kvs)) k =
      (case fmlookup (label_step labels kv) k of
         Some v \<Rightarrow> Some v
       | None \<Rightarrow> (case map_of kvs k of None \<Rightarrow> None | Some v \<Rightarrow> if v = [] then None else Some v))"
    using Cons by simp
  ultimately show ?case
    by (simp only:) (simp add: kv split: option.splits)
qed (simp split: option.splits)

lemma map_of_range: "range_library lib \<Longrightarrow> map_of (map_range lib m) k = fmlookup m k"
  unfolding range_library_def by (metis map_of_eq_None_iff map_of_is_SomeI map_of_SomeD not_None_eq option.exhaust)

text \<open>
  C27. The labelling client adds and never replaces: after \<open>ensureLabels\<close> an object has each label it
  had, with its value, and each non-empty base label it did not have, and nothing else of it is
  changed; a second pass changes nothing. So the labels by which the operator selects pods and
  finds instances survive, although the base labels hold another value for one of these keys.
\<close>

theorem labels_added_never_replaced:
  assumes "range_library lib"
  shows "fmlookup (meta_labels (ensureLabels lib base m)) k =
      (case fmlookup (meta_labels m) k of
         Some v \<Rightarrow> Some v
       | None \<Rightarrow> (case fmlookup base k of Some v \<Rightarrow> if v = [] then None else Some v | None \<Rightarrow> None)) \<and>
    ensureLabels lib base m = m\<lparr>meta_labels := meta_labels (ensureLabels lib base m)\<rparr> \<and>
    ensureLabels lib base (ensureLabels lib base m) = ensureLabels lib base m"
proof (intro conjI)
  have distinct: "distinct (map fst (map_range lib base))" using assms by (simp add: range_library_def)
  have empty: "map_len base = 0 \<Longrightarrow> fmlookup base k = None" for k
    using fmdom_notD [of k base] by (simp add: map_len_def)
  have lookup: "fmlookup (meta_labels (ensureLabels lib base m)) k =
      (case fmlookup (meta_labels m) k of
         Some v \<Rightarrow> Some v
       | None \<Rightarrow> (case fmlookup base k of Some v \<Rightarrow> if v = [] then None else Some v | None \<Rightarrow> None))" for k m
    using empty by (auto simp: ensureLabels_def label_loop [OF distinct] map_of_range [OF assms] split: option.splits)
  then show "fmlookup (meta_labels (ensureLabels lib base m)) k =
      (case fmlookup (meta_labels m) k of
         Some v \<Rightarrow> Some v
       | None \<Rightarrow> (case fmlookup base k of Some v \<Rightarrow> if v = [] then None else Some v | None \<Rightarrow> None))" .
  show frame: "ensureLabels lib base m = m\<lparr>meta_labels := meta_labels (ensureLabels lib base m)\<rparr>" for m
    by (simp add: ensureLabels_def)
  have "meta_labels (ensureLabels lib base (ensureLabels lib base m)) = meta_labels (ensureLabels lib base m)"
    by (rule fmap_ext) (simp add: lookup split: option.splits)
  then show "ensureLabels lib base (ensureLabels lib base m) = ensureLabels lib base m"
    using frame [of "ensureLabels lib base m"] by simp
qed

theorem labels_added_never_replaced_witness:
  "fmlookup (meta_labels (ensureLabels sample_library (base_labels ''v1'')
     ((new_meta ''tenant'' ''chat-chatui'')\<lparr>meta_labels := uiLabels ''chat''\<rparr>))) ''app.kubernetes.io/name'' = Some ''open-webui''"
  using labels_added_never_replaced [OF sample_range, of "base_labels ''v1''"
      "(new_meta ''tenant'' ''chat-chatui'')\<lparr>meta_labels := uiLabels ''chat''\<rparr>" "''app.kubernetes.io/name''"]
  by (simp add: uiLabels_def new_meta_def)

subsection \<open>Start-up of the operator\<close>

lemma loaded_policies:
  assumes "snd (manager_main pe fl) = Ran r err"
  obtains hp ap mgr where "loadHostnamePolicy pe (fl_hostname_policy_file fl) = Inr hp"
    "loadAccessPolicy pe (fl_access_policy_file fl) = Inr ap"
    "pe_new_manager pe (manager_options_of fl) = Inr mgr" "ValidatePublicHost (pe_lib pe) hp (public_host pe) = None"
    "r = (new_reconciler pe fl hp ap mgr)\<lparr>r_has_route_reader := True\<rparr>"
  using assms
  by (auto simp: manager_main_def run_manager_def SetupWithManager_def new_reconciler_def
      split: sum.splits if_splits option.splits)

text \<open>
  C25. The operator refuses to start without valid policies. If the manager runs, both policy files
  were given, opened and accepted by their parsers, the reconciler works with exactly these tables and
  reads uncached, and every hostname it can later select is a valid DNS name of at most 253
  characters.
\<close>

theorem manager_runs_on_valid_policies:
  assumes "snd (manager_main pe fl) = Ran r err" "rfc1123_library (pe_lib pe)" "digest_library (pe_lib pe)"
  shows "\<exists>hp ap names rows.
    pe_open pe (fl_hostname_policy_file fl) = Inr names \<and> Parse (pe_lib pe) names = Inr hp \<and>
    pe_open pe (fl_access_policy_file fl) = Inr rows \<and> access_Parse (pe_lib pe) rows = Inr ap \<and>
    r_hostname_policy r = Some hp \<and> r_access_policy r = Some ap \<and> routeReader r = Live \<and>
    (\<forall>obj sel. Select (r_lib r) (r_hostname_policy r) obj = Inr sel \<longrightarrow>
       (\<exists>h. Host (r_lib r) (r_public_host r) (sel_slug sel) = Inr h \<and> length h \<le> 253 \<and>
            list_all rfc1123_label (split_on (CHR ''.'') h)))"
proof -
  obtain hp ap mgr where started: "loadHostnamePolicy pe (fl_hostname_policy_file fl) = Inr hp"
    "loadAccessPolicy pe (fl_access_policy_file fl) = Inr ap"
    "ValidatePublicHost (pe_lib pe) hp (public_host pe) = None"
    "r = (new_reconciler pe fl hp ap mgr)\<lparr>r_has_route_reader := True\<rparr>"
    using loaded_policies [OF assms(1)] by metis
  obtain names where names: "pe_open pe (fl_hostname_policy_file fl) = Inr names"
    "Parse (pe_lib pe) names = Inr hp"
    using started(1) by (auto simp: loadHostnamePolicy_def split: if_splits sum.splits)
  obtain rows where rows: "pe_open pe (fl_access_policy_file fl) = Inr rows"
    "access_Parse (pe_lib pe) rows = Inr ap"
    using started(2) by (auto simp: loadAccessPolicy_def split: if_splits sum.splits)
  show ?thesis
    using validated_names [OF names(2) assms(2,3) started(3)] names rows
    by (intro exI [of _ hp] exI [of _ ap] exI [of _ names] exI [of _ rows])
       (simp add: started(4) new_reconciler_def routeReader_def)
qed

text \<open>
  C26. Without HTTPS nothing is published. If neither the option nor the environment sets the public
  scheme, the manager uses \<open>http\<close>; and whenever the scheme is not \<open>https\<close>, no reconcile of the
  running operator, whatever the API server replies, creates or updates an Ingress or writes a
  full status, so no instance ever becomes Ready.
\<close>

theorem no_https_no_route:
  assumes "snd (manager_main pe fl) = Ran r err" "public_scheme pe fl \<noteq> ''https''"
  shows "list_all (\<lambda>e. case snd e of CreateIngress _ _ \<Rightarrow> False | UpdateIngress _ _ \<Rightarrow> False
      | UpdateStatus _ _ \<Rightarrow> False | _ \<Rightarrow> True) (reconcile_log r req w i)"
proof -
  have "r_public_scheme r \<noteq> ''https''"
    using assms(2) by (auto simp: new_reconciler_def intro: loaded_policies [OF assms(1)])
  then have never: "\<not> gate_ready r req L j host" for L j host
    by (auto simp: gate_ready_def access_prepared_def)
  have "publish_ok r req past e \<Longrightarrow> (case snd e of CreateIngress _ _ \<Rightarrow> False | UpdateIngress _ _ \<Rightarrow> False
      | UpdateStatus _ _ \<Rightarrow> False | _ \<Rightarrow> True)" for past e
    using never by (cases e) (auto simp: publish_ok_def published_def status_reported_def split: call.splits)
  then have "justified (\<lambda>_ e. case snd e of CreateIngress _ _ \<Rightarrow> False | UpdateIngress _ _ \<Rightarrow> False
      | UpdateStatus _ _ \<Rightarrow> False | _ \<Rightarrow> True) (reconcile_log r req w i)"
    by (rule justified_mono [OF reconcile_log_justified [OF publish_Reconcile]])
  then show ?thesis by (simp add: justified_always)
qed

text \<open>A configured process.\<close>

definition sample_process :: "string \<Rightarrow> unit process_env" where
  "sample_process scheme =
     \<lparr>pe_lib = sample_library,
      pe_getenv = (\<lambda>v. if v = ''PUBLIC_HOST'' then ''chat.example.test'' else if v = ''PUBLIC_SCHEME'' then scheme else []),
      pe_open = (\<lambda>path. if path = ''/etc/hostnames.json'' then Inr (Some sample_hostname_file)
                       else if path = ''/etc/access.json'' then Inr (Some sample_access_file)
                       else Inl (ErrNew ''no such file'')),
      pe_number_text = (\<lambda>_. None),
      pe_exporter = (\<lambda>_. None), pe_kube_config = True,
      pe_new_manager = (\<lambda>_. Inr \<lparr>mg_client = bare_cluster, mg_complete = None, mg_healthz = None, mg_readyz = None, mg_start = None\<rparr>),
      pe_version = ''v1'', pe_guard = ''guard''\<rparr>"

definition sample_flags :: manager_flags where
  "sample_flags = default_flags
     \<lparr>fl_hostname_policy_file := ''/etc/hostnames.json'', fl_access_policy_file := ''/etc/access.json''\<rparr>"

definition sample_running :: "string \<Rightarrow> unit reconciler" where
  "sample_running scheme = (new_reconciler (sample_process scheme) sample_flags sample_policy sample_access_policy
     \<lparr>mg_client = bare_cluster, mg_complete = None, mg_healthz = None, mg_readyz = None, mg_start = None\<rparr>)
     \<lparr>r_has_route_reader := True\<rparr>"

lemma sample_manager_runs: "snd (manager_main (sample_process scheme) sample_flags) = Ran (sample_running scheme) None"
  using sample_Parse sample_access_Parse sample_ValidatePublicHost
  by (simp add: manager_main_def loadHostnamePolicy_def loadAccessPolicy_def run_manager_def SetupWithManager_def
      sample_process_def sample_flags_def default_flags_def sample_running_def new_reconciler_def public_host_def)

theorem manager_runs_on_valid_policies_witness:
  "routeReader (sample_running ''https'') = Live \<and> r_public_host (sample_running ''https'') = ''chat.example.test'' \<and>
   (\<exists>h. Host sample_library ''chat.example.test'' ''old-name'' = Inr h \<and> length h \<le> 253)"
proof -
  have config: "r_public_host (sample_running ''https'') = ''chat.example.test''" "r_lib (sample_running ''https'') = sample_library"
    "r_hostname_policy (sample_running ''https'') = Some sample_policy"
    by (simp_all add: sample_running_def new_reconciler_def public_host_def sample_process_def)
  have lib: "pe_lib (sample_process ''https'') = sample_library" by (simp add: sample_process_def)
  show ?thesis
    using manager_runs_on_valid_policies [OF sample_manager_runs [of "''https''"], unfolded lib, OF sample_rfc1123 sample_digest]
      sample_Select(1) unfolding config by fastforce
qed

theorem annotations_arrive_unchanged_witness:
  "r_extra_annotations (new_reconciler (sample_process ''https'')
      (sample_flags\<lparr>fl_extra_annotations := marshal (strings_json [(''team'', ''ui'')])\<rparr>)
      sample_policy sample_access_policy
      \<lparr>mg_client = bare_cluster, mg_complete = None, mg_healthz = None, mg_readyz = None, mg_start = None\<rparr>) =
   fmap_of_list [(''team'', ''ui'')]"
  by (rule annotations_arrive_unchanged) (simp_all add: utf8_valid_ascii)

theorem no_https_no_route_witness:
  "list_all (\<lambda>e. case snd e of CreateIngress _ _ \<Rightarrow> False | UpdateIngress _ _ \<Rightarrow> False
      | UpdateStatus _ _ \<Rightarrow> False | _ \<Rightarrow> True)
     (reconcile_log (sample_running []) (''tenant'', ''chat'') () (sample_instance sample_base))"
  by (rule no_https_no_route [OF sample_manager_runs])
     (simp add: public_scheme_def sample_flags_def default_flags_def sample_process_def)

subsection \<open>The access proxy\<close>

lemma proxy_run_started:
  "fst (proxy_run env files ending path) = Some (g, servers) \<longleftrightarrow>
     path \<noteq> [] \<and> servers = [proxy_server, health_server] \<and>
     (\<exists>content config. files path = Inr content \<and> Decode decode_gate_config content = Inr config \<and> New env config = Inr g)"
  by (auto simp: proxy_run_def split: sum.splits)

lemma proxy_run_error:
  "snd (proxy_run env files ending path) = None \<longleftrightarrow>
     fst (proxy_run env files ending path) \<noteq> None \<and> ending \<in> {Signalled, Stopped ErrServerClosed}"
  by (auto simp: proxy_run_def split: sum.splits ending.splits serve_error.splits)

lemma New_Inr:
  "New env c = Inr g \<Longrightarrow> config_Validate (env_lib env) c = None \<and>
     parse_url (env_lib env) WebUIURL = Some (g_upstream g) \<and> g_recheck g = 30 \<and> g_config g = c"
  by (auto simp: New_def newGate_def PermissionRecheckInterval_def Let_def split: option.splits if_splits)


text \<open>The strings of the generated configuration come from the table, whose strings are valid UTF-8.\<close>

lemma gate_config_text:
  assumes "access_Parse lib input = Inr p" "access_Select (Some p) obj = Inr e" "utf8_valid publicURL"
  shows "config_text (gate_config_for p e publicURL)"
proof -
  have "e \<in> set (ap_entries p)" using access_Select_Inr [OF assms(2)] by auto
  with access_Parse_text [OF assms(1)] assms(3) show ?thesis
    by (auto simp: table_text_def row_text_def config_text_def gate_config_for_def list_all_iff)
qed

text \<open>
  C29. The container starts on what the operator generates. For a row of an accepted access table and an
  HTTPS origin in valid UTF-8, if the file is within the limit of 1 MiB and the trust roots are usable,
  then the proxy run on the member \<open>gate.json\<close> of the access
  bundle starts both servers, with the gate for exactly this row.
\<close>

theorem proxy_starts_on_generated_bundle:
  assumes "access_Parse (env_lib env) input = Inr p" "access_Select (Some p) obj = Inr e"
    and "HTTPSURL (env_lib env) publicURL True = None"
    and "if ap_kcp_ca p = [] then system_roots env else pem_valid env (ap_kcp_ca p)"
    and "parse_url (env_lib env) WebUIURL \<noteq> None"
    and "path \<noteq> []" "files path = Inr (Some (map_get (bundle_data r p e publicURL secret cookie) ''gate.json''))"
    and "length (marshal (config_json (gate_config_for p e publicURL))) \<le> 1048576"
    and "utf8_valid publicURL"
  shows "\<exists>g. proxy_run env files Signalled path = (Some (g, [proxy_server, health_server]), None) \<and>
    g_config g = gate_config_for p e publicURL"
proof -
  have "map_get (bundle_data r p e publicURL secret cookie) ''gate.json'' = marshal (config_json (gate_config_for p e publicURL))"
    by (simp add: bundle_data_def map_get_def fmap_of_list.rep_eq)
  then have "Decode decode_gate_config (Some (map_get (bundle_data r p e publicURL secret cookie) ''gate.json'')) = Inr (gate_config_for p e publicURL)"
    using config_file_read [OF gate_config_text [OF assms(1,2,9)] assms(8)] by simp
  moreover have "\<exists>g. New env (gate_config_for p e publicURL) = Inr g \<and> g_config g = gate_config_for p e publicURL"
    using generated_configuration_valid [OF assms(1-3)] assms(4,5)
    by (auto simp: New_def newGate_def gate_config_for_def Let_def)
  ultimately show ?thesis
    using assms(6,7) by (auto simp: proxy_run_def)
qed

lemma sample_generated_length:
  "length (marshal (config_json (gate_config_for sample_access_policy sample_access_entry ''https://ui.example.test''))) \<le> 1048576"
  using length_marshal(1) [of "config_json (gate_config_for sample_access_policy sample_access_entry ''https://ui.example.test'')"]
  by (simp add: config_json_def source_json_def gate_config_for_def sample_access_policy_def sample_access_entry_def)

theorem proxy_starts_on_generated_bundle_witness:
  "\<exists>g. proxy_run sample_env
      (\<lambda>_. Inr (Some (map_get (bundle_data sample_base sample_access_policy sample_access_entry ''https://ui.example.test'' [] []) ''gate.json'')))
      Signalled ''/etc/chat-ui-access/gate.json'' = (Some (g, [proxy_server, health_server]), None) \<and>
    g_config g = gate_config_for sample_access_policy sample_access_entry ''https://ui.example.test''"
proof -
  have lib: "env_lib sample_env = sample_library" by (simp add: sample_env_def)
  have roots: "ap_kcp_ca sample_access_policy = []" "system_roots sample_env"
    by (simp_all add: sample_access_policy_def sample_env_def)
  show ?thesis
    by (rule proxy_starts_on_generated_bundle [of sample_env, unfolded lib, OF sample_access_Parse sample_select sample_HTTPSURL])
       (simp_all add: sample_generated_length roots sample_library_def WebUIURL_def utf8_valid_ascii)
qed

end
