(* ===== verification/Scheduling.thy ===== *)
theory Scheduling
  imports Steady_State
begin

text \<open>
  No instance is forgotten: the result of a reconcile makes the work queue run it again (an error, a
  requeue, or a delay), except in the three cases in which nothing is left to do until the instance
  itself changes.
\<close>

definition scheduled :: "result \<times> go_error option \<Rightarrow> bool" where
  "scheduled a = (case a of (res, err) \<Rightarrow>
     (case err of Some e \<Rightarrow> True | None \<Rightarrow> res_requeue res \<or> 0 < res_after res))"

lemma scheduled_simps [simp]:
  "scheduled (res, Some e)" "0 < n \<Longrightarrow> scheduled (requeue_after n, err)"
  "scheduled (\<lparr>res_requeue = True, res_after = n\<rparr>, err)"
  by (simp_all add: scheduled_def requeue_after_def split: option.split)

lemma scheduled_join: "scheduled (res, errors_Join (Some e # es))"
  using errors_Join_Some [of e es] by auto

lemma delays [simp]: "0 < hostnameRecheckAfter" "0 < provisioningRequeueAfter"
  by (simp_all add: hostnameRecheckAfter_def provisioningRequeueAfter_def)

text \<open>\<open>returns P m\<close>: whatever the world replies, the result of \<open>m\<close> satisfies \<open>P\<close>.\<close>

definition returns :: "('a \<Rightarrow> bool) \<Rightarrow> ('w, 'a) op \<Rightarrow> bool" where
  "returns P m \<longleftrightarrow> (\<forall>s. wp m (\<lambda>a _. P a) s)"

named_theorems returns_intros \<open>composition rules of returns\<close>

lemma returns_ret [returns_intros]: "P a \<Longrightarrow> returns P (ret a)"
  by (simp add: returns_def wp_return)

lemma returns_use: "returns Q m \<Longrightarrow> (\<And>a. Q a \<Longrightarrow> returns P (f a)) \<Longrightarrow> returns P (State_Monad.bind m f)"
  unfolding returns_def wp_bind by (intro allI, elim allE, erule wp_use) blast

lemma returns_bind [returns_intros]: "(\<And>a. returns P (f a)) \<Longrightarrow> returns P (State_Monad.bind m f)"
  by (rule returns_use [of "\<lambda>_. True"]) (simp_all add: returns_def wp_run)

lemma returns_if [returns_intros]: "(b \<Longrightarrow> returns P m) \<Longrightarrow> (\<not> b \<Longrightarrow> returns P n) \<Longrightarrow> returns P (if b then m else n)"
  by simp

lemma returns_case [returns_intros]:
  "(\<And>e. returns P (f e)) \<Longrightarrow> (\<And>a. returns P (g a)) \<Longrightarrow> returns P (case x of Inl e \<Rightarrow> f e | Inr a \<Rightarrow> g a)"
  "returns P m \<Longrightarrow> (\<And>a. returns P (k a)) \<Longrightarrow> returns P (case y of None \<Rightarrow> m | Some a \<Rightarrow> k a)"
  "(\<And>a b. returns P (h a b)) \<Longrightarrow> returns P (case z of (a, b) \<Rightarrow> h a b)"
  "returns P m \<Longrightarrow> returns P n \<Longrightarrow> returns P (case c of True \<Rightarrow> m | False \<Rightarrow> n)"
  by (simp_all split: sum.split option.split prod.split bool.split)

lemma returns_Let [returns_intros]: "returns P (f v) \<Longrightarrow> returns P (Let v f)"
  by simp

lemma returns_hostnameFailure: "returns scheduled (hostnameFailure r cause)"
  unfolding hostnameFailure_def by (rule returns_intros scheduled_join | simp)+

lemma returns_handlers [returns_intros]:
  "returns scheduled (denyAccess r cause)" "returns scheduled (rejectReplicas r)"
  unfolding denyAccess_def rejectReplicas_def by (rule returns_intros scheduled_join | simp)+

lemma returns_stopForHostnameFailure [returns_intros]: "returns scheduled (stopForHostnameFailure r cause)"
proof -
  have "scheduled (res, errors_Join [w, x, err])" if "scheduled (res, err)" for res w x err
  proof (cases "errors_Join [w, x, err]")
    case None
    then have "err = None" by (simp add: errors_Join_None_iff)
    with that None show ?thesis by simp
  qed simp
  then show ?thesis
    unfolding stopForHostnameFailure_def
    by (intro returns_bind returns_Let returns_use [OF returns_hostnameFailure]) (auto intro!: returns_intros split: prod.splits)
qed

lemma returns_publish [returns_intros]: "returns scheduled (reconcile_publish r labels host)"
  unfolding reconcile_publish_def report_readiness_def by (rule returns_intros | simp)+

lemma returns_workload [returns_intros]: "returns scheduled (reconcile_workload r img host b)"
  unfolding reconcile_workload_def reconcile_deploy_def by (rule returns_intros | simp)+

lemma returns_gated: "returns scheduled (reconcile_gated r img)"
  unfolding reconcile_gated_def reconcile_limited_def reconcile_hosted_def
  by (rule returns_intros scheduled_join | simp)+

text \<open>
  The ends that need no further run: the instance does not exist; it is being deleted and the
  finalizer is gone; or its image is refused, its route is gone and its workload is down.
\<close>

definition finished :: "'w reconciler \<Rightarrow> key \<Rightarrow> log_entry set \<Rightarrow> bool" where
  "finished r req L \<longleftrightarrow>
     (\<exists>j. (j, GetInstance (routeReader r) req (Inl NotFound)) \<in> L) \<or>
     (\<exists>j x. (j, GetInstance (routeReader r) req (Inr x)) \<in> L \<and> meta_deleted (i_meta x) \<noteq> None \<and>
        (has_finalizer (r_lib r) (i_meta x) finalizerName \<longrightarrow>
         (\<exists>i y. (i, UpdateInstance (x\<lparr>i_meta := remove_finalizer (r_lib r) (i_meta x) finalizerName\<rparr>) (Inr y)) \<in> L))) \<or>
     (\<exists>j x e. (j, GetInstance (routeReader r) req (Inr x)) \<in> L \<and> resolveImage (i_image x) = Inl e \<and>
        route_gone r x L \<and> workload_down r x L)"

lemma finishedI:
  "(j, GetInstance (routeReader r) req (Inl NotFound)) \<in> L \<Longrightarrow> finished r req L"
  "(j, GetInstance (routeReader r) req (Inr x)) \<in> L \<Longrightarrow> meta_deleted (i_meta x) = Some d \<Longrightarrow>
   \<not> has_finalizer (r_lib r) (i_meta x) finalizerName \<or>
   (i, UpdateInstance (x\<lparr>i_meta := remove_finalizer (r_lib r) (i_meta x) finalizerName\<rparr>) (Inr y)) \<in> L \<Longrightarrow> finished r req L"
  "(j, GetInstance (routeReader r) req (Inr x)) \<in> L \<Longrightarrow> resolveImage (i_image x) = Inl e \<Longrightarrow>
   route_gone r x L \<Longrightarrow> workload_down r x L \<Longrightarrow> finished r req L"
  unfolding finished_def by blast+

lemma finished_now:
  "finished r req (insert (j, GetInstance (routeReader r) req (Inl NotFound)) L)"
  "meta_deleted (i_meta x) = Some d \<Longrightarrow> \<not> has_finalizer (r_lib r) (i_meta x) finalizerName \<Longrightarrow>
   finished r req (insert (j, GetInstance (routeReader r) req (Inr x)) L)"
  "meta_deleted (i_meta x) = Some d \<Longrightarrow>
   finished r req (insert (j, GetInstance (routeReader r) req (Inr x)) (insert
     (i, UpdateInstance (x\<lparr>i_meta := remove_finalizer (r_lib r) (i_meta x) finalizerName\<rparr>) (Inr y)) L))"
  using finishedI(1) [OF insertI1] finishedI(2) [OF insertI1] finishedI(2) [OF insertI1 _ disjI2, OF _ insertI2 [OF insertI1]]
  by blast+

lemma refused_image:
  assumes "(j, GetInstance (routeReader r) req (Inr (local_inst s))) \<in> set (call_log s)"
    and "resolveImage (i_image (local_inst s)) = Inl e"
  shows "wp (rejectImage r message) (\<lambda>a t. scheduled (no_result, a) \<or> finished r req (set (call_log t))) s"
proof (rule wp_use [OF leavesD [OF rejectImage_denies]], elim exE conjE)
  fix a es and t :: "'a st"
  assume t: "call_log t = call_log s @ es" "denied r ''ImageNotAllowed'' a (local_inst s) (set es)"
  have grown: "set es \<subseteq> set (call_log t)" by (simp add: t(1))
  show "scheduled (no_result, a) \<or> finished r req (set (call_log t))"
  proof (cases a)
    case None
    then have "route_gone r (local_inst s) (set (call_log t))" "workload_down r (local_inst s) (set (call_log t))"
      using t(2) attempt_mono(3,4) [OF grown] by (auto simp: denied_def)
    with assms t(1) have "finished r req (set (call_log t))" by (intro finishedI(3)) auto
    then show ?thesis ..
  qed simp
qed

lemma scheduled_gated:
  "wp (reconcile_gated r img) (\<lambda>a t. scheduled a \<or> finished r req (set (call_log t))) s"
  by (rule wp_use [of _ "\<lambda>a _. scheduled a"]) (use returns_gated [of r img] in \<open>simp_all add: returns_def\<close>)

lemma scheduled_Reconcile:
  "wp (Reconcile r req) (\<lambda>a t. scheduled a \<or> finished r req (set (call_log t))) s"
  unfolding Reconcile_def getInst_def updateInstance_def
  by (auto simp: wp_simps Let_def write_error_def finished_now split: sum.splits
      intro!: wp_use [OF refused_image] scheduled_gated)

text \<open>
  C31. No instance is forgotten. Whatever the API server replies, after a reconcile the work queue runs
  the instance again (the result is an error, a requeue or a positive delay), unless the instance does
  not exist, or it is being deleted and the operator's finalizer was removed, or its image is refused
  and in this run its route was gone and its workload down.
\<close>

theorem no_instance_forgotten:
  "scheduled (reconcile_result r req w i) \<or> finished r req (set (reconcile_log r req w i))"
  using scheduled_Reconcile [of r req "\<lparr>world = w, local_inst = i, call_log = []\<rparr>"]
  by (simp add: wp_run reconcile_result_def reconcile_log_def)

end
