(* ===== verification/Cutover.thy ===== *)
theory Cutover
  imports Fail_Closed_Laws
begin

text \<open>
  The cutover of a workload: the pod template of an existing Deployment is replaced only when the
  route is withdrawn and the pods of the old template are gone (\<open>waitForAccessCutover\<close>), and a Deployment
  is scaled up only at the guarded template.
\<close>

text \<open>What must have been seen before the template of \<open>d0\<close> may change.\<close>

definition old_pods_gone :: "'w reconciler \<Rightarrow> log_entry set \<Rightarrow> chat_instance \<Rightarrow> deployment \<Rightarrow> bool" where
  "old_pods_gone r L inst d0 \<longleftrightarrow>
     route_gone r inst L \<and> d_replicas d0 = Some 0 \<and> d_status_replicas d0 = 0 \<and>
     meta_generation (d_meta d0) \<le> d_observed_generation d0 \<and>
     (\<exists>sel. d_selector d0 = Some sel \<and> map_len (ls_match_labels sel) \<noteq> 0 \<and>
        (inst, ListPods (routeReader r) (i_namespace inst) (Some sel) (Inr [])) \<in> L)"

definition guarded_template :: "'w reconciler \<Rightarrow> chat_instance \<Rightarrow> pod_template \<Rightarrow> bool" where
  "guarded_template r inst t \<longleftrightarrow>
     (\<exists>labels n img checksum b. t = managedAccessTemplate t (desired_template r inst labels n img checksum b))"

definition cutover_ok :: "'w reconciler \<Rightarrow> log_entry list \<Rightarrow> log_entry \<Rightarrow> bool" where
  "cutover_ok r past entry = (case entry of (inst, c) \<Rightarrow>
     (case c of
        UpdateDeployment d _ \<Rightarrow>
          (\<exists>d0. (inst, GetDeployment (routeReader r) (chatui_key inst) (Inr d0)) \<in> set past \<and> ownedByInstance (d_meta d0) inst \<and>
             (d = d0\<lparr>d_replicas := Some 0\<rparr> \<or>
              (\<exists>n. d = d0\<lparr>d_replicas := Some n\<rparr> \<and> guarded_template r inst (d_template d) \<and> strat_type (d_strategy d) = ''Recreate'') \<or>
              (\<exists>n template strategy. d = d0\<lparr>d_template := template, d_strategy := strategy, d_replicas := Some n\<rparr> \<and>
                 guarded_template r inst template \<and> strat_type strategy = ''Recreate'' \<and> old_pods_gone r (set past) inst d0)))
      | _ \<Rightarrow> True))"

lemma cutover_free: "kind_of (snd e) \<noteq> DeploymentWrite \<Longrightarrow> cutover_ok r past e"
  by (cases e; cases "snd e") (auto simp: cutover_ok_def)

lemma cutover_simps [simp]:
  "cutover_ok r past (i, GetDeployment rd k dres)"
  "cutover_ok r past (i, ListPods rd ns sel plres)"
  "cutover_ok r past (i, CreateDeployment d dres)"
  by (simp_all add: cutover_ok_def)

lemma calls_keeps_cutover: "calls K m \<Longrightarrow> DeploymentWrite \<notin> K \<Longrightarrow> keeps (cutover_ok r) m"
  by (erule calls_keeps, rule cutover_free) auto

lemma cutover_stop:
  "(i, GetDeployment (routeReader r) (chatui_key i) (Inr d0)) \<in> set past \<Longrightarrow> ownedByInstance (d_meta d0) i \<Longrightarrow>
   cutover_ok r past (i, UpdateDeployment (d0\<lparr>d_replicas := Some 0\<rparr>) dres)"
  unfolding cutover_ok_def by auto

lemma cutover_stopUnapproved: "keeps (cutover_ok r) (stopUnapprovedDeployment r force)"
  unfolding keeps_def stopUnapprovedDeployment_def api_defs
  by (auto simp: wp_simps Let_def split: sum.splits option.splits intro!: cutover_stop)

lemma cutover_withdraw: "keeps (cutover_ok r) (withdrawAccess r)"
  by (rule calls_keeps_cutover [OF calls_withdrawAccess]) simp

text \<open>The wait lets the caller go on only on that evidence.\<close>

lemma withdrawAccess_gone:
  assumes "justified (cutover_ok r) (call_log s)"
  shows "wp (withdrawAccess r) (\<lambda>a t. advanced (cutover_ok r) s t \<and> (a = None \<longrightarrow> route_gone r (local_inst s) (set (call_log t)))) s"
proof (rule wp_conj)
  show "wp (withdrawAccess r) (\<lambda>_. advanced (cutover_ok r) s) s"
    by (rule wp_advanced [OF cutover_withdraw calls_withdrawAccess steady_withdrawAccess assms])
  show "wp (withdrawAccess r) (\<lambda>a t. a = None \<longrightarrow> route_gone r (local_inst s) (set (call_log t))) s"
    by (rule wp_use [OF leavesD [OF withdrawAccess_leaves]]) (auto intro: attempt_mono(3) [rotated])
qed

lemma waitForAccessCutover_evidence:
  assumes "justified (cutover_ok r) (call_log s)"
    and "(local_inst s, GetDeployment (routeReader r) (chatui_key (local_inst s)) (Inr d0)) \<in> set (call_log s)"
    and "ownedByInstance (d_meta d0) (local_inst s)"
  shows "wp (waitForAccessCutover r d0) (\<lambda>a t. advanced (cutover_ok r) s t \<and>
    (a = Inr False \<longrightarrow> old_pods_gone r (set (call_log t)) (local_inst s) d0)) s"
  unfolding waitForAccessCutover_def updateDeployment_def listPods_def wp_bind
  by (rule wp_use [OF withdrawAccess_gone [OF assms(1)]])
     (use assms in \<open>auto simp: wp_simps old_pods_gone_def split: option.splits sum.splits
        intro!: cutover_stop intro: attempt_mono(3) [rotated]\<close>)

lemma cutover_replace:
  assumes "(i, GetDeployment (routeReader r) (chatui_key i) (Inr d0)) \<in> set past" "ownedByInstance (d_meta d0) i"
    and "old_pods_gone r (set past) i d0"
  shows "cutover_ok r past (i, UpdateDeployment (d0\<lparr>d_template := managedAccessTemplate (d_template d0)
      (desired_template r i labels n img checksum b),
    d_strategy := d_strategy (desiredDeployment r i labels n img checksum b), d_replicas := Some n'\<rparr>) dres)"
proof -
  have "guarded_template r i (managedAccessTemplate (d_template d0) (desired_template r i labels n img checksum b))"
    unfolding guarded_template_def using desired_fixed_points(1) by metis
  with assms show ?thesis
    unfolding cutover_ok_def prod.case call.case
    by (intro exI [of _ d0] conjI disjI2) (assumption | rule exI refl conjI desired_scalars(2))+
qed

lemma cutover_scale:
  assumes "(i, GetDeployment (routeReader r) (chatui_key i) (Inr d0)) \<in> set past" "ownedByInstance (d_meta d0) i"
    and "d_template d0 = managedAccessTemplate (d_template d0) (desired_template r i labels n img checksum b)"
    and "strat_type (d_strategy d0) = ''Recreate''"
  shows "cutover_ok r past (i, UpdateDeployment (d0\<lparr>d_replicas := Some n'\<rparr>) dres)"
proof -
  have "guarded_template r i (d_template d0)" unfolding guarded_template_def using assms(3) by metis
  with assms show ?thesis unfolding cutover_ok_def by auto
qed

lemma cutover_reconcileDeployment: "keeps (cutover_ok r) (reconcileDeployment r labels n img checksum b)"
  unfolding keeps_def reconcileDeployment_def getDeployment_def createDeployment_def updateDeployment_def
  by (auto simp: wp_simps Let_def split: sum.splits bool.splits
      intro!: wp_use [OF waitForAccessCutover_evidence] cutover_replace cutover_scale)

lemma cutover_handlers:
  "keeps (cutover_ok r) (rejectImage r message)"
  "keeps (cutover_ok r) (denyAccess r cause)"
  "keeps (cutover_ok r) (rejectReplicas r)"
  "keeps (cutover_ok r) (stopForHostnameFailure r cause)"
  unfolding rejectImage_def denyAccess_def rejectReplicas_def stopForHostnameFailure_def
  by (rule keeps_intros cutover_withdraw cutover_stopUnapproved calls_keeps_cutover [OF calls_updateImagePolicyStatus]
      calls_keeps_cutover [OF calls_hostnameFailure] | simp)+

lemma cutover_single_calls:
  "keeps (cutover_ok r) (getInst r rd k)"
  "keeps (cutover_ok r) (getSecret r rd k)"
  "keeps (cutover_ok r) (updateInstance r i)"
  by (rule calls_keeps_cutover [where K = "{Reading, InstanceWrite}"], rule call_kinds, simp, simp)+

lemma cutover_publish: "keeps (cutover_ok r) (reconcile_publish r labels host)"
  unfolding reconcile_publish_def
  by (rule keeps_intros cutover_handlers calls_keeps_cutover [OF calls_reconcileService]
      calls_keeps_cutover [OF calls_reconcileIngress] calls_keeps_cutover [OF calls_report_readiness] | simp)+

lemma cutover_workload: "keeps (cutover_ok r) (reconcile_workload r img host b)"
  unfolding reconcile_workload_def reconcile_deploy_def
  by (rule keeps_intros cutover_handlers cutover_reconcileDeployment cutover_publish
      calls_keeps_cutover [OF calls_updateImagePolicyStatus] cutover_single_calls | simp)+

lemma cutover_gated: "keeps (cutover_ok r) (reconcile_gated r img)"
  unfolding reconcile_gated_def reconcile_limited_def reconcile_hosted_def
  by (rule keeps_intros cutover_handlers cutover_workload calls_keeps_cutover [OF calls_updateImagePolicyStatus]
      cutover_withdraw cutover_stopUnapproved calls_keeps_cutover [OF calls_prepareAccess]
      calls_keeps_cutover [OF calls_selectedInstanceHost] | simp)+

lemma cutover_Reconcile: "keeps (cutover_ok r) (Reconcile r req)"
  unfolding Reconcile_def
  by (rule keeps_intros cutover_handlers cutover_gated cutover_single_calls | simp)+

text \<open>
  C30. Old and new pods never run side by side. In the log of any reconcile, whatever the API server
  replies, a Deployment is updated only after it was read as owned by the instance, and only in
  three ways: it is scaled to zero; it is scaled while its template already is the guarded one; or its
  template is replaced by the guarded one, and then the same run has seen the route gone, the
  Deployment at zero replicas with no replica left in its up-to-date status, and an uncached list of
  its pods that was empty.
\<close>

theorem template_replaced_after_old_pods: "justified (cutover_ok r) (reconcile_log r req w i)"
  by (rule reconcile_log_justified [OF cutover_Reconcile])

end
