(* ===== verification/Distinct_Routes.thy ===== *)
theory Distinct_Routes
  imports Entry_Laws
begin

text \<open>
  Two instances never publish the same host: what the hostname table guarantees for the selection
  and the publication law for one run, composed over any two runs of the operator.
\<close>

definition written_routes :: "log_entry list \<Rightarrow> ingress list" where
  "written_routes log = concat (map (\<lambda>e. case snd e of CreateIngress g _ \<Rightarrow> [g] | UpdateIngress g _ \<Rightarrow> [g] | _ \<Rightarrow> []) log)"

definition route_hosts :: "ingress \<Rightarrow> string list" where
  "route_hosts g = map ir_host (ing_rules g)"

definition read_instance :: "'w reconciler \<Rightarrow> key \<Rightarrow> log_entry list \<Rightarrow> chat_instance \<Rightarrow> bool" where
  "read_instance r req log i \<longleftrightarrow> (\<exists>j. (j, GetInstance (routeReader r) req (Inr i)) \<in> set log)"

lemma written_route_origin:
  assumes "g \<in> set (written_routes (reconcile_log r req w l))"
  shows "\<exists>i host. read_instance r req (reconcile_log r req w l) i \<and> host_selected r i host \<and> route_hosts g = [host]"
proof -
  let ?log = "reconcile_log r req w l"
  obtain inst c where c: "(inst, c) \<in> set ?log"
      "g \<in> set (case c of CreateIngress g _ \<Rightarrow> [g] | UpdateIngress g _ \<Rightarrow> [g] | _ \<Rightarrow> [])"
    using assms by (auto simp: written_routes_def)
  then obtain past future where log: "?log = past @ (inst, c) # future" by (meson split_list)
  have "publish_ok r req past (inst, c)"
    by (rule justifiedD [OF reconcile_log_justified [OF publish_Reconcile] log])
  with c(2) have "published r req (set past) inst g" by (cases c) (simp_all add: publish_ok_def)
  then obtain host i where "approved r req (set past) i" "host_selected r i host" "wanted_rule host ''/'' (chatui_name inst) g"
    by (auto simp: published_def gate_ready_def)
  moreover have "set past \<subseteq> set ?log" by (auto simp: log)
  ultimately show ?thesis
    by (auto simp: approved_def read_instance_def route_hosts_def wanted_rule_def managed_rules_def)
qed

text \<open>
  C39. No host is published for two instances. In any two reconciles of the running operator, whatever
  the API server replies, two written Ingresses share no host, unless both runs read an instance with
  the same UID, or two instances whose UIDs have the same derived slug (a digest prefix of 128 bits).
\<close>

theorem no_host_published_twice:
  assumes "snd (manager_main pe fl) = Ran r err" "digest_library (pe_lib pe)"
  shows "list_all (\<lambda>g1. list_all (\<lambda>g2. set (route_hosts g1) \<inter> set (route_hosts g2) = {} \<or>
      (\<exists>i1 i2. read_instance r req1 (reconcile_log r req1 w1 l1) i1 \<and> read_instance r req2 (reconcile_log r req2 w2 l2) i2 \<and>
         (i_uid i1 = i_uid i2 \<or> derived_slug (pe_lib pe) (i_uid i1) = derived_slug (pe_lib pe) (i_uid i2))))
    (written_routes (reconcile_log r req2 w2 l2))) (written_routes (reconcile_log r req1 w1 l1))"
proof -
  obtain hp ap mgr where policies: "loadHostnamePolicy pe (fl_hostname_policy_file fl) = Inr hp"
    and r: "r = (new_reconciler pe fl hp ap mgr)\<lparr>r_has_route_reader := True\<rparr>"
    using loaded_policies [OF assms(1)] by metis
  then obtain names where parsed: "Parse (pe_lib pe) names = Inr hp"
    by (auto simp: loadHostnamePolicy_def split: if_splits sum.splits)
  have config: "r_lib r = pe_lib pe" "r_hostname_policy r = Some hp" by (simp_all add: r new_reconciler_def)
  show ?thesis
    unfolding list_all_iff
  proof (intro ballI)
    fix g1 g2
    assume "g1 \<in> set (written_routes (reconcile_log r req1 w1 l1))" "g2 \<in> set (written_routes (reconcile_log r req2 w2 l2))"
    then obtain i1 h1 i2 h2 where
      1: "read_instance r req1 (reconcile_log r req1 w1 l1) i1" "host_selected r i1 h1" "route_hosts g1 = [h1]" and
      2: "read_instance r req2 (reconcile_log r req2 w2 l2) i2" "host_selected r i2 h2" "route_hosts g2 = [h2]"
      using written_route_origin by meson
    have same: "i_uid i1 = i_uid i2 \<or> derived_slug (pe_lib pe) (i_uid i1) = derived_slug (pe_lib pe) (i_uid i2)" if "h1 = h2"
    proof (rule ccontr)
      assume "\<not> ?thesis"
      then have "i_uid i1 \<noteq> i_uid i2" "take 16 (sha256_sum (pe_lib pe) (''ui.privatellms.msp/slug/v1:'' @ i_uid i1)) \<noteq>
          take 16 (sha256_sum (pe_lib pe) (''ui.privatellms.msp/slug/v1:'' @ i_uid i2))"
        by (auto simp: derived_slug_def)
      with 1(2) 2(2) that show False
        using distinct_names [OF parsed assms(2)] unfolding host_selected_def config by blast
    qed
    show "set (route_hosts g1) \<inter> set (route_hosts g2) = {} \<or>
      (\<exists>i1 i2. read_instance r req1 (reconcile_log r req1 w1 l1) i1 \<and> read_instance r req2 (reconcile_log r req2 w2 l2) i2 \<and>
         (i_uid i1 = i_uid i2 \<or> derived_slug (pe_lib pe) (i_uid i1) = derived_slug (pe_lib pe) (i_uid i2)))"
    proof (cases "h1 = h2")
      case True
      with same 1(1) 2(1) show ?thesis by blast
    qed (simp add: 1(3) 2(3))
  qed
qed

theorem no_host_published_twice_witness:
  "list_all (\<lambda>g1. list_all (\<lambda>g2. set (route_hosts g1) \<inter> set (route_hosts g2) = {} \<or>
      (\<exists>i1 i2. read_instance (sample_running ''https'') (''tenant'', ''chat'')
           (reconcile_log (sample_running ''https'') (''tenant'', ''chat'') () (sample_instance sample_base)) i1 \<and>
         read_instance (sample_running ''https'') (''tenant'', ''new'')
           (reconcile_log (sample_running ''https'') (''tenant'', ''new'') () (sample_instance sample_base)) i2 \<and>
         (i_uid i1 = i_uid i2 \<or> derived_slug sample_library (i_uid i1) = derived_slug sample_library (i_uid i2))))
    (written_routes (reconcile_log (sample_running ''https'') (''tenant'', ''new'') () (sample_instance sample_base))))
    (written_routes (reconcile_log (sample_running ''https'') (''tenant'', ''chat'') () (sample_instance sample_base)))"
proof -
  have lib: "pe_lib (sample_process ''https'') = sample_library" by (simp add: sample_process_def)
  show ?thesis
    by (rule no_host_published_twice [OF sample_manager_runs [of "''https''"], unfolded lib, OF sample_digest])
qed

end
