(* ===== verification/Status_Types.thy ===== *)
theory Status_Types
  imports Steady_State
begin

text \<open>
  The shape of the status the reconciler writes: the enumerated values of
  \<open>api/v1alpha1/chatuiinstance_types.go\<close>, the bound on the pins, one condition per type, and a Ready
  condition that agrees with the phase. Every write keeps this shape if the API server's replies
  have it.
\<close>

subsection \<open>The shape\<close>

text \<open>
  \<open>reason_shape\<close> is the pattern of the reason of a \<open>metav1.Condition\<close>: it starts with a letter, ends with
  a word character, and has word characters, commas and colons between.
\<close>

definition letter :: "char \<Rightarrow> bool" where
  "letter c = (between 65 90 c \<or> between 97 122 c)"

definition word_char :: "char \<Rightarrow> bool" where
  "word_char c = (letter c \<or> between 48 57 c \<or> c = CHR ''_'')"

definition reason_shape :: "string \<Rightarrow> bool" where
  "reason_shape s =
     (s \<noteq> [] \<and> letter (hd s) \<and> word_char (last s) \<and> list_all (\<lambda>c. word_char c \<or> c \<in> set '',:'') s)"

definition ready_agrees :: "string \<Rightarrow> condition \<Rightarrow> bool" where
  "ready_agrees phase c =
     (if cond_type c = ''Ready''
      then (cond_status c = (if phase = ''Ready'' then ''True'' else ''False'')) \<and> reason_shape (cond_reason c)
      else True)"

definition status_ok :: "inst_status \<Rightarrow> bool" where
  "status_ok st \<longleftrightarrow>
     st_phase st \<in> {[], phaseProvisioning, phaseError, ''Ready''} \<and>
     (st_phase st = phaseError \<longrightarrow> st_url st = []) \<and>
     st_slug_source st \<in> {[], Derived, Legacy} \<and> (st_slug_source st = [] \<longrightarrow> st_slug st = []) \<and>
     map_len (st_pins st) \<le> maxAccessBundles + 1 \<and>
     distinct (map cond_type (st_conditions st)) \<and> list_all (ready_agrees (st_phase st)) (st_conditions st)"

text \<open>
  \<open>meta.SetStatusCondition\<close>, as documented: it sets the condition of this type, and leaves those of
  other types alone. (It may keep the time of the last transition.)
\<close>

definition condition_library :: "library \<Rightarrow> bool" where
  "condition_library lib \<longleftrightarrow>
     (\<forall>c cs. distinct (map cond_type cs) \<longrightarrow>
        distinct (map cond_type (set_condition lib c cs)) \<and>
        (\<forall>x \<in> set (set_condition lib c cs).
           if cond_type x = cond_type c then cond_status x = cond_status c \<and> cond_reason x = cond_reason c
           else x \<in> set cs))"

lemma sample_conditions: "condition_library sample_library"
  by (auto simp: condition_library_def sample_library_def distinct_map_filter)

text \<open>Setting the Ready condition together with the phase gives a status of this shape.\<close>

lemma set_ready_ok:
  assumes lib: "condition_library lib" and st: "status_ok st"
    and phase: "phase \<in> {phaseProvisioning, phaseError, ''Ready''}" "phase = phaseError \<longrightarrow> url = []"
    and source: "source \<in> {[], Derived, Legacy}" "source = [] \<longrightarrow> slug = []"
    and cond: "cond_type c = ''Ready''" "cond_status c = (if phase = ''Ready'' then ''True'' else ''False'')"
      "reason_shape (cond_reason c)"
  shows "status_ok (st\<lparr>st_conditions := set_condition lib c (st_conditions st), st_phase := phase, st_url := url,
    st_slug := slug, st_slug_source := source\<rparr>)"
proof -
  have distinct: "distinct (map cond_type (st_conditions st))" using st by (simp add: status_ok_def)
  have "ready_agrees phase x" if "x \<in> set (set_condition lib c (st_conditions st))" for x
    using lib distinct that cond unfolding condition_library_def ready_agrees_def by (metis (full_types))
  moreover have "distinct (map cond_type (set_condition lib c (st_conditions st)))"
    using lib distinct by (simp add: condition_library_def)
  ultimately show ?thesis
    using st phase source by (auto simp: status_ok_def list_all_iff)
qed

lemma ready_condition_fields [simp]:
  "cond_type (ready_condition i s r m) = ''Ready''" "cond_status (ready_condition i s r m) = s"
  "cond_reason (ready_condition i s r m) = r"
  by (simp_all add: ready_condition_def)

lemma phases: "phaseProvisioning \<noteq> ''Ready''" "phaseError \<noteq> ''Ready''" "phaseProvisioning \<noteq> phaseError"
  by (simp_all add: phaseProvisioning_def phaseError_def)

lemma status_source:
  "status_ok st \<Longrightarrow> st_slug_source st \<in> {[], Derived, Legacy} \<and> (st_slug_source st = [] \<longrightarrow> st_slug st = [])"
  by (simp add: status_ok_def)

lemma denied_status_ok:
  assumes "condition_library lib" "status_ok (i_status i)" "phase \<in> {phaseProvisioning, phaseError}" "reason_shape reason"
  shows "status_ok (i_status (denied_status lib i phase reason message))"
  using set_ready_ok [OF assms(1,2), where phase = phase and url = "[]" and source = "st_slug_source (i_status i)"
      and slug = "st_slug (i_status i)" and c = "ready_condition i ''False'' reason message"] assms(3,4) status_source [OF assms(2)] phases
  by (auto simp: denied_status_def status_ok_def)

lemma progress_status_ok:
  assumes "condition_library (r_lib r)" "status_ok (i_status i)" "reason_shape reason"
    and "phase = phaseProvisioning \<and> status = ''False'' \<or> phase = ''Ready'' \<and> status = ''True''"
  shows "status_ok (i_status (progress_status r i phase status host reason message))"
  using set_ready_ok [OF assms(1,2), where phase = phase and url = "instanceURL r host" and source = "st_slug_source (i_status i)"
      and slug = "st_slug (i_status i)" and c = "ready_condition i status reason message"] assms(3,4) status_source [OF assms(2)] phases
  by (auto simp: progress_status_def status_ok_def)


lemma fmap_size_drop: "map_len (fmdrop k m) \<le> map_len m"
  by (simp add: map_len_def fcard_mono fminus_fsubset_conv fsubset_finsertI)

subsection \<open>Runs\<close>

text \<open>What the API server replies with, and what is written to it.\<close>

fun replied_instance :: "call \<Rightarrow> chat_instance option" where
  "replied_instance (GetInstance rd k (Inr i)) = Some i"
| "replied_instance (UpdateInstance j (Inr i)) = Some i"
| "replied_instance (PatchStatus old new lock (Inr i)) = Some i"
| "replied_instance (UpdateStatus j (Inr i)) = Some i"
| "replied_instance _ = None"

fun written_instance :: "call \<Rightarrow> chat_instance option" where
  "written_instance (UpdateInstance i res) = Some i"
| "written_instance (PatchStatus old new lock res) = Some new"
| "written_instance (UpdateStatus i res) = Some i"
| "written_instance _ = None"

definition well_formed :: "chat_instance option \<Rightarrow> bool" where
  "well_formed i = pred_option (\<lambda>i. status_ok (i_status i)) i"

lemma well_formed_simps [simp]: "well_formed None" "well_formed (Some i) = status_ok (i_status i)"
  by (simp_all add: well_formed_def)

definition replies_ok :: "log_entry list \<Rightarrow> bool" where
  "replies_ok log = list_all (\<lambda>e. well_formed (replied_instance (snd e))) log"

definition written_ok :: "log_entry list \<Rightarrow> log_entry \<Rightarrow> bool" where
  "written_ok past e = (replies_ok past \<longrightarrow> well_formed (written_instance (snd e)))"

lemma replies_ok_snoc [simp]: "replies_ok (log @ [e]) = (replies_ok log \<and> well_formed (replied_instance (snd e)))"
  by (simp add: replies_ok_def)

lemma replies_ok_subset: "replies_ok log \<Longrightarrow> set past \<subseteq> set log \<Longrightarrow> replies_ok past"
  by (auto simp: replies_ok_def list_all_iff)

text \<open>
  The invariant of a run: what was written had the shape if the replies before it had, and then the
  local instance has it too.
\<close>

definition shaped :: "'w st \<Rightarrow> bool" where
  "shaped s \<longleftrightarrow> justified written_ok (call_log s) \<and>
     (replies_ok (call_log s) \<longrightarrow> status_ok (i_status (local_inst s)))"

definition keeps_shape :: "('w, 'a) op \<Rightarrow> bool" where
  "keeps_shape m \<longleftrightarrow> (\<forall>s. shaped s \<longrightarrow> wp m (\<lambda>_. shaped) s)"

named_theorems shape_intros \<open>operations that keep the shape\<close>

lemma shapeD: "keeps_shape m \<Longrightarrow> shaped s \<Longrightarrow> wp m (\<lambda>_. shaped) s"
  by (simp add: keeps_shape_def)

lemma shape_combinators [shape_intros]:
  "keeps_shape (ret a)" "keeps_shape get_inst"
  "keeps_shape m \<Longrightarrow> (\<And>a. keeps_shape (f a)) \<Longrightarrow> keeps_shape (State_Monad.bind m f)"
  "keeps_shape m \<Longrightarrow> keeps_shape n \<Longrightarrow> keeps_shape (if b then m else n)"
  "(\<And>e. keeps_shape (g e)) \<Longrightarrow> (\<And>c. keeps_shape (h c)) \<Longrightarrow> keeps_shape (case x of Inl e \<Rightarrow> g e | Inr c \<Rightarrow> h c)"
  "keeps_shape m \<Longrightarrow> (\<And>c. keeps_shape (h' c)) \<Longrightarrow> keeps_shape (case z of None \<Rightarrow> m | Some c \<Rightarrow> h' c)"
  "(\<And>c d. y = (c, d) \<Longrightarrow> keeps_shape (k c d)) \<Longrightarrow> keeps_shape (case y of (c, d) \<Rightarrow> k c d)"
  "keeps_shape m \<Longrightarrow> keeps_shape n \<Longrightarrow> keeps_shape (case b of True \<Rightarrow> m | False \<Rightarrow> n)"
  "keeps_shape m \<Longrightarrow> (\<And>v vs. keeps_shape (l v vs)) \<Longrightarrow> keeps_shape (case ys of [] \<Rightarrow> m | v # vs \<Rightarrow> l v vs)"
  "keeps_shape (q v') \<Longrightarrow> keeps_shape (Let v' q)"
  by (auto simp: keeps_shape_def get_inst_def wp_simps wp_run split: sum.splits option.splits prod.splits bool.splits list.splits)

lemma written_ok_free: "kind_of (snd e) \<notin> {InstanceWrite, StatusPatch, StatusWrite} \<Longrightarrow> written_ok past e"
  by (cases e; cases "snd e") (auto simp: written_ok_def)

lemma wp_shape_steady:
  "calls K m \<Longrightarrow> K \<inter> {InstanceWrite, StatusPatch, StatusWrite} = {} \<Longrightarrow> steady m \<Longrightarrow> shaped s \<Longrightarrow>
   wp m (\<lambda>_ t. shaped t \<and> local_inst t = local_inst s) s"
  unfolding shaped_def
  by (auto intro!: wp_use [OF wp_advanced [OF calls_keeps [of K m], of written_ok]] written_ok_free dest: replies_ok_subset)

lemma shape_steady: "calls K m \<Longrightarrow> K \<inter> {InstanceWrite, StatusPatch, StatusWrite} = {} \<Longrightarrow> steady m \<Longrightarrow> keeps_shape m"
  unfolding keeps_shape_def by (blast intro: wp_use [OF wp_shape_steady])

lemma shape_reading [shape_intros]: "calls {Reading} m \<Longrightarrow> steady m \<Longrightarrow> keeps_shape m"
  by (rule shape_steady) auto


subsection \<open>The methods\<close>

lemma shaped_log [simp]:
  "shaped (s\<lparr>world := w, call_log := log\<rparr>) = shaped (s\<lparr>call_log := log\<rparr>)"
  "shaped (s\<lparr>local_inst := i, world := w, call_log := log\<rparr>) = shaped (s\<lparr>local_inst := i, call_log := log\<rparr>)"
  by (simp_all add: shaped_def)

lemma shaped_status: "shaped s \<Longrightarrow> replies_ok (call_log s) \<Longrightarrow> status_ok (i_status (local_inst s))"
  by (simp add: shaped_def)

lemma shaped_put: "shaped s \<Longrightarrow> (replies_ok (call_log s) \<Longrightarrow> status_ok (i_status i)) \<Longrightarrow> shaped (s\<lparr>local_inst := i\<rparr>)"
  by (simp add: shaped_def)

text \<open>Sending an instance of the shape; the local instance stays as it is, or becomes the reply.\<close>

abbreviation adopted :: "(api_error + chat_instance) \<Rightarrow> 'w st \<Rightarrow> bool" where
  "adopted reply t \<equiv> shaped t \<and> (\<forall>p. reply = Inr p \<longrightarrow> shaped (t\<lparr>local_inst := p\<rparr>))"

lemma shape_sends:
  assumes "shaped s" "replies_ok (call_log s) \<Longrightarrow> status_ok (i_status new)"
  shows "wp (patchStatus r old new lock) adopted s" "wp (updateStatus r new) adopted s" "wp (updateInstance r new) adopted s"
  using assms by (auto simp: api_defs wp_simps shaped_def written_ok_def split: prod.splits)

lemma shape_fetches: "shaped s \<Longrightarrow> wp (getInst r rd k) adopted s"
  by (auto simp: api_defs wp_simps shaped_def written_ok_def split: prod.splits)

lemma shape_adopt:
  assumes "shaped s" "replies_ok (call_log s) \<Longrightarrow> status_ok (i_status new)"
  shows "wp (do { put_inst new; reply \<leftarrow> patchStatus r old new lock;
       case reply of Inl e \<Rightarrow> ret (x e) | Inr persisted \<Rightarrow> do { put_inst persisted; ret y } }) (\<lambda>_. shaped) s"
    and "wp (do { put_inst new; reply \<leftarrow> updateStatus r new;
       case reply of Inl e \<Rightarrow> ret (x' e) | Inr persisted \<Rightarrow> do { put_inst persisted; ret y' } }) (\<lambda>_. shaped) s"
    and "wp (do { put_inst new; if b then do { reply \<leftarrow> patchStatus r old new lock;
       case reply of Inl e \<Rightarrow> ret (x e) | Inr persisted \<Rightarrow> do { put_inst persisted; ret y } } else ret z }) (\<lambda>_. shaped) s"
  using assms by (auto simp: wp_simps split: sum.splits intro!: shaped_put wp_use [OF shape_sends(1)] wp_use [OF shape_sends(2)])

lemma shape_patch_status:
  assumes "condition_library (r_lib r)" "reason_shape reason" "phase \<in> {phaseProvisioning, phaseError}"
  shows "keeps_shape (updateImagePolicyStatus r phase reason message)"
  unfolding keeps_shape_def updateImagePolicyStatus_def Let_def wp_bind [of get_inst] wp_get_inst
  using assms by (auto intro!: shape_adopt(1) denied_status_ok dest: shaped_status)

lemma shape_write_status:
  assumes "condition_library (r_lib r)" "reason_shape reason"
    and "phase = phaseProvisioning \<and> status = ''False'' \<or> phase = ''Ready'' \<and> status = ''True''"
  shows "keeps_shape (do { inst \<leftarrow> get_inst; write_status r (progress_status r inst phase status host reason message) })"
  unfolding keeps_shape_def write_status_def wp_bind [of get_inst] wp_get_inst
  using assms by (auto intro!: shape_adopt(2) progress_status_ok dest: shaped_status)

lemma hostname_reason_shape: "hostname_reason cause = Some (reason, message) \<Longrightarrow> reason_shape reason"
  by (auto simp: hostname_reason_def reason_shape_def letter_def word_char_def between_def split: if_splits)

lemma forgotten_slug_ok: "status_ok st \<Longrightarrow> status_ok (st\<lparr>st_slug := (if b then [] else st_slug st),
    st_slug_source := (if b then [] else st_slug_source st)\<rparr>)"
  by (auto simp: status_ok_def)

lemma shape_hostnameFailure:
  assumes lib: "condition_library (r_lib r)"
  shows "keeps_shape (hostnameFailure r cause)"
proof -
  have shape: "reason_shape ''HostnameCheckFailed''" by (simp add: reason_shape_def letter_def word_char_def between_def)
  show ?thesis
  proof (cases "hostname_reason cause")
    case None
    then show ?thesis
      unfolding keeps_shape_def hostnameFailure_def wp_bind wp_get_inst
      using shapeD [OF shape_patch_status [OF lib shape]]
      by (auto simp: wp_simps intro!: wp_use [OF shapeD [OF shape_patch_status [OF lib shape]]])
  next
    case (Some rm)
    then obtain reason message where rm: "hostname_reason cause = Some (reason, message)" by (cases rm) auto
    show ?thesis
      unfolding keeps_shape_def hostnameFailure_def wp_bind [of get_inst] wp_get_inst rm Let_def option.case prod.case
    proof (intro allI impI)
      fix s :: "'a st"
      let ?i = "local_inst s"
      let ?new = "denied_status (r_lib r) (?i\<lparr>i_status := (i_status ?i)
          \<lparr>st_slug := (if errors_Is cause ErrLegacyUnmapped \<or> errors_Is cause ErrIdentity then [] else st_slug (i_status ?i)),
           st_slug_source := (if errors_Is cause ErrLegacyUnmapped \<or> errors_Is cause ErrIdentity then []
              else st_slug_source (i_status ?i))\<rparr>\<rparr>) phaseError reason message"
      assume s: "shaped s"
      have new: "status_ok (i_status ?new)" if "replies_ok (call_log s)"
        using that s lib by (intro denied_status_ok hostname_reason_shape [OF rm])
          (simp_all add: forgotten_slug_ok shaped_status)
      show "wp (do { put_inst ?new; if i_status ?i \<noteq> i_status ?new then do { reply \<leftarrow> patchStatus r ?i ?new False;
              case reply of Inl e \<Rightarrow> ret (requeue_after hostnameRecheckAfter, Some (Api e))
                | Inr persisted \<Rightarrow> do { put_inst persisted; ret (requeue_after hostnameRecheckAfter, None) } }
              else ret (requeue_after hostnameRecheckAfter, None) }) (\<lambda>_. shaped) s"
        by (rule shape_adopt(3) [OF s new])
    qed
  qed
qed


lemma Select_source: "Select lib p m = Inr sel \<Longrightarrow> sel_source sel \<in> {Derived, Legacy}"
  by (auto simp: Select_def Let_def split: option.splits if_splits sum.splits)

lemma sources: "Derived \<noteq> []" "Legacy \<noteq> []"
  by (simp_all add: Derived_def Legacy_def)

lemma pending_status_ok:
  assumes "condition_library lib" "status_ok (i_status i)" "source \<in> {Derived, Legacy}"
  shows "status_ok (i_status (i\<lparr>i_status := (i_status i)
             \<lparr>st_slug := slug, st_slug_source := source, st_url := [], st_phase := phaseProvisioning, st_observed := n,
              st_conditions := set_condition lib (ready_condition i ''False'' ''HostnamePending'' message) (st_conditions (i_status i))\<rparr>\<rparr>))"
  using set_ready_ok [OF assms(1,2), where phase = phaseProvisioning and url = "[]" and source = source
      and slug = slug and c = "ready_condition i ''False'' ''HostnamePending'' message"] assms(3) phases sources
  by (auto simp: status_ok_def reason_shape_def letter_def word_char_def between_def)

lemma shape_ensureSlug:
  assumes "condition_library (r_lib r)"
  shows "keeps_shape (ensureSlug r)"
proof (unfold keeps_shape_def, intro allI impI)
  fix s :: "'a st"
  assume s: "shaped s"
  show "wp (ensureSlug r) (\<lambda>_. shaped) s"
  proof (cases "Select (r_lib r) (r_hostname_policy r) (i_meta (local_inst s))")
    case (Inl e)
    then show ?thesis using s by (simp add: ensureSlug_def wp_simps)
  next
    case (Inr sel)
    have fetch: "shaped t \<Longrightarrow> wp (getInst r rd k) (\<lambda>_. shaped) t" for rd k t
      by (rule wp_use [OF shape_fetches]) simp_all
    show ?thesis
      unfolding ensureSlug_def wp_bind [of get_inst] wp_get_inst Inr sum.case Let_def
      using s Select_source [OF Inr] assms
      by (auto simp: wp_simps simp del: chat_instance.update_convs split: sum.splits
          intro!: wp_use [OF shape_sends(1)] shaped_put pending_status_ok wp_use [OF fetch] dest: shaped_status)
         (auto simp: shaped_def)
  qed
qed

lemma shape_persist:
  assumes "shaped s" "replies_ok (call_log s) \<Longrightarrow> map_len pins \<le> maxAccessBundles + 1"
  shows "wp (persistAccessSecretPins r pins) (\<lambda>_. shaped) s"
proof -
  have "status_ok ((i_status (local_inst s))\<lparr>st_pins := pins\<rparr>)" if "replies_ok (call_log s)"
    using shaped_status [OF assms(1) that] assms(2) [OF that] by (simp add: status_ok_def)
  then show ?thesis
    using assms(1) unfolding persistAccessSecretPins_def
    by (auto simp: wp_simps Let_def split: sum.splits intro!: wp_use [OF shape_sends(1)] wp_use [OF shape_fetches])
qed


lemma shape_pinAccessSecret: "keeps_shape (pinAccessSecret r x)"
  unfolding keeps_shape_def pinAccessSecret_def
  by (auto simp: wp_simps Let_def not_less simp del: map_len_upd intro!: shape_persist)

lemma shape_retire_bundle: "keeps_shape (retire_bundle r x)"
proof (unfold keeps_shape_def, intro allI impI)
  fix s :: "'a st"
  assume s: "shaped s"
  let ?delete = "if meta_uid (sec_meta x) = [] then ret None
       else do {
         deleted \<leftarrow> deleteSecret r x (meta_uid (sec_meta x)) (meta_resource_version (sec_meta x));
         case deleted of
           Inl e \<Rightarrow> if e \<noteq> NotFound then ret (Some (Api e)) else confirm_gone r x
         | Inr _ \<Rightarrow> confirm_gone r x
       }"
  have frame: "calls {Reading, SecretDelete} ?delete" "steady ?delete"
    by (rule calls_intros call_kinds calls_mono [OF calls_confirm_gone] steady_intros | simp)+
  have bound: "map_len (fmdrop k (i_pins (local_inst s))) \<le> maxAccessBundles + 1"
    if "shaped t" "local_inst t = local_inst s" "replies_ok (call_log t)" for k and t :: "'a st"
    by (rule le_trans [OF fmap_size_drop]) (use shaped_status [OF that(1,3)] that(2) in \<open>simp add: status_ok_def\<close>)
  show "wp (retire_bundle r x) (\<lambda>_. shaped) s"
    unfolding retire_bundle_def wp_bind wp_get_inst
    by (rule wp_use [OF wp_shape_steady [OF frame(1) _ frame(2) s]], simp)
       (auto simp: wp_simps split: option.splits intro!: shape_persist bound)
qed

lemma shape_secrets [shape_intros]:
  "keeps_shape (create_pinned_secret r name data)"
  "keeps_shape (makeAccessSecretRoom r)"
  unfolding create_pinned_secret_def makeAccessSecretRoom_def
  by (rule shape_intros shape_pinAccessSecret shape_retire_bundle shape_steady [OF call_kinds(14) [of "{SecretCreate}"]]
      calls_collect_candidates call_kinds steady_intros | simp)+

lemma shape_sessionSecret: "keeps_shape (sessionSecret r)"
  unfolding sessionSecret_def
  by (rule shape_intros shape_steady [OF calls_fill_session_keys] call_kinds steady_intros | simp | blast)+

lemma shape_prepareAccess: "keeps_shape (prepareAccess r host)"
  unfolding prepareAccess_def prepare_bundle_def ensure_bundle_def
  by (rule shape_intros shape_sessionSecret call_kinds steady_intros | simp)+


lemma known_reasons [simp]:
  "reason_shape ''ImageNotAllowed''" "reason_shape ''AccessNotConfigured''" "reason_shape ''UnsupportedReplicas''"
  "reason_shape ''AccessMigration''" "reason_shape ''ImageMigration''" "reason_shape ''ImagePolicyError''"
  "reason_shape ''ImageCheckFailed''" "reason_shape ''Provisioned''" "reason_shape ''DeploymentNotFound''"
  "reason_shape ''DeploymentProgressing''" "reason_shape ''DeploymentNotReady''" "reason_shape ''DeploymentNotAvailable''"
  "reason_shape ''ServiceEndpointsMissing''" "reason_shape ''HealthCheckFailed''" "reason_shape ''DNSNotReady''"
  by (simp_all add: reason_shape_def letter_def word_char_def between_def)

lemma readiness_reasons:
  "wp (evaluateInstanceReadiness r name host)
     (\<lambda>a _. \<forall>ready reason message. a = Inr (ready, reason, message) \<longrightarrow> reason_shape reason) s"
proof -
  have "deployment_pending n d = Some (reason, message) \<Longrightarrow> reason_shape reason" for n d reason message
    by (auto simp: deployment_pending_def split: if_splits)
  then show ?thesis
    unfolding evaluateInstanceReadiness_def
    by (auto simp: wp_simps Let_def wp_run split: sum.splits option.splits prod.splits)
qed

lemma shape_handlers:
  assumes lib: "condition_library (r_lib r)"
  shows "keeps_shape (stopForHostnameFailure r cause)" "keeps_shape (selectedInstanceHost r)"
    "keeps_shape (rejectImage r message)" "keeps_shape (denyAccess r cause)" "keeps_shape (rejectReplicas r)"
  unfolding stopForHostnameFailure_def selectedInstanceHost_def rejectImage_def denyAccess_def rejectReplicas_def
  by (rule shape_intros shape_patch_status [OF lib] shape_hostnameFailure [OF lib] shape_ensureSlug [OF lib] calls_checkHostname
      shape_steady [OF calls_withdrawAccess] shape_steady [OF calls_stopUnapprovedDeployment] steady_intros | simp)+

lemma shape_report:
  assumes lib: "condition_library (r_lib r)"
  shows "keeps_shape (report_readiness r name host)"
proof -
  have pending: "keeps_shape (updateProvisioningStatus r host reason message)" if "reason_shape reason" for reason message
    unfolding updateProvisioningStatus_def by (rule shape_write_status [OF lib that]) simp
  have ready: "keeps_shape (updateReadyStatus r host)"
    unfolding updateReadyStatus_def by (rule shape_write_status [OF lib]) simp_all
  have evaluate: "keeps_shape (evaluateInstanceReadiness r name host)"
    by (rule shape_steady [OF calls_evaluateInstanceReadiness]) (simp_all add: steady_intros)
  have evaluated: "wp (evaluateInstanceReadiness r name host) (\<lambda>a t. shaped t \<and>
      (case a of Inl e \<Rightarrow> True | Inr (ready, reason, message) \<Rightarrow> reason_shape reason)) s" if "shaped s" for s :: "'a st"
    by (rule wp_use [OF wp_conj [OF readiness_reasons shapeD [OF evaluate that]]]) (auto split: sum.splits)
  show ?thesis
    unfolding keeps_shape_def report_readiness_def wp_bind
    by (auto simp: wp_simps split: sum.splits option.splits intro!: wp_use [OF evaluated]
        wp_use [OF shapeD [OF pending]] wp_use [OF shapeD [OF ready]])
qed

lemma shape_workload:
  assumes lib: "condition_library (r_lib r)"
  shows "keeps_shape (reconcile_workload r img host b)"
proof -
  have deploy: "keeps_shape (reconcile_deploy r img host b credentials)" for credentials
    unfolding reconcile_deploy_def reconcile_publish_def
    by (rule shape_intros shape_handlers [OF lib] shape_patch_status [OF lib] shape_report [OF lib]
        shape_steady [OF calls_reconcileDeployment] shape_steady [OF calls_reconcileService]
        shape_steady [OF calls_reconcileIngress] steady_intros | simp)+
  have credentials: "keeps_shape (do { found \<leftarrow> getSecret r Cached k; case found of
           Inl e \<Rightarrow> denyAccess r (Wrap txt' (Api e))
         | Inr credentials \<Rightarrow> reconcile_deploy r img host b credentials })" for k txt'
    by (rule shape_intros shape_handlers [OF lib] deploy call_kinds steady_intros | simp)+
  show ?thesis
    unfolding keeps_shape_def reconcile_workload_def Let_def wp_bind [of get_inst] wp_get_inst
    using shapeD [OF credentials] shapeD [OF shape_handlers(4) [OF lib]]
    by (auto simp: wp_simps split: sum.splits intro!: shaped_put wp_use [OF shape_sends(3)] dest: shaped_status)
qed

lemma shape_gated:
  assumes lib: "condition_library (r_lib r)"
  shows "keeps_shape (reconcile_gated r img)"
  unfolding reconcile_gated_def reconcile_limited_def reconcile_hosted_def
  by (rule shape_steady [OF calls_withdrawAccess] shape_steady [OF calls_stopUnapprovedDeployment] shape_combinators
      shape_handlers [OF lib] shape_patch_status [OF lib] shape_prepareAccess shape_workload [OF lib] steady_intros
      | simp | fastforce split: if_splits)+

lemma written_Reconcile:
  assumes lib: "condition_library (r_lib r)"
  shows "keeps written_ok (Reconcile r req)"
proof -
  have fetch: "wp (getInst r rd k) (\<lambda>reply t. justified written_ok (call_log t) \<and>
      (\<forall>p. reply = Inr p \<longrightarrow> shaped (t\<lparr>local_inst := p\<rparr>))) s" if "justified written_ok (call_log s)" for rd k and s :: "'a st"
    using that by (auto simp: api_defs wp_simps shaped_def written_ok_def split: prod.splits)
  have release: "wp (let released = i\<lparr>i_meta := m\<rparr> in do { put_inst released; reply \<leftarrow> updateInstance r released;
      ret (no_result, write_error reply) }) (\<lambda>_ t. justified written_ok (call_log t)) (s\<lparr>local_inst := i\<rparr>)"
    if "shaped (s\<lparr>local_inst := i\<rparr>)" for i m and s :: "'a st"
    using that by (auto simp: api_defs wp_simps shaped_def written_ok_def split: prod.splits)
  have run: "keeps_shape m \<Longrightarrow> shaped s \<Longrightarrow> wp m (\<lambda>_ t. justified written_ok (call_log t)) s"
    for m :: "('a, 'b) op" and s
    by (rule wp_use [OF shapeD]) (simp_all add: shaped_def)
  have rejected: "keeps_shape (do { err \<leftarrow> rejectImage r message; ret (no_result, err) })" for message
    by (rule shape_intros shape_handlers [OF lib])+
  show ?thesis
    unfolding keeps_def Reconcile_def
    by (auto simp: wp_bind [of "getInst r rd k" for rd k] wp_bind [of "put_inst i" for i] wp_put_inst wp_case_sum wp_return
        wp_if split: sum.splits intro!: wp_use [OF fetch] release run [OF rejected] run [OF shape_gated [OF lib]])
qed


text \<open>
  C40. Every status the reconciler writes has the documented shape. In the log of any reconcile, an
  instance is patched or updated with a status that is well formed, if the instances replied before
  were: the phase is Provisioning, Error or Ready (or still empty), an Error has no URL, the slug
  source is Derived, Legacy or empty with an empty slug, at most three bundles and the session keys
  are pinned, every condition type occurs once, and the Ready condition is True exactly in phase
  Ready, with a reason the API accepts.
\<close>

theorem written_statuses_well_formed:
  "condition_library (r_lib r) \<Longrightarrow> justified written_ok (reconcile_log r req w i)"
  by (rule reconcile_log_justified [OF written_Reconcile])

theorem written_statuses_well_formed_witness:
  "justified written_ok (reconcile_log sample_reconciler (''tenant'', ''chat'') () (sample_instance sample_base))"
  by (rule written_statuses_well_formed) (simp add: sample_config sample_conditions)

end
