(* ===== verification/Api_Server.thy ===== *)
theory Api_Server
  imports Steady_State
begin

text \<open>
  An API server that nobody else writes to, as laws about the operations of the cluster: \<open>held w\<close> is
  what it holds in the world \<open>w\<close>, reads answer from it, and a write that has its precondition is
  accepted, stored, and answered with the stored object. On it rests the liveness of creation.
\<close>

subsection \<open>The laws\<close>

text \<open>
  The metadata the server gives a written object: a new object gets a UID and a creation time, and
  every write a resource version and a generation.
\<close>

definition reissued :: "object_meta \<Rightarrow> object_meta \<Rightarrow> bool" where
  "reissued m m' \<longleftrightarrow> (\<exists>v n. m' = m\<lparr>meta_resource_version := v, meta_generation := n\<rparr>)"

definition created :: "object_meta \<Rightarrow> object_meta \<Rightarrow> bool" where
  "created m m' \<longleftrightarrow> (\<exists>u t v n. u \<noteq> [] \<and>
     m' = m\<lparr>meta_uid := u, meta_created := t, meta_resource_version := v, meta_generation := n\<rparr>)"

text \<open>\<open>accepts held f w P\<close>: called in \<open>w\<close>, \<open>f\<close> succeeds, with a reply and a new content that satisfy \<open>P\<close>.\<close>

definition accepts :: "('w \<Rightarrow> snapshot) \<Rightarrow> ('w \<Rightarrow> (api_error + 'a) \<times> 'w) \<Rightarrow> 'w \<Rightarrow> ('a \<Rightarrow> snapshot \<Rightarrow> bool) \<Rightarrow> bool" where
  "accepts held f w P \<longleftrightarrow> (\<exists>a w'. f w = (Inr a, w') \<and> P a (held w'))"

text \<open>
  A status write stores the status only; an update of the instance leaves the status. Both are made
  against the stored version.
\<close>

definition status_stored :: "snapshot \<Rightarrow> inst_status \<Rightarrow> chat_instance \<Rightarrow> snapshot \<Rightarrow> bool" where
  "status_stored sn st i sn' \<longleftrightarrow>
     (\<exists>m. reissued (i_meta (sn_instance sn)) m \<and> i = (sn_instance sn)\<lparr>i_meta := m, i_status := st\<rparr> \<and> sn' = sn\<lparr>sn_instance := i\<rparr>)"

definition instance_writes :: "'w reconciler \<Rightarrow> ('w \<Rightarrow> snapshot) \<Rightarrow> 'w \<Rightarrow> bool" where
  "instance_writes r held w \<longleftrightarrow>
     (let sn = held w; inst = sn_instance sn; cl = r_cluster r in
      (\<forall>st lock. accepts held (k_patch_status cl inst (inst\<lparr>i_status := st\<rparr>) lock) w (status_stored sn st)) \<and>
      (\<forall>st. accepts held (k_update_status cl (inst\<lparr>i_status := st\<rparr>)) w (status_stored sn st)) \<and>
      (\<forall>fs. accepts held (k_update_instance cl (inst\<lparr>i_meta := (i_meta inst)\<lparr>meta_finalizers := fs\<rparr>\<rparr>)) w
         (\<lambda>i sn'. \<exists>m. reissued ((i_meta inst)\<lparr>meta_finalizers := fs\<rparr>) m \<and> i = inst\<lparr>i_meta := m\<rparr> \<and> sn' = sn\<lparr>sn_instance := i\<rparr>)))"

text \<open>An object is created under a free name. The server fills in the default type of a Service.\<close>

definition object_creations :: "'w reconciler \<Rightarrow> ('w \<Rightarrow> snapshot) \<Rightarrow> 'w \<Rightarrow> bool" where
  "object_creations r held w \<longleftrightarrow>
     (let sn = held w; own = chatui_key (sn_instance sn); cl = r_cluster r in
      (\<forall>x. sn_secret sn (meta_key (sec_meta x)) = None \<longrightarrow> accepts held (k_create_secret cl x) w (\<lambda>x' sn'.
         \<exists>m. created (sec_meta x) m \<and> x' = x\<lparr>sec_meta := m\<rparr> \<and>
           sn' = sn\<lparr>sn_secret := (sn_secret sn)(meta_key (sec_meta x) \<mapsto> x')\<rparr>)) \<and>
      (\<forall>d. sn_deployment sn = None \<and> meta_key (d_meta d) = own \<longrightarrow> accepts held (k_create_deployment cl d) w (\<lambda>d' sn'.
         created (d_meta d) (d_meta d') \<and> d_template d' = d_template d \<and> d_strategy d' = d_strategy d \<and>
         d_replicas d' = d_replicas d \<and> sn' = sn\<lparr>sn_deployment := Some d'\<rparr>)) \<and>
      (\<forall>v. sn_service sn = None \<and> meta_key (svc_meta v) = own \<longrightarrow> accepts held (k_create_service cl v) w (\<lambda>v' sn'.
         created (svc_meta v) (svc_meta v') \<and> svc_type v' = (if svc_type v = [] then ''ClusterIP'' else svc_type v) \<and>
         svc_external_name v' = svc_external_name v \<and> svc_selector v' = svc_selector v \<and> svc_ports v' = svc_ports v \<and>
         sn' = sn\<lparr>sn_service := Some v'\<rparr>)))"

text \<open>The Ingress of the instance is one of all; a list of them has no promised order.\<close>

definition route_writes :: "'w reconciler \<Rightarrow> ('w \<Rightarrow> snapshot) \<Rightarrow> 'w \<Rightarrow> bool" where
  "route_writes r held w \<longleftrightarrow>
     (let sn = held w; own = chatui_key (sn_instance sn); cl = r_cluster r in
      (\<forall>g. sn_ingress sn = None \<and> meta_key (ing_meta g) = own \<longrightarrow> accepts held (k_create_ingress cl g) w (\<lambda>g' sn'.
         \<exists>m items. created (ing_meta g) m \<and> g' = g\<lparr>ing_meta := m\<rparr> \<and> set items = insert g' (set (sn_ingresses sn)) \<and>
           sn' = sn\<lparr>sn_ingress := Some g', sn_ingresses := items\<rparr>)) \<and>
      (\<forall>g anns h. sn_ingress sn = Some h \<and> ing_meta g = (ing_meta h)\<lparr>meta_annotations := anns\<rparr> \<longrightarrow>
         accepts held (k_update_ingress cl g) w (\<lambda>g' sn'.
         \<exists>m items. reissued (ing_meta g) m \<and> g' = g\<lparr>ing_meta := m\<rparr> \<and> set items = insert g' (set (sn_ingresses sn) - {h}) \<and>
           sn' = sn\<lparr>sn_ingress := Some g', sn_ingresses := items\<rparr>)))"

text \<open>Entropy is drawn in full, and probing changes nothing at the server.\<close>

definition harmless :: "'w reconciler \<Rightarrow> ('w \<Rightarrow> snapshot) \<Rightarrow> 'w \<Rightarrow> bool" where
  "harmless r held w \<longleftrightarrow>
     (let cl = r_cluster r in
      (\<forall>n. \<exists>key w'. k_random cl n w = (Some key, w') \<and> length key = n \<and> held w' = held w) \<and>
      (\<forall>rd k. held (snd (k_get_endpoints cl rd k w)) = held w) \<and>
      (\<forall>url. held (snd ((case k_custom_health cl of None \<Rightarrow> defaultServiceHealthChecker cl url | Some ch \<Rightarrow> ch url) w)) = held w) \<and>
      (\<forall>host. held (snd ((case k_custom_dns cl of None \<Rightarrow> defaultDNSChecker cl host | Some ch \<Rightarrow> ch host) w)) = held w))"

definition honest :: "'w reconciler \<Rightarrow> key \<Rightarrow> ('w \<Rightarrow> snapshot) \<Rightarrow> bool" where
  "honest r req held \<longleftrightarrow>
     (\<forall>sn. serves r req sn (\<lambda>w. held w = sn)) \<and>
     (\<forall>w. instance_writes r held w \<and> object_creations r held w \<and> route_writes r held w \<and> harmless r held w)"

text \<open>Package \<open>controllerutil\<close>, as documented.\<close>

definition owner_of :: "object_meta \<Rightarrow> owner_ref" where
  "owner_of m = \<lparr>owner_api_version = GroupVersion, owner_kind = ''ChatUIInstance'', owner_name = meta_name m, owner_uid = meta_uid m\<rparr>"

definition owner_library :: "library \<Rightarrow> bool" where
  "owner_library lib \<longleftrightarrow>
     (\<forall>owner m. meta_controller m = None \<and> meta_namespace m = meta_namespace owner \<longrightarrow>
        set_controller lib owner m = Inr (m\<lparr>meta_controller := Some (owner_of owner)\<rparr>)) \<and>
     (\<forall>m f. \<exists>fs. add_finalizer lib m f = m\<lparr>meta_finalizers := fs\<rparr>) \<and>
     (\<forall>m f. has_finalizer lib (add_finalizer lib m f) f) \<and>
     (\<forall>m n f. meta_finalizers m = meta_finalizers n \<longrightarrow> has_finalizer lib m f = has_finalizer lib n f)"

lemma sample_owner_library: "owner_library sample_library"
  by (auto simp: owner_library_def sample_library_def sample_set_controller_def owner_of_def GroupVersion_def)

subsection \<open>The state of a run\<close>

text \<open>The server holds \<open>sn\<close>, and the local instance is the stored one.\<close>

definition at :: "('w \<Rightarrow> snapshot) \<Rightarrow> snapshot \<Rightarrow> 'w st \<Rightarrow> bool" where
  "at held sn s \<longleftrightarrow> held (world s) = sn \<and> local_inst s = sn_instance sn"

lemma quiet_at: "quietly (\<lambda>w. held w = sn) (sn_instance sn) m v \<Longrightarrow> at held sn s \<Longrightarrow> wp m (\<lambda>a t. a = v \<and> at held sn t) s"
  unfolding quietly_def at_def by (auto simp: wp_run)

lemma quiet_then:
  "quietly (\<lambda>w. held w = sn) (sn_instance sn) m v \<Longrightarrow> at held sn s \<Longrightarrow> (\<And>t. at held sn t \<Longrightarrow> wp (f v) Q t) \<Longrightarrow>
   wp (State_Monad.bind m f) Q s"
  unfolding wp_bind by (rule wp_use [OF quiet_at]) auto

lemma honest_serves: "honest r req held \<Longrightarrow> serves r req sn (\<lambda>w. held w = sn)"
  by (simp add: honest_def)

text \<open>A write whose precondition holds.\<close>

lemma accepts_external:
  assumes "accepts held f (world s) P"
    and "\<And>a w. P a (held w) \<Longrightarrow> Q (Inr a) (s\<lparr>world := w, call_log := call_log s @ [(local_inst s, entry (Inr a))]\<rparr>)"
  shows "wp (external f entry) Q s"
  using assms by (auto simp: accepts_def wp_external)


text \<open>The same instance, up to its status, its finalizers and the version of its metadata.\<close>

definition identical :: "chat_instance \<Rightarrow> chat_instance \<Rightarrow> bool" where
  "identical i j \<longleftrightarrow> (\<exists>v n fs st.
     j = i\<lparr>i_meta := (i_meta i)\<lparr>meta_resource_version := v, meta_generation := n, meta_finalizers := fs\<rparr>, i_status := st\<rparr>)"

lemma identical_trans: "identical i j \<Longrightarrow> identical j k \<Longrightarrow> identical i k"
  unfolding identical_def by (elim exE) (simp, blast)

lemma identical_refl [simp]: "identical i i"
proof -
  have "i = i\<lparr>i_meta := (i_meta i)\<lparr>meta_resource_version := meta_resource_version (i_meta i),
      meta_generation := meta_generation (i_meta i), meta_finalizers := meta_finalizers (i_meta i)\<rparr>, i_status := i_status i\<rparr>"
    by simp
  then show ?thesis unfolding identical_def by blast
qed

lemma identical_status: "reissued (i_meta i) m \<Longrightarrow> identical i (i\<lparr>i_meta := m, i_status := st\<rparr>)"
proof -
  assume "reissued (i_meta i) m"
  then obtain v n where "m = (i_meta i)\<lparr>meta_resource_version := v, meta_generation := n, meta_finalizers := meta_finalizers (i_meta i)\<rparr>"
    by (cases "i_meta i") (auto simp: reissued_def)
  then show ?thesis unfolding identical_def by blast
qed

lemma identical_finalizers: "reissued ((i_meta i)\<lparr>meta_finalizers := fs\<rparr>) m \<Longrightarrow> identical i (i\<lparr>i_meta := m\<rparr>)"
proof -
  assume "reissued ((i_meta i)\<lparr>meta_finalizers := fs\<rparr>) m"
  then obtain v n where "m = (i_meta i)\<lparr>meta_resource_version := v, meta_generation := n, meta_finalizers := fs\<rparr>"
    by (cases "i_meta i") (auto simp: reissued_def)
  then have "i\<lparr>i_meta := m\<rparr> = i\<lparr>i_meta := (i_meta i)\<lparr>meta_resource_version := v, meta_generation := n, meta_finalizers := fs\<rparr>,
      i_status := i_status i\<rparr>" by simp
  then show ?thesis unfolding identical_def by blast
qed

text \<open>Everything the reconciler derives from the instance, but its status, is the same.\<close>

lemma identical_facts:
  assumes "identical i j"
  shows "i_spec j = i_spec i" "i_uid j = i_uid i" "i_name j = i_name i" "i_namespace j = i_namespace i"
    "meta_deleted (i_meta j) = meta_deleted (i_meta i)" "meta_key (i_meta j) = meta_key (i_meta i)"
    "Select lib p (i_meta j) = Select lib p (i_meta i)" "access_Select ap (i_meta j) = access_Select ap (i_meta i)"
    "ownedByInstance m j = ownedByInstance m i" "ownsIngress j = ownsIngress i" "chatui_name j = chatui_name i"
    "sessionSecretName lib j = sessionSecretName lib i" "bundle_revision r pol j data = bundle_revision r pol i data"
    "service_labels labels j = service_labels labels i" "owner_of (i_meta j) = owner_of (i_meta i)"
proof -
  obtain v n fs st where j: "j = i\<lparr>i_meta := (i_meta i)\<lparr>meta_resource_version := v, meta_generation := n, meta_finalizers := fs\<rparr>, i_status := st\<rparr>"
    using assms by (auto simp: identical_def)
  show "i_spec j = i_spec i" "i_uid j = i_uid i" "i_name j = i_name i" "i_namespace j = i_namespace i"
    "meta_deleted (i_meta j) = meta_deleted (i_meta i)" "meta_key (i_meta j) = meta_key (i_meta i)"
    "ownedByInstance m j = ownedByInstance m i" "ownsIngress j = ownsIngress i" "chatui_name j = chatui_name i"
    "sessionSecretName lib j = sessionSecretName lib i" "bundle_revision r pol j data = bundle_revision r pol i data"
    "service_labels labels j = service_labels labels i" "owner_of (i_meta j) = owner_of (i_meta i)"
    by (simp_all add: j meta_key_def ownedByInstance_def fun_eq_iff ownsIngress_ownedByInstance chatui_name_def
        sessionSecretName_def bundle_revision_def service_labels_def owner_of_def cong: option.case_cong)
  show "Select lib p (i_meta j) = Select lib p (i_meta i)" by (simp add: j Select_def Let_def cong: option.case_cong if_cong)
  show "access_Select ap (i_meta j) = access_Select ap (i_meta i)" by (simp add: j access_Select_def row_matches_def Let_def cong: option.case_cong if_cong)
qed

lemma identical_template:
  assumes "identical i j"
  shows "desired_template r j labels n img checksum b = desired_template r i labels n img checksum b"
proof -
  obtain v n fs st where j: "j = i\<lparr>i_meta := (i_meta i)\<lparr>meta_resource_version := v, meta_generation := n, meta_finalizers := fs\<rparr>, i_status := st\<rparr>"
    using assms by (auto simp: identical_def)
  show ?thesis
    by (simp add: j desiredDeployment_def applyAccessDeployment_def guard_template_def buildDeployment_def
        webui_container_def base_env_def sessionSecretName_def chatui_name_def Let_def)
qed


subsection \<open>The writes of a run\<close>

text \<open>The content after a write: only the instance is another one, and identical to the old.\<close>

definition restated :: "snapshot \<Rightarrow> inst_status \<Rightarrow> snapshot \<Rightarrow> bool" where
  "restated sn st sn' \<longleftrightarrow> (\<exists>i. sn' = sn\<lparr>sn_instance := i\<rparr> \<and> identical (sn_instance sn) i \<and> i_status i = st \<and>
     meta_finalizers (i_meta i) = meta_finalizers (i_meta (sn_instance sn)))"

lemma restated_stored:
  assumes "status_stored sn st i sn'"
  shows "restated sn st sn' \<and> i = sn_instance sn'"
proof -
  obtain m where m: "reissued (i_meta (sn_instance sn)) m" "i = (sn_instance sn)\<lparr>i_meta := m, i_status := st\<rparr>" "sn' = sn\<lparr>sn_instance := i\<rparr>"
    using assms by (auto simp: status_stored_def)
  moreover have "identical (sn_instance sn) i" unfolding m(2) by (rule identical_status [OF m(1)])
  moreover have "meta_finalizers m = meta_finalizers (i_meta (sn_instance sn))" using m(1) by (auto simp: reissued_def)
  ultimately show ?thesis unfolding restated_def by auto
qed

lemma wp_status_writes:
  assumes "honest r req held" "held (world s) = sn"
  shows "wp (patchStatus r (sn_instance sn) ((sn_instance sn)\<lparr>i_status := st\<rparr>) lock)
      (\<lambda>a t. restated sn st (held (world t)) \<and> a = Inr (sn_instance (held (world t)))) s"
    and "wp (updateStatus r ((sn_instance sn)\<lparr>i_status := st\<rparr>))
      (\<lambda>a t. restated sn st (held (world t)) \<and> a = Inr (sn_instance (held (world t)))) s"
proof -
  have "instance_writes r held (world s)" using assms(1) by (simp add: honest_def)
  then have "accepts held (k_patch_status (r_cluster r) (sn_instance sn) ((sn_instance sn)\<lparr>i_status := st\<rparr>) lock) (world s) (status_stored sn st)"
    "accepts held (k_update_status (r_cluster r) ((sn_instance sn)\<lparr>i_status := st\<rparr>)) (world s) (status_stored sn st)"
    unfolding instance_writes_def Let_def assms(2) by blast+
  then show "wp (patchStatus r (sn_instance sn) ((sn_instance sn)\<lparr>i_status := st\<rparr>) lock)
      (\<lambda>a t. restated sn st (held (world t)) \<and> a = Inr (sn_instance (held (world t)))) s"
    "wp (updateStatus r ((sn_instance sn)\<lparr>i_status := st\<rparr>))
      (\<lambda>a t. restated sn st (held (world t)) \<and> a = Inr (sn_instance (held (world t)))) s"
    unfolding api_defs by (auto elim!: accepts_external dest: restated_stored)
qed

lemma wp_finalizer_write:
  assumes "honest r req held" "held (world s) = sn" "i = (sn_instance sn)\<lparr>i_meta := (i_meta (sn_instance sn))\<lparr>meta_finalizers := fs\<rparr>\<rparr>"
  shows "wp (updateInstance r i)
      (\<lambda>a t. \<exists>j. a = Inr j \<and> held (world t) = sn\<lparr>sn_instance := j\<rparr> \<and> identical (sn_instance sn) j \<and>
         i_status j = i_status (sn_instance sn) \<and> meta_finalizers (i_meta j) = fs) s"
proof -
  have "instance_writes r held (world s)" using assms(1) by (simp add: honest_def)
  then have "accepts held (k_update_instance (r_cluster r) i) (world s)
     (\<lambda>j sn'. \<exists>m. reissued ((i_meta (sn_instance sn))\<lparr>meta_finalizers := fs\<rparr>) m \<and> j = (sn_instance sn)\<lparr>i_meta := m\<rparr> \<and> sn' = sn\<lparr>sn_instance := j\<rparr>)"
    unfolding instance_writes_def Let_def assms(2,3) by blast
  then show ?thesis
    unfolding api_defs by (rule accepts_external) (auto simp: identical_finalizers, auto simp: reissued_def)
qed

lemma wp_create_secret:
  assumes "honest r req held" "held (world s) = sn" "sn_secret sn (meta_key (sec_meta x)) = None"
  shows "wp (createSecret r x) (\<lambda>a t.
      \<exists>m. created (sec_meta x) m \<and> a = Inr (x\<lparr>sec_meta := m\<rparr>) \<and> local_inst t = local_inst s \<and>
        held (world t) = sn\<lparr>sn_secret := (sn_secret sn)(meta_key (sec_meta x) \<mapsto> x\<lparr>sec_meta := m\<rparr>)\<rparr>) s"
proof -
  have "object_creations r held (world s)" using assms(1) by (simp add: honest_def)
  then show ?thesis
    unfolding api_defs object_creations_def Let_def assms(2) by (intro accepts_external, use assms(3) in blast) auto
qed

lemma wp_create_deployment:
  assumes "honest r req held" "held (world s) = sn" "sn_deployment sn = None" "meta_key (d_meta d) = chatui_key (sn_instance sn)"
  shows "wp (createDeployment r d) (\<lambda>a t.
      \<exists>d'. a = Inr d' \<and> local_inst t = local_inst s \<and> held (world t) = sn\<lparr>sn_deployment := Some d'\<rparr> \<and>
        created (d_meta d) (d_meta d') \<and> d_template d' = d_template d \<and> d_strategy d' = d_strategy d \<and> d_replicas d' = d_replicas d) s"
proof -
  have "object_creations r held (world s)" using assms(1) by (simp add: honest_def)
  then show ?thesis
    unfolding api_defs object_creations_def Let_def assms(2) by (intro accepts_external, use assms(3,4) in blast) auto
qed

lemma wp_create_service:
  assumes "honest r req held" "held (world s) = sn" "sn_service sn = None" "meta_key (svc_meta v) = chatui_key (sn_instance sn)"
  shows "wp (createService r v) (\<lambda>a t.
      \<exists>v'. a = Inr v' \<and> local_inst t = local_inst s \<and> held (world t) = sn\<lparr>sn_service := Some v'\<rparr> \<and>
        created (svc_meta v) (svc_meta v') \<and> svc_type v' = (if svc_type v = [] then ''ClusterIP'' else svc_type v) \<and>
        svc_external_name v' = svc_external_name v \<and> svc_selector v' = svc_selector v \<and> svc_ports v' = svc_ports v) s"
proof -
  have "object_creations r held (world s)" using assms(1) by (simp add: honest_def)
  then show ?thesis
    unfolding api_defs object_creations_def Let_def assms(2) by (intro accepts_external, use assms(3,4) in blast) auto
qed

lemma wp_create_ingress:
  assumes "honest r req held" "held (world s) = sn" "sn_ingress sn = None" "meta_key (ing_meta g) = chatui_key (sn_instance sn)"
  shows "wp (createIngress r g) (\<lambda>a t.
      \<exists>m items g'. a = Inr g' \<and> local_inst t = local_inst s \<and> g' = g\<lparr>ing_meta := m\<rparr> \<and> created (ing_meta g) m \<and>
        set items = insert g' (set (sn_ingresses sn)) \<and> held (world t) = sn\<lparr>sn_ingress := Some g', sn_ingresses := items\<rparr>) s"
proof -
  have "route_writes r held (world s)" using assms(1) by (simp add: honest_def)
  then show ?thesis
    unfolding api_defs route_writes_def Let_def assms(2) by (intro accepts_external, use assms(3,4) in blast) auto
qed

lemma wp_update_ingress:
  assumes "honest r req held" "held (world s) = sn" "sn_ingress sn = Some h" "ing_meta g = (ing_meta h)\<lparr>meta_annotations := anns\<rparr>"
  shows "wp (updateIngress r g) (\<lambda>a t.
      \<exists>m items g'. a = Inr g' \<and> local_inst t = local_inst s \<and> g' = g\<lparr>ing_meta := m\<rparr> \<and> reissued (ing_meta g) m \<and>
        set items = insert g' (set (sn_ingresses sn) - {h}) \<and> held (world t) = sn\<lparr>sn_ingress := Some g', sn_ingresses := items\<rparr>) s"
proof -
  have "route_writes r held (world s)" using assms(1) by (simp add: honest_def)
  then show ?thesis
    unfolding api_defs route_writes_def Let_def assms(2) by (intro accepts_external, use assms(3,4) in blast) auto
qed

end
