(* ===== verification/Creation.thy ===== *)
theory Creation
  imports Api_Server
begin

text \<open>
  The first reconcile of a new, accepted instance on an API server that keeps what it is told
  (\<open>Api_Server\<close>): it records the host, makes the session Secret and the access bundle, pins both, and
  sets the finalizer.
\<close>

subsection \<open>An accepted instance\<close>

definition accepted :: "'w reconciler \<Rightarrow> key \<Rightarrow> snapshot \<Rightarrow> string \<Rightarrow> bool" where
  "accepted r req sn host \<longleftrightarrow>
     (let inst = sn_instance sn in
      meta_key (i_meta inst) = req \<and> i_uid inst \<noteq> [] \<and> meta_deleted (i_meta inst) = None \<and>
      i_image inst \<in> {[], SupportedImage} \<and> i_replicas inst \<le> 1 \<and> map_len (r_extra_annotations r) = 0 \<and>
      (\<exists>sel. Select (r_lib r) (r_hostname_policy r) (i_meta inst) = Inr sel \<and> Host (r_lib r) (r_public_host r) (sel_slug sel) = Inr host) \<and>
      unclaimed inst host (sn_ingresses sn) \<and>
      TrimSpace (i_credentials inst) \<noteq> [] \<and> \<not> reserved_credentials (i_credentials inst) \<and>
      sn_secret sn (i_namespace inst, TrimSpace (i_credentials inst)) \<noteq> None \<and>
      (\<exists>p e credential. r_access_policy r = Some p \<and> access_Select (Some p) (i_meta inst) = Inr e \<and> r_public_scheme r = ''https'' \<and>
         ap_credentials_namespace p \<noteq> i_namespace inst \<and>
         sn_secret sn (ap_credentials_namespace p, ae_client_secret_name e) = Some credential \<and>
         16 \<le> length (map_get (sec_data credential) ''client_secret'')))"

text \<open>A new instance: nothing was made for it yet, and no Secret has a name reserved for it.\<close>

definition new_instance :: "'w reconciler \<Rightarrow> key \<Rightarrow> snapshot \<Rightarrow> string \<Rightarrow> bool" where
  "new_instance r req sn host \<longleftrightarrow>
     accepted r req sn host \<and> i_pins (sn_instance sn) = fmempty \<and>
     \<not> has_finalizer (r_lib r) (i_meta (sn_instance sn)) finalizerName \<and>
     sn_deployment sn = None \<and> sn_service sn = None \<and> sn_ingress sn = None \<and>
     (\<forall>name. reserved_credentials name \<longrightarrow> sn_secret sn (i_namespace (sn_instance sn), name) = None)"

text \<open>How the content grows in a run: the same instance, more Secrets, no foreign Ingress.\<close>

definition grows :: "snapshot \<Rightarrow> snapshot \<Rightarrow> bool" where
  "grows sn sn' \<longleftrightarrow>
     identical (sn_instance sn) (sn_instance sn') \<and> (\<forall>k x. sn_secret sn k = Some x \<longrightarrow> sn_secret sn' k = Some x) \<and>
     (\<forall>g \<in> set (sn_ingresses sn'). g \<in> set (sn_ingresses sn) \<or>
        meta_key (ing_meta g) = chatui_key (sn_instance sn) \<and> ownsIngress (sn_instance sn) g)"

lemma accepted_grows:
  assumes "accepted r req sn host" "grows sn sn'"
  shows "accepted r req sn' host"
proof -
  have same: "identical (sn_instance sn) (sn_instance sn')" using assms(2) by (simp add: grows_def)
  show ?thesis
    unfolding accepted_def Let_def identical_facts [OF same]
  proof (intro conjI)
    let ?i = "sn_instance sn"
    note acc = assms(1) [unfolded accepted_def Let_def] and grow = assms(2) [unfolded grows_def]
    show "unclaimed (sn_instance sn') host (sn_ingresses sn')"
      using acc grow unfolding unclaimed_def identical_facts [OF same] by blast
    show "sn_secret sn' (i_namespace ?i, TrimSpace (i_credentials ?i)) \<noteq> None"
      using acc grow by (metis not_None_eq)
    show "\<exists>p e credential. r_access_policy r = Some p \<and> access_Select (Some p) (i_meta ?i) = Inr e \<and> r_public_scheme r = ''https'' \<and>
         ap_credentials_namespace p \<noteq> i_namespace ?i \<and>
         sn_secret sn' (ap_credentials_namespace p, ae_client_secret_name e) = Some credential \<and>
         16 \<le> length (map_get (sec_data credential) ''client_secret'')"
      using acc grow by blast
  qed (use assms(1) in \<open>simp_all add: accepted_def Let_def\<close>)
qed

lemma restated_grows: "restated sn st sn' \<Longrightarrow> grows sn sn'"
  by (auto simp: restated_def grows_def)

lemma restated_refl: "restated sn (i_status (sn_instance sn)) sn"
  by (auto simp: restated_def intro!: exI [of _ "sn_instance sn"])

lemma restated_same:
  "restated sn st sn' \<Longrightarrow> sn_deployment sn' = sn_deployment sn \<and> sn_service sn' = sn_service sn \<and> sn_ingress sn' = sn_ingress sn \<and>
    sn_ingresses sn' = sn_ingresses sn \<and> sn_secret sn' = sn_secret sn \<and> i_status (sn_instance sn') = st \<and>
    identical (sn_instance sn) (sn_instance sn') \<and>
    meta_finalizers (i_meta (sn_instance sn')) = meta_finalizers (i_meta (sn_instance sn))"
  by (auto simp: restated_def)

subsection \<open>The host is recorded\<close>

lemma at_patch:
  assumes "honest r req held" "held (world s) = sn" "old = sn_instance sn" "new = old\<lparr>i_status := st\<rparr>"
    and "\<And>t. restated sn st (held (world t)) \<Longrightarrow> Q (Inr (sn_instance (held (world t)))) t"
  shows "wp (patchStatus r old new lock) Q s"
  unfolding assms(4) unfolding assms(3) by (rule wp_use [OF wp_status_writes(1) [OF assms(1,2)]]) (use assms(5) in blast)

lemma at_fetch:
  assumes "honest r req held" "k = req"
    and "\<And>t. held (world t) = held (world s) \<Longrightarrow> local_inst t = local_inst s \<Longrightarrow> Q (Inr (sn_instance (held (world s)))) t"
  shows "wp (getInst r rd k) Q s"
proof -
  have "fst (k_get_instance (r_cluster r) rd k (world s)) = Inr (sn_instance (held (world s)))"
    "held (snd (k_get_instance (r_cluster r) rd k (world s))) = held (world s)"
    using honest_serves [OF assms(1), of "held (world s)"] by (simp_all add: serves_def replies_def Let_def assms(2))
  then show ?thesis using assms(3) by (simp add: api_defs wp_external split_beta)
qed

lemma at_put: "held (world s) = sn \<Longrightarrow> i = sn_instance sn \<Longrightarrow> at held sn (s\<lparr>local_inst := i\<rparr>)"
  by (simp add: at_def)

lemma creates_slug:
  assumes honest: "honest r req held" and s: "at held sn s" and acc: "accepted r req sn host"
    and sel: "Select (r_lib r) (r_hostname_policy r) (i_meta (sn_instance sn)) = Inr sel"
  shows "wp (ensureSlug r) (\<lambda>a t. a = Inr (sel_slug sel) \<and> (\<exists>st sn'. at held sn' t \<and> restated sn st sn' \<and>
      st_slug st = sel_slug sel \<and> st_slug_source st = sel_source sel \<and> st_pins st = i_pins (sn_instance sn))) s"
proof -
  let ?i = "sn_instance sn"
  have local: "local_inst s = ?i" using s by (simp add: at_def)
  show ?thesis
  proof (cases "st_slug (i_status ?i) = sel_slug sel \<and> st_slug_source (i_status ?i) = sel_source sel")
    case True
    then show ?thesis
      unfolding ensureSlug_def wp_bind wp_get_inst local sel
      using s restated_refl [of sn] by (auto simp: wp_simps)
  next
    case False
    have key: "meta_key (i_meta (sn_instance sn')) = req" if "restated sn st sn'" for st sn'
      using acc identical_facts(6) [of ?i "sn_instance sn'"] restated_same [OF that] by (simp add: accepted_def Let_def)
    show ?thesis
      unfolding ensureSlug_def wp_bind wp_get_inst local sel sum.case Let_def
      using False s
      by (auto simp: wp_simps at_def key restated_same simp del: chat_instance.update_convs
          intro!: at_patch [OF honest, of _ sn] at_fetch [OF honest]) (rule exI, erule conjI, simp)+
  qed
qed

lemma creates_pin:
  assumes honest: "honest r req held" and s: "at held sn s" and key: "meta_key (i_meta (sn_instance sn)) = req"
  shows "wp (persistAccessSecretPins r pins) (\<lambda>a t. a = None \<and> (\<exists>sn'. at held sn' t \<and>
      restated sn ((i_status (sn_instance sn))\<lparr>st_pins := pins\<rparr>) sn')) s"
  using s unfolding persistAccessSecretPins_def
  by (auto simp: wp_simps at_def Let_def key restated_same intro!: at_patch [OF honest, of _ sn] at_fetch [OF honest])


subsection \<open>The Secrets\<close>

lemma created_owned:
  assumes "created (m\<lparr>meta_controller := Some (owner_of (i_meta i))\<rparr>) m'" "meta_namespace m = i_namespace i" "i_uid i \<noteq> []"
  shows "ownedByInstance m' i"
  using assms by (auto simp: created_def ownedByInstance_def owner_of_def)

lemma created_fields:
  "created m m' \<Longrightarrow> meta_name m' = meta_name m \<and> meta_namespace m' = meta_namespace m \<and> meta_deleted m' = meta_deleted m \<and>
    meta_uid m' \<noteq> [] \<and> meta_annotations m' = meta_annotations m \<and> meta_controller m' = meta_controller m"
  by (auto simp: created_def)

text \<open>A Secret was made under a free name, and its UID pinned.\<close>

definition secret_made :: "snapshot \<Rightarrow> string \<Rightarrow> gomap \<Rightarrow> secret \<Rightarrow> snapshot \<Rightarrow> bool" where
  "secret_made sn name data x sn' \<longleftrightarrow>
     trusted_secret (sn_instance sn') x \<and> meta_name (sec_meta x) = name \<and> sec_data x = data \<and>
     restated (sn\<lparr>sn_secret := (sn_secret sn)((i_namespace (sn_instance sn), name) \<mapsto> x)\<rparr>)
       ((i_status (sn_instance sn))\<lparr>st_pins := fmupd name (meta_uid (sec_meta x)) (i_pins (sn_instance sn))\<rparr>) sn'"

lemma creates_pinned_secret:
  assumes honest: "honest r req held" and lib: "owner_library (r_lib r)" and s: "at held sn s"
    and key: "meta_key (i_meta (sn_instance sn)) = req" and uid: "i_uid (sn_instance sn) \<noteq> []"
    and free: "sn_secret sn (i_namespace (sn_instance sn), name) = None" and room: "map_len (i_pins (sn_instance sn)) \<le> maxAccessBundles"
  shows "wp (create_pinned_secret r name data) (\<lambda>a t. \<exists>x sn'. a = Inr x \<and> at held sn' t \<and> secret_made sn name data x sn') s"
proof -
  let ?i = "sn_instance sn"
  let ?m = "(new_meta (i_namespace ?i) name)\<lparr>meta_controller := Some (owner_of (i_meta ?i))\<rparr>"
  let ?x = "\<lparr>sec_meta = ?m, sec_type = ''Opaque'', sec_immutable = Some True, sec_data = data\<rparr>"
  have local: "local_inst s = ?i" and held: "held (world s) = sn" using s by (simp_all add: at_def)
  have owner: "set_controller (r_lib r) (i_meta ?i) (new_meta (i_namespace ?i) name) = Inr ?m"
    using lib by (simp add: owner_library_def new_meta_def)
  have xkey: "meta_key (sec_meta ?x) = (i_namespace ?i, name)" by (simp add: meta_key_def new_meta_def)
  have made: "wp (pinAccessSecret r x) (\<lambda>a t. a = None \<and> (\<exists>sn'. at held sn' t \<and> secret_made sn name data x sn')) t"
    if m: "created ?m m" "x = ?x\<lparr>sec_meta := m\<rparr>" and t: "local_inst t = ?i"
      "held (world t) = sn\<lparr>sn_secret := (sn_secret sn)((i_namespace ?i, name) \<mapsto> x)\<rparr>" for x m t
  proof -
    let ?sn1 = "sn\<lparr>sn_secret := (sn_secret sn)((i_namespace ?i, name) \<mapsto> x)\<rparr>"
    note m' = created_fields [OF m(1)]
    have name: "meta_name m = name" and u: "meta_uid m \<noteq> []" and "meta_deleted m = None"
      using m' by (simp_all add: new_meta_def)
    have x: "sec_meta x = m" "sec_immutable x = Some True" "sec_data x = data" by (simp_all add: m(2))
    have at: "at held ?sn1 t" using t by (simp add: at_def)
    have "ownedByInstance m ?i" by (rule created_owned [OF m(1)]) (simp_all add: uid new_meta_def)
    have post: "secret_made sn name data x sn'"
      if "restated ?sn1 ((i_status ?i)\<lparr>st_pins := fmupd name (meta_uid m) (i_pins ?i)\<rparr>) sn'" for sn'
    proof -
      have same: "identical ?i (sn_instance sn')" and "i_pins (sn_instance sn') = fmupd name (meta_uid m) (i_pins ?i)"
        using restated_same [OF that] by simp_all
      then have "trusted_secret (sn_instance sn') x"
        using \<open>ownedByInstance m ?i\<close> u name \<open>meta_deleted m = None\<close>
        by (simp add: trusted_secret_def identical_facts(9) [OF same] x)
      then show ?thesis using that name by (simp add: secret_made_def x)
    qed
    have "wp (persistAccessSecretPins r (fmupd name (meta_uid m) (i_pins ?i))) (\<lambda>a t. a = None \<and> (\<exists>sn'. at held sn' t \<and> secret_made sn name data x sn')) t"
      by (rule wp_use [OF creates_pin [OF honest at]]) (use key post in auto)
    then show ?thesis
      using room u unfolding pinAccessSecret_def by (simp add: wp_simps t(1) x name Let_def maxAccessBundles_def)
  qed
  show ?thesis
    unfolding create_pinned_secret_def wp_bind wp_get_inst local owner sum.case
    by (rule wp_use [OF wp_create_secret [OF honest held]], simp only: xkey free,
        elim exE conjE, simp only: xkey sum.case wp_bind local, rule wp_use [OF made])
       (auto simp: wp_simps)
qed


lemma creates_keys:
  assumes honest: "honest r req held"
  shows "at held sn s \<Longrightarrow> wp (fill_session_keys r names data) (\<lambda>a t. at held sn t \<and> (\<exists>d. a = Inr d \<and>
      (\<forall>n \<in> set names. valid_session_key (map_get d n)) \<and> (\<forall>n. n \<notin> set names \<longrightarrow> map_get d n = map_get data n))) s"
proof (induction names arbitrary: data s)
  case Nil
  then show ?case by (simp add: wp_simps)
next
  case (Cons name names)
  have "harmless r held (world s)" using honest by (simp add: honest_def)
  then obtain key w where key: "k_random (r_cluster r) 32 (world s) = (Some key, w)" "length key = 32" "held w = held (world s)"
    unfolding harmless_def Let_def by blast
  let ?s = "s\<lparr>world := w, call_log := call_log s @ [(local_inst s, RandomBytes 32 (Some key))]\<rparr>"
  have at: "at held sn ?s" using Cons.prems key(3) by (simp add: at_def)
  have valid: "valid_session_key (StdEncode key)" using key(2) by (simp add: valid_session_key_def)
  show ?case
    unfolding fill_session_keys.simps randomBytes_def wp_bind wp_external key(1) prod.case option.case
  proof (rule wp_use [OF Cons.IH [OF at]], elim conjE exE, intro conjI exI)
    fix a d and t :: "'a st"
    assume d: "\<forall>n \<in> set names. valid_session_key (map_get d n)"
      "\<forall>n. n \<notin> set names \<longrightarrow> map_get d n = map_get (fmupd name (StdEncode key) data) n"
    then have "valid_session_key (map_get d name)" using valid by (cases "name \<in> set names") simp_all
    with d(1) show "\<forall>n \<in> set (name # names). valid_session_key (map_get d n)" by simp
    show "\<forall>n. n \<notin> set (name # names) \<longrightarrow> map_get d n = map_get data n" using d(2) by simp
  qed
qed

lemma creates_session:
  assumes honest: "honest r req held" and lib: "owner_library (r_lib r)" and s: "at held sn s"
    and key: "meta_key (i_meta (sn_instance sn)) = req" and uid: "i_uid (sn_instance sn) \<noteq> []"
    and free: "sn_secret sn (i_namespace (sn_instance sn), sessionSecretName (r_lib r) (sn_instance sn)) = None"
    and bare: "i_pins (sn_instance sn) = fmempty"
  shows "wp (sessionSecret r) (\<lambda>a t. \<exists>x sn'. a = Inr x \<and> at held sn' t \<and>
      secret_made sn (sessionSecretName (r_lib r) (sn_instance sn)) (sec_data x) x sn' \<and>
      list_all (\<lambda>n. valid_session_key (map_get (sec_data x) n)) session_key_names) s"
proof -
  let ?i = "sn_instance sn"
  have local: "local_inst s = ?i" using s by (simp add: at_def)
  have read: "quietly (\<lambda>w. held w = sn) ?i (getSecret r rd (i_namespace ?i, sessionSecretName (r_lib r) ?i)) (Inl NotFound)" for rd
    using quiet_reads(6) [OF honest_serves [OF honest], of sn ?i rd] free by (metis get_reply_simps(1))
  have room: "map_len (i_pins ?i) \<le> maxAccessBundles" by (simp add: bare)
  have create: "wp (create_pinned_secret r (sessionSecretName (r_lib r) ?i) d) (\<lambda>a t. \<exists>x sn'. a = Inr x \<and> at held sn' t \<and>
      secret_made sn (sessionSecretName (r_lib r) ?i) (sec_data x) x sn' \<and>
      list_all (\<lambda>n. valid_session_key (map_get (sec_data x) n)) session_key_names) t"
    if "at held sn t" "\<forall>n \<in> set session_key_names. valid_session_key (map_get d n)" for d t
    by (rule wp_use [OF creates_pinned_secret [OF honest lib that(1) key uid free room]])
       (use that(2) in \<open>auto simp: list_all_iff secret_made_def\<close>)
  show ?thesis
    unfolding sessionSecret_def Let_def wp_bind [of get_inst] wp_get_inst local
    by (rule quiet_then [OF read s], simp add: bare, unfold wp_bind, rule wp_use [OF creates_keys [OF honest]], assumption,
        elim conjE exE, simp only: sum.case, rule wp_use [OF create], assumption, assumption) blast
qed

lemma creates_bundle:
  assumes honest: "honest r req held" and lib: "owner_library (r_lib r)" and s: "at held sn s"
    and key: "meta_key (i_meta (sn_instance sn)) = req" and uid: "i_uid (sn_instance sn) \<noteq> []"
    and free: "sn_secret sn (i_namespace (sn_instance sn), name) = None" and room: "map_len (i_pins (sn_instance sn)) \<le> maxAccessBundles"
    and unpinned: "map_get (i_pins (sn_instance sn)) name = []"
  shows "wp (ensure_bundle r name data) (\<lambda>a t. a = None \<and> (\<exists>x sn'. at held sn' t \<and> secret_made sn name data x sn')) s"
proof -
  let ?i = "sn_instance sn"
  have local: "at held sn t \<Longrightarrow> local_inst t = ?i" for t :: "'a st" by (simp add: at_def)
  have read: "quietly (\<lambda>w. held w = sn) ?i (getSecret r rd (i_namespace ?i, name)) (Inl NotFound)" for rd
    using quiet_reads(6) [OF honest_serves [OF honest], of sn ?i rd] free by (metis get_reply_simps(1))
  have roomy: "quietly (\<lambda>w. held w = sn) ?i (makeAccessSecretRoom r) None"
    unfolding makeAccessSecretRoom_def by (rule quietly_method) (simp add: room quietly_ret)
  show ?thesis
    unfolding ensure_bundle_def wp_bind [of get_inst] wp_get_inst local [OF s]
    by (rule quiet_then [OF read s], simp add: unpinned, rule quiet_then [OF roomy], assumption, simp, unfold wp_bind,
        rule wp_use [OF creates_pinned_secret [OF honest lib _ key uid free room]], assumption) (auto simp: wp_simps)
qed


text \<open>A step that touches only the instance and the Secrets, and keeps the recorded host.\<close>

definition keeps_objects :: "snapshot \<Rightarrow> snapshot \<Rightarrow> bool" where
  "keeps_objects sn sn' \<longleftrightarrow>
     sn_deployment sn' = sn_deployment sn \<and> sn_service sn' = sn_service sn \<and> sn_ingress sn' = sn_ingress sn \<and>
     sn_ingresses sn' = sn_ingresses sn \<and> meta_finalizers (i_meta (sn_instance sn')) = meta_finalizers (i_meta (sn_instance sn)) \<and>
     st_slug (i_status (sn_instance sn')) = st_slug (i_status (sn_instance sn)) \<and>
     st_slug_source (i_status (sn_instance sn')) = st_slug_source (i_status (sn_instance sn))"

lemma keeps_objects_trans: "keeps_objects sn sn' \<Longrightarrow> keeps_objects sn' sn'' \<Longrightarrow> keeps_objects sn sn''"
  by (simp add: keeps_objects_def)

lemma secret_made_facts:
  assumes "secret_made sn name data x sn'"
  shows "identical (sn_instance sn) (sn_instance sn')" "keeps_objects sn sn'" "trusted_secret (sn_instance sn') x"
    "sn_secret sn' = (sn_secret sn)((i_namespace (sn_instance sn), name) \<mapsto> x)"
    "i_pins (sn_instance sn') = fmupd name (meta_uid (sec_meta x)) (i_pins (sn_instance sn))"
    "meta_name (sec_meta x) = name" "sec_data x = data"
proof -
  note made = assms [unfolded secret_made_def]
  then show "identical (sn_instance sn) (sn_instance sn')" "sn_secret sn' = (sn_secret sn)((i_namespace (sn_instance sn), name) \<mapsto> x)"
    "i_pins (sn_instance sn') = fmupd name (meta_uid (sec_meta x)) (i_pins (sn_instance sn))" "keeps_objects sn sn'"
    by (auto simp: keeps_objects_def dest!: restated_same)
  show "trusted_secret (sn_instance sn') x" "meta_name (sec_meta x) = name" "sec_data x = data" using made by simp_all
qed

lemma still_trusted:
  assumes "secret_made sn name data x sn'" "trusted_secret (sn_instance sn) y" "meta_name (sec_meta y) \<noteq> name"
  shows "trusted_secret (sn_instance sn') y"
  using assms(2,3) unfolding trusted_secret_def identical_facts(9) [OF secret_made_facts(1) [OF assms(1)]] secret_made_facts(5) [OF assms(1)]
  by simp

lemma made_grows:
  assumes "secret_made sn name data x sn'" "sn_secret sn (i_namespace (sn_instance sn), name) = None"
  shows "grows sn sn'"
  using secret_made_facts(1,2,4) [OF assms(1)] assms(2) by (auto simp: grows_def keeps_objects_def)

lemma grows_trans:
  assumes "grows sn sn'" "grows sn' sn''"
  shows "grows sn sn''"
proof -
  have same: "identical (sn_instance sn) (sn_instance sn')" using assms(1) by (simp add: grows_def)
  show ?thesis
    using assms identical_trans unfolding grows_def identical_facts [OF same] by blast
qed

lemma reserved_names:
  "reserved_credentials (sessionSecretName lib i)" "reserved_credentials (''chatui-access-'' @ revision)"
  "sessionSecretName lib i \<noteq> ''chatui-access-'' @ revision"
  by (simp_all add: reserved_credentials_def sessionSecretName_def)

text \<open>Where the client secret of an instance is found, and what the bundle holds.\<close>

definition client_of :: "'w reconciler \<Rightarrow> snapshot \<Rightarrow> access_policy \<Rightarrow> access_entry \<Rightarrow> string \<Rightarrow> bool" where
  "client_of r sn p e client \<longleftrightarrow>
     (let inst = sn_instance sn in
      r_access_policy r = Some p \<and> access_Select (Some p) (i_meta inst) = Inr e \<and> r_public_scheme r = ''https'' \<and>
      ap_credentials_namespace p \<noteq> i_namespace inst \<and> \<not> reserved_credentials (i_credentials inst) \<and>
      (\<exists>credential. sn_secret sn (ap_credentials_namespace p, ae_client_secret_name e) = Some credential \<and>
         client = map_get (sec_data credential) ''client_secret'') \<and> 16 \<le> length client)"

lemma accepted_client: "accepted r req sn host \<Longrightarrow> \<exists>p e client. client_of r sn p e client"
  unfolding accepted_def client_of_def Let_def by blast

lemma both_made_settled:
  assumes client: "client_of r sn p e client"
    and first: "secret_made sn (sessionSecretName (r_lib r) (sn_instance sn)) (sec_data x) x sn1"
    and keys: "list_all (\<lambda>n. valid_session_key (map_get (sec_data x) n)) session_key_names"
    and cookie: "oauthCookieSecret (map_get (sec_data x) ''cookie-secret'') = Inr cookie"
    and data: "data = bundle_data r p e (''https://'' @ host) client cookie"
    and name: "name = ''chatui-access-'' @ bundle_revision r p (sn_instance sn1) data"
    and second: "secret_made sn1 name data y sn2"
  shows "settled_access r sn2 host \<lparr>ab_name = name, ab_session_name = meta_name (sec_meta x),
    ab_revision = bundle_revision r p (sn_instance sn1) data, ab_public_url = ''https://'' @ host\<rparr>"
proof -
  let ?i = "sn_instance sn"
  note s1 = secret_made_facts [OF first] and s2 = secret_made_facts [OF second]
  have same: "identical ?i (sn_instance sn2)" by (rule identical_trans [OF s1(1) s2(1)])
  note facts = identical_facts [OF same] and facts1 = identical_facts [OF s1(1)]
  have secrets: "sn_secret sn2 = (sn_secret sn)((i_namespace ?i, sessionSecretName (r_lib r) ?i) \<mapsto> x, (i_namespace ?i, name) \<mapsto> y)"
    by (simp add: s2(4) s1(4) facts1)
  have names: "sessionSecretName (r_lib r) ?i \<noteq> name" unfolding name by (rule reserved_names)
  have trusted: "trusted_secret (sn_instance sn2) x" "trusted_secret (sn_instance sn2) y"
    using still_trusted [OF second s1(3)] s2(3) names s1(6) by simp_all
  obtain credential where credential: "sn_secret sn (ap_credentials_namespace p, ae_client_secret_name e) = Some credential"
    "client = map_get (sec_data credential) ''client_secret''"
    using client unfolding client_of_def Let_def by blast
  show ?thesis
    unfolding settled_access_def Let_def facts
    by (rule exI [of _ p], rule exI [of _ e], rule exI [of _ credential], rule exI [of _ x], rule exI [of _ cookie], rule exI [of _ y])
       (use client trusted keys cookie names in \<open>simp add: client_of_def Let_def secrets credential name data facts1 s2(7)\<close>)
qed

lemma creates_access:
  assumes honest: "honest r req held" and lib: "owner_library (r_lib r)" and s: "at held sn s" and acc: "accepted r req sn host"
    and pins: "i_pins (sn_instance sn) = fmempty"
    and free: "\<And>name. reserved_credentials name \<Longrightarrow> sn_secret sn (i_namespace (sn_instance sn), name) = None"
  shows "wp (prepareAccess r host) (\<lambda>a t. \<exists>b. a = Inr b \<and> (\<exists>sn'. at held sn' t \<and> settled_access r sn' host b \<and>
      grows sn sn' \<and> keeps_objects sn sn')) s"
proof -
  let ?i = "sn_instance sn" and ?url = "''https://'' @ host"
  have key: "meta_key (i_meta ?i) = req" and uid: "i_uid ?i \<noteq> []" using acc by (simp_all add: accepted_def Let_def)
  obtain p e client where client: "client_of r sn p e client" using accepted_client [OF acc] by blast
  have local: "at held sn t \<Longrightarrow> local_inst t = sn_instance sn" for sn and t :: "'a st" by (simp add: at_def)
  have prepare: "wp (prepare_bundle r p e host client) (\<lambda>a t. \<exists>b. a = Inr b \<and> (\<exists>sn'. at held sn' t \<and>
      settled_access r sn' host b \<and> grows sn sn' \<and> keeps_objects sn sn')) t" if t: "at held sn t" for t
    unfolding prepare_bundle_def wp_bind [of "sessionSecret r"]
  proof (rule wp_use [OF creates_session [OF honest lib t key uid free [OF reserved_names(1)] pins]], elim exE conjE)
    fix a :: "go_error + secret" and x sn1 and t1 :: "'a st"
    assume a: "a = Inr x" and t1: "at held sn1 t1" and x: "secret_made sn (sessionSecretName (r_lib r) ?i) (sec_data x) x sn1"
      and keys: "list_all (\<lambda>n. valid_session_key (map_get (sec_data x) n)) session_key_names"
    from keys obtain cookie where cookie: "oauthCookieSecret (map_get (sec_data x) ''cookie-secret'') = Inr cookie"
      by (auto simp: session_key_names_def valid_session_key_def oauthCookieSecret_def split: option.splits)
    define data where "data = bundle_data r p e ?url client cookie"
    define name where "name = ''chatui-access-'' @ bundle_revision r p (sn_instance sn1) data"
    note s1 = secret_made_facts [OF x]
    have key1: "meta_key (i_meta (sn_instance sn1)) = req" and uid1: "i_uid (sn_instance sn1) \<noteq> []"
      using key uid by (simp_all add: identical_facts [OF s1(1)])
    have free1: "sn_secret sn1 (i_namespace (sn_instance sn1), name) = None"
      using free [OF reserved_names(2)] reserved_names(3) [THEN not_sym] by (auto simp: s1(4) identical_facts [OF s1(1)] name_def)
    have room: "map_len (i_pins (sn_instance sn1)) \<le> maxAccessBundles" by (simp add: s1(5) pins maxAccessBundles_def)
    have unpinned: "map_get (i_pins (sn_instance sn1)) name = []"
      using reserved_names(3) [THEN not_sym] by (auto simp: s1(5) pins name_def)
    have grow: "grows sn sn1" by (rule made_grows [OF x free [OF reserved_names(1)]])
    show "wp (case a of Inl err \<Rightarrow> ret (Inl err)
       | Inr session \<Rightarrow>
         (case oauthCookieSecret (map_get (sec_data session) ''cookie-secret'') of
            Inl err \<Rightarrow> ret (Inl err)
          | Inr cookieSecret \<Rightarrow> do {
              inst \<leftarrow> get_inst;
              let publicURL = ''https://'' @ host;
              let data = bundle_data r p e publicURL client cookieSecret;
              let revision = bundle_revision r p inst data;
              let name = ''chatui-access-'' @ revision;
              ensured \<leftarrow> ensure_bundle r name data;
              case ensured of
                Some err \<Rightarrow> ret (Inl err)
              | None \<Rightarrow> ret (Inr
                  \<lparr>ab_name = name, ab_session_name = meta_name (sec_meta session),
                   ab_revision = revision, ab_public_url = publicURL\<rparr>)
            }))
       (\<lambda>a t. \<exists>b. a = Inr b \<and> (\<exists>sn'. at held sn' t \<and> settled_access r sn' host b \<and> grows sn sn' \<and> keeps_objects sn sn')) t1"
      unfolding a sum.case cookie wp_bind wp_get_inst local [OF t1] Let_def data_def [symmetric] name_def [symmetric]
      using both_made_settled [OF client x keys cookie data_def name_def] made_grows [OF _ free1] grows_trans [OF grow]
        keeps_objects_trans [OF s1(2)] secret_made_facts(2)
      by (intro wp_use [OF creates_bundle [OF honest lib t1 key1 uid1 free1 room unpinned]]) (elim conjE exE, simp add: wp_simps, blast)
  qed
  show ?thesis
    using client prepare unfolding prepareAccess_def wp_bind [of get_inst] wp_get_inst local [OF s] client_of_def Let_def
    by (elim conjE exE, simp, intro quiet_then [OF quiet_reads(6) [OF honest_serves [OF honest]] s]) (simp add: not_less)
qed


subsection \<open>The first run\<close>

lemma accepted_settled_host:
  assumes "accepted r req sn host" "Select (r_lib r) (r_hostname_policy r) (i_meta (sn_instance sn)) = Inr sel"
    and "st_slug (i_status (sn_instance sn)) = sel_slug sel" "st_slug_source (i_status (sn_instance sn)) = sel_source sel"
    and "pred_option (ownsIngress (sn_instance sn)) (sn_ingress sn)"
  shows "settled_host r sn host"
  using assms unfolding accepted_def settled_host_def Let_def by auto

lemma creates_host:
  assumes honest: "honest r req held" and s: "at held sn s" and acc: "accepted r req sn host" and none: "sn_ingress sn = None"
  shows "wp (selectedInstanceHost r) (\<lambda>a t. a = Inr host \<and> (\<exists>st sn'. at held sn' t \<and> restated sn st sn' \<and>
      st_pins st = i_pins (sn_instance sn) \<and> settled_host r sn' host)) s"
proof -
  obtain sel where sel: "Select (r_lib r) (r_hostname_policy r) (i_meta (sn_instance sn)) = Inr sel"
    "Host (r_lib r) (r_public_host r) (sel_slug sel) = Inr host"
    using acc unfolding accepted_def Let_def by blast
  show ?thesis
    unfolding selectedInstanceHost_def wp_bind [of "ensureSlug r"]
  proof (rule wp_use [OF creates_slug [OF honest s acc sel(1)]], elim conjE exE)
    fix a :: "go_error + string" and st sn' and t :: "'a st"
    assume a: "a = Inr (sel_slug sel)" and t: "at held sn' t" and st: "restated sn st sn'" "st_slug st = sel_slug sel"
      "st_slug_source st = sel_source sel" "st_pins st = i_pins (sn_instance sn)"
    note same = restated_same [OF st(1)]
    have "accepted r req sn' host" by (rule accepted_grows [OF acc restated_grows [OF st(1)]])
    moreover have "Select (r_lib r) (r_hostname_policy r) (i_meta (sn_instance sn')) = Inr sel"
      using sel(1) same identical_facts(7) by metis
    ultimately have host: "settled_host r sn' host"
      by (rule accepted_settled_host) (use same st none in simp_all)
    have "wp (do { checked \<leftarrow> checkHostname r host; case checked of Some e \<Rightarrow> ret (Inl e) | None \<Rightarrow> ret (Inr host) })
       (\<lambda>a t. a = Inr host \<and> (\<exists>st sn'. at held sn' t \<and> restated sn st sn' \<and>
          st_pins st = i_pins (sn_instance sn) \<and> settled_host r sn' host)) t"
      by (rule quiet_then [OF quiet_checkHostname [OF honest_serves [OF honest] host] t])
         (use st host in \<open>auto simp: wp_simps\<close>)
    then show "wp (case a of Inl e \<Rightarrow> ret (Inl e)
       | Inr slug \<Rightarrow>
         (case instanceHost r slug of
            Inl e \<Rightarrow> ret (Inl e)
          | Inr host \<Rightarrow> do { checked \<leftarrow> checkHostname r host; case checked of Some e \<Rightarrow> ret (Inl e) | None \<Rightarrow> ret (Inr host) }))
       (\<lambda>a t. a = Inr host \<and> (\<exists>st sn'. at held sn' t \<and> restated sn st sn' \<and>
          st_pins st = i_pins (sn_instance sn) \<and> settled_host r sn' host)) t"
      by (simp add: a instanceHost_def sel(2))
  qed
qed

text \<open>After the first run: the host is recorded, the Secrets exist, and the finalizer is set.\<close>

definition prepared :: "'w reconciler \<Rightarrow> key \<Rightarrow> snapshot \<Rightarrow> string \<Rightarrow> access_bundle \<Rightarrow> bool" where
  "prepared r req sn host b \<longleftrightarrow>
     accepted r req sn host \<and> settled_host r sn host \<and> settled_access r sn host b \<and>
     has_finalizer (r_lib r) (i_meta (sn_instance sn)) finalizerName \<and>
     sn_deployment sn = None \<and> sn_service sn = None \<and> sn_ingress sn = None"

text \<open>What is settled for an instance is settled for an identical one with the same slug and pins.\<close>

lemma settled_identical:
  assumes "identical (sn_instance sn) j"
    and "st_slug (i_status j) = st_slug (i_status (sn_instance sn))" "st_slug_source (i_status j) = st_slug_source (i_status (sn_instance sn))"
    and "i_pins j = i_pins (sn_instance sn)"
  shows "settled_host r (sn\<lparr>sn_instance := j\<rparr>) host = settled_host r sn host"
    and "settled_access r (sn\<lparr>sn_instance := j\<rparr>) host b = settled_access r sn host b"
    and "settled_deployment r (sn\<lparr>sn_instance := j\<rparr>) b = settled_deployment r sn b"
    and "settled_service (sn\<lparr>sn_instance := j\<rparr>) = settled_service sn"
    and "settled_route r (sn\<lparr>sn_instance := j\<rparr>) host = settled_route r sn host"
    and "accepted r req (sn\<lparr>sn_instance := j\<rparr>) host = accepted r req sn host"
  unfolding settled_host_def settled_access_def settled_deployment_def settled_service_def settled_route_def accepted_def unclaimed_def Let_def
  by (simp_all add: identical_facts [OF assms(1)] identical_template [OF assms(1)] assms(2-4) trusted_secret_def)


text \<open>The way of every run through the checks of the instance and of the running image.\<close>

lemma run_starts:
  assumes honest: "honest r req held" and acc: "accepted r req (held (world s)) host"
    and deployed: "sn_deployment (held (world s)) = None \<or> settled_deployment r (held (world s)) b"
    and selects: "\<And>t. at held (held (world s)) t \<Longrightarrow> wp (do { selected \<leftarrow> selectedInstanceHost r;
       case selected of Inl e \<Rightarrow> stopForHostnameFailure r e | Inr instance_host \<Rightarrow> reconcile_hosted r SupportedImage instance_host }) Q t"
  shows "wp (Reconcile r req) Q s"
proof -
  let ?sn = "held (world s)"
  have inst: "meta_deleted (i_meta (sn_instance ?sn)) = None" "resolveImage (i_image (sn_instance ?sn)) = Inr SupportedImage"
    "\<not> 1 < i_replicas (sn_instance ?sn)"
    using acc by (auto simp: accepted_def Let_def resolveImage_def)
  have limited: "wp (reconcile_limited r SupportedImage) Q t" if "at held ?sn t" for t
    using selects [OF that] that inst unfolding reconcile_limited_def by (simp add: wp_bind [of get_inst] wp_get_inst at_def)
  have gated: "wp (reconcile_gated r SupportedImage) Q t" if "at held ?sn t" for t
    unfolding reconcile_gated_def
    by (rule quiet_then [OF quiet_stopUnapprovedDeployment [OF honest_serves [OF honest] deployed] that]) (simp add: limited)
  show ?thesis
    unfolding Reconcile_def wp_bind [of "getInst r rd req" for rd]
    by (rule at_fetch [OF honest refl]) (simp add: inst wp_bind [of "put_inst i" for i] wp_put_inst gated at_put)
qed

lemma run_continues:
  assumes honest: "honest r req held" and acc: "accepted r req (held (world s)) host"
    and deployed: "sn_deployment (held (world s)) = None \<or> settled_deployment r (held (world s)) b'"
    and host: "settled_host r (held (world s)) host" and access: "settled_access r (held (world s)) host b"
    and works: "\<And>t. at held (held (world s)) t \<Longrightarrow> wp (reconcile_workload r SupportedImage host b) Q t"
  shows "wp (Reconcile r req) Q s"
proof (rule run_starts [OF honest acc deployed], rule quiet_then [OF quiet_selectedInstanceHost [OF honest_serves [OF honest] host]], assumption)
  fix t :: "'a st"
  assume "at held (held (world s)) t"
  then have "wp (reconcile_hosted r SupportedImage host) Q t"
    unfolding reconcile_hosted_def
    by (intro quiet_then [OF quiet_prepareAccess [OF honest_serves [OF honest] access]]) (simp_all add: works)
  then show "wp (case Inr host of Inl e \<Rightarrow> stopForHostnameFailure r e | Inr host \<Rightarrow> reconcile_hosted r SupportedImage host) Q t"
    by simp
qed

text \<open>A run asks for another one at once when it has set the finalizer.\<close>

abbreviation again :: "result \<times> go_error option" where
  "again \<equiv> (\<lparr>res_requeue = True, res_after = 0\<rparr>, None)"

lemma sets_finalizer:
  assumes honest: "honest r req held" and lib: "owner_library (r_lib r)" and s: "at held sn s"
    and unset: "\<not> has_finalizer (r_lib r) (i_meta (sn_instance sn)) finalizerName"
  shows "wp (reconcile_workload r img host b) (\<lambda>a t. a = again \<and>
      (\<exists>j. held (world t) = sn\<lparr>sn_instance := j\<rparr> \<and> identical (sn_instance sn) j \<and> i_status j = i_status (sn_instance sn) \<and>
         has_finalizer (r_lib r) (i_meta j) finalizerName)) s"
proof -
  let ?i = "sn_instance sn"
  have local: "local_inst s = ?i" and held: "held (world s) = sn" using s by (simp_all add: at_def)
  obtain fs where fs: "add_finalizer (r_lib r) (i_meta ?i) finalizerName = (i_meta ?i)\<lparr>meta_finalizers := fs\<rparr>"
    using lib unfolding owner_library_def by blast
  let ?j = "?i\<lparr>i_meta := (i_meta ?i)\<lparr>meta_finalizers := fs\<rparr>\<rparr>"
  have "has_finalizer (r_lib r) ((i_meta ?i)\<lparr>meta_finalizers := fs\<rparr>) finalizerName"
    using lib unfolding owner_library_def fs [symmetric] by blast
  moreover have "has_finalizer (r_lib r) m f = has_finalizer (r_lib r) n f" if "meta_finalizers m = meta_finalizers n" for m n f
    using lib that unfolding owner_library_def by blast
  ultimately have set: "has_finalizer (r_lib r) m finalizerName" if "meta_finalizers m = fs" for m
    using that by (metis (no_types, lifting) object_meta.select_convs(10) object_meta.surjective object_meta.update_convs(10))
  have sent: "wp (updateInstance r ?j) (\<lambda>a t. \<exists>j. a = Inr j \<and> held (world t) = sn\<lparr>sn_instance := j\<rparr> \<and> identical ?i j \<and>
      i_status j = i_status ?i \<and> meta_finalizers (i_meta j) = fs) (s\<lparr>local_inst := ?j\<rparr>)"
    by (rule wp_finalizer_write [OF honest]) (simp_all add: held)
  show ?thesis
    unfolding reconcile_workload_def wp_bind [of get_inst] wp_get_inst local
    unfolding Let_def fs if_P [OF unset] wp_bind wp_put_inst
    by (rule wp_use [OF sent], elim conjE exE) (simp add: wp_simps, use set in blast)
qed


lemma first_run:
  assumes honest: "honest r req held" and lib: "owner_library (r_lib r)" and new: "new_instance r req (held (world s)) host"
  shows "wp (Reconcile r req) (\<lambda>a t. a = again \<and> (\<exists>b. prepared r req (held (world t)) host b)) s"
proof -
  let ?sn = "held (world s)"
  note new = new [unfolded new_instance_def]
  have acc: "accepted r req ?sn host" and none: "sn_deployment ?sn = None" "sn_ingress ?sn = None" using new by simp_all
  show ?thesis
  proof (rule run_starts [OF honest acc disjI1 [OF none(1)]], unfold wp_bind [of "selectedInstanceHost r"],
      rule wp_use [OF creates_host [OF honest _ acc none(2)]], assumption, elim conjE exE)
    fix a :: "go_error + string" and st sn1 and t :: "'a st"
    assume a: "a = Inr host" and t: "at held sn1 t" and st: "restated ?sn st sn1" "st_pins st = i_pins (sn_instance ?sn)"
      and host: "settled_host r sn1 host"
    note same1 = restated_same [OF st(1)]
    have acc1: "accepted r req sn1 host" by (rule accepted_grows [OF acc restated_grows [OF st(1)]])
    have pins1: "i_pins (sn_instance sn1) = fmempty" using same1 st(2) new by simp
    have ns1: "i_namespace (sn_instance sn1) = i_namespace (sn_instance ?sn)" using same1 identical_facts(4) by blast
    have free1: "sn_secret sn1 (i_namespace (sn_instance sn1), name) = None" if "reserved_credentials name" for name
      using same1 new that ns1 by simp
    have "wp (reconcile_hosted r SupportedImage host) (\<lambda>a t. a = again \<and> (\<exists>b. prepared r req (held (world t)) host b)) t"
      unfolding reconcile_hosted_def wp_bind [of "prepareAccess r host"]
    proof (rule wp_use [OF creates_access [OF honest lib t acc1 pins1 free1]], assumption, elim conjE exE)
      fix a' :: "go_error + access_bundle" and b sn2 and u :: "'a st"
      assume a': "a' = Inr b" and u: "at held sn2 u" and access: "settled_access r sn2 host b"
        and grow: "grows sn1 sn2" and keep: "keeps_objects sn1 sn2"
      have same2: "identical (sn_instance sn1) (sn_instance sn2)" using grow by (simp add: grows_def)
      have host2: "settled_host r sn2 host"
        using host keep unfolding settled_host_def keeps_objects_def unclaimed_def Let_def by (simp add: identical_facts [OF same2])
      have acc2: "accepted r req sn2 host" by (rule accepted_grows [OF acc1 grow])
      have "meta_finalizers (i_meta (sn_instance sn2)) = meta_finalizers (i_meta (sn_instance ?sn))"
        using keep same1 by (simp add: keeps_objects_def)
      then have unset: "\<not> has_finalizer (r_lib r) (i_meta (sn_instance sn2)) finalizerName"
        using lib new unfolding owner_library_def by metis
      have none2: "sn_deployment sn2 = None" "sn_service sn2 = None" "sn_ingress sn2 = None"
        using new same1 keep by (simp_all add: keeps_objects_def)
      have post: "prepared r req (sn2\<lparr>sn_instance := j\<rparr>) host b"
        if "identical (sn_instance sn2) j" "i_status j = i_status (sn_instance sn2)" "has_finalizer (r_lib r) (i_meta j) finalizerName" for j
        using acc2 host2 access none2 that(2,3) by (simp add: prepared_def settled_identical [OF that(1)])
      show "wp (case a' of Inl e \<Rightarrow> denyAccess r e | Inr access \<Rightarrow> reconcile_workload r SupportedImage host access)
          (\<lambda>a t. a = again \<and> (\<exists>b. prepared r req (held (world t)) host b)) u"
        unfolding a' sum.case by (rule wp_use [OF sets_finalizer [OF honest lib u unset]]) (use post in \<open>auto intro: exI [of _ b]\<close>)
    qed
    then show "wp (case a of Inl e \<Rightarrow> stopForHostnameFailure r e | Inr instance_host \<Rightarrow> reconcile_hosted r SupportedImage instance_host)
        (\<lambda>a t. a = again \<and> (\<exists>b. prepared r req (held (world t)) host b)) t"
      by (simp add: a)
  qed
qed

end
