(* ===== verification/Rollout.thy ===== *)
theory Rollout
  imports Creation
begin

text \<open>
  From nothing to Ready: after the first reconcile (\<open>Creation\<close>) the second makes the Deployment, the
  Service and the Ingress, and the third completes the Ingress. From then on everything is in place,
  and once the Deployment is rolled out and the probes pass, every further reconcile reports Ready.
\<close>

subsection \<open>The second run\<close>

lemma desired_meta: "d_meta (desiredDeployment r inst labels n img checksum b) = (new_meta (i_namespace inst) (chatui_name inst))\<lparr>meta_labels := labels\<rparr>"
  by (simp add: desiredDeployment_def applyAccessDeployment_def buildDeployment_def Let_def)

lemma becomes_owner:
  "owner_library lib \<Longrightarrow> meta_controller m = None \<Longrightarrow> meta_namespace m = i_namespace i \<Longrightarrow>
   set_controller lib (i_meta i) m = Inr (m\<lparr>meta_controller := Some (owner_of (i_meta i))\<rparr>)"
  by (simp add: owner_library_def)

lemma creates_deployment:
  assumes honest: "honest r req held" and lib: "owner_library (r_lib r)" and s: "at held sn s"
    and none: "sn_deployment sn = None" and uid: "i_uid (sn_instance sn) \<noteq> []"
  shows "wp (reconcileDeployment r labels n img checksum b) (\<lambda>a t. a = None \<and> (\<exists>d. at held (sn\<lparr>sn_deployment := Some d\<rparr>) t \<and>
      ownedByInstance (d_meta d) (sn_instance sn) \<and> d_template d = desired_template r (sn_instance sn) labels n img checksum b \<and>
      strat_type (d_strategy d) = ''Recreate'' \<and> d_replicas d = Some n)) s"
proof -
  let ?i = "sn_instance sn"
  let ?d = "desiredDeployment r ?i labels n img checksum b"
  let ?m = "(d_meta ?d)\<lparr>meta_controller := Some (owner_of (i_meta ?i))\<rparr>"
  have local: "local_inst s = ?i" using s by (simp add: at_def)
  have owner: "set_controller (r_lib r) (i_meta ?i) (d_meta ?d) = Inr ?m"
    by (rule becomes_owner [OF lib]) (simp_all add: desired_meta new_meta_def)
  have own: "ownedByInstance m ?i" if "created ?m m" for m
    by (rule created_owned [OF that _ uid]) (simp add: desired_meta new_meta_def)
  have sent: "wp (createDeployment r (?d\<lparr>d_meta := ?m\<rparr>)) (\<lambda>a t. \<exists>d'. a = Inr d' \<and> local_inst t = local_inst u \<and>
      held (world t) = sn\<lparr>sn_deployment := Some d'\<rparr> \<and> created ?m (d_meta d') \<and> d_template d' = d_template ?d \<and>
      d_strategy d' = d_strategy ?d \<and> d_replicas d' = d_replicas ?d) u" if "at held sn u" for u
    by (rule wp_use [OF wp_create_deployment [OF honest, of _ sn]])
       (use that none in \<open>simp_all add: at_def desired_meta meta_key_def new_meta_def\<close>)
  have read: "quietly (\<lambda>w. held w = sn) ?i (getDeployment r rd (chatui_key ?i)) (Inl NotFound)" for rd
    using quiet_reads(2) [OF honest_serves [OF honest], of sn ?i rd] none by simp
  show ?thesis
    unfolding reconcileDeployment_def Let_def wp_bind [of get_inst] wp_get_inst local
    by (rule quiet_then [OF read s], simp only: sum.case owner, simp, unfold wp_bind, rule wp_use [OF sent], assumption)
       (use own in \<open>auto simp: wp_simps at_def desired_fixed_fields\<close>)
qed

lemma creates_service:
  assumes honest: "honest r req held" and lib: "owner_library (r_lib r)" and s: "at held sn s"
    and none: "sn_service sn = None" and uid: "i_uid (sn_instance sn) \<noteq> []"
  shows "wp (reconcileService r (uiLabels (i_name (sn_instance sn))) (chatui_name (sn_instance sn))) (\<lambda>a t. a = None \<and>
      (\<exists>v. at held (sn\<lparr>sn_service := Some v\<rparr>) t \<and> settled_service (sn\<lparr>sn_service := Some v\<rparr>))) s"
proof -
  let ?i = "sn_instance sn"
  let ?labels = "service_labels (uiLabels (i_name ?i)) ?i"
  let ?v = "new_service ?labels ?i (chatui_name ?i)"
  let ?m = "(svc_meta ?v)\<lparr>meta_controller := Some (owner_of (i_meta ?i))\<rparr>"
  have local: "local_inst s = ?i" using s by (simp add: at_def)
  have owner: "set_controller (r_lib r) (i_meta ?i) (svc_meta ?v) = Inr ?m"
    by (rule becomes_owner [OF lib]) (simp_all add: new_service_def new_meta_def)
  have own: "ownedByInstance m ?i" if "created ?m m" for m
    by (rule created_owned [OF that _ uid]) (simp add: new_service_def new_meta_def)
  have sent: "wp (createService r (?v\<lparr>svc_meta := ?m\<rparr>)) (\<lambda>a t. \<exists>v'. a = Inr v' \<and> local_inst t = local_inst u \<and>
      held (world t) = sn\<lparr>sn_service := Some v'\<rparr> \<and> created ?m (svc_meta v') \<and> svc_type v' = ''ClusterIP'' \<and>
      svc_external_name v' = [] \<and> svc_selector v' = ?labels \<and> svc_ports v' = service_ports) u" if "at held sn u" for u
    by (rule wp_use [OF wp_create_service [OF honest, of _ sn]])
       (use that none in \<open>auto simp: at_def new_service_def meta_key_def new_meta_def\<close>)
  have read: "quietly (\<lambda>w. held w = sn) ?i (getService r rd (chatui_key ?i)) (Inl NotFound)" for rd
    using quiet_reads(3) [OF honest_serves [OF honest], of sn ?i rd] none by simp
  show ?thesis
    unfolding reconcileService_def Let_def wp_bind [of get_inst] wp_get_inst local
    by (rule quiet_then [OF read s], simp only: sum.case owner, simp, unfold wp_bind, rule wp_use [OF sent], assumption)
       (use own in \<open>auto simp: wp_simps at_def settled_service_def Let_def\<close>)
qed


lemma set_annotations_twice [simp]: "set_annotations a (set_annotations b g) = set_annotations a g"
  by (simp add: set_annotations_def)

lemma built_meta:
  "\<exists>anns. ing_meta (buildDesiredIngress r i labels name host path) =
     (new_meta (i_namespace i) name)\<lparr>meta_labels := labels, meta_annotations := anns\<rparr>"
proof -
  have dns: "\<exists>a. snd (ensureIngressDNSAnnotation host g) = set_annotations a g" for g
    by (auto simp: ensureIngressDNSAnnotation_def intro: exI [of _ "ing_annotations g"])
  have extra: "\<exists>a. snd (applyExtraIngressAnnotations r False g) = set_annotations a g" for g
    by (auto simp: applyExtraIngressAnnotations_def split_beta intro: exI [of _ "ing_annotations g"])
  let ?g = "\<lparr>ing_meta = (new_meta (i_namespace i) name)
               \<lparr>meta_labels := labels,
                meta_annotations := fmupd entrypointsKey (desiredIngressEntryPoints (isHTTPS r)) fmempty\<rparr>,
             ing_class = Some ''traefik'',
             ing_default_backend = None,
             ing_rules = managed_rules host path name,
             ing_tls = (if \<not> isHTTPS r then [] else if TrimSpace (r_tls_secret_name r) = [] then []
                        else [\<lparr>tls_hosts = [host], tls_secret = TrimSpace (r_tls_secret_name r)\<rparr>]),
             ing_other = []\<rparr>"
  obtain a b where "buildDesiredIngress r i labels name host path = set_annotations a (set_annotations b ?g)"
    using dns extra unfolding buildDesiredIngress_def Let_def by metis
  then show ?thesis by (auto simp: set_annotations_def)
qed

text \<open>What each part of the settled state does not depend on.\<close>

lemma settled_frames:
  "settled_host r (sn\<lparr>sn_deployment := d\<rparr>) host = settled_host r sn host"
  "settled_host r (sn\<lparr>sn_service := v\<rparr>) host = settled_host r sn host"
  "accepted r req (sn\<lparr>sn_deployment := d\<rparr>) host = accepted r req sn host"
  "accepted r req (sn\<lparr>sn_service := v\<rparr>) host = accepted r req sn host"
  "settled_access r (sn\<lparr>sn_deployment := d\<rparr>) host b = settled_access r sn host b"
  "settled_access r (sn\<lparr>sn_service := v\<rparr>) host b = settled_access r sn host b"
  "settled_access r (sn\<lparr>sn_ingress := g, sn_ingresses := gs\<rparr>) host b = settled_access r sn host b"
  "settled_deployment r (sn\<lparr>sn_service := v\<rparr>) b = settled_deployment r sn b"
  "settled_deployment r (sn\<lparr>sn_ingress := g, sn_ingresses := gs\<rparr>) b = settled_deployment r sn b"
  "settled_service (sn\<lparr>sn_ingress := g, sn_ingresses := gs\<rparr>) = settled_service sn"
  by (simp_all add: settled_host_def accepted_def settled_access_def settled_deployment_def settled_service_def)

text \<open>Another own Ingress in the cluster does not disturb the host.\<close>

lemma own_route_harmless:
  assumes "meta_key (ing_meta g) = chatui_key (sn_instance sn)" "ownsIngress (sn_instance sn) g"
    and "set items \<subseteq> insert g (set (sn_ingresses sn))"
  shows "settled_host r sn host \<Longrightarrow> settled_host r (sn\<lparr>sn_ingress := Some g, sn_ingresses := items\<rparr>) host"
    and "accepted r req sn host \<Longrightarrow> accepted r req (sn\<lparr>sn_ingress := Some g, sn_ingresses := items\<rparr>) host"
proof -
  have "unclaimed (sn_instance sn) host items" if "unclaimed (sn_instance sn) host (sn_ingresses sn)"
    using assms that unfolding unclaimed_def by blast
  then show "settled_host r sn host \<Longrightarrow> settled_host r (sn\<lparr>sn_ingress := Some g, sn_ingresses := items\<rparr>) host"
    "accepted r req sn host \<Longrightarrow> accepted r req (sn\<lparr>sn_ingress := Some g, sn_ingresses := items\<rparr>) host"
    using assms(2) by (simp_all add: settled_host_def accepted_def Let_def)
qed

text \<open>An own Ingress is in place; it need not be the wanted one yet.\<close>

definition routed :: "snapshot \<Rightarrow> snapshot \<Rightarrow> bool" where
  "routed sn sn' \<longleftrightarrow> (\<exists>g items. sn' = sn\<lparr>sn_ingress := Some g, sn_ingresses := items\<rparr> \<and>
     set items \<subseteq> insert g (set (sn_ingresses sn)) \<and> meta_key (ing_meta g) = chatui_key (sn_instance sn) \<and>
     ownsIngress (sn_instance sn) g)"

lemma routedI:
  assumes "held (world t) = sn\<lparr>sn_ingress := Some g, sn_ingresses := items\<rparr>" "local_inst t = sn_instance sn"
    and "set items \<subseteq> insert g (set (sn_ingresses sn))" "meta_key (ing_meta g) = chatui_key (sn_instance sn)" "ownsIngress (sn_instance sn) g"
  shows "\<exists>sn'. at held sn' t \<and> routed sn sn' \<and> sn_ingress sn' = Some g"
  using assms unfolding routed_def at_def by (intro exI [of _ "held (world t)"]) (simp, blast)

lemma creates_route:
  assumes honest: "honest r req held" and lib: "owner_library (r_lib r)" and s: "at held sn s"
    and none: "sn_ingress sn = None" and uid: "i_uid (sn_instance sn) \<noteq> []" and host: "settled_host r sn host"
  shows "wp (reconcileIngress r labels (chatui_name (sn_instance sn)) host ''/'') (\<lambda>a t. a = None \<and> (\<exists>sn'. at held sn' t \<and> routed sn sn')) s"
proof -
  let ?i = "sn_instance sn"
  let ?g = "buildDesiredIngress r ?i labels (chatui_name ?i) host ''/''"
  let ?m = "(ing_meta ?g)\<lparr>meta_controller := Some (owner_of (i_meta ?i))\<rparr>"
  obtain anns where g: "ing_meta ?g = (new_meta (i_namespace ?i) (chatui_name ?i))\<lparr>meta_labels := labels, meta_annotations := anns\<rparr>"
    using built_meta by blast
  have owner: "set_controller (r_lib r) (i_meta ?i) (ing_meta ?g) = Inr ?m"
    by (rule becomes_owner [OF lib]) (simp_all add: g new_meta_def)
  have own: "ownsIngress ?i (x\<lparr>ing_meta := m\<rparr>)" "meta_key m = chatui_key ?i" if "created ?m m" for m and x :: ingress
    using created_owned [OF that _ uid] created_fields [OF that] by (simp_all add: ownsIngress_ownedByInstance g new_meta_def meta_key_def)
  have sent: "wp (createIngress r (?g\<lparr>ing_meta := ?m\<rparr>)) (\<lambda>a t. \<exists>g'. a = Inr g' \<and> (\<exists>sn'. at held sn' t \<and> routed sn sn')) u" if u: "at held sn u" for u
  proof (rule wp_use [OF wp_create_ingress [OF honest, of u sn]])
    show "held (world u) = sn" "meta_key (ing_meta (?g\<lparr>ing_meta := ?m\<rparr>)) = chatui_key ?i"
      using u by (simp_all add: at_def g meta_key_def new_meta_def)
  next
    fix a and t :: "'a st"
    assume "\<exists>m items g'. a = Inr g' \<and> local_inst t = local_inst u \<and> g' = ?g\<lparr>ing_meta := ?m\<rparr>\<lparr>ing_meta := m\<rparr> \<and>
        created (ing_meta (?g\<lparr>ing_meta := ?m\<rparr>)) m \<and> set items = insert g' (set (sn_ingresses sn)) \<and>
        held (world t) = sn\<lparr>sn_ingress := Some g', sn_ingresses := items\<rparr>"
    then obtain m items g' where a: "a = Inr g'" and t: "local_inst t = local_inst u" "held (world t) = sn\<lparr>sn_ingress := Some g', sn_ingresses := items\<rparr>"
      and g': "g' = ?g\<lparr>ing_meta := m\<rparr>" "created ?m m" "set items = insert g' (set (sn_ingresses sn))"
      by auto
    have "\<exists>sn'. at held sn' t \<and> routed sn sn' \<and> sn_ingress sn' = Some g'"
      by (rule routedI [where held = held and items = items]) (use u t g' own [OF g'(2)] in \<open>simp_all add: at_def\<close>)
    with a show "\<exists>g'. a = Inr g' \<and> (\<exists>sn'. at held sn' t \<and> routed sn sn')" by blast
  qed (use none in simp)
  have local: "local_inst t = ?i" if "at held sn t" for t :: "'a st" using that by (simp add: at_def)
  have read: "quietly (\<lambda>w. held w = sn) ?i (getIngress r rd (chatui_key ?i)) (Inl NotFound)" for rd
    using quiet_reads(4) [OF honest_serves [OF honest], of sn ?i rd] none by simp
  have upsert: "wp (upsert_ingress r labels (chatui_name ?i) host ''/'') (\<lambda>a t. a = None \<and> (\<exists>sn'. at held sn' t \<and> routed sn sn')) t"
    if t: "at held sn t" for t
    unfolding upsert_ingress_def Let_def wp_bind [of get_inst] wp_get_inst local [OF t]
    by (rule quiet_then [OF read t], simp only: sum.case owner, simp, unfold wp_bind, rule wp_use [OF sent], assumption)
       (auto simp: wp_simps)
  show ?thesis
    unfolding reconcileIngress_def
    by (rule quiet_then [OF quiet_checkHostname [OF honest_serves [OF honest] host] s]) (simp add: upsert)
qed


lemma at_external:
  "(\<And>w. held (snd (f w)) = held w) \<Longrightarrow> at held sn s \<Longrightarrow> wp (external f entry) (\<lambda>_ t. at held sn t) s"
  by (simp add: wp_external at_def split_beta)

lemma evaluate_at:
  assumes honest: "honest r req held" and s: "at held sn s"
  shows "wp (evaluateInstanceReadiness r (chatui_name (sn_instance sn)) host) (\<lambda>_ t. at held sn t) s"
proof -
  let ?i = "sn_instance sn"
  have harmless: "harmless r held w" for w using honest by (simp add: honest_def)
  have reads: "at held sn t \<Longrightarrow> wp (getEndpoints r rd k) (\<lambda>_ t. at held sn t) t" for rd k and t :: "'a st"
    using harmless unfolding api_defs harmless_def Let_def by (intro at_external) blast+
  have probes: "at held sn t \<Longrightarrow> wp (runServiceHealthCheck r url) (\<lambda>_ t. at held sn t) t"
    "at held sn t \<Longrightarrow> wp (runDNSCheck r url) (\<lambda>_ t. at held sn t) t" for url and t :: "'a st"
    using harmless unfolding runServiceHealthCheck_def runDNSCheck_def harmless_def Let_def by (intro at_external; blast)+
  have endpoints: "at held sn t \<Longrightarrow> wp (serviceHasReadyEndpoints r ns name port) (\<lambda>_ t. at held sn t) t" for ns name port and t :: "'a st"
    unfolding serviceHasReadyEndpoints_def wp_bind by (rule wp_use [OF reads]) (auto simp: wp_simps split: sum.splits)
  have local: "local_inst s = ?i" using s by (simp add: at_def)
  show ?thesis
    unfolding evaluateInstanceReadiness_def Let_def wp_bind [of get_inst] wp_get_inst local
    by (rule quiet_then [OF quiet_reads(2) [OF honest_serves [OF honest]] s])
       (auto simp: get_reply_def wp_simps split: option.splits sum.splits prod.splits
          intro!: wp_use [OF endpoints] wp_use [OF probes(1)] wp_use [OF probes(2)])
qed

text \<open>At the end of a run only the status is written, and it keeps the slug and the pins.\<close>

definition reported :: "snapshot \<Rightarrow> snapshot \<Rightarrow> bool" where
  "reported sn sn' \<longleftrightarrow> (\<exists>j. sn' = sn\<lparr>sn_instance := j\<rparr> \<and> identical (sn_instance sn) j \<and>
     st_slug (i_status j) = st_slug (i_status (sn_instance sn)) \<and> st_slug_source (i_status j) = st_slug_source (i_status (sn_instance sn)) \<and>
     i_pins j = i_pins (sn_instance sn) \<and> meta_finalizers (i_meta j) = meta_finalizers (i_meta (sn_instance sn)))"

lemma reports:
  assumes honest: "honest r req held" and s: "at held sn s"
  shows "wp (report_readiness r (chatui_name (sn_instance sn)) host) (\<lambda>_ t. reported sn (held (world t))) s"
proof -
  have unchanged: "reported sn sn" unfolding reported_def by (intro exI [of _ "sn_instance sn"]) simp
  have status: "reported sn (held w)" if "restated sn st (held w)" "st_slug st = st_slug (i_status (sn_instance sn))"
    "st_slug_source st = st_slug_source (i_status (sn_instance sn))" "st_pins st = i_pins (sn_instance sn)" for st w
    using that unfolding restated_def reported_def by auto
  have sent: "wp (write_status r (progress_status r (sn_instance sn) phase stat host reason message)) (\<lambda>_ t. reported sn (held (world t))) t"
    if "at held sn t" for phase stat reason message and t :: "'a st"
    unfolding write_status_def wp_bind wp_put_inst progress_status_def
    by (rule wp_use [OF wp_status_writes(2) [OF honest, of _ sn]], use that in \<open>simp add: at_def\<close>)
       (auto simp: wp_simps elim: status)
  have local: "at held sn t \<Longrightarrow> local_inst t = sn_instance sn" for t :: "'a st" by (simp add: at_def)
  have both: "at held sn t \<Longrightarrow> wp (updateProvisioningStatus r host reason message) (\<lambda>_ t. reported sn (held (world t))) t"
    "at held sn t \<Longrightarrow> wp (updateReadyStatus r host) (\<lambda>_ t. reported sn (held (world t))) t" for reason message and t :: "'a st"
    unfolding updateProvisioningStatus_def updateReadyStatus_def wp_bind wp_get_inst by (simp_all add: local sent)
  show ?thesis
    unfolding report_readiness_def wp_bind
    by (rule wp_use [OF evaluate_at [OF honest s]])
       (use unchanged in \<open>auto simp: wp_simps at_def split: sum.splits prod.splits option.splits
          intro!: wp_use [OF both(1)] wp_use [OF both(2)]\<close>)
qed


lemma reported_keeps:
  assumes "reported sn sn'"
  shows "settled_host r sn' host = settled_host r sn host" "settled_access r sn' host b = settled_access r sn host b"
    "settled_deployment r sn' b = settled_deployment r sn b" "settled_service sn' = settled_service sn"
    "settled_route r sn' host = settled_route r sn host" "accepted r req sn' host = accepted r req sn host"
    "meta_finalizers (i_meta (sn_instance sn')) = meta_finalizers (i_meta (sn_instance sn))"
    "sn_ingress sn' = sn_ingress sn" "sn_deployment sn' = sn_deployment sn" "i_spec (sn_instance sn') = i_spec (sn_instance sn)"
    "chatui_key (sn_instance sn') = chatui_key (sn_instance sn)"
proof -
  obtain j where j: "sn' = sn\<lparr>sn_instance := j\<rparr>" "identical (sn_instance sn) j"
    "st_slug (i_status j) = st_slug (i_status (sn_instance sn))" "st_slug_source (i_status j) = st_slug_source (i_status (sn_instance sn))"
    "i_pins j = i_pins (sn_instance sn)" "meta_finalizers (i_meta j) = meta_finalizers (i_meta (sn_instance sn))"
    using assms unfolding reported_def by blast
  show "settled_host r sn' host = settled_host r sn host" "settled_access r sn' host b = settled_access r sn host b"
    "settled_deployment r sn' b = settled_deployment r sn b" "settled_service sn' = settled_service sn"
    "settled_route r sn' host = settled_route r sn host" "accepted r req sn' host = accepted r req sn host"
    "meta_finalizers (i_meta (sn_instance sn')) = meta_finalizers (i_meta (sn_instance sn))"
    "sn_ingress sn' = sn_ingress sn" "sn_deployment sn' = sn_deployment sn" "i_spec (sn_instance sn') = i_spec (sn_instance sn)"
    "chatui_key (sn_instance sn') = chatui_key (sn_instance sn)"
    unfolding j(1) by (rule settled_identical [OF j(2-5)] | simp add: j(6) identical_facts [OF j(2)])+
qed

text \<open>The way of a run to the Deployment.\<close>

lemma run_deploys:
  assumes honest: "honest r req held" and s: "at held sn s" and acc: "accepted r req sn host"
    and finalizer: "has_finalizer (r_lib r) (i_meta (sn_instance sn)) finalizerName"
    and deploys: "\<And>t credentials. at held sn t \<Longrightarrow>
      sn_secret sn (i_namespace (sn_instance sn), TrimSpace (i_credentials (sn_instance sn))) = Some credentials \<Longrightarrow>
      wp (reconcile_deploy r img host b credentials) Q t"
  shows "wp (reconcile_workload r img host b) Q s"
proof -
  let ?i = "sn_instance sn"
  have local: "local_inst s = ?i" using s by (simp add: at_def)
  have name: "TrimSpace (i_credentials ?i) \<noteq> []" using acc by (simp add: accepted_def Let_def)
  obtain credentials where credentials: "sn_secret sn (i_namespace ?i, TrimSpace (i_credentials ?i)) = Some credentials"
    using acc unfolding accepted_def Let_def by blast
  have keep: "\<not> \<not> has_finalizer (r_lib r) (i_meta ?i) finalizerName" using finalizer by simp
  show ?thesis
    unfolding reconcile_workload_def Let_def wp_bind [of get_inst] wp_get_inst local if_not_P [OF keep] if_not_P [OF name]
    by (rule quiet_then [OF quiet_reads(6) [OF honest_serves [OF honest]] s]) (simp add: credentials deploys)
qed

text \<open>After the second run every object is there; the route may still lack an annotation.\<close>

definition placed :: "'w reconciler \<Rightarrow> key \<Rightarrow> snapshot \<Rightarrow> string \<Rightarrow> access_bundle \<Rightarrow> bool" where
  "placed r req sn host b \<longleftrightarrow>
     accepted r req sn host \<and> settled_host r sn host \<and> settled_access r sn host b \<and>
     has_finalizer (r_lib r) (i_meta (sn_instance sn)) finalizerName \<and>
     settled_deployment r sn b \<and> settled_service sn \<and>
     (\<exists>h. sn_ingress sn = Some h \<and> meta_key (ing_meta h) = chatui_key (sn_instance sn))"

lemma finalizer_reported:
  "owner_library lib \<Longrightarrow> reported sn sn' \<Longrightarrow> has_finalizer lib (i_meta (sn_instance sn')) f = has_finalizer lib (i_meta (sn_instance sn)) f"
  using reported_keeps(7) unfolding owner_library_def by blast

lemma placed_reported:
  assumes "owner_library (r_lib r)" "placed r req sn host b" "reported sn sn'"
  shows "placed r req sn' host b"
  using assms(2) unfolding placed_def by (simp add: reported_keeps [OF assms(3)] finalizer_reported [OF assms(1,3)])

lemma creates_workload:
  assumes honest: "honest r req held" and lib: "owner_library (r_lib r)" and s: "at held sn s" and prep: "prepared r req sn host b"
  shows "wp (reconcile_workload r SupportedImage host b) (\<lambda>_ t. placed r req (held (world t)) host b) s"
proof (rule run_deploys [OF honest s])
  let ?i = "sn_instance sn"
  let ?n = "if i_replicas ?i \<le> 0 then 1 else i_replicas ?i"
  show acc: "accepted r req sn host" and finalizer: "has_finalizer (r_lib r) (i_meta ?i) finalizerName"
    using prep by (simp_all add: prepared_def)
  have uid: "i_uid ?i \<noteq> []" using acc by (simp add: accepted_def Let_def)
  fix t :: "'a st" and credentials
  assume t: "at held sn t" and credentials: "sn_secret sn (i_namespace ?i, TrimSpace (i_credentials ?i)) = Some credentials"
  let ?sum = "computeSecretChecksum (r_lib r) credentials"
  have publish: "wp (reconcile_publish r (uiLabels (i_name ?i)) host) (\<lambda>_ t. placed r req (held (world t)) host b) u"
    if u: "at held sn1 u" and sn1: "sn1 = sn\<lparr>sn_deployment := Some d\<rparr>" and d: "settled_deployment r sn1 b" for u sn1 d
  proof -
    have none1: "sn_service sn1 = None" and uid1: "i_uid (sn_instance sn1) \<noteq> []" and i1: "sn_instance sn1 = ?i"
      using prep uid by (simp_all add: sn1 prepared_def)
    have local: "local_inst u = ?i" using u i1 by (simp add: at_def)
    show ?thesis
      unfolding reconcile_publish_def Let_def wp_bind [of get_inst] wp_get_inst local wp_bind [of "reconcileService r l n" for l n]
    proof (rule wp_use [OF creates_service [OF honest lib u none1 uid1, unfolded i1]], elim conjE exE)
      fix a :: "go_error option" and v and x :: "'a st"
      let ?sn2 = "sn1\<lparr>sn_service := Some v\<rparr>"
      assume a: "a = None" and x: "at held ?sn2 x" and v: "settled_service ?sn2"
      have host2: "settled_host r ?sn2 host" "accepted r req ?sn2 host" "settled_access r ?sn2 host b" "settled_deployment r ?sn2 b"
        using prep d by (simp_all add: sn1 prepared_def settled_frames)
      have none2: "sn_ingress ?sn2 = None" and uid2: "i_uid (sn_instance ?sn2) \<noteq> []" and i2: "sn_instance ?sn2 = ?i"
        using prep uid by (simp_all add: sn1 prepared_def)
      have "wp (do { routed \<leftarrow> reconcileIngress r (uiLabels (i_name ?i)) (chatui_name ?i) host ''/'';
          case routed of Some e \<Rightarrow> stopForHostnameFailure r e | None \<Rightarrow> report_readiness r (chatui_name ?i) host })
          (\<lambda>_ t. placed r req (held (world t)) host b) x"
        unfolding wp_bind
      proof (rule wp_use [OF creates_route [OF honest lib x none2 uid2 host2(1), unfolded i2]], elim conjE exE)
        fix a' :: "go_error option" and sn3 and y :: "'a st"
        assume a': "a' = None" and y: "at held sn3 y" and sn3: "routed ?sn2 sn3"
        then obtain g items where g: "sn3 = ?sn2\<lparr>sn_ingress := Some g, sn_ingresses := items\<rparr>"
          "set items \<subseteq> insert g (set (sn_ingresses ?sn2))" "meta_key (ing_meta g) = chatui_key (sn_instance ?sn2)"
          "ownsIngress (sn_instance ?sn2) g"
          unfolding routed_def by blast
        have i3: "sn_instance sn3 = ?i" by (simp add: g(1) i1)
        have "placed r req sn3 host b"
          unfolding placed_def
        proof (intro conjI)
          show "accepted r req sn3 host" "settled_host r sn3 host"
            unfolding g(1) using own_route_harmless [OF g(3,4,2)] host2(1,2) by blast+
          show "\<exists>h. sn_ingress sn3 = Some h \<and> meta_key (ing_meta h) = chatui_key (sn_instance sn3)"
            using g(3) by (simp add: g(1) i1)
        qed (use host2(3,4) v finalizer in \<open>simp_all add: g(1) i1 settled_frames\<close>)
        then have "placed r req sn4 host b" if "reported sn3 sn4" for sn4
          by (rule placed_reported [OF lib _ that])
        then show "wp (case a' of Some e \<Rightarrow> stopForHostnameFailure r e | None \<Rightarrow> report_readiness r (chatui_name ?i) host)
            (\<lambda>_ t. placed r req (held (world t)) host b) y"
          unfolding a' option.case i3 [symmetric] by (intro wp_use [OF reports [OF honest y]])
      qed
      then show "wp (case a of Some e \<Rightarrow> denyAccess r e
          | None \<Rightarrow> do { routed \<leftarrow> reconcileIngress r (uiLabels (i_name ?i)) (chatui_name ?i) host ''/'';
              case routed of Some e \<Rightarrow> stopForHostnameFailure r e | None \<Rightarrow> report_readiness r (chatui_name ?i) host })
          (\<lambda>_ t. placed r req (held (world t)) host b) x"
        by (simp add: a)
    qed
  qed
  have local: "local_inst t = ?i" using t by (simp add: at_def)
  have none: "sn_deployment sn = None" using prep by (simp add: prepared_def)
  show "wp (reconcile_deploy r SupportedImage host b credentials) (\<lambda>_ t. placed r req (held (world t)) host b) t"
    unfolding reconcile_deploy_def Let_def wp_bind wp_get_inst local
  proof (rule wp_use [OF creates_deployment [OF honest lib t none uid]], elim conjE exE)
    fix a :: "go_error option" and d and u :: "'a st"
    assume a: "a = None" and u: "at held (sn\<lparr>sn_deployment := Some d\<rparr>) u" and d: "ownedByInstance (d_meta d) ?i"
      "d_template d = desired_template r ?i (uiLabels (i_name ?i)) ?n SupportedImage ?sum b" "strat_type (d_strategy d) = ''Recreate''"
      "d_replicas d = Some ?n"
    have "settled_deployment r (sn\<lparr>sn_deployment := Some d\<rparr>) b"
      using d credentials by (simp add: settled_deployment_def Let_def desired_self_fixed desired_webui_image)
    then show "wp (case a of Some e \<Rightarrow> if errors_Is e ErrAccessCutover
         then do {
           statusErr \<leftarrow> updateImagePolicyStatus r phaseProvisioning ''AccessMigration''
             ''Waiting for prior pods to stop before access migration'';
           ret (requeue_after provisioningRequeueAfter, statusErr)
         }
         else denyAccess r e
       | None \<Rightarrow> reconcile_publish r (uiLabels (i_name ?i)) host) (\<lambda>_ t. placed r req (held (world t)) host b) u"
      using publish [OF u refl] by (simp add: a)
  qed
qed


lemma second_run:
  assumes honest: "honest r req held" and lib: "owner_library (r_lib r)" and prep: "prepared r req (held (world s)) host b"
  shows "wp (Reconcile r req) (\<lambda>_ t. placed r req (held (world t)) host b) s"
proof -
  have parts: "accepted r req (held (world s)) host" "sn_deployment (held (world s)) = None" "settled_host r (held (world s)) host"
    "settled_access r (held (world s)) host b"
    using prep by (simp_all add: prepared_def)
  show ?thesis
    by (rule run_continues [OF honest parts(1) disjI1 [OF parts(2)] parts(3,4)], rule creates_workload [OF honest lib _ prep])
qed

subsection \<open>The third run\<close>

lemma reissued_route: "reissued (ing_meta g) m \<Longrightarrow> wanted_route r name host path (g\<lparr>ing_meta := m\<rparr>) = wanted_route r name host path g"
  by (auto simp: reissued_def wanted_route_def wanted_annotations_def wanted_dns_def wanted_class_def wanted_rule_def wanted_tls_def)

lemma reissued_owned:
  "reissued m m' \<Longrightarrow> ownedByInstance m' i = ownedByInstance m i" "reissued m m' \<Longrightarrow> meta_key m' = meta_key m"
  by (auto simp: reissued_def ownedByInstance_def meta_key_def cong: option.case_cong)

lemma converge_wanted:
  assumes "map_len (r_extra_annotations r) = 0"
  shows "wanted_route r name host path (snd (converge_ingress r name host path g))"
    and "\<not> fst (converge_ingress r name host path g) \<Longrightarrow> wanted_route r name host path g"
  unfolding converge_no_extra [OF assms] wanted_route_def
  using route.both.establishes [where r = r] route.both.reported_iff [where r = r] by simp_all

lemma settles_route:
  assumes honest: "honest r req held" and s: "at held sn s" and acc: "accepted r req sn host" and host: "settled_host r sn host"
    and some: "sn_ingress sn = Some h" and key: "meta_key (ing_meta h) = chatui_key (sn_instance sn)"
  shows "wp (reconcileIngress r labels (chatui_name (sn_instance sn)) host ''/'') (\<lambda>a t. a = None \<and>
      (\<exists>sn'. at held sn' t \<and> (sn' = sn \<or> routed sn sn') \<and> settled_route r sn' host)) s"
proof -
  let ?i = "sn_instance sn" and ?c = "converge_ingress r (chatui_name (sn_instance sn)) host ''/'' h"
  have none: "map_len (r_extra_annotations r) = 0" using acc by (simp add: accepted_def Let_def)
  have own: "ownsIngress ?i h" using host some by (simp add: settled_host_def Let_def)
  obtain anns where same: "ing_meta (snd ?c) = (ing_meta h)\<lparr>meta_annotations := anns\<rparr>"
    using same_object_converge [of h r "chatui_name ?i" host "''/''"] unfolding same_object_def by blast
  have own': "ownedByInstance (ing_meta (snd ?c)) ?i" "meta_key (ing_meta (snd ?c)) = chatui_key ?i"
    using own key unfolding same ownsIngress_ownedByInstance
    by (simp_all add: ownedByInstance_def meta_key_def cong: option.case_cong)
  have sent: "wp (updateIngress r (snd ?c)) (\<lambda>a t. \<exists>g'. a = Inr g' \<and> (\<exists>sn'. at held sn' t \<and> routed sn sn' \<and> settled_route r sn' host)) u"
    if u: "at held sn u" for u
  proof (rule wp_use [OF wp_update_ingress [OF honest, of u sn, OF _ some same]])
    fix a and t :: "'a st"
    assume "\<exists>m items g'. a = Inr g' \<and> local_inst t = local_inst u \<and> g' = snd ?c\<lparr>ing_meta := m\<rparr> \<and>
        reissued (ing_meta (snd ?c)) m \<and> set items = insert g' (set (sn_ingresses sn) - {h}) \<and>
        held (world t) = sn\<lparr>sn_ingress := Some g', sn_ingresses := items\<rparr>"
    then obtain m items g' where a: "a = Inr g'" and t: "local_inst t = local_inst u" "held (world t) = sn\<lparr>sn_ingress := Some g', sn_ingresses := items\<rparr>"
      and g': "g' = snd ?c\<lparr>ing_meta := m\<rparr>" "reissued (ing_meta (snd ?c)) m" "set items = insert g' (set (sn_ingresses sn) - {h})"
      by auto
    obtain sn' where sn': "at held sn' t" "routed sn sn'" "sn_ingress sn' = Some g'"
      using routedI [where held = held and items = items and sn = sn and g = g' and t = t] u t g' own' reissued_owned [OF g'(2)]
      by (auto simp: at_def ownsIngress_ownedByInstance)
    have "settled_route r sn' host"
    proof -
      have "wanted_route r (chatui_name ?i) host ''/'' g'"
        unfolding g'(1) reissued_route [OF g'(2)] by (rule converge_wanted(1) [OF none])
      moreover have "chatui_name (sn_instance sn') = chatui_name ?i" using sn'(2) by (auto simp: routed_def)
      ultimately show ?thesis using none sn'(3) by (simp add: settled_route_def)
    qed
    with a sn' show "\<exists>g'. a = Inr g' \<and> (\<exists>sn'. at held sn' t \<and> routed sn sn' \<and> settled_route r sn' host)" by blast
  qed (use u in \<open>simp add: at_def\<close>)
  have unchanged: "settled_route r sn host" if "\<not> fst ?c"
    using none some converge_wanted(2) [OF none that] by (simp add: settled_route_def)
  have local: "local_inst t = ?i" if "at held sn t" for t :: "'a st" using that by (simp add: at_def)
  have read: "quietly (\<lambda>w. held w = sn) ?i (getIngress r rd (chatui_key ?i)) (Inr h)" for rd
    using quiet_reads(4) [OF honest_serves [OF honest], of sn ?i rd] some by simp
  have upsert: "wp (upsert_ingress r labels (chatui_name ?i) host ''/'') (\<lambda>a t. a = None \<and>
      (\<exists>sn'. at held sn' t \<and> (sn' = sn \<or> routed sn sn') \<and> settled_route r sn' host)) t" if t: "at held sn t" for t
    unfolding upsert_ingress_def wp_bind [of get_inst] wp_get_inst local [OF t]
  proof (rule quiet_then [OF read t])
    fix x :: "'a st"
    assume x: "at held sn x"
    have "wp (do { reply \<leftarrow> updateIngress r (snd ?c); ret (write_error reply) }) (\<lambda>a t. a = None \<and>
        (\<exists>sn'. at held sn' t \<and> (sn' = sn \<or> routed sn sn') \<and> settled_route r sn' host)) x"
      unfolding wp_bind by (rule wp_use [OF sent [OF x]]) (auto simp: wp_simps)
    then show "wp (case Inr h of
        Inl e \<Rightarrow> if e \<noteq> NotFound then ret (Some (Api e))
          else let fresh = buildDesiredIngress r ?i labels (chatui_name ?i) host ''/'' in
            (case set_controller (r_lib r) (i_meta ?i) (ing_meta fresh) of
               Inl err \<Rightarrow> ret (Some (ErrNew err))
             | Inr m \<Rightarrow> do { reply \<leftarrow> createIngress r (fresh\<lparr>ing_meta := m\<rparr>); ret (write_error reply) })
      | Inr ing \<Rightarrow>
          if \<not> ownsIngress ?i ing then ret (Some (Sentinel ErrIngressNotOwned))
          else (case converge_ingress r (chatui_name ?i) host ''/'' ing of
              (updated, ing') \<Rightarrow> if \<not> updated then ret None else do { reply \<leftarrow> updateIngress r ing'; ret (write_error reply) }))
       (\<lambda>a t. a = None \<and> (\<exists>sn'. at held sn' t \<and> (sn' = sn \<or> routed sn sn') \<and> settled_route r sn' host)) x"
      using unchanged x own by (auto simp: split_beta wp_return)
  qed
  show ?thesis
    unfolding reconcileIngress_def
    by (rule quiet_then [OF quiet_checkHostname [OF honest_serves [OF honest] host] s]) (simp add: upsert)
qed

lemma placed_routed:
  assumes "placed r req sn host b" "routed sn sn'"
  shows "placed r req sn' host b"
proof -
  obtain g items where g: "sn' = sn\<lparr>sn_ingress := Some g, sn_ingresses := items\<rparr>" "set items \<subseteq> insert g (set (sn_ingresses sn))"
    "meta_key (ing_meta g) = chatui_key (sn_instance sn)" "ownsIngress (sn_instance sn) g"
    using assms(2) unfolding routed_def by blast
  have "accepted r req sn' host" "settled_host r sn' host"
    unfolding g(1) using own_route_harmless [OF g(3,4,2)] assms(1) unfolding placed_def by blast+
  then show ?thesis using assms(1) g(3) by (simp add: placed_def g(1) settled_frames)
qed

lemma third_run:
  assumes honest: "honest r req held" and lib: "owner_library (r_lib r)" and placed: "placed r req (held (world s)) host b"
  shows "wp (Reconcile r req) (\<lambda>_ t. placed r req (held (world t)) host b \<and> in_place r (held (world t)) host b) s"
proof -
  let ?sn = "held (world s)" and ?Q = "\<lambda>(_ :: result \<times> go_error option) t. placed r req (held (world t)) host b \<and> in_place r (held (world t)) host b"
  let ?i = "sn_instance ?sn"
  have acc: "accepted r req ?sn host" and host: "settled_host r ?sn host" and access: "settled_access r ?sn host b"
    and finalizer: "has_finalizer (r_lib r) (i_meta ?i) finalizerName" and deployed: "settled_deployment r ?sn b"
    and service: "settled_service ?sn"
    using placed by (simp_all add: placed_def)
  obtain h where h: "sn_ingress ?sn = Some h" "meta_key (ing_meta h) = chatui_key ?i" using placed by (auto simp: placed_def)
  note serves = honest_serves [OF honest, of ?sn]
  have local: "local_inst t = ?i" if "at held ?sn t" for t :: "'a st" using that by (simp add: at_def)
  have ending: "wp (report_readiness r (chatui_name ?i) host) ?Q t"
    if t: "at held sn t" and sn: "sn = ?sn \<or> routed ?sn sn" and route: "settled_route r sn host" for t :: "'a st" and sn
  proof -
    have here: "placed r req sn host b" using sn placed_routed [OF placed] placed by blast
    have name: "chatui_name (sn_instance sn) = chatui_name ?i" using sn by (auto simp: routed_def)
    have finally_placed: "placed r req sn' host b \<and> in_place r sn' host b" if "reported sn sn'" for sn'
    proof -
      have there: "placed r req sn' host b" by (rule placed_reported [OF lib here that])
      moreover have "settled_route r sn' host" using route by (simp add: reported_keeps [OF that])
      ultimately show ?thesis by (simp add: in_place_def placed_def accepted_def Let_def)
    qed
    show ?thesis unfolding name [symmetric] by (rule wp_use [OF reports [OF honest t]]) (use finally_placed in blast)
  qed
  have publish: "wp (reconcile_publish r (uiLabels (i_name ?i)) host) ?Q t" if t: "at held ?sn t" for t :: "'a st"
    unfolding reconcile_publish_def Let_def wp_bind [of get_inst] wp_get_inst local [OF t]
  proof (rule quiet_then [OF quiet_reconcileService [OF serves service] t])
    fix u :: "'a st"
    assume u: "at held ?sn u"
    have "wp (do { routed \<leftarrow> reconcileIngress r (uiLabels (i_name ?i)) (chatui_name ?i) host ''/'';
        case routed of Some e \<Rightarrow> stopForHostnameFailure r e | None \<Rightarrow> report_readiness r (chatui_name ?i) host }) ?Q u"
      unfolding wp_bind by (rule wp_use [OF settles_route [OF honest u acc host h]]) (use ending in auto)
    then show "wp (case None of Some e \<Rightarrow> denyAccess r e
        | None \<Rightarrow> do { routed \<leftarrow> reconcileIngress r (uiLabels (i_name ?i)) (chatui_name ?i) host ''/'';
            case routed of Some e \<Rightarrow> stopForHostnameFailure r e | None \<Rightarrow> report_readiness r (chatui_name ?i) host }) ?Q u"
      by simp
  qed
  have deploy: "wp (reconcile_deploy r SupportedImage host b credentials) ?Q t"
    if t: "at held ?sn t" and credentials: "sn_secret ?sn (i_namespace ?i, TrimSpace (i_credentials ?i)) = Some credentials"
    for t :: "'a st" and credentials
  proof -
    obtain d where d: "sn_deployment ?sn = Some d" "ownedByInstance (d_meta d) ?i" "strat_type (d_strategy d) = ''Recreate''"
      "d_template d = managedAccessTemplate (d_template d) (desired_template r ?i (uiLabels (i_name ?i))
         (if i_replicas ?i \<le> 0 then 1 else i_replicas ?i) SupportedImage (computeSecretChecksum (r_lib r) credentials) b)"
      "d_replicas d = Some (if i_replicas ?i \<le> 0 then 1 else i_replicas ?i)"
      using deployed credentials unfolding settled_deployment_def Let_def by auto
    show ?thesis
      unfolding reconcile_deploy_def Let_def wp_bind [of get_inst] wp_get_inst local [OF t]
      by (rule quiet_then [OF quiet_reconcileDeployment [OF serves d(1,2,4,3,5)] t]) (simp add: publish)
  qed
  show ?thesis
    by (rule run_continues [OF honest acc disjI2 [OF deployed] host access], rule run_deploys [OF honest _ acc finalizer])
       (assumption, rule deploy)
qed


subsection \<open>From nothing to Ready\<close>

text \<open>The world after \<open>n\<close> reconciles in a row; the local instance of each is overwritten by its read.\<close>

definition reconcile_world :: "'w reconciler \<Rightarrow> key \<Rightarrow> chat_instance \<Rightarrow> 'w \<Rightarrow> 'w" where
  "reconcile_world r req i w = world (snd (run_state (Reconcile r req) \<lparr>world = w, local_inst = i, call_log = []\<rparr>))"

primrec after_runs :: "'w reconciler \<Rightarrow> key \<Rightarrow> chat_instance \<Rightarrow> nat \<Rightarrow> 'w \<Rightarrow> 'w" where
  "after_runs r req i 0 w = w"
| "after_runs r req i (Suc n) w = reconcile_world r req i (after_runs r req i n w)"

lemma runs_place:
  fixes w :: 'w
  assumes honest: "honest r req held" and lib: "owner_library (r_lib r)" and new: "new_instance r req (held w) host"
  shows "\<exists>b. \<forall>n. placed r req (held (after_runs r req i (2 + n) w)) host b \<and> in_place r (held (after_runs r req i (3 + n) w)) host b"
proof -
  let ?s = "\<lambda>n. \<lparr>world = after_runs r req i n w, local_inst = i, call_log = []\<rparr> :: 'w st"
  have "wp (Reconcile r req) (\<lambda>a t. \<exists>b. prepared r req (held (world t)) host b) (?s 0)"
    by (rule wp_use [OF first_run [OF honest lib]]) (use new in auto)
  then obtain b where b: "prepared r req (held (after_runs r req i 1 w)) host b" by (auto simp: wp_run reconcile_world_def)
  have "wp (Reconcile r req) (\<lambda>_ t. placed r req (held (world t)) host b) (?s 1)"
    by (rule second_run [OF honest lib]) (use b in simp)
  then have two: "placed r req (held (after_runs r req i 2 w)) host b" by (simp add: wp_run reconcile_world_def numeral_2_eq_2)
  have step: "placed r req (held (after_runs r req i (Suc n) w)) host b \<and> in_place r (held (after_runs r req i (Suc n) w)) host b"
    if "placed r req (held (after_runs r req i n w)) host b" for n
  proof -
    have "wp (Reconcile r req) (\<lambda>_ t. placed r req (held (world t)) host b \<and> in_place r (held (world t)) host b) (?s n)"
      by (rule third_run [OF honest lib]) (use that in simp)
    then show ?thesis by (simp add: wp_run reconcile_world_def)
  qed
  have later: "placed r req (held (after_runs r req i (2 + n) w)) host b" for n
  proof (induction n)
    case 0
    then show ?case using two by simp
  next
    case (Suc n)
    then show ?case using step [OF Suc] by (simp add: numeral_2_eq_2)
  qed
  show ?thesis
    by (intro exI [of _ b] allI) (use later step [OF later] in \<open>simp add: eval_nat_numeral\<close>)
qed

text \<open>
  The rollout: the Deployment controller may change the status of the Deployment and its metadata, but
  not its owner or its specification, until nothing is pending.
\<close>

definition rollout :: "snapshot \<Rightarrow> snapshot \<Rightarrow> bool" where
  "rollout sn sn' \<longleftrightarrow> (\<exists>d d'. sn_deployment sn = Some d \<and> sn' = sn\<lparr>sn_deployment := Some d'\<rparr> \<and>
     meta_namespace (d_meta d') = meta_namespace (d_meta d) \<and> meta_controller (d_meta d') = meta_controller (d_meta d) \<and>
     d_template d' = d_template d \<and> d_strategy d' = d_strategy d \<and> d_replicas d' = d_replicas d \<and>
     deployment_pending (chatui_name (sn_instance sn)) d' = None)"

lemma rollout_in_place:
  assumes "in_place r sn host b" "rollout sn sn'"
  shows "in_place r sn' host b \<and> rolled_out sn'"
proof -
  obtain d d' where d: "sn_deployment sn = Some d" "sn' = sn\<lparr>sn_deployment := Some d'\<rparr>"
    "meta_namespace (d_meta d') = meta_namespace (d_meta d)" "meta_controller (d_meta d') = meta_controller (d_meta d)"
    "d_template d' = d_template d" "d_strategy d' = d_strategy d" "d_replicas d' = d_replicas d"
    "deployment_pending (chatui_name (sn_instance sn)) d' = None"
    using assms(2) unfolding rollout_def by blast
  have "ownedByInstance (d_meta d') i = ownedByInstance (d_meta d) i" for i
    using d(3,4) by (simp add: ownedByInstance_def)
  then have "settled_deployment r sn' b"
    using assms(1) d unfolding in_place_def settled_deployment_def Let_def by auto
  moreover have "settled_service sn'" "settled_route r sn' host"
    using assms(1) unfolding in_place_def d(2) by (simp_all add: settled_service_def settled_route_def)
  ultimately show ?thesis
    using assms(1) d(8) by (simp add: in_place_def d(2) settled_frames rolled_out_def)
qed


end
