(* ===== verification/Creation_Sample.thy ===== *)
theory Creation_Sample
  imports Rollout
begin

text \<open>
  A small API server that keeps what it is told, and a new instance on it: the hypotheses of the
  liveness of creation hold there, and three reconciles and a rollout make the instance Ready.
\<close>

subsection \<open>The server\<close>

definition bumped :: "object_meta \<Rightarrow> object_meta" where
  "bumped m = m\<lparr>meta_resource_version := meta_resource_version m @ ''0''\<rparr>"

definition issued :: "object_meta \<Rightarrow> object_meta" where
  "issued m = m\<lparr>meta_uid := ''uid-of-'' @ meta_name m, meta_created := 300, meta_resource_version := ''1'', meta_generation := 1\<rparr>"

definition put_status :: "chat_instance \<Rightarrow> snapshot \<Rightarrow> (api_error + chat_instance) \<times> snapshot" where
  "put_status i w =
     (let j = (sn_instance w)\<lparr>i_meta := bumped (i_meta (sn_instance w)), i_status := i_status i\<rparr> in (Inr j, w\<lparr>sn_instance := j\<rparr>))"

definition recording :: "key \<Rightarrow> snapshot cluster" where
  "recording req =
     \<lparr>k_get_instance = (\<lambda>_ k w. (if k = req then Inr (sn_instance w) else Inl NotFound, w)),
      k_get_deployment = (\<lambda>_ k w. (if k = chatui_key (sn_instance w) then get_reply (sn_deployment w) else Inl NotFound, w)),
      k_get_service = (\<lambda>_ k w. (if k = chatui_key (sn_instance w) then get_reply (sn_service w) else Inl NotFound, w)),
      k_get_ingress = (\<lambda>_ k w. (if k = chatui_key (sn_instance w) then get_reply (sn_ingress w) else Inl NotFound, w)),
      k_get_secret = (\<lambda>_ k w. (get_reply (sn_secret w k), w)),
      k_get_endpoints = (\<lambda>_ k w. (Inr [\<lparr>ess_addresses = [''10.1.2.3''], ess_ports = [8080]\<rparr>], w)),
      k_list_instances = (\<lambda>_ _ w. (Inr [sn_instance w], w)), k_list_ingresses = (\<lambda>_ w. (Inr (sn_ingresses w), w)),
      k_list_deployments = (\<lambda>_ _ w. (Inr [], w)), k_list_pods = (\<lambda>_ _ _ w. (Inr [], w)),
      k_create_deployment = (\<lambda>d w. let d' = d\<lparr>d_meta := issued (d_meta d)\<rparr> in
        if sn_deployment w = None then (Inr d', w\<lparr>sn_deployment := Some d'\<rparr>) else (Inl (ApiFailure ''AlreadyExists''), w)),
      k_create_service = (\<lambda>v w. let v' = v\<lparr>svc_meta := issued (svc_meta v),
          svc_type := if svc_type v = [] then ''ClusterIP'' else svc_type v\<rparr> in
        if sn_service w = None then (Inr v', w\<lparr>sn_service := Some v'\<rparr>) else (Inl (ApiFailure ''AlreadyExists''), w)),
      k_create_ingress = (\<lambda>g w. let g' = g\<lparr>ing_meta := issued (ing_meta g)\<rparr> in
        if sn_ingress w = None then (Inr g', w\<lparr>sn_ingress := Some g', sn_ingresses := g' # sn_ingresses w\<rparr>) else (Inl (ApiFailure ''AlreadyExists''), w)),
      k_create_secret = (\<lambda>x w. let x' = x\<lparr>sec_meta := issued (sec_meta x)\<rparr>; k = meta_key (sec_meta x) in
        if sn_secret w k = None then (Inr x', w\<lparr>sn_secret := (sn_secret w)(k \<mapsto> x')\<rparr>) else (Inl (ApiFailure ''AlreadyExists''), w)),
      k_update_instance = (\<lambda>i w. let j = (sn_instance w)\<lparr>i_meta := bumped (i_meta i), i_spec := i_spec i\<rparr> in
        (Inr j, w\<lparr>sn_instance := j\<rparr>)),
      k_update_deployment = (\<lambda>_ w. (Inl Conflict, w)), k_update_service = (\<lambda>_ w. (Inl Conflict, w)),
      k_update_ingress = (\<lambda>g w. let g' = g\<lparr>ing_meta := bumped (ing_meta g)\<rparr> in
        case sn_ingress w of None \<Rightarrow> (Inl NotFound, w)
        | Some h \<Rightarrow> (Inr g', w\<lparr>sn_ingress := Some g', sn_ingresses := g' # removeAll h (sn_ingresses w)\<rparr>)),
      k_delete_ingress = (\<lambda>_ _ _ w. (Inl Conflict, w)), k_delete_secret = (\<lambda>_ _ _ w. (Inl Conflict, w)),
      k_patch_status = (\<lambda>_ i _. put_status i), k_update_status = put_status,
      k_random = (\<lambda>n w. (Some (replicate n (CHR ''k'')), w)), k_http_get = (\<lambda>_ w. (Inr 200, w)),
      k_lookup_host = (\<lambda>_ w. (Inr [''192.0.2.1''], w)), k_custom_health = None, k_custom_dns = None\<rparr>"

lemma reissued_bumped: "reissued m (bumped m)"
proof -
  have "bumped m = m\<lparr>meta_resource_version := meta_resource_version m @ ''0'', meta_generation := meta_generation m\<rparr>"
    by (simp add: bumped_def)
  then show ?thesis unfolding reissued_def by blast
qed

lemma created_issued: "created m (issued m)"
  unfolding created_def issued_def
  by (intro exI [of _ "''uid-of-'' @ meta_name m"] exI [of _ 300] exI [of _ "''1''"] exI [of _ 1]) simp

lemma recording_honest: "honest (configured (recording req)) req (\<lambda>w. w)"
proof -
  let ?r = "configured (recording req)"
  have "serves ?r req sn (\<lambda>w. w = sn)" for sn
    by (simp add: serves_def replies_def recording_def configured_def Let_def)
  moreover have "instance_writes ?r (\<lambda>w. w) w" for w
    by (auto simp: instance_writes_def accepts_def status_stored_def put_status_def recording_def configured_def Let_def
        intro: reissued_bumped)
  moreover have "object_creations ?r (\<lambda>w. w) w" for w
    by (auto simp: object_creations_def accepts_def recording_def configured_def Let_def intro: created_issued)
  moreover have "route_writes ?r (\<lambda>w. w) w" for w
  proof -
    have add: "accepts (\<lambda>w. w) (k_create_ingress (recording req) g) w (\<lambda>g' sn'.
        \<exists>m items. created (ing_meta g) m \<and> g' = g\<lparr>ing_meta := m\<rparr> \<and> set items = insert g' (set (sn_ingresses w)) \<and>
          sn' = w\<lparr>sn_ingress := Some g', sn_ingresses := items\<rparr>)" if "sn_ingress w = None" for g
      unfolding accepts_def using that
      by (simp add: recording_def Let_def, intro exI [of _ "issued (ing_meta g)"] conjI created_issued refl)
         (rule exI [of _ "g\<lparr>ing_meta := issued (ing_meta g)\<rparr> # sn_ingresses w"], simp)
    have replace: "accepts (\<lambda>w. w) (k_update_ingress (recording req) g) w (\<lambda>g' sn'.
        \<exists>m items. reissued (ing_meta g) m \<and> g' = g\<lparr>ing_meta := m\<rparr> \<and> set items = insert g' (set (sn_ingresses w) - {h}) \<and>
          sn' = w\<lparr>sn_ingress := Some g', sn_ingresses := items\<rparr>)" if "sn_ingress w = Some h" for g h
      unfolding accepts_def using that
      by (simp add: recording_def Let_def, intro exI [of _ "bumped (ing_meta g)"] conjI reissued_bumped refl)
         (rule exI [of _ "g\<lparr>ing_meta := bumped (ing_meta g)\<rparr> # removeAll h (sn_ingresses w)"], simp)
    have cluster: "r_cluster ?r = recording req" by (simp add: configured_def)
    show ?thesis unfolding route_writes_def Let_def cluster using add replace by blast
  qed
  moreover have "harmless ?r (\<lambda>w. w) w" for w
    by (simp add: harmless_def recording_def configured_def Let_def defaultServiceHealthChecker_def defaultDNSChecker_def)
  ultimately show ?thesis by (simp add: honest_def)
qed

lemma recording_probes: "probes_pass (configured (recording req)) sn (\<lambda>w. w = sn)"
  by (simp add: probes_pass_def replies_def recording_def configured_def put_status_def Let_def has_ready_port_def
      defaultServiceHealthChecker_def defaultDNSChecker_def)

subsection \<open>The new instance\<close>

definition sample_start :: snapshot where
  "sample_start =
     \<lparr>sn_instance =
        \<lparr>i_meta = sample_object ''uid-1'' ''chat'',
         i_spec = \<lparr>spec_credentials = \<lparr>cr_name = ''backend''\<rparr>, spec_replicas = 0, spec_image = []\<rparr>,
         i_status = \<lparr>st_pins = fmempty, st_phase = [], st_url = [], st_slug = [], st_slug_source = [],
           st_observed = 0, st_conditions = []\<rparr>\<rparr>,
      sn_deployment = None, sn_service = None, sn_ingress = None, sn_ingresses = [],
      sn_secret = [(''operator'', ''oidc-client'') \<mapsto>
          \<lparr>sec_meta = new_meta ''operator'' ''oidc-client'', sec_type = [], sec_immutable = None,
           sec_data = fmupd ''client_secret'' ''0123456789abcdef'' fmempty\<rparr>,
        (''tenant'', ''backend'') \<mapsto> \<lparr>sec_meta = new_meta ''tenant'' ''backend'', sec_type = [], sec_immutable = None, sec_data = fmempty\<rparr>]\<rparr>"

definition sample_server :: "snapshot reconciler" where
  "sample_server = configured (recording (''tenant'', ''chat''))"

lemma sample_new: "new_instance sample_server (''tenant'', ''chat'') sample_start sample_host"
proof -
  have config: "r_lib sample_server = sample_library" "r_hostname_policy sample_server = Some sample_policy"
    "r_access_policy sample_server = Some sample_access_policy" "r_public_host sample_server = ''chat.example.test''"
    "r_public_scheme sample_server = ''https''" "r_extra_annotations sample_server = fmempty"
    by (simp_all add: sample_server_def configured_def)
  have fields: "i_meta (sn_instance sample_start) = sample_object ''uid-1'' ''chat''" "i_uid (sn_instance sample_start) = ''uid-1''"
    "i_namespace (sn_instance sample_start) = ''tenant''" "i_credentials (sn_instance sample_start) = ''backend''"
    "i_image (sn_instance sample_start) = []" "i_replicas (sn_instance sample_start) = 0" "i_pins (sn_instance sample_start) = fmempty"
    "sn_ingresses sample_start = []" "sn_deployment sample_start = None" "sn_service sample_start = None" "sn_ingress sample_start = None"
    by (simp_all add: sample_start_def sample_object_def)
  have trim: "TrimSpace ''backend'' = ''backend''" by (simp add: TrimSpace_visible visible_def)
  have free: "\<not> reserved_credentials ''backend''" by (simp add: reserved_credentials_def trim)
  have selected: "access_Select (Some sample_access_policy) (sample_object ''uid-1'' ''chat'') = Inr sample_access_entry"
    by (simp add: access_Select_def sample_object_def sample_access_policy_def sample_access_entry_def sample_second_entry_def row_matches_def)
  have client: "ap_credentials_namespace sample_access_policy = ''operator''" "ae_client_secret_name sample_access_entry = ''oidc-client''"
    by (simp_all add: sample_access_policy_def sample_access_entry_def)
  have credential: "sn_secret sample_start (''operator'', ''oidc-client'') =
      Some \<lparr>sec_meta = new_meta ''operator'' ''oidc-client'', sec_type = [], sec_immutable = None,
        sec_data = fmupd ''client_secret'' ''0123456789abcdef'' fmempty\<rparr>"
    and backend: "sn_secret sample_start (''tenant'', name) \<noteq> None \<longleftrightarrow> name = ''backend''" for name
    by (simp_all add: sample_start_def)
  have key: "meta_key (sample_object ''uid-1'' ''chat'') = (''tenant'', ''chat'')" "meta_deleted (sample_object ''uid-1'' ''chat'') = None"
    by (simp_all add: meta_key_def sample_object_def)
  have "accepted sample_server (''tenant'', ''chat'') sample_start sample_host"
    unfolding accepted_def Let_def fields config
    using backend [of "''backend''"]
    by (simp add: key sample_Select sample_Host sample_host_def unclaimed_def trim free selected client credential map_get_def)
       (simp add: sample_object_def)
  moreover have "sn_secret sample_start (''tenant'', name) = None" if "reserved_credentials name" for name
    using backend [of name] free that by blast
  ultimately show ?thesis
    by (simp add: new_instance_def fields config sample_library_def sample_object_def)
qed

text \<open>The Deployment controller at work.\<close>

definition rolled :: "snapshot \<Rightarrow> snapshot" where
  "rolled sn = sn\<lparr>sn_deployment := map_option (\<lambda>d. d\<lparr>d_observed_generation := meta_generation (d_meta d),
     d_updated_replicas := desired_replicas d, d_ready_replicas := desired_replicas d, d_available_replicas := desired_replicas d\<rparr>)
     (sn_deployment sn)\<rparr>"

lemma rollout_rolled:
  assumes "sn_deployment sn = Some d"
  shows "rollout sn (rolled sn)"
proof -
  let ?d = "d\<lparr>d_observed_generation := meta_generation (d_meta d), d_updated_replicas := desired_replicas d,
    d_ready_replicas := desired_replicas d, d_available_replicas := desired_replicas d\<rparr>"
  have "desired_replicas ?d = desired_replicas d" by (simp add: desired_replicas_def)
  then have "deployment_pending name ?d = None" for name by (simp add: deployment_pending_def)
  then show ?thesis
    unfolding rollout_def rolled_def assms by (intro exI [of _ d] exI [of _ ?d]) simp
qed


end
