(* ===== verification/Run_Length.thy ===== *)
theory Run_Length
  imports Ownership
begin

text \<open>
  Every reconcile ends after a bounded number of external calls: the only loop whose length is not
  fixed visits the pins of the status once.
\<close>

subsection \<open>Counting calls\<close>

text \<open>The longest \<open>range\<close> over the pins of a status that the calls were made with.\<close>

definition most_pins :: "library \<Rightarrow> log_entry list \<Rightarrow> nat" where
  "most_pins lib log = foldr max (map (\<lambda>(i, _). length (map_range lib (i_pins i))) log) 0"

lemma most_pins_le: "most_pins lib log \<le> k \<longleftrightarrow> (\<forall>(i, c) \<in> set log. length (map_range lib (i_pins i)) \<le> k)"
  by (induction log) (auto simp: most_pins_def)

text \<open>
  \<open>spends lib k n m\<close>: \<open>m\<close> makes at most \<open>n\<close> calls, whatever they reply, provided that no status it
  makes them with has more than \<open>k\<close> pins.
\<close>

definition spends :: "library \<Rightarrow> nat \<Rightarrow> nat \<Rightarrow> ('w, 'a) op \<Rightarrow> bool" where
  "spends lib k n m \<longleftrightarrow> (\<forall>s. wp m (\<lambda>_ t. \<exists>es. call_log t = call_log s @ es \<and> (most_pins lib es \<le> k \<longrightarrow> length es \<le> n)) s)"

named_theorems spends_intros \<open>composition rules of spends\<close>

lemma spends_ret [spends_intros]: "spends lib k 0 (ret a)"
  by (simp add: spends_def wp_return)

lemma spends_local [spends_intros]: "spends lib k 0 get_inst" "spends lib k 0 (put_inst i)"
  by (simp_all add: spends_def wp_simps)

lemma spends_external: "spends lib k 1 (external f entry)"
  by (simp add: spends_def wp_external split_beta)

lemma spends_calls [spends_intros]:
  "spends lib k 1 (getInst r rd x)" "spends lib k 1 (getDeployment r rd x)" "spends lib k 1 (getService r rd x)"
  "spends lib k 1 (getIngress r rd x)" "spends lib k 1 (getSecret r rd x)" "spends lib k 1 (getEndpoints r rd x)"
  "spends lib k 1 (listIngresses r rd)" "spends lib k 1 (listDeployments r rd ns)" "spends lib k 1 (listPods r rd ns sel)"
  "spends lib k 1 (createDeployment r d)" "spends lib k 1 (createService r v)" "spends lib k 1 (createIngress r g)"
  "spends lib k 1 (createSecret r y)" "spends lib k 1 (updateInstance r i)" "spends lib k 1 (updateDeployment r d)"
  "spends lib k 1 (updateService r v)" "spends lib k 1 (updateIngress r g)" "spends lib k 1 (deleteIngress r g u w)"
  "spends lib k 1 (deleteSecret r y u w)" "spends lib k 1 (patchStatus r i j lock)" "spends lib k 1 (updateStatus r i)"
  "spends lib k 1 (randomBytes r n)" "spends lib k 1 (runServiceHealthCheck r url)" "spends lib k 1 (runDNSCheck r host)"
  unfolding api_defs runServiceHealthCheck_def runDNSCheck_def by (rule spends_external)+

lemma spends_bind [spends_intros]:
  fixes m :: "('w, 'a) op"
  assumes "spends lib k a m" "\<And>x. spends lib k b (f x)"
  shows "spends lib k (a + b) (State_Monad.bind m f)"
  unfolding spends_def wp_bind
proof (intro allI, rule wp_use [OF assms(1) [unfolded spends_def, rule_format]], elim exE conjE)
  fix s t :: "'w st" and x es
  assume es: "call_log t = call_log s @ es" "most_pins lib es \<le> k \<longrightarrow> length es \<le> a"
  show "wp (f x) (\<lambda>_ t. \<exists>es. call_log t = call_log s @ es \<and> (most_pins lib es \<le> k \<longrightarrow> length es \<le> a + b)) t"
    by (rule wp_use [OF assms(2) [unfolded spends_def, rule_format]], elim exE conjE)
       (use es in \<open>auto simp: most_pins_le intro!: exI [of _ "es @ ds" for ds]\<close>)
qed

lemma spends_mono: "spends lib k a m \<Longrightarrow> a \<le> b \<Longrightarrow> spends lib k b m"
  unfolding spends_def by (intro allI, rule wp_use, erule spec) auto

lemma spends_if [spends_intros]: "spends lib k a m \<Longrightarrow> spends lib k b n \<Longrightarrow> spends lib k (max a b) (if c then m else n)"
  by (auto intro: spends_mono [OF _ max.cobounded1] spends_mono [OF _ max.cobounded2])

lemma spends_case [spends_intros]:
  "(\<And>e. spends lib k a (f e)) \<Longrightarrow> (\<And>x. spends lib k b (g x)) \<Longrightarrow> spends lib k (max a b) (case y of Inl e \<Rightarrow> f e | Inr x \<Rightarrow> g x)"
  "spends lib k a m \<Longrightarrow> (\<And>x. spends lib k b (h x)) \<Longrightarrow> spends lib k (max a b) (case z of None \<Rightarrow> m | Some x \<Rightarrow> h x)"
  "(\<And>x y. spends lib k a (p x y)) \<Longrightarrow> spends lib k a (case q of (x, y) \<Rightarrow> p x y)"
  "spends lib k a m \<Longrightarrow> spends lib k b n \<Longrightarrow> spends lib k (max a b) (case c of True \<Rightarrow> m | False \<Rightarrow> n)"
  "spends lib k a m \<Longrightarrow> (\<And>x xs. spends lib k b (l x xs)) \<Longrightarrow> spends lib k (max a b) (case ys of [] \<Rightarrow> m | x # xs \<Rightarrow> l x xs)"
  by (auto intro: spends_mono [OF _ max.cobounded1] spends_mono [OF _ max.cobounded2] split: sum.split option.split prod.split bool.split list.split)

lemma spends_Let [spends_intros]: "spends lib k a (f v) \<Longrightarrow> spends lib k a (Let v f)"
  by simp

subsection \<open>The bound of each method\<close>

lemma spends_withdraw: "spends lib k 2 (withdrawAccess r)"
  by (rule spends_mono, unfold withdrawAccess_def, (rule spends_intros)+) simp

lemma spends_stop: "spends lib k 2 (stopUnapprovedDeployment r force)"
  by (rule spends_mono, unfold stopUnapprovedDeployment_def, (rule spends_intros)+) simp

lemma spends_status: "spends lib k 1 (updateImagePolicyStatus r phase reason message)"
  by (rule spends_mono, unfold updateImagePolicyStatus_def, (rule spends_intros)+) simp

lemmas spends_closing = spends_withdraw spends_stop spends_status

lemma spends_denials:
  "spends lib k 5 (rejectImage r message)" "spends lib k 5 (denyAccess r cause)" "spends lib k 5 (rejectReplicas r)"
  unfolding rejectImage_def denyAccess_def rejectReplicas_def
  by (rule spends_mono, ((rule spends_closing spends_intros)+)[1], simp)+

lemma spends_stopForHostnameFailure: "spends lib k 5 (stopForHostnameFailure r cause)"
  by (rule spends_mono, unfold stopForHostnameFailure_def hostnameFailure_def, (rule spends_closing spends_intros)+) simp

lemma spends_keys: "spends lib k (length names) (fill_session_keys r names data)"
proof (induction names arbitrary: data)
  case (Cons name names)
  show ?case by (rule spends_mono, unfold fill_session_keys.simps, (rule Cons.IH spends_intros)+) simp
qed (simp add: spends_ret)

lemma spends_candidates: "spends lib k (length pins) (collect_candidates r inst referenced pins candidates)"
proof (induction pins arbitrary: candidates)
  case (Cons pin pins)
  show ?case by (rule spends_mono, unfold collect_candidates.simps, (rule Cons.IH spends_intros)+) simp
qed (simp add: spends_ret)


lemma spends_pins: "spends lib k 2 (persistAccessSecretPins r pins)" 
  by (rule spends_mono, unfold persistAccessSecretPins_def, (rule spends_intros)+) simp

lemma spends_retire: "spends lib k 4 (retire_bundle r x)"
  by (rule spends_mono, unfold retire_bundle_def confirm_gone_def, (rule spends_pins spends_intros)+) simp

text \<open>A range over the pins is paid for by a call made with the same instance.\<close>

lemma spends_ranged:
  assumes "\<And>x. spends lib k (length (map_range lib (i_pins inst)) + b) (f x)" "local_inst s = inst"
  shows "wp (State_Monad.bind (external g entry) f)
    (\<lambda>_ t. \<exists>es. call_log t = call_log s @ es \<and> (most_pins lib es \<le> k \<longrightarrow> length es \<le> k + (b + 1))) s"
proof -
  obtain x w where x: "g (world s) = (x, w)" by (cases "g (world s)")
  let ?t = "s\<lparr>world := w, call_log := call_log s @ [(inst, entry x)]\<rparr>"
  show ?thesis
    unfolding wp_bind wp_external x prod.case assms(2)
  proof (rule wp_use [OF assms(1) [unfolded spends_def, rule_format]], elim exE conjE)
    fix t es
    assume es: "call_log t = call_log ?t @ es"
      "most_pins lib es \<le> k \<longrightarrow> length es \<le> length (map_range lib (i_pins inst)) + b"
    then show "\<exists>es. call_log t = call_log s @ es \<and> (most_pins lib es \<le> k \<longrightarrow> length es \<le> k + (b + 1))"
      by (intro exI [of _ "(inst, entry x) # es"]) (auto simp: most_pins_le)
  qed
qed

lemma spends_room: "spends (r_lib r) k (k + 6) (makeAccessSecretRoom r)"
  unfolding spends_def
proof
  fix s :: "'a st"
  let ?Q = "\<lambda>(_ :: go_error option) t. \<exists>es. call_log t = call_log s @ es \<and> (most_pins (r_lib r) es \<le> k \<longrightarrow> length es \<le> k + 6)"
  have visit: "wp (State_Monad.bind (listDeployments r rd (i_namespace (local_inst s))) f) ?Q s"
    if "\<And>x. spends (r_lib r) k (length (map_range (r_lib r) (i_pins (local_inst s))) + 5) (f x)" for rd f
    using spends_ranged [OF that refl] by (simp add: listDeployments_def)
  show "wp (makeAccessSecretRoom r) ?Q s"
    unfolding makeAccessSecretRoom_def wp_bind [of get_inst] wp_get_inst
    by (split if_split, intro conjI impI, simp add: wp_return, rule visit, rule spends_mono,
        (rule spends_candidates spends_retire spends_intros)+) simp
qed

lemma spends_pinned: "spends lib k 3 (create_pinned_secret r name data)" 
  by (rule spends_mono, unfold create_pinned_secret_def pinAccessSecret_def, (rule spends_pins spends_intros)+) simp

lemma spends_session: "spends lib k 6 (sessionSecret r)" 
  by (rule spends_mono, unfold sessionSecret_def, (rule spends_keys spends_pinned spends_intros)+) (simp add: session_key_names_def)

lemma spends_prepareAccess: "spends (r_lib r) k (k + 17) (prepareAccess r host)" 
  by (rule spends_mono, unfold prepareAccess_def prepare_bundle_def ensure_bundle_def, (rule spends_session spends_room spends_pinned spends_intros)+) simp

lemma spends_host: "spends lib k 4 (selectedInstanceHost r)" 
  by (rule spends_mono, unfold selectedInstanceHost_def ensureSlug_def checkHostname_def, (rule spends_intros)+) simp

lemma spends_reconcileDeployment: "spends lib k 5 (reconcileDeployment r labels n img checksum b)" 
  by (rule spends_mono, unfold reconcileDeployment_def waitForAccessCutover_def, (rule spends_closing spends_intros)+) simp

lemma spends_reconcileService: "spends lib k 2 (reconcileService r labels name)" 
  by (rule spends_mono, unfold reconcileService_def, (rule spends_intros)+) simp

lemma spends_reconcileIngress: "spends lib k 4 (reconcileIngress r labels name host path)" 
  by (rule spends_mono, unfold reconcileIngress_def checkHostname_def upsert_ingress_def, (rule spends_intros)+) simp

lemma spends_report: "spends lib k 5 (report_readiness r name host)" 
  by (rule spends_mono, unfold report_readiness_def evaluateInstanceReadiness_def serviceHasReadyEndpoints_def
      updateProvisioningStatus_def updateReadyStatus_def write_status_def, (rule spends_intros)+) simp

lemma spends_gated: "spends (r_lib r) k (k + 40) (reconcile_gated r img)" 
  by (rule spends_mono, unfold reconcile_gated_def reconcile_limited_def reconcile_hosted_def reconcile_workload_def reconcile_deploy_def
      reconcile_publish_def, (rule spends_closing spends_denials spends_host spends_stopForHostnameFailure spends_prepareAccess
      spends_reconcileDeployment spends_reconcileService spends_reconcileIngress spends_report spends_intros)+) simp

lemma spends_Reconcile: "spends (r_lib r) k (k + 41) (Reconcile r req)"
  by (rule spends_mono, unfold Reconcile_def, (rule spends_denials spends_gated spends_intros)+) simp

text \<open>
  C32. Every reconcile ends. Whatever the API server, the network and the entropy source reply, a
  reconcile makes at most 41 external calls, plus one for each pin of the longest status it met: it
  cannot loop, and the work of one run is bounded by the bounded history of Secrets.
\<close>

theorem every_reconcile_ends:
  "length (reconcile_log r req w i) \<le> 41 + most_pins (r_lib r) (reconcile_log r req w i)"
proof -
  let ?s = "\<lparr>world = w, local_inst = i, call_log = []\<rparr>"
  have "wp (Reconcile r req) (\<lambda>_ t. \<exists>es. call_log t = call_log ?s @ es \<and>
      (most_pins (r_lib r) es \<le> k \<longrightarrow> length es \<le> k + 41)) ?s" for k
    using spends_Reconcile unfolding spends_def by blast
  from this [of "most_pins (r_lib r) (reconcile_log r req w i)"] show ?thesis
    by (simp add: wp_run reconcile_log_def add.commute)
qed

end
