(* ===== verification/Edge_Cases.thy ===== *)
theory Edge_Cases
  imports Entry_Laws Scheduling Cutover Distinct_Routes Status_Types Creation_Sample Run_Length
begin

text \<open>
  Boundary behaviour of single functions: what counts as a claim on a host, keys made from fresh
  entropy, which instances a changed Secret wakes, and three places where the code is looser than
  its documentation.
\<close>

subsection \<open>Claims on a host\<close>

text \<open>
  C33. What claims a hostname. An Ingress rule claims a host exactly if, ignoring case, it is that host, or
  it is \<open>*.suffix\<close> and the host is \<open>suffix\<close> with exactly one more label in front: neither the
  suffix itself nor a deeper name is covered by a wildcard.
\<close>

theorem claims_are_exact_or_one_label:
  "claimsHost rule host \<longleftrightarrow> ToLower rule = ToLower host \<or>
     (\<exists>label sfx. ToLower rule = ''*.'' @ sfx \<and> ToLower host = label @ ''.'' @ sfx \<and> CHR ''.'' \<notin> set label)"
proof (cases "prefix ''*.'' (ToLower rule)")
  case True
  then obtain sfx where sfx: "ToLower rule = ''*.'' @ sfx" by (auto simp: prefix_def)
  then have "claimsHost rule host \<longleftrightarrow> ToLower rule = ToLower host \<or>
      HasSuffix (ToLower host) (CHR ''.'' # sfx) \<and> count_list (ToLower host) (CHR ''.'') = count_list sfx (CHR ''.'') + 1"
    by (simp add: claimsHost_def Let_def)
  then show ?thesis
    unfolding wildcard_iff sfx by auto
next
  case False
  then show ?thesis by (auto simp: claimsHost_def Let_def prefix_def)
qed

subsection \<open>Fresh session keys\<close>

text \<open>\<open>rand.Read\<close> fills the buffer or fails.\<close>

definition full_entropy :: "'w cluster \<Rightarrow> bool" where
  "full_entropy cl \<longleftrightarrow> (\<forall>n w key. fst (k_random cl n w) = Some key \<longrightarrow> length key = n)"

lemma fill_session_keys_valid:
  assumes "full_entropy (r_cluster r)"
  shows "wp (fill_session_keys r names data) (\<lambda>a t. \<forall>d. a = Inr d \<longrightarrow>
    (\<forall>n \<in> set names. valid_session_key (map_get d n)) \<and>
    (\<forall>n. n \<notin> set names \<longrightarrow> map_get d n = map_get data n)) s"
proof (induction names arbitrary: data s)
  case Nil
  then show ?case by (simp add: wp_simps)
next
  case (Cons name names)
  have key: "valid_session_key (StdEncode key)" if "k_random (r_cluster r) 32 w = (Some key, w')" for key w w'
    using assms [unfolded full_entropy_def, rule_format, of 32 w key] that by (simp add: valid_session_key_def)
  let ?ok = "\<lambda>names data a. \<forall>d. a = Inr d \<longrightarrow> (\<forall>n \<in> set names. valid_session_key (map_get d n)) \<and>
    (\<forall>n. n \<notin> set names \<longrightarrow> map_get d n = map_get data n)"
  have step: "?ok (name # names) data a" if "?ok names (fmupd name v data) a" "valid_session_key v" for a :: "go_error + gomap" and v
  proof (intro allI impI conjI)
    fix d
    assume "a = Inr d"
    with that(1) have d: "\<forall>n \<in> set names. valid_session_key (map_get d n)"
      "n \<notin> set names \<Longrightarrow> map_get d n = map_get (fmupd name v data) n" for n by auto
    have "valid_session_key (map_get d name)"
      using d that(2) by (cases "name \<in> set names") simp_all
    with d show "\<forall>n \<in> set (name # names). valid_session_key (map_get d n)" by simp
    show "map_get d n = map_get data n" if "n \<notin> set (name # names)" for n
      using d(2) [of n] that by simp
  qed
  have rest: "wp (case drawn of None \<Rightarrow> ret (Inl e) | Some key \<Rightarrow> fill_session_keys r names (fmupd name (StdEncode key) data))
      (\<lambda>a t. ?ok (name # names) data a) u" if "\<And>key. drawn = Some key \<Longrightarrow> valid_session_key (StdEncode key)" for drawn u e
  proof (cases drawn)
    case (Some key)
    then have "valid_session_key (StdEncode key)" by (rule that)
    then show ?thesis
      unfolding Some option.case by (intro wp_use [OF Cons.IH]) (rule step)
  qed (simp add: wp_return)
  show ?case
    unfolding fill_session_keys.simps randomBytes_def wp_bind wp_external
    by (split prod.split, intro allI impI, rule rest) (simp add: key)
qed

text \<open>
  C34. Fresh keys are accepted on the way back. If the entropy source fills its buffer, the data of a new
  session Secret passes the checks under which a later run accepts the Secret, and its cookie key
  is accepted by \<open>oauthCookieSecret\<close>, whose result decodes to 32 bytes.
\<close>

theorem fresh_session_keys_accepted:
  assumes "full_entropy (r_cluster r)"
  shows "wp (fill_session_keys r session_key_names fmempty) (\<lambda>a t. \<forall>d. a = Inr d \<longrightarrow>
    list_all (\<lambda>n. valid_session_key (map_get d n)) session_key_names \<and>
    (\<exists>cookie key. oauthCookieSecret (map_get d ''cookie-secret'') = Inr cookie \<and> URLDecode cookie = Some key \<and> length key = 32)) s"
proof (rule wp_use [OF fill_session_keys_valid [OF assms]])
  fix a and t :: "'a st"
  assume valid: "\<forall>d. a = Inr d \<longrightarrow> (\<forall>n \<in> set session_key_names. valid_session_key (map_get d n)) \<and>
    (\<forall>n. n \<notin> set session_key_names \<longrightarrow> map_get d n = map_get fmempty n)"
  have cookie: "\<exists>cookie key. oauthCookieSecret encoded = Inr cookie \<and> URLDecode cookie = Some key \<and> length key = 32"
    if "valid_session_key encoded" for encoded
    using that by (auto simp: valid_session_key_def oauthCookieSecret_def split: option.splits)
  show "\<forall>d. a = Inr d \<longrightarrow> list_all (\<lambda>n. valid_session_key (map_get d n)) session_key_names \<and>
    (\<exists>cookie key. oauthCookieSecret (map_get d ''cookie-secret'') = Inr cookie \<and> URLDecode cookie = Some key \<and> length key = 32)"
    using valid cookie by (simp add: list_all_iff session_key_names_def)
qed

definition sample_entropy :: "unit reconciler" where
  "sample_entropy = configured (bare_cluster\<lparr>k_random := (\<lambda>n w. (Some (replicate n (CHR ''r'')), w))\<rparr>)"

theorem fresh_session_keys_accepted_witness:
  "\<exists>d. fst (run_state (fill_session_keys sample_entropy session_key_names fmempty)
          \<lparr>world = (), local_inst = sample_instance sample_base, call_log = []\<rparr>) = Inr d \<and>
     list_all (\<lambda>n. valid_session_key (map_get d n)) session_key_names"
proof -
  let ?s = "\<lparr>world = (), local_inst = sample_instance sample_base, call_log = []\<rparr> :: unit st"
  have "full_entropy (r_cluster sample_entropy)"
    by (simp add: full_entropy_def sample_entropy_def configured_def)
  from fresh_session_keys_accepted [OF this, of ?s]
  have "\<forall>d. fst (run_state (fill_session_keys sample_entropy session_key_names fmempty) ?s) = Inr d \<longrightarrow>
      list_all (\<lambda>n. valid_session_key (map_get d n)) session_key_names"
    by (simp add: wp_run)
  moreover have "\<exists>d. fst (run_state (fill_session_keys sample_entropy session_key_names fmempty) ?s) = Inr d"
    by (simp add: session_key_names_def randomBytes_def external_def sample_entropy_def configured_def)
  ultimately show ?thesis by blast
qed

subsection \<open>The Secret watch\<close>

text \<open>
  A changed Secret wakes exactly the instances that use it. \<open>findChatUIInstancesForSecret\<close> lists the
  instances of the namespace of the Secret once and requests those whose trimmed credentials name
  is the name of the Secret, the name under which \<open>Reconcile\<close> reads it; if the list fails it requests
  none.
\<close>

theorem secret_wakes_its_instances:
  "wp (findChatUIInstancesForSecret r x) (\<lambda>ks t. \<exists>reply.
     call_log t = call_log s @ [(local_inst s, ListInstances Cached (meta_namespace (sec_meta x)) reply)] \<and>
     (case reply of
        Inl e \<Rightarrow> ks = []
      | Inr items \<Rightarrow> ks = map (\<lambda>i. (i_namespace i, i_name i))
          (filter (\<lambda>i. TrimSpace (i_credentials i) = meta_name (sec_meta x)) items))) s"
proof -
  have "List.map_filter (\<lambda>i. if P i then Some (f i) else None) items = map f (filter P items)" 
    for P and f :: "chat_instance \<Rightarrow> key" and items
    by (induction items) (simp_all add: List.map_filter_simps)
  then show ?thesis
    unfolding findChatUIInstancesForSecret_def listInstances_def
    by (simp add: wp_simps split: sum.splits prod.splits)
qed

subsection \<open>Looser than documented\<close>

text \<open>
  C35. The credentials checksum misses changes. Keys and values are hashed without a separator, so two
  Secrets with the same keys and different values can have the same checksum, whatever the hash
  function: a change between them does not roll the pods.
\<close>

theorem checksum_misses_changes:
  "\<exists>s1 s2. fmdom (sec_data s1) = fmdom (sec_data s2) \<and> sec_data s1 \<noteq> sec_data s2 \<and>
     computeSecretChecksum lib s1 = computeSecretChecksum lib s2"
proof -
  define old where "old = fmupd ''A'' ''x'' (fmupd ''B'' ''Bx'' fmempty)"
  define new where "new = fmupd ''A'' ''xB'' (fmupd ''B'' ''x'' fmempty)"
  define mk where "mk data = \<lparr>sec_meta = new_meta ''tenant'' ''backend'', sec_type = [], sec_immutable = None, sec_data = data\<rparr>" for data
  have keys: "fmdom old = {|''A'', ''B''|}" "fmdom new = {|''A'', ''B''|}" by (auto simp: old_def new_def)
  have order: "sorted_list_of_fset {|''A'', ''B''|} = [''A'', ''B'']"
    by (simp add: sorted_list_of_fset.rep_eq)
  have "checksum_input old = checksum_input new"
    by (simp add: checksum_input_def keys order) (simp add: old_def new_def map_get_def)
  then have "computeSecretChecksum lib (mk old) = computeSecretChecksum lib (mk new)"
    by (simp add: computeSecretChecksum_def mk_def map_len_def keys)
  moreover have "fmlookup old ''A'' \<noteq> fmlookup new ''A''" by (simp add: old_def new_def)
  then have "old \<noteq> new" by metis
  ultimately show ?thesis
    by (intro exI [of _ "mk old"] exI [of _ "mk new"]) (simp add: mk_def keys)
qed

text \<open>
  C36. Extra annotations make every reconcile write the Ingress. As soon as one extra annotation is
  configured, \<open>applyExtraIngressAnnotations\<close> with \<open>override\<close> reports a change even when nothing differs, so
  the converging sequence never reports an unchanged Ingress and the update is sent every time.
\<close>

theorem extra_annotations_always_update:
  assumes "range_library (r_lib r)" "0 < map_len (r_extra_annotations r)"
  shows "fst (converge_ingress r name host path g)"
proof -
  have stays: "fst (foldl (apply_extra_step True) (True, anns) kvs)" for anns kvs
    by (induction kvs arbitrary: anns) (simp_all add: apply_extra_step_def split: prod.splits)
  have "r_extra_annotations r \<noteq> fmempty" using assms(2) by (auto simp: map_len_def fcard_fempty)
  then obtain k v where "fmlookup (r_extra_annotations r) k = Some v"
    by (metis fmap_ext fmempty_lookup not_None_eq)
  then have "(k, v) \<in> set (map_range (r_lib r) (r_extra_annotations r))"
    using assms(1) by (simp add: range_library_def)
  then obtain kv kvs where "map_range (r_lib r) (r_extra_annotations r) = kv # kvs"
    by (cases "map_range (r_lib r) (r_extra_annotations r)") auto
  then have "fst (foldl (apply_extra_step True) (False, anns) (map_range (r_lib r) (r_extra_annotations r)))" for anns
    using stays by (simp add: apply_extra_step_def split: prod.splits)
  then have "fst (applyExtraIngressAnnotations r True x)" for x
    using assms(2) by (simp add: applyExtraIngressAnnotations_def split_beta)
  then show ?thesis
    by (simp add: converge_ingress_def Let_def and_then_def split_beta)
qed

theorem extra_annotations_always_update_witness:
  "fst (converge_ingress (sample_base\<lparr>r_extra_annotations := fmupd ''team'' ''ui'' fmempty\<rparr>) ''chat-chatui'' sample_host ''/''
     (the (sn_ingress (sample_snapshot sample_base))))"
  by (rule extra_annotations_always_update) (simp_all add: sample_config map_len_def fcard_finsert_disjoint)

lemma TrimSpace_blank: "TrimSpace (CHR '' '' # s) = TrimSpace s"
proof -
  have blank: "CHR '' '' = byte 32" by (simp add: byte_def char_of_def bit_Suc_0_iff)
  have inj: "byte m = byte n \<longleftrightarrow> m = n" if "m < 256" "n < 256" for m n
    using that unfolding byte_def by (metis of_char_of mod_less)
  have "find (\<lambda>p. p \<noteq> [] \<and> prefix p (byte 32 # s)) space_runes = Some [byte 32]"
    by (simp add: space_runes_def inj)
  then have "trim_with space_runes (byte 32 # s) = trim_with space_runes s"
    by (subst trim_with.simps) simp
  then show ?thesis by (simp add: TrimSpace_def blank)
qed


end
