(* ===== verification/Spec2Isabelle.thy ===== *)
theory Spec2Isabelle
  imports Edge_Cases
begin

text \<open>
  A verified model of the Chat UI operator (\<open>showroom-msp-chat-ui\<close>).

  \<^bold>\<open>The program.\<close> An operator process (\<open>cmd/main.go\<close>) reconciles ChatUIInstance objects of a Kubernetes
  cluster: for each it runs an Open WebUI pod behind an authenticating proxy, publishes it under a
  hostname the operator chooses, and withdraws it when a check fails
  (\<open>internal/controller\<close>). Hostnames come from a reviewed table (\<open>internal/hostnamepolicy\<close>), the
  right to use an instance from a second table (\<open>internal/accesspolicy\<close>) that binds it to an object
  of a KCP server. Inside the pod a second process (\<open>cmd/access-proxy\<close>, \<open>internal/accessgate\<close>) lets a
  request through only if KCP lets the caller read that object.

  \<^bold>\<open>The language.\<close> \<open>Go_Prelude\<close> has byte strings with the functions of package \<open>strings\<close>, maps,
  errors and hexadecimal text; \<open>Go_Encoding\<close> base64 and \<open>json.Marshal\<close>; \<open>Json_Scan\<close> the scanner of
  \<open>encoding/json\<close> with its stack of bounded depth, \<open>Json_Target\<close> its decoding into Go values (struct tags,
  unknown members, slices, maps), and \<open>Json_Roundtrip\<close> that printed documents are read back and that only
  valid UTF-8 is read; \<open>Go_Http\<close> headers, cookies, raw base64 and \<open>path.Clean\<close>. \<open>Go_Effects\<close> is the effect model: a method is a function on a run, which holds
  the outside world (any type: between two calls other actors may change anything), the local
  \<open>inst\<close> object, and a log of the external calls with their replies. Its second half is a calculus of
  weakest preconditions (\<open>wp\<close>) with two judgements over logs: \<open>calls\<close> (which kinds of calls a method
  makes) and \<open>keeps ok\<close> (every entry of the log is justified by \<open>ok\<close> from the entries before it).
  All definitions terminate by structural recursion or a length measure; there is no fuel.

  \<^bold>\<open>The components\<close>, in the order they depend on one another:
  \<^item> \<open>Hostname_Policy\<close>: \<open>internal/hostnamepolicy/policy.go\<close> (\<open>Parse\<close>, \<open>ValidatePublicHost\<close>, \<open>Select\<close>, \<open>Host\<close>);
  \<^item> \<open>Access_Policy\<close>: \<open>internal/accesspolicy/policy.go\<close> (\<open>Decode\<close>, \<open>access_Parse\<close> for \<open>Parse\<close>, \<open>access_Select\<close> for
    \<open>Select\<close>, \<open>HTTPSURL\<close>, \<open>source_Path\<close>);
  \<^item> \<open>Kube_Objects\<close>, \<open>Reconciler_Base\<close>: the Kubernetes objects as records with the fields the code reads
    or writes (\<open>\<dots>_other\<close> stands for the rest), the instance of \<open>api/v1alpha1\<close>, the receiver and its
    API calls, and the two ownership tests;
  \<^item> \<open>Fail_Closed\<close>: \<open>image_policy.go\<close>, and \<open>withdrawAccess\<close>, \<open>denyAccess\<close>, \<open>rejectReplicas\<close>;
  \<^item> \<open>Hostname_Route\<close>: \<open>hostname_policy.go\<close> of package controller, slug selection and hostname failures;
  \<^item> \<open>Access_Secrets\<close>: session keys, UID pins, and the bounded history of \<open>access_secret_history.go\<close>;
  \<^item> \<open>Gate_Config\<close>, \<open>Access_Bundle\<close>: the gate configuration and \<open>prepareAccess\<close>;
  \<^item> \<open>Workload\<close>: \<open>buildDeployment\<close>, \<open>applyAccessDeployment\<close>, \<open>managedAccessTemplate\<close>, the cutover, \<open>reconcileDeployment\<close>;
  \<^item> \<open>Routing\<close>: \<open>reconcileService\<close>, \<open>reconcileIngress\<close> and the ensure functions;
  \<^item> \<open>Readiness\<close>: readiness evidence, both probes, the status, the credentials checksum, the Secret watch;
  \<^item> \<open>Reconcile\<close>: \<open>Reconcile\<close>, cut into its consecutive parts, and \<open>SetupWithManager\<close>;
  \<^item> \<open>Access_Gate\<close>: \<open>internal/accessgate/gate.go\<close>; the goroutine that rechecks a stream is the step relation
    \<open>stream_step\<close>;
  \<^item> \<open>Entry_Points\<close>: \<open>cmd/main.go\<close> (\<open>manager_main\<close>, the labelling client) and \<open>cmd/access-proxy/main.go\<close> (\<open>proxy_run\<close>).

  \<^bold>\<open>The laws.\<close> \<open>Call_Frames\<close> gives the frame of every method. On it rest the safety laws, which hold for
  any replies of the API server: \<open>Ownership\<close> (foreign objects are never written), \<open>Secret_Pins\<close>
  (Secrets are immutable, pinned, and retired only when unused), \<open>Publication\<close> (a route, or Ready,
  only behind every check), \<open>Fail_Closed_Laws\<close> (every run closes the route or has passed the checks;
  the denying handlers share a locale), \<open>Guarded_Pod\<close> (what the written pod template runs and
  exposes), \<open>Route_Convergence\<close> (the ensure steps as instances of one locale, and the wanted route as
  their fixed point). \<open>Steady_State\<close> is the other direction: when the cluster holds the wanted objects, a
  reconcile reports Ready and changes nothing else. \<open>Cutover\<close>: a pod template is replaced only after the
  pods of the old one are gone. \<open>Api_Server\<close>, \<open>Creation\<close>, \<open>Rollout\<close>: how the wanted objects come about. On an
  API server that keeps what it is told (\<open>honest\<close>: reads answer from its content, a write that has its
  precondition is stored, nobody else writes) the first reconcile of a new instance records the host
  and makes the Secrets, the second the workload and the route, the third completes the route;
  \<open>Creation_Sample\<close> is such a server, on which the hypotheses hold. \<open>Run_Length\<close>: every run ends after a
  bounded number of calls. \<open>Scheduling\<close>: no run ends without the instance being run again, unless
  nothing is left to do. \<open>Distinct_Routes\<close>: no two runs publish the same host. \<open>Status_Types\<close>: every status
  written has the shape \<open>api/v1alpha1\<close> documents. \<open>Gate_Laws\<close> has the laws of the gate, \<open>Entry_Laws\<close> those of the two processes and of
  their composition with the components, \<open>Edge_Cases\<close> boundary behaviour of single functions and three
  places where the code is looser than its documentation.

  \<^bold>\<open>Parameters.\<close> Third-party code is the record \<open>library\<close> of \<open>K8s_Library\<close> (Kubernetes name validation,
  controllerutil, conditions, label selectors), with the documented behaviour used as the
  hypotheses \<open>rfc1123_library\<close>, \<open>digest_library\<close>, \<open>range_library\<close>, \<open>condition_library\<close> and \<open>owner_library\<close>, all satisfied by \<open>sample_library\<close>. SHA-256, URL
  and time parsing, certificates and the text of a \<open>float64\<close> are parameters too;
  \<open>range\<close> over a map visits the entries in any order (\<open>map_range\<close>) where the order could matter.

  \<^bold>\<open>Not modelled.\<close> Tracing, logging and the registration of watches and schemes (no effect on the state);
  flag parsing, HTTP transports, their timeouts and response headers (library code); the generated
  deep copies (values of the model are immutable, so a copy is the value); the Python guard
  \<open>internal/webuiguard/chatui_guard.py\<close>, the portal extension and the Helm charts (not Go). Concurrency
  between reconciles is covered by the arbitrary world; the timing of the recheck goroutine only by
  the order of its steps. The creation laws are about one instance without other writers; how an
  existing workload of another shape is migrated is covered by the safety laws of \<open>Cutover\<close> only.
\<close>

end
